(* ===== verification/Go_Prelude.thy ===== *)
theory Go_Prelude
  imports Main "HOL-Library.Word" "HOL-Library.Char_ord" "HOL-Library.List_Lexorder"
    "HOL-Library.Sublist" "HOL-Library.Multiset"
begin

text \<open>
  The vocabulary the component theories share: Go errors as values, the functions of the Go
  standard library that the agent calls on strings and numbers (packages strings, strconv,
  encoding/hex and encoding/base64), instants and durations, and the generic lemmas about
  them. A Go string is a byte sequence, so it is a \<^typ>\<open>string\<close> here, one \<^typ>\<open>char\<close> per
  byte. An instant (time.Time) is the number of nanoseconds since Go's zero time, so IsZero is
  equality with 0 and UTC is the identity; a duration is a number of nanoseconds.

  strings.ToLower is modelled for ASCII letters and for the two other runes whose lower case
  is ASCII (U+212A and U+0130), which is all that matters wherever the agent compares a lowered
  string with an ASCII constant; other runes are left as they are.
\<close>

section \<open>Fact collections\<close>

named_theorems go_string_simps \<open>rewrite rules for the string library\<close>
named_theorems store_simps \<open>unfolding rules of the durable store\<close>
named_theorems validate_simps \<open>unfolding rules of the validators\<close>

section \<open>Errors and results\<close>

text \<open>
  A nil error is \<^const>\<open>None\<close>, so a function that returns only an error has type
  \<open>go_error option\<close>; a function that returns a value and an error has type \<open>'a result\<close>.
\<close>

datatype go_error =
    Msg string                  \<comment> \<open>errors.New, fmt.Errorf without a wrapped error\<close>
  | Wrapped string go_error     \<comment> \<open>fmt.Errorf with the verb for wrapping\<close>
  | ErrNoRows                   \<comment> \<open>sql.ErrNoRows\<close>
  | ErrNotExist                 \<comment> \<open>os.ErrNotExist\<close>
  | ErrUninstalled              \<comment> \<open>errManagerUninstalled\<close>
  | ErrHTTP int                 \<comment> \<open>releaseDownloadHTTPError\<close>
  | ErrIO string                \<comment> \<open>an error of the operating system, the network or a driver\<close>
  | ErrCanceled                 \<comment> \<open>context.Canceled\<close>
  | ErrPanic string             \<comment> \<open>a run-time panic, which no caller handles\<close>

type_synonym 'a result = "go_error + 'a"

fun error_is :: "go_error \<Rightarrow> go_error \<Rightarrow> bool" where
  "error_is (Wrapped m e) t = (Wrapped m e = t \<or> error_is e t)"
| "error_is e t = (e = t)"

definition bind_result :: "'a result \<Rightarrow> ('a \<Rightarrow> 'b result) \<Rightarrow> 'b result" where
  "bind_result r k = (case r of Inl e \<Rightarrow> Inl e | Inr x \<Rightarrow> k x)"

lemma bind_result_simps [simp]:
  "bind_result (Inl e) k = Inl e"
  "bind_result (Inr x) k = k x"
  by (simp_all add: bind_result_def)

lemma bind_result_Inr_iff:
  "bind_result r k = Inr y \<longleftrightarrow> (\<exists>x. r = Inr x \<and> k x = Inr y)"
  by (cases r) simp_all

text \<open>
  A validator is a chain of guards; these rules turn "the chain returns nil" into the
  conjunction of its guards.
\<close>

lemma guard_None [validate_simps]: "(if b then Some e else k) = None \<longleftrightarrow> \<not> b \<and> k = None"
  by simp

lemma check_then_None [validate_simps]:
  "(case v of None \<Rightarrow> k | Some e \<Rightarrow> Some (f e)) = None \<longleftrightarrow> v = None \<and> k = None"
  by (cases v) simp_all

lemma require_None [validate_simps]:
  "(case v of None \<Rightarrow> Some e | Some x \<Rightarrow> k x) = None \<longleftrightarrow> (\<exists>x. v = Some x \<and> k x = None)"
  by (cases v) simp_all

section \<open>Bytes and characters\<close>

definition byte_of :: "char \<Rightarrow> nat" where
  "byte_of c = of_char c"

definition is_digit_char :: "char \<Rightarrow> bool" where
  "is_digit_char c \<longleftrightarrow> 48 \<le> byte_of c \<and> byte_of c \<le> 57"

definition is_lower_char :: "char \<Rightarrow> bool" where
  "is_lower_char c \<longleftrightarrow> 97 \<le> byte_of c \<and> byte_of c \<le> 122"

definition is_upper_char :: "char \<Rightarrow> bool" where
  "is_upper_char c \<longleftrightarrow> 65 \<le> byte_of c \<and> byte_of c \<le> 90"

lemma byte_of_lt: "byte_of c < 256"
  by (simp add: byte_of_def)

lemma byte_of_char_of [simp]: "n < 256 \<Longrightarrow> byte_of (char_of n) = n"
  by (simp add: byte_of_def)

lemma char_of_byte_of [simp]: "char_of (byte_of c) = c"
  by (simp add: byte_of_def)

section \<open>Package strings\<close>

text \<open>
  The runes of unicode.IsSpace in UTF-8. A lead byte of these sequences is never a continuation
  byte, so matching a sequence at the front or at the back of a byte string decodes the same
  rune as Go does.
\<close>

definition space_runes :: "string list" where
  "space_runes =
     [[CHR 0x20], [CHR 0x09], [CHR 0x0A], [CHR 0x0B], [CHR 0x0C], [CHR 0x0D],
      [CHR 0xC2, CHR 0x85], [CHR 0xC2, CHR 0xA0], [CHR 0xE1, CHR 0x9A, CHR 0x80],
      [CHR 0xE2, CHR 0x80, CHR 0x80], [CHR 0xE2, CHR 0x80, CHR 0x81],
      [CHR 0xE2, CHR 0x80, CHR 0x82], [CHR 0xE2, CHR 0x80, CHR 0x83],
      [CHR 0xE2, CHR 0x80, CHR 0x84], [CHR 0xE2, CHR 0x80, CHR 0x85],
      [CHR 0xE2, CHR 0x80, CHR 0x86], [CHR 0xE2, CHR 0x80, CHR 0x87],
      [CHR 0xE2, CHR 0x80, CHR 0x88], [CHR 0xE2, CHR 0x80, CHR 0x89],
      [CHR 0xE2, CHR 0x80, CHR 0x8A], [CHR 0xE2, CHR 0x80, CHR 0xA8],
      [CHR 0xE2, CHR 0x80, CHR 0xA9], [CHR 0xE2, CHR 0x80, CHR 0xAF],
      [CHR 0xE2, CHR 0x81, CHR 0x9F], [CHR 0xE3, CHR 0x80, CHR 0x80]]"

fun drop_rune :: "string list \<Rightarrow> string \<Rightarrow> string option" where
  "drop_rune [] s = None"
| "drop_rune (w # ws) s =
     (if w \<noteq> [] \<and> take (length w) s = w then Some (drop (length w) s) else drop_rune ws s)"

lemma drop_rune_shorter: "drop_rune ws s = Some t \<Longrightarrow> length t < length s"
proof (induction ws)
  case Nil
  then show ?case by simp
next
  case (Cons w ws)
  show ?case
  proof (cases "w \<noteq> [] \<and> take (length w) s = w")
    case True
    then have "length w \<le> length s" and "0 < length w"
      by (metis length_take min.cobounded1) (simp add: True)
    with True Cons.prems show ?thesis by (auto intro!: diff_less)
  next
    case False
    with Cons show ?thesis by (simp split: if_splits)
  qed
qed

function trim_left_runes :: "string list \<Rightarrow> string \<Rightarrow> string" where
  "trim_left_runes ws s = (case drop_rune ws s of None \<Rightarrow> s | Some t \<Rightarrow> trim_left_runes ws t)"
  by pat_completeness auto
termination
  by (relation "measure (\<lambda>(ws, s). length s)") (auto simp: drop_rune_shorter)

declare trim_left_runes.simps [simp del]

definition trim_left :: "string \<Rightarrow> string" where
  "trim_left s = trim_left_runes space_runes s"

definition trim_right :: "string \<Rightarrow> string" where
  "trim_right s = rev (trim_left_runes (map rev space_runes) (rev s))"

text \<open>strings.TrimSpace\<close>

definition trim_space :: "string \<Rightarrow> string" where
  "trim_space s = trim_right (trim_left s)"

text \<open>strings.ToLower and strings.EqualFold\<close>

definition lower_char :: "char \<Rightarrow> char" where
  "lower_char c = (if is_upper_char c then char_of (byte_of c + 32) else c)"

fun to_lower :: "string \<Rightarrow> string" where
  "to_lower [] = []"
| "to_lower (c # s) =
     (if c = CHR 0xE2 \<and> take 2 s = [CHR 0x84, CHR 0xAA] then CHR ''k'' # to_lower (drop 2 s)
      else if c = CHR 0xC4 \<and> take 1 s = [CHR 0xB0] then CHR ''i'' # to_lower (drop 1 s)
      else lower_char c # to_lower s)"

definition equal_fold :: "string \<Rightarrow> string \<Rightarrow> bool" where
  "equal_fold a b \<longleftrightarrow> to_lower a = to_lower b"

text \<open>strings.HasPrefix, HasSuffix, TrimPrefix, TrimSuffix\<close>

definition has_prefix :: "string \<Rightarrow> string \<Rightarrow> bool" where
  "has_prefix s p \<longleftrightarrow> take (length p) s = p"

definition has_suffix :: "string \<Rightarrow> string \<Rightarrow> bool" where
  "has_suffix s p \<longleftrightarrow> has_prefix (rev s) (rev p)"

definition trim_prefix :: "string \<Rightarrow> string \<Rightarrow> string" where
  "trim_prefix s p = (if has_prefix s p then drop (length p) s else s)"

definition trim_suffix :: "string \<Rightarrow> string \<Rightarrow> string" where
  "trim_suffix s p = (if has_suffix s p then take (length s - length p) s else s)"

text \<open>strings.Trim with a set of ASCII characters, strings.ContainsAny\<close>

definition trim_chars :: "string \<Rightarrow> string \<Rightarrow> string" where
  "trim_chars s cs =
     rev (dropWhile (\<lambda>c. c \<in> set cs) (rev (dropWhile (\<lambda>c. c \<in> set cs) s)))"

definition contains_any :: "string \<Rightarrow> string \<Rightarrow> bool" where
  "contains_any s cs \<longleftrightarrow> list_ex (\<lambda>c. c \<in> set cs) s"

text \<open>strings.Contains\<close>

fun contains_str :: "string \<Rightarrow> string \<Rightarrow> bool" where
  "contains_str [] p = (p = [])"
| "contains_str (c # s) p = (has_prefix (c # s) p \<or> contains_str s p)"

text \<open>strings.Split at a one-byte separator\<close>

fun split_on :: "char \<Rightarrow> string \<Rightarrow> string list" where
  "split_on sep [] = [[]]"
| "split_on sep (c # s) =
     (if c = sep then [] # split_on sep s
      else (case split_on sep s of [] \<Rightarrow> [[c]] | w # ws \<Rightarrow> (c # w) # ws))"

text \<open>strings.Join\<close>

fun join_with :: "string \<Rightarrow> string list \<Rightarrow> string" where
  "join_with sep [] = []"
| "join_with sep [w] = w"
| "join_with sep (w # ws) = w @ sep @ join_with sep ws"

text \<open>strings.Fields\<close>

function fields_from :: "string \<Rightarrow> string \<Rightarrow> string list" where
  "fields_from acc s =
     (case s of
        [] \<Rightarrow> (if acc = [] then [] else [rev acc])
      | c # cs \<Rightarrow>
          (case drop_rune space_runes s of
             Some t \<Rightarrow> (if acc = [] then [] else [rev acc]) @ fields_from [] t
           | None \<Rightarrow> fields_from (c # acc) cs))"
  by pat_completeness auto
termination
  by (relation "measure (\<lambda>(acc, s). length s)") (auto dest: drop_rune_shorter)

declare fields_from.simps [simp del]

definition fields :: "string \<Rightarrow> string list" where
  "fields s = fields_from [] s"

lemma split_on_not_Nil [simp]: "split_on sep s \<noteq> []"
  by (cases s) (auto split: list.splits)

lemma split_on_no_sep: "sep \<notin> set s \<Longrightarrow> split_on sep s = [s]"
  by (induction s) auto

lemma split_on_append_sep:
  "sep \<notin> set a \<Longrightarrow> split_on sep (a @ sep # b) = a # split_on sep b"
  by (induction a) auto

lemma split_on_no_sep_in_parts: "w \<in> set (split_on sep s) \<Longrightarrow> sep \<notin> set w"
  by (induction s arbitrary: w) (auto split: if_splits list.splits)


lemma split_on_covers: "c \<in> set s \<Longrightarrow> c = sep \<or> (\<exists>w \<in> set (split_on sep s). c \<in> set w)"
  by (induction s) (auto split: list.splits)

lemma last_separator_unique:
  "c \<notin> set y \<Longrightarrow> c \<notin> set y' \<Longrightarrow> x @ c # y = x' @ c # y' \<longleftrightarrow> x = x' \<and> y = y'"
proof (induction y arbitrary: y' rule: rev_induct)
  case Nil
  then show ?case by (cases y' rule: rev_cases) auto
next
  case (snoc d y)
  then show ?case by (cases y' rule: rev_cases) auto
qed

section \<open>Package strconv\<close>

definition digit_value :: "char \<Rightarrow> nat option" where
  "digit_value c = (if is_digit_char c then Some (byte_of c - 48) else None)"

fun parse_digits_from :: "nat \<Rightarrow> string \<Rightarrow> nat option" where
  "parse_digits_from acc [] = Some acc"
| "parse_digits_from acc (c # s) =
     (case digit_value c of None \<Rightarrow> None | Some d \<Rightarrow> parse_digits_from (10 * acc + d) s)"

definition parse_digits :: "string \<Rightarrow> nat option" where
  "parse_digits s = (if s = [] then None else parse_digits_from 0 s)"

text \<open>strconv.ParseUint(s, 10, 64); the error values are not distinguished.\<close>

definition parse_uint64 :: "string \<Rightarrow> nat option" where
  "parse_uint64 s =
     (case parse_digits s of None \<Rightarrow> None | Some n \<Rightarrow> if n < 2 ^ 64 then Some n else None)"

text \<open>strconv.ParseInt(s, 10, 64), and strconv.Atoi on a 64-bit platform\<close>

definition parse_int64 :: "string \<Rightarrow> int option" where
  "parse_int64 s =
     (let neg = has_prefix s ''-'';
          body = (if neg \<or> has_prefix s ''+'' then drop 1 s else s)
      in case parse_digits body of
           None \<Rightarrow> None
         | Some n \<Rightarrow>
             (if neg then (if int n \<le> 2 ^ 63 then Some (- int n) else None)
              else if int n < 2 ^ 63 then Some (int n) else None))"

abbreviation atoi :: "string \<Rightarrow> int option" where
  "atoi \<equiv> parse_int64"

text \<open>The same with the error ignored: 0 for a syntax error, the nearest bound out of range\<close>

definition parse_int64_ignore :: "string \<Rightarrow> int" where
  "parse_int64_ignore s =
     (case parse_int64 s of
        Some i \<Rightarrow> i
      | None \<Rightarrow>
          (case parse_digits (if has_prefix s ''-'' \<or> has_prefix s ''+'' then drop 1 s else s) of
             None \<Rightarrow> 0
           | Some n \<Rightarrow> if has_prefix s ''-'' then - (2 ^ 63) else 2 ^ 63 - 1))"

text \<open>strconv.FormatUint and strconv.FormatInt with base 10\<close>

definition digit_char :: "nat \<Rightarrow> char" where
  "digit_char d = char_of (48 + d)"

fun format_uint :: "nat \<Rightarrow> string" where
  "format_uint n = (if n < 10 then [digit_char n] else format_uint (n div 10) @ [digit_char (n mod 10)])"

declare format_uint.simps [simp del]

definition format_int :: "int \<Rightarrow> string" where
  "format_int i = (if i < 0 then ''-'' @ format_uint (nat (- i)) else format_uint (nat i))"

lemma digit_value_digit_char [simp]: "d < 10 \<Longrightarrow> digit_value (digit_char d) = Some d"
  by (simp add: digit_value_def digit_char_def is_digit_char_def)

lemma parse_digits_from_append:
  "parse_digits_from acc (s @ t) =
     (case parse_digits_from acc s of None \<Rightarrow> None | Some n \<Rightarrow> parse_digits_from n t)"
  by (induction s arbitrary: acc) (auto split: option.splits)

lemma format_uint_not_Nil [simp]: "format_uint n \<noteq> []"
  by (subst format_uint.simps) simp

lemma parse_digits_from_format_uint: "parse_digits_from 0 (format_uint n) = Some n"
proof (induction n rule: format_uint.induct)
  case (1 n)
  show ?case
  proof (cases "n < 10")
    case True
    then show ?thesis by (simp add: format_uint.simps [of n])
  next
    case False
    with "1.IH" show ?thesis
      by (simp add: format_uint.simps [of n] parse_digits_from_append)
  qed
qed

lemma parse_digits_format_uint [simp]: "parse_digits (format_uint n) = Some n"
  by (simp add: parse_digits_def parse_digits_from_format_uint)

lemma parse_uint64_format_uint [simp]: "n < 2 ^ 64 \<Longrightarrow> parse_uint64 (format_uint n) = Some n"
  by (simp add: parse_uint64_def)

lemma format_uint_inject [simp]: "format_uint m = format_uint n \<longleftrightarrow> m = n"
  by (metis option.inject parse_digits_format_uint)

lemma is_digit_char_digit_char [simp]: "d < 10 \<Longrightarrow> is_digit_char (digit_char d)"
  by (simp add: is_digit_char_def digit_char_def)

lemma format_uint_digits: "c \<in> set (format_uint n) \<Longrightarrow> is_digit_char c"
proof (induction n rule: format_uint.induct)
  case (1 n)
  then show ?case
    by (subst (asm) (2) format_uint.simps) (auto split: if_splits)
qed

lemma format_int_chars: "c \<in> set (format_int i) \<Longrightarrow> is_digit_char c \<or> c = CHR ''-''"
  by (auto simp: format_int_def dest: format_uint_digits split: if_splits)

lemma parse_digits_from_digits: "parse_digits_from acc s = Some n \<Longrightarrow> list_all is_digit_char s"
  by (induction s arbitrary: acc) (auto simp: digit_value_def split: option.splits if_splits)

lemma parse_digits_digits: "parse_digits s = Some n \<Longrightarrow> list_all is_digit_char s"
  by (auto simp: parse_digits_def dest: parse_digits_from_digits split: if_splits)

lemma format_uint_hd_digit: "is_digit_char (hd (format_uint n))"
  using format_uint_digits [of "hd (format_uint n)" n] by simp

lemma format_int_inject [simp]: "format_int a = format_int b \<longleftrightarrow> a = b"
proof
  assume eq: "format_int a = format_int b"
  have "\<not> is_digit_char CHR ''-''" by (simp add: is_digit_char_def byte_of_def)
  then have no_minus: "''-'' @ u \<noteq> format_uint n" for u n
    using format_uint_hd_digit [of n] by (metis append_Cons list.sel(1))
  from eq no_minus no_minus [symmetric] show "a = b"
    by (auto simp: format_int_def split: if_splits)
qed simp

lemma parse_int64_format_uint [simp]:
  assumes "n < 2 ^ 63"
  shows "parse_int64 (format_uint n) = Some (int n)"
proof -
  have "\<not> is_digit_char CHR ''-''" "\<not> is_digit_char CHR ''+''"
    by (simp_all add: is_digit_char_def byte_of_def)
  then have "\<not> has_prefix (format_uint n) ''-''" "\<not> has_prefix (format_uint n) ''+''"
    using format_uint_hd_digit [of n]
    by (metis format_uint_not_Nil has_prefix_def hd_take length_Cons list.sel(1) list.size(3) zero_less_Suc)+
  moreover have "int n < 2 ^ 63"
    using assms by (metis of_nat_less_iff of_nat_numeral of_nat_power)
  ultimately show ?thesis by (simp add: parse_int64_def)
qed

section \<open>Packages encoding/hex and encoding/base64\<close>

definition is_hex_char :: "char \<Rightarrow> bool" where
  "is_hex_char c \<longleftrightarrow> is_digit_char c \<or> (97 \<le> byte_of c \<and> byte_of c \<le> 102)
     \<or> (65 \<le> byte_of c \<and> byte_of c \<le> 70)"

text \<open>Whether hex.DecodeString returns a nil error\<close>

definition hex_decodes :: "string \<Rightarrow> bool" where
  "hex_decodes s \<longleftrightarrow> even (length s) \<and> list_all is_hex_char s"

definition hex_digit :: "nat \<Rightarrow> char" where
  "hex_digit d = (if d < 10 then char_of (48 + d) else char_of (87 + d))"

definition hex_encode :: "string \<Rightarrow> string" where
  "hex_encode s = concat (map (\<lambda>c. [hex_digit (byte_of c div 16), hex_digit (byte_of c mod 16)]) s)"

definition b64_char :: "nat \<Rightarrow> char" where
  "b64_char n = (if n < 26 then char_of (65 + n) else if n < 52 then char_of (71 + n)
     else if n < 62 then char_of (n - 4) else if n = 62 then CHR ''+'' else CHR ''/'')"

definition b64_value :: "char \<Rightarrow> nat option" where
  "b64_value c =
     (if is_upper_char c then Some (byte_of c - 65)
      else if is_lower_char c then Some (byte_of c - 71)
      else if is_digit_char c then Some (byte_of c + 4)
      else if c = CHR ''+'' then Some 62 else if c = CHR ''/'' then Some 63 else None)"

text \<open>RawStdEncoding.EncodeToString: groups of three bytes, no padding\<close>

fun b64_encode :: "string \<Rightarrow> string" where
  "b64_encode [] = []"
| "b64_encode [a] = [b64_char (byte_of a div 4), b64_char (byte_of a mod 4 * 16)]"
| "b64_encode [a, b] =
     [b64_char (byte_of a div 4), b64_char (byte_of a mod 4 * 16 + byte_of b div 16),
      b64_char (byte_of b mod 16 * 4)]"
| "b64_encode (a # b # c # s) =
     [b64_char (byte_of a div 4), b64_char (byte_of a mod 4 * 16 + byte_of b div 16),
      b64_char (byte_of b mod 16 * 4 + byte_of c div 64), b64_char (byte_of c mod 64)] @ b64_encode s"

text \<open>
  Decoding drops CR and LF, as Go does, and ignores the trailing bits of an incomplete last
  group (the encoding is not strict).
\<close>

fun b64_groups :: "nat list \<Rightarrow> string option" where
  "b64_groups [] = Some []"
| "b64_groups [w] = None"
| "b64_groups [w, x] = Some [char_of (w * 4 + x div 16)]"
| "b64_groups [w, x, y] = Some [char_of (w * 4 + x div 16), char_of (x mod 16 * 16 + y div 4)]"
| "b64_groups (w # x # y # z # s) =
     (case b64_groups s of None \<Rightarrow> None
      | Some r \<Rightarrow> Some ([char_of (w * 4 + x div 16), char_of (x mod 16 * 16 + y div 4),
                       char_of (y mod 4 * 64 + z)] @ r))"

fun b64_values :: "string \<Rightarrow> nat list option" where
  "b64_values [] = Some []"
| "b64_values (c # s) =
     (case b64_value c of None \<Rightarrow> None
      | Some v \<Rightarrow> (case b64_values s of None \<Rightarrow> None | Some vs \<Rightarrow> Some (v # vs)))"

definition drop_newlines :: "string \<Rightarrow> string" where
  "drop_newlines s = filter (\<lambda>c. c \<noteq> CHR 0x0A \<and> c \<noteq> CHR 0x0D) s"

definition b64_raw_decode :: "string \<Rightarrow> string option" where
  "b64_raw_decode s = (case b64_values (drop_newlines s) of None \<Rightarrow> None | Some vs \<Rightarrow> b64_groups vs)"

text \<open>StdEncoding.DecodeString: the length is a multiple of four, with padding\<close>

definition b64_std_decode :: "string \<Rightarrow> string option" where
  "b64_std_decode s =
     (let t = drop_newlines s;
          body = (if has_suffix t ''=='' then take (length t - 2) t
                  else if has_suffix t ''='' then take (length t - 1) t else t)
      in if length t mod 4 = 0 then
           (case b64_values body of None \<Rightarrow> None | Some vs \<Rightarrow> b64_groups vs)
         else None)"

lemma b64_value_b64_char [simp]:
  assumes "n < 64" shows "b64_value (b64_char n) = Some n"
proof -
  consider "n < 26" | "26 \<le> n \<and> n < 52" | "52 \<le> n \<and> n < 62" | "n = 62" | "n = 63"
    using assms by linarith
  then show ?thesis
    by cases (auto simp: b64_char_def b64_value_def is_upper_char_def is_lower_char_def
        is_digit_char_def byte_of_def)
qed

lemma b64_char_no_newline:
  assumes "n < 64" shows "b64_char n \<noteq> CHR 0x0A \<and> b64_char n \<noteq> CHR 0x0D"
  using b64_value_b64_char [OF assms]
  by (auto simp: b64_value_def is_upper_char_def is_lower_char_def is_digit_char_def byte_of_def
      split: if_splits)

lemma char_of_byte_eq: "byte_of a = n \<Longrightarrow> char_of n = a"
  by auto

lemma sextets_lt:
  "byte_of a div 4 < 64" "byte_of a mod 4 * 16 < 64"
  "byte_of a mod 4 * 16 + byte_of b div 16 < 64" "byte_of b mod 16 * 4 < 64"
  "byte_of b mod 16 * 4 + byte_of c div 64 < 64" "byte_of c mod 64 < 64"
  using byte_of_lt [of a] byte_of_lt [of b] byte_of_lt [of c] by linarith+

lemma drop_newlines_b64_encode [simp]: "drop_newlines (b64_encode s) = b64_encode s"
  unfolding drop_newlines_def
  by (induction s rule: b64_encode.induct) (simp_all add: b64_char_no_newline sextets_lt)

lemma b64_decode_encode_aux:
  "(case b64_values (b64_encode s) of None \<Rightarrow> None | Some vs \<Rightarrow> b64_groups vs) = Some s"
proof (induction s rule: b64_encode.induct)
  case (4 a b c s)
  then show ?case
    using byte_of_lt [of a] byte_of_lt [of b] byte_of_lt [of c]
    by (auto simp: sextets_lt split: option.splits intro!: char_of_byte_eq)
next
  case (3 a b)
  show ?case
    using byte_of_lt [of a] byte_of_lt [of b]
    by (auto simp: sextets_lt intro!: char_of_byte_eq)
next
  case (2 a)
  show ?case by (auto simp: sextets_lt intro!: char_of_byte_eq)
qed simp

lemma b64_raw_decode_encode [simp]: "b64_raw_decode (b64_encode s) = Some s"
  by (simp add: b64_raw_decode_def b64_decode_encode_aux)

end
