(* ===== verification/Go_Net.thy ===== *)
theory Go_Net
  imports Go_Prelude
begin

text \<open>
  The functions of Go's package net that the configuration validator calls: net.ParseIP with
  the IPv4 and IPv6 syntax of netip.ParseAddr, the address classes of net.IP, and
  net.SplitHostPort. An address is its sixteen bytes, an IPv4 address in the mapped form.
\<close>

section \<open>Addresses\<close>

type_synonym ip = "nat list"

definition v4_prefix :: "nat list" where
  "v4_prefix = [0, 0, 0, 0, 0, 0, 0, 0, 0, 0, 255, 255]"

text \<open>netip parseIPv4Fields: four decimal fields, no leading zero, at most 255\<close>

definition parse_octet :: "string \<Rightarrow> nat option" where
  "parse_octet w =
     (case parse_digits w of None \<Rightarrow> None
      | Some n \<Rightarrow> if n \<le> 255 \<and> (length w = 1 \<or> hd w \<noteq> CHR ''0'') then Some n else None)"

fun parse_octets :: "string list \<Rightarrow> nat list option" where
  "parse_octets [] = Some []"
| "parse_octets (w # ws) =
     (case parse_octet w of None \<Rightarrow> None
      | Some n \<Rightarrow> (case parse_octets ws of None \<Rightarrow> None | Some ns \<Rightarrow> Some (n # ns)))"

definition parse_ipv4_fields :: "string \<Rightarrow> nat list option" where
  "parse_ipv4_fields s =
     (let ws = split_on CHR ''.'' s in if length ws = 4 then parse_octets ws else None)"

text \<open>netip parseIPv6: the loop over the 16-bit groups, after a leading ellipsis\<close>

definition hex_value :: "char \<Rightarrow> nat" where
  "hex_value c = (if is_digit_char c then byte_of c - 48
     else if is_lower_char c then byte_of c - 87 else byte_of c - 55)"

definition hex_group :: "string \<Rightarrow> nat" where
  "hex_group w = foldl (\<lambda>acc c. 16 * acc + hex_value c) 0 w"

datatype v6_result = V6_Error | V6_Parsed "nat list" "nat option"

text \<open>
  One iteration per unit of the first argument; eight groups fill the sixteen bytes. The bytes
  read so far and the position of the ellipsis are accumulated.
\<close>

fun parse_groups :: "nat \<Rightarrow> nat list \<Rightarrow> nat option \<Rightarrow> string \<Rightarrow> v6_result" where
  "parse_groups 0 bs ell s = (if s = [] then V6_Parsed bs ell else V6_Error)"
| "parse_groups (Suc n) bs ell s =
     (let w = takeWhile is_hex_char s; rest = dropWhile is_hex_char s in
      if w = [] \<or> 4 < length w then V6_Error
      else if take 1 rest = ''.'' then
        (if ell = None \<and> length bs \<noteq> 12 then V6_Error
         else if 16 < length bs + 4 then V6_Error
         else (case parse_ipv4_fields s of None \<Rightarrow> V6_Error | Some q \<Rightarrow> V6_Parsed (bs @ q) ell))
      else
        (let bs' = bs @ [hex_group w div 256, hex_group w mod 256] in
         if rest = [] then V6_Parsed bs' ell
         else if hd rest \<noteq> CHR '':'' \<or> length rest = 1 then V6_Error
         else if rest ! 1 = CHR '':'' then
           (if ell \<noteq> None then V6_Error
            else if length rest = 2 then V6_Parsed bs' (Some (length bs'))
            else parse_groups n bs' (Some (length bs')) (drop 2 rest))
         else parse_groups n bs' ell (drop 1 rest)))"

definition expand_ellipsis :: "v6_result \<Rightarrow> nat list option" where
  "expand_ellipsis r =
     (case r of V6_Error \<Rightarrow> None
      | V6_Parsed bs ell \<Rightarrow>
          (if length bs < 16 then
             (case ell of None \<Rightarrow> None
              | Some e \<Rightarrow> Some (take e bs @ replicate (16 - length bs) 0 @ drop e bs))
           else if ell \<noteq> None then None else Some bs))"

definition parse_ipv6 :: "string \<Rightarrow> nat list option" where
  "parse_ipv6 s =
     (if has_prefix s ''::'' then
        (if length s = 2 then Some (replicate 16 0)
         else expand_ellipsis (parse_groups 8 [] (Some 0) (drop 2 s)))
      else expand_ellipsis (parse_groups 8 [] None s))"

text \<open>
  net.ParseIP: the first of the characters dot, colon and percent decides. An address with a
  zone is nil, whether the zone is empty (a parse error) or not, and a percent sign cannot occur
  in an IPv4 address.
\<close>

definition parse_ip :: "string \<Rightarrow> ip option" where
  "parse_ip s =
     (case dropWhile (\<lambda>c. c \<notin> set ''.:%'') s of
        [] \<Rightarrow> None
      | c # _ \<Rightarrow>
          (if c = CHR ''.'' then
             (case parse_ipv4_fields s of None \<Rightarrow> None | Some q \<Rightarrow> Some (v4_prefix @ q))
           else if c = CHR ''%'' \<or> CHR ''%'' \<in> set s then None
           else parse_ipv6 s))"

section \<open>Address classes\<close>

definition to4 :: "ip \<Rightarrow> nat list option" where
  "to4 a = (if take 12 a = v4_prefix then Some (drop 12 a) else None)"

definition ip_is_loopback :: "ip \<Rightarrow> bool" where
  "ip_is_loopback a =
     (case to4 a of Some q \<Rightarrow> q ! 0 = 127 | None \<Rightarrow> a = replicate 15 0 @ [1])"

definition ip_is_unspecified :: "ip \<Rightarrow> bool" where
  "ip_is_unspecified a \<longleftrightarrow> a = v4_prefix @ [0, 0, 0, 0] \<or> a = replicate 16 0"

definition ip_is_link_local_unicast :: "ip \<Rightarrow> bool" where
  "ip_is_link_local_unicast a =
     (case to4 a of Some q \<Rightarrow> q ! 0 = 169 \<and> q ! 1 = 254
      | None \<Rightarrow> a ! 0 = 254 \<and> a ! 1 div 64 = 2)"

definition ip_is_private :: "ip \<Rightarrow> bool" where
  "ip_is_private a =
     (case to4 a of
        Some q \<Rightarrow> q ! 0 = 10 \<or> (q ! 0 = 172 \<and> q ! 1 div 16 = 1) \<or> (q ! 0 = 192 \<and> q ! 1 = 168)
      | None \<Rightarrow> a ! 0 div 2 = 126)"

section \<open>Host and port\<close>

definition last_index :: "char \<Rightarrow> string \<Rightarrow> nat option" where
  "last_index c s =
     (if c \<in> set s then Some (length s - 1 - length (takeWhile (\<lambda>x. x \<noteq> c) (rev s))) else None)"

definition first_index :: "char \<Rightarrow> string \<Rightarrow> nat option" where
  "first_index c s = (if c \<in> set s then Some (length (takeWhile (\<lambda>x. x \<noteq> c) s)) else None)"

definition split_host_port :: "string \<Rightarrow> (string \<times> string) option" where
  "split_host_port s =
     (case last_index CHR '':'' s of
        None \<Rightarrow> None
      | Some i \<Rightarrow>
          (if hd s = CHR ''['' then
             (case first_index CHR '']'' s of
                None \<Rightarrow> None
              | Some e \<Rightarrow>
                  (if e + 1 \<noteq> i then None
                   else if CHR ''['' \<in> set (drop 1 s) \<or> CHR '']'' \<in> set (drop (e + 1) s) then None
                   else Some (drop 1 (take e s), drop (i + 1) s)))
           else
             (let host = take i s in
              if CHR '':'' \<in> set host \<or> CHR ''['' \<in> set s \<or> CHR '']'' \<in> set s then None
              else Some (host, drop (i + 1) s))))"

section \<open>Facts\<close>

lemma parse_octet_le: "parse_octet w = Some n \<Longrightarrow> n \<le> 255"
  by (auto simp: parse_octet_def split: option.splits if_splits)

lemma parse_octets_SomeD:
  "parse_octets ws = Some ns \<Longrightarrow> length ns = length ws \<and> (\<forall>n \<in> set ns. n \<le> 255)"
  by (induction ws arbitrary: ns) (auto split: option.splits dest: parse_octet_le)

lemma parse_ipv4_fields_SomeD:
  "parse_ipv4_fields s = Some q \<Longrightarrow> length q = 4 \<and> (\<forall>n \<in> set q. n \<le> 255)"
  by (auto simp: parse_ipv4_fields_def Let_def split: if_splits dest: parse_octets_SomeD)

lemma parse_groups_length:
  "parse_groups n bs ell s = V6_Parsed bs' ell' \<Longrightarrow> length bs + 2 * n \<le> 16 \<Longrightarrow>
     (\<forall>e. ell = Some e \<longrightarrow> e \<le> length bs) \<Longrightarrow>
     length bs' \<le> 16 \<and> (\<forall>e. ell' = Some e \<longrightarrow> e \<le> length bs')"
proof (induction n arbitrary: bs ell s)
  case 0
  then show ?case by (auto split: if_splits)
next
  case (Suc n)
  have IH: "parse_groups n (bs @ [a, b]) ell1 s1 = V6_Parsed bs' ell' \<Longrightarrow>
      (\<forall>e. ell1 = Some e \<longrightarrow> e \<le> length bs + 2) \<Longrightarrow>
      length bs' \<le> 16 \<and> (\<forall>e. ell' = Some e \<longrightarrow> e \<le> length bs')" for a b ell1 s1
    using Suc.IH [of "bs @ [a, b]" ell1 s1] Suc.prems(2) by simp
  show ?case
    using Suc.prems parse_ipv4_fields_SomeD [of s]
    by (auto simp: Let_def split: if_splits option.splits dest!: IH)
qed

lemma expand_ellipsis_length:
  assumes "expand_ellipsis (parse_groups 8 [] ell s) = Some a" and "\<forall>e. ell = Some e \<longrightarrow> e = 0"
  shows "length a = 16"
proof (cases "parse_groups 8 [] ell s")
  case V6_Error
  with assms(1) show ?thesis by (simp add: expand_ellipsis_def)
next
  case (V6_Parsed bs e)
  with parse_groups_length [OF V6_Parsed] assms show ?thesis
    by (auto simp: expand_ellipsis_def split: if_splits option.splits)
qed

lemma parse_ip_length: "parse_ip s = Some a \<Longrightarrow> length a = 16"
  by (auto simp: parse_ip_def parse_ipv6_def v4_prefix_def split: list.splits if_splits option.splits
      dest: parse_ipv4_fields_SomeD expand_ellipsis_length)

lemma split_host_port_no_brackets:
  assumes "CHR '':'' \<notin> set h" "CHR ''['' \<notin> set h" "CHR '']'' \<notin> set h" "h \<noteq> []"
    and "CHR '':'' \<notin> set p" "CHR ''['' \<notin> set p" "CHR '']'' \<notin> set p"
  shows "split_host_port (h @ '':'' @ p) = Some (h, p)"
proof -
  have "takeWhile (\<lambda>x. x \<noteq> CHR '':'') (rev p @ CHR '':'' # rev h) = rev p"
    using assms(5) by (auto simp: takeWhile_append)
  then have "last_index CHR '':'' (h @ '':'' @ p) = Some (length h)"
    by (simp add: last_index_def)
  moreover have "hd (h @ '':'' @ p) \<noteq> CHR ''[''"
    using assms(2,4) by (metis hd_append2 hd_in_set)
  ultimately show ?thesis using assms by (simp add: split_host_port_def)
qed

text \<open>A parsed address contains none of the characters that other fields are separated with.\<close>

lemma bar_not_digit: "\<not> is_digit_char CHR ''|''" and bar_not_hex: "\<not> is_hex_char CHR ''|''"
  by (simp_all add: is_hex_char_def is_digit_char_def byte_of_def)

lemma parse_octets_no_bar: "parse_octets ws = Some ns \<Longrightarrow> w \<in> set ws \<Longrightarrow> CHR ''|'' \<notin> set w"
  using bar_not_digit
  by (induction ws arbitrary: ns)
    (auto simp: parse_octet_def list_all_iff split: option.splits if_splits dest!: parse_digits_digits)

lemma parse_ipv4_fields_no_bar: "parse_ipv4_fields s = Some q \<Longrightarrow> CHR ''|'' \<notin> set s"
  using split_on_covers [of "CHR ''|''" s "CHR ''.''"]
  by (auto simp: parse_ipv4_fields_def Let_def split: if_splits dest: parse_octets_no_bar)

lemma parse_groups_no_bar: "parse_groups n bs ell s = V6_Parsed bs' ell' \<Longrightarrow> CHR ''|'' \<notin> set s"
proof (induction n arbitrary: bs ell s)
  case 0
  then show ?case by (simp split: if_splits)
next
  case (Suc n)
  define w rest where "w = takeWhile is_hex_char s" and "rest = dropWhile is_hex_char s"
  have s: "s = w @ rest" by (simp add: w_def rest_def)
  have "CHR ''|'' \<notin> set w"
    using bar_not_hex by (auto simp: w_def dest: set_takeWhileD)
  moreover have "CHR ''|'' \<notin> set rest" if "CHR ''|'' \<notin> set s \<or> rest = [] \<or>
      (hd rest = CHR '':'' \<and> CHR ''|'' \<notin> set (drop 1 rest)) \<or>
      (hd rest = CHR '':'' \<and> length rest \<ge> 2 \<and> rest ! 1 = CHR '':'' \<and> CHR ''|'' \<notin> set (drop 2 rest))"
    using that s by (cases rest; cases "tl rest") auto
  moreover have "CHR ''|'' \<notin> set s \<or> rest = [] \<or>
      (hd rest = CHR '':'' \<and> CHR ''|'' \<notin> set (drop 1 rest)) \<or>
      (hd rest = CHR '':'' \<and> length rest \<ge> 2 \<and> rest ! 1 = CHR '':'' \<and> CHR ''|'' \<notin> set (drop 2 rest))"
    using Suc.prems unfolding parse_groups.simps w_def [symmetric] rest_def [symmetric] Let_def
    by (auto split: if_splits option.splits dest: parse_ipv4_fields_no_bar Suc.IH)
      (auto simp: Suc_le_eq neq_Nil_conv numeral_2_eq_2 dest: Suc.IH)
  ultimately show ?case using s by auto
qed

lemma parse_ip_no_bar: "parse_ip s = Some a \<Longrightarrow> CHR ''|'' \<notin> set s"
proof -
  have ell: "expand_ellipsis r = Some b \<Longrightarrow> \<exists>bs e. r = V6_Parsed bs e" for r b
    by (cases r) (auto simp: expand_ellipsis_def)
  have pre: "has_prefix s ''::'' \<Longrightarrow> s = ''::'' @ drop 2 s"
    unfolding has_prefix_def by (metis append_take_drop_id length_Cons list.size(3) numeral_2_eq_2)
  have v6: "parse_ipv6 s = Some b \<Longrightarrow> CHR ''|'' \<notin> set s" for b
  proof (cases "has_prefix s ''::''")
    case True
    assume "parse_ipv6 s = Some b"
    with True pre have "CHR ''|'' \<notin> set (drop 2 s)"
      by (auto simp: parse_ipv6_def split: if_splits dest!: ell dest: parse_groups_no_bar)
    moreover have "set s = set ''::'' \<union> set (drop 2 s)" by (subst pre [OF True]) simp
    ultimately show ?thesis by auto
  next
    case False
    assume "parse_ipv6 s = Some b"
    with False show ?thesis
      by (auto simp: parse_ipv6_def dest!: ell dest: parse_groups_no_bar)
  qed
  assume "parse_ip s = Some a"
  then show ?thesis
    by (auto simp: parse_ip_def split: list.splits if_splits option.splits
        dest: parse_ipv4_fields_no_bar v6)
qed

end
