(* ===== verification/Protocol.thy ===== *)
theory Protocol
  imports Go_Net
begin

text \<open>
  The desired configuration of a node and its validator: internal/protocol/protocol.go. The
  structs are records with the source's fields (each with a prefix for its struct), a pointer
  field is an \<^typ>\<open>'a option\<close>, the validators return \<^const>\<open>None\<close> for a nil error. The last
  section states what a well-formed configuration is, without the validator's loops and maps,
  and proves that the validator decides it.
\<close>

section \<open>Data\<close>

definition SchemaVersion :: int where
  "SchemaVersion = 1"

definition ProtocolVLESS :: string where "ProtocolVLESS = ''vless''"
definition ProtocolVMess :: string where "ProtocolVMess = ''vmess''"
definition ProtocolTrojan :: string where "ProtocolTrojan = ''trojan''"
definition ProtocolSS2022 :: string where "ProtocolSS2022 = ''shadowsocks2022''"
definition ProtocolTUIC :: string where "ProtocolTUIC = ''tuic''"
definition ProtocolHysteria2 :: string where "ProtocolHysteria2 = ''hysteria2''"
definition SecurityTLS :: string where "SecurityTLS = ''tls''"
definition SecurityReality :: string where "SecurityReality = ''reality''"
definition TransportTCP :: string where "TransportTCP = ''tcp''"
definition TransportWebSocket :: string where "TransportWebSocket = ''ws''"
definition TransportGRPC :: string where "TransportGRPC = ''grpc''"
definition TransportQUIC :: string where "TransportQUIC = ''quic''"

lemmas protocol_consts = SchemaVersion_def ProtocolVLESS_def ProtocolVMess_def
  ProtocolTrojan_def ProtocolSS2022_def ProtocolTUIC_def ProtocolHysteria2_def SecurityTLS_def
  SecurityReality_def TransportTCP_def TransportWebSocket_def TransportGRPC_def TransportQUIC_def

record RoutingConfig =
  rc_DNSProfile :: string
  rc_BlockProfile :: string
  rc_OutboundProfile :: string

record Transport =
  tr_Type :: string
  tr_Path :: string
  tr_Host :: string
  tr_ServiceName :: string

record TLSProfile =
  tls_ServerNames :: "string list"
  tls_CertificateRef :: string
  tls_PrivateKeyRef :: string
  tls_MinVersion :: string
  tls_MaxVersion :: string
  tls_ALPN :: "string list"

record RealityProfile =
  rl_ServerNames :: "string list"
  rl_Destination :: string
  rl_PrivateKeyRef :: string
  rl_PublicKey :: string
  rl_ShortIDs :: "string list"
  rl_Fingerprint :: string
  rl_SpiderX :: string

record SecurityProfile =
  sp_ID :: int
  sp_Name :: string
  sp_Type :: string
  sp_TLS :: "TLSProfile option"
  sp_Reality :: "RealityProfile option"

record VLESSConfig =
  vl_Decryption :: string
  vl_Flow :: string

text \<open>VMessConfig and TrojanConfig are empty structs.\<close>

datatype VMessConfig = VMessConfig
datatype TrojanConfig = TrojanConfig

record SS2022Config =
  ss_Method :: string
  ss_ServerKeyRef :: string
  ss_Network :: string

record TUICConfig =
  tu_Version :: int
  tu_CongestionControl :: string
  tu_ZeroRTTHandshake :: bool
  tu_HeartbeatSeconds :: int
  tu_UDPRelayMode :: string

record Hysteria2Config =
  hy_UpMbps :: int
  hy_DownMbps :: int
  hy_Obfs :: string
  hy_ObfsPasswordRef :: string
  hy_HopPorts :: string
  hy_HopIntervalSeconds :: int

record Inbound =
  ib_ID :: int
  ib_Name :: string
  ib_Protocol :: string
  ib_Listen :: string
  ib_Port :: int
  ib_Network :: string
  ib_Enabled :: bool
  ib_Transport :: Transport
  ib_SecurityProfileID :: int
  ib_TrafficMultiplierMilli :: int
  ib_VLESS :: "VLESSConfig option"
  ib_VMess :: "VMessConfig option"
  ib_Trojan :: "TrojanConfig option"
  ib_SS2022 :: "SS2022Config option"
  ib_TUIC :: "TUICConfig option"
  ib_Hysteria2 :: "Hysteria2Config option"

record DesiredConfig =
  dc_SchemaVersion :: int
  dc_Version :: nat
  dc_GeneratedAt :: int
  dc_AgentNodeID :: int
  dc_Inbounds :: "Inbound list"
  dc_Security :: "SecurityProfile list"
  dc_Routing :: RoutingConfig

text \<open>The zero values that Go's map lookups and struct literals produce\<close>

definition zero_profile :: SecurityProfile where
  "zero_profile = \<lparr>sp_ID = 0, sp_Name = [], sp_Type = [], sp_TLS = None, sp_Reality = None\<rparr>"

definition zero_transport :: Transport where
  "zero_transport = \<lparr>tr_Type = [], tr_Path = [], tr_Host = [], tr_ServiceName = []\<rparr>"

definition zero_inbound :: Inbound where
  "zero_inbound = \<lparr>ib_ID = 0, ib_Name = [], ib_Protocol = [], ib_Listen = [], ib_Port = 0,
     ib_Network = [], ib_Enabled = False, ib_Transport = zero_transport,
     ib_SecurityProfileID = 0, ib_TrafficMultiplierMilli = 0, ib_VLESS = None, ib_VMess = None,
     ib_Trojan = None, ib_SS2022 = None, ib_TUIC = None, ib_Hysteria2 = None\<rparr>"

section \<open>Patterns\<close>

text \<open>
  secretRefPattern: two identifiers and two numbers, separated by colons. No class of the pattern
  contains a colon, so the match is a condition on the parts between the colons.
\<close>

definition ref_ident_char :: "char \<Rightarrow> bool" where
  "ref_ident_char c \<longleftrightarrow> is_lower_char c \<or> is_digit_char c \<or> c = CHR ''_'' \<or> c = CHR ''-''"

definition ref_ident :: "string \<Rightarrow> bool" where
  "ref_ident w = (case w of [] \<Rightarrow> False | c # cs \<Rightarrow> is_lower_char c \<and> list_all ref_ident_char cs)"

definition ref_number :: "string \<Rightarrow> bool" where
  "ref_number w \<longleftrightarrow> w \<noteq> [] \<and> list_all is_digit_char w"

definition secretRefPattern :: "string \<Rightarrow> bool" where
  "secretRefPattern s =
     (case split_on CHR '':'' s of
        [a, b, m, n] \<Rightarrow> ref_ident a \<and> ref_ident b \<and> ref_number m \<and> ref_number n
      | _ \<Rightarrow> False)"

text \<open>
  hostNamePattern: at least two labels. Under the case-insensitive flag the classes also hold
  the two runes that fold to k and s (U+212A and U+017F).
\<close>

fun fold_host :: "string \<Rightarrow> string" where
  "fold_host [] = []"
| "fold_host (c # s) =
     (if c = CHR 0xE2 \<and> take 2 s = [CHR 0x84, CHR 0xAA] then CHR ''k'' # fold_host (drop 2 s)
      else if c = CHR 0xC5 \<and> take 1 s = [CHR 0xBF] then CHR ''s'' # fold_host (drop 1 s)
      else c # fold_host s)"

definition host_alnum :: "char \<Rightarrow> bool" where
  "host_alnum c \<longleftrightarrow> is_lower_char c \<or> is_upper_char c \<or> is_digit_char c"

definition host_label :: "string \<Rightarrow> bool" where
  "host_label w \<longleftrightarrow> w \<noteq> [] \<and> length w \<le> 63 \<and> host_alnum (hd w) \<and> host_alnum (last w)
     \<and> list_all (\<lambda>c. host_alnum c \<or> c = CHR ''-'') w"

definition hostNamePattern :: "string \<Rightarrow> bool" where
  "hostNamePattern s =
     (let labels = split_on CHR ''.'' (fold_host s) in 2 \<le> length labels \<and> list_all host_label labels)"

section \<open>Validators\<close>

definition validSecretRef :: "string \<Rightarrow> bool" where
  "validSecretRef value = secretRefPattern (trim_space value)"

fun validate_names :: "string list \<Rightarrow> go_error option" where
  "validate_names [] = None"
| "validate_names (name # names) =
     (let name = trim_space name in
      if parse_ip name = None \<and> \<not> hostNamePattern name
      then Some (Msg (''invalid server name '' @ name)) else validate_names names)"

definition validateServerNames :: "string list \<Rightarrow> go_error option" where
  "validateServerNames names =
     (if length names = 0 \<or> 16 < length names
      then Some (Msg ''one to sixteen server names are required'') else validate_names names)"

definition validatePortRange :: "string \<Rightarrow> go_error option" where
  "validatePortRange value =
     (case split_on CHR ''-'' value of
        [a, b] \<Rightarrow>
          (case (atoi (trim_space a), atoi (trim_space b)) of
             (Some start, Some end') \<Rightarrow>
               (if start \<le> 0 \<or> 65535 < end' \<or> end' < start \<or> 1000 < end' - start
                then Some (Msg ''port range is invalid or too large'') else None)
           | _ \<Rightarrow> Some (Msg ''port range is invalid or too large''))
      | _ \<Rightarrow> Some (Msg ''port range must be start-end''))"

definition validateStreamTransport :: "Transport \<Rightarrow> go_error option" where
  "validateStreamTransport t =
     (if tr_Type t = TransportTCP then
        (if tr_Path t \<noteq> [] \<or> tr_ServiceName t \<noteq> []
         then Some (Msg ''tcp transport has incompatible fields'') else None)
      else if tr_Type t = TransportWebSocket then
        (if \<not> has_prefix (tr_Path t) ''/''
         then Some (Msg ''websocket path must start with slash'') else None)
      else if tr_Type t = TransportGRPC then
        (if trim_space (tr_ServiceName t) = [] \<or> contains_any (tr_ServiceName t) [CHR 0x0D, CHR 0x0A]
         then Some (Msg ''grpc service name is required'') else None)
      else Some (Msg ''unsupported stream transport''))"

fun validate_short_ids :: "string set \<Rightarrow> string list \<Rightarrow> go_error option" where
  "validate_short_ids seen [] = None"
| "validate_short_ids seen (x # xs) =
     (let shortID = to_lower (trim_space x) in
      if length shortID = 0 \<or> 16 < length shortID \<or> length shortID mod 2 \<noteq> 0
      then Some (Msg ''reality short id has invalid length'')
      else if \<not> hex_decodes shortID then Some (Msg ''reality short id is not hexadecimal'')
      else if shortID \<in> seen then Some (Msg ''reality short id is duplicated'')
      else validate_short_ids (insert shortID seen) xs)"

definition ip_reserved :: "ip \<Rightarrow> bool" where
  "ip_reserved a \<longleftrightarrow> ip_is_loopback a \<or> ip_is_unspecified a \<or> ip_is_link_local_unicast a \<or> ip_is_private a"

definition validateReality :: "RealityProfile \<Rightarrow> go_error option" where
  "validateReality profile =
     (case validateServerNames (rl_ServerNames profile) of
        Some e \<Rightarrow> Some e
      | None \<Rightarrow>
          (case split_host_port (trim_space (rl_Destination profile)) of
             None \<Rightarrow> Some (Msg ''reality destination must be host:port'')
           | Some (host, port) \<Rightarrow>
               if host = [] then Some (Msg ''reality destination must be host:port'')
               else (case atoi port of
                  None \<Rightarrow> Some (Msg ''reality destination port is invalid'')
                | Some portNumber \<Rightarrow>
                    if portNumber \<le> 0 \<or> 65535 < portNumber
                    then Some (Msg ''reality destination port is invalid'')
                    else if (case parse_ip (trim_chars host ''[]'') of
                               None \<Rightarrow> False | Some a \<Rightarrow> ip_reserved a)
                    then Some (Msg ''reality destination is private or reserved'')
                    else if \<not> validSecretRef (rl_PrivateKeyRef profile) \<or> trim_space (rl_PublicKey profile) = []
                    then Some (Msg ''reality key references are required'')
                    else if length (rl_ShortIDs profile) = 0 \<or> 8 < length (rl_ShortIDs profile)
                    then Some (Msg ''reality requires one to eight short ids'')
                    else validate_short_ids {} (rl_ShortIDs profile))))"

definition tls_version_ok :: "string \<Rightarrow> bool" where
  "tls_version_ok v \<longleftrightarrow> v = [] \<or> v = ''1.2'' \<or> v = ''1.3''"

definition validateSecurityProfile :: "SecurityProfile \<Rightarrow> go_error option" where
  "validateSecurityProfile profile =
     (if sp_Type profile = SecurityTLS then
        (case sp_TLS profile of
           None \<Rightarrow> Some (Msg ''tls profile payload is invalid'')
         | Some t \<Rightarrow>
             if sp_Reality profile \<noteq> None then Some (Msg ''tls profile payload is invalid'')
             else (case validateServerNames (tls_ServerNames t) of
                Some e \<Rightarrow> Some e
              | None \<Rightarrow>
                  if \<not> validSecretRef (tls_CertificateRef t) \<or> \<not> validSecretRef (tls_PrivateKeyRef t)
                  then Some (Msg ''tls certificate and private key references are required'')
                  else if \<not> tls_version_ok (tls_MinVersion t) then Some (Msg ''tls minimum version is invalid'')
                  else if \<not> tls_version_ok (tls_MaxVersion t) then Some (Msg ''tls maximum version is invalid'')
                  else None))
      else if sp_Type profile = SecurityReality then
        (case sp_Reality profile of
           None \<Rightarrow> Some (Msg ''reality profile payload is invalid'')
         | Some r \<Rightarrow>
             if sp_TLS profile \<noteq> None then Some (Msg ''reality profile payload is invalid'')
             else validateReality r)
      else Some (Msg (''unsupported security profile type '' @ sp_Type profile)))"

definition validateVLESS :: "Inbound \<Rightarrow> SecurityProfile \<Rightarrow> bool \<Rightarrow> go_error option" where
  "validateVLESS inbound profile hasProfile =
     (case ib_VLESS inbound of
        None \<Rightarrow> Some (Msg ''vless protocol payload is invalid'')
      | Some v \<Rightarrow>
          if ib_VMess inbound \<noteq> None \<or> ib_Trojan inbound \<noteq> None \<or> ib_SS2022 inbound \<noteq> None
             \<or> ib_TUIC inbound \<noteq> None \<or> ib_Hysteria2 inbound \<noteq> None
          then Some (Msg ''vless protocol payload is invalid'')
          else if \<not> hasProfile \<or> sp_Type profile \<noteq> SecurityTLS \<and> sp_Type profile \<noteq> SecurityReality
          then Some (Msg ''vless requires tls or reality'')
          else if vl_Decryption v \<noteq> ''none'' then Some (Msg ''vless decryption must be none'')
          else (case validateStreamTransport (ib_Transport inbound) of
             Some e \<Rightarrow> Some e
           | None \<Rightarrow>
               if sp_Type profile = SecurityReality \<and>
                  (tr_Type (ib_Transport inbound) \<noteq> TransportTCP \<or> vl_Flow v \<noteq> ''xtls-rprx-vision'')
               then Some (Msg ''vless reality requires tcp and xtls-rprx-vision'')
               else if vl_Flow v \<noteq> [] \<and>
                  (vl_Flow v \<noteq> ''xtls-rprx-vision'' \<or> tr_Type (ib_Transport inbound) \<noteq> TransportTCP)
               then Some (Msg ''vless flow is invalid for transport'')
               else None))"

definition validateVMess :: "Inbound \<Rightarrow> SecurityProfile \<Rightarrow> bool \<Rightarrow> go_error option" where
  "validateVMess inbound profile hasProfile =
     (if ib_VMess inbound = None \<or> ib_VLESS inbound \<noteq> None \<or> ib_Trojan inbound \<noteq> None
         \<or> ib_SS2022 inbound \<noteq> None \<or> ib_TUIC inbound \<noteq> None \<or> ib_Hysteria2 inbound \<noteq> None
      then Some (Msg ''vmess protocol payload is invalid'')
      else if hasProfile \<and> sp_Type profile \<noteq> SecurityTLS
      then Some (Msg ''vmess only supports tls or no security profile'')
      else validateStreamTransport (ib_Transport inbound))"

definition validateTrojan :: "Inbound \<Rightarrow> SecurityProfile \<Rightarrow> bool \<Rightarrow> go_error option" where
  "validateTrojan inbound profile hasProfile =
     (if ib_Trojan inbound = None \<or> ib_VLESS inbound \<noteq> None \<or> ib_VMess inbound \<noteq> None
         \<or> ib_SS2022 inbound \<noteq> None \<or> ib_TUIC inbound \<noteq> None \<or> ib_Hysteria2 inbound \<noteq> None
      then Some (Msg ''trojan protocol payload is invalid'')
      else if \<not> hasProfile \<or> sp_Type profile \<noteq> SecurityTLS then Some (Msg ''trojan requires tls'')
      else validateStreamTransport (ib_Transport inbound))"

definition ss2022_methods :: "string list" where
  "ss2022_methods =
     [''2022-blake3-aes-128-gcm'', ''2022-blake3-aes-256-gcm'', ''2022-blake3-chacha20-poly1305'']"

definition validateSS2022 :: "Inbound \<Rightarrow> bool \<Rightarrow> go_error option" where
  "validateSS2022 inbound hasProfile =
     (case ib_SS2022 inbound of
        None \<Rightarrow> Some (Msg ''shadowsocks2022 protocol payload is invalid'')
      | Some c \<Rightarrow>
          if ib_VLESS inbound \<noteq> None \<or> ib_VMess inbound \<noteq> None \<or> ib_Trojan inbound \<noteq> None
             \<or> ib_TUIC inbound \<noteq> None \<or> ib_Hysteria2 inbound \<noteq> None
          then Some (Msg ''shadowsocks2022 protocol payload is invalid'')
          else if hasProfile \<or> ib_SecurityProfileID inbound \<noteq> 0
          then Some (Msg ''shadowsocks2022 does not use tls or reality'')
          else if ss_Method c \<notin> set ss2022_methods then Some (Msg ''unsupported shadowsocks2022 method'')
          else if \<not> validSecretRef (ss_ServerKeyRef c)
          then Some (Msg ''shadowsocks2022 server key reference is required'')
          else if ss_Network c \<noteq> ''tcp'' \<and> ss_Network c \<noteq> ''udp'' \<and> ss_Network c \<noteq> ''tcp,udp''
          then Some (Msg ''shadowsocks2022 network is invalid'')
          else if tr_Type (ib_Transport inbound) \<noteq> [] \<and> tr_Type (ib_Transport inbound) \<noteq> TransportTCP
          then Some (Msg ''shadowsocks2022 transport is invalid'')
          else None)"

definition validateTUIC :: "Inbound \<Rightarrow> SecurityProfile \<Rightarrow> bool \<Rightarrow> go_error option" where
  "validateTUIC inbound profile hasProfile =
     (case ib_TUIC inbound of
        None \<Rightarrow> Some (Msg ''tuic protocol payload is invalid'')
      | Some c \<Rightarrow>
          if ib_VLESS inbound \<noteq> None \<or> ib_VMess inbound \<noteq> None \<or> ib_Trojan inbound \<noteq> None
             \<or> ib_SS2022 inbound \<noteq> None \<or> ib_Hysteria2 inbound \<noteq> None
          then Some (Msg ''tuic protocol payload is invalid'')
          else if \<not> hasProfile \<or> sp_Type profile \<noteq> SecurityTLS then Some (Msg ''tuic requires tls'')
          else if ib_Network inbound \<noteq> ''udp'' \<or> tr_Type (ib_Transport inbound) \<noteq> TransportQUIC
          then Some (Msg ''tuic requires udp/quic'')
          else if tu_Version c \<noteq> 5 then Some (Msg ''tuic version must be 5'')
          else if tu_CongestionControl c \<notin> {''bbr'', ''cubic'', ''new_reno''}
          then Some (Msg ''tuic congestion control is invalid'')
          else if tu_HeartbeatSeconds c < 1 \<or> 300 < tu_HeartbeatSeconds c
          then Some (Msg ''tuic heartbeat is invalid'')
          else None)"

definition validateHysteria2 :: "Inbound \<Rightarrow> SecurityProfile \<Rightarrow> bool \<Rightarrow> go_error option" where
  "validateHysteria2 inbound profile hasProfile =
     (case ib_Hysteria2 inbound of
        None \<Rightarrow> Some (Msg ''hysteria2 protocol payload is invalid'')
      | Some c \<Rightarrow>
          if ib_VLESS inbound \<noteq> None \<or> ib_VMess inbound \<noteq> None \<or> ib_Trojan inbound \<noteq> None
             \<or> ib_SS2022 inbound \<noteq> None \<or> ib_TUIC inbound \<noteq> None
          then Some (Msg ''hysteria2 protocol payload is invalid'')
          else if \<not> hasProfile \<or> sp_Type profile \<noteq> SecurityTLS then Some (Msg ''hysteria2 requires tls'')
          else if ib_Network inbound \<noteq> ''udp'' \<or> tr_Type (ib_Transport inbound) \<noteq> TransportQUIC
          then Some (Msg ''hysteria2 requires udp/quic'')
          else if hy_UpMbps c \<le> 0 \<or> hy_DownMbps c \<le> 0 then Some (Msg ''hysteria2 bandwidth is required'')
          else if hy_Obfs c \<noteq> [] \<and> hy_Obfs c \<noteq> ''salamander'' then Some (Msg ''hysteria2 obfs is invalid'')
          else if hy_Obfs c = ''salamander'' \<and> \<not> validSecretRef (hy_ObfsPasswordRef c)
          then Some (Msg ''hysteria2 salamander secret reference is required'')
          else if hy_HopPorts c \<noteq> [] then
            (case validatePortRange (hy_HopPorts c) of
               Some e \<Rightarrow> Some e
             | None \<Rightarrow>
                 if hy_HopIntervalSeconds c < 5 \<or> 3600 < hy_HopIntervalSeconds c
                 then Some (Msg ''hysteria2 hop interval is invalid'') else None)
          else None)"

definition validateInbound :: "Inbound \<Rightarrow> SecurityProfile \<Rightarrow> bool \<Rightarrow> go_error option" where
  "validateInbound inbound profile hasProfile =
     (if ib_TrafficMultiplierMilli inbound \<le> 0 \<or> 100000 < ib_TrafficMultiplierMilli inbound
      then Some (Msg ''traffic multiplier is outside 0.001x..100x'')
      else if ib_Protocol inbound = ProtocolVLESS then validateVLESS inbound profile hasProfile
      else if ib_Protocol inbound = ProtocolVMess then validateVMess inbound profile hasProfile
      else if ib_Protocol inbound = ProtocolTrojan then validateTrojan inbound profile hasProfile
      else if ib_Protocol inbound = ProtocolSS2022 then validateSS2022 inbound hasProfile
      else if ib_Protocol inbound = ProtocolTUIC then validateTUIC inbound profile hasProfile
      else if ib_Protocol inbound = ProtocolHysteria2 then validateHysteria2 inbound profile hasProfile
      else Some (Msg (''unsupported protocol '' @ ib_Protocol inbound)))"

text \<open>The two loops of ValidateDesiredConfig, with the maps they fill\<close>

fun validate_profiles ::
    "(int \<rightharpoonup> SecurityProfile) \<Rightarrow> SecurityProfile list \<Rightarrow> (int \<rightharpoonup> SecurityProfile) result" where
  "validate_profiles profiles [] = Inr profiles"
| "validate_profiles profiles (p # ps) =
     (if sp_ID p \<le> 0 then Inl (Msg ''security profile id is required'')
      else if profiles (sp_ID p) \<noteq> None
      then Inl (Msg (''duplicate security profile '' @ format_int (sp_ID p)))
      else (case validateSecurityProfile p of
         Some e \<Rightarrow> Inl (Wrapped (''security profile '' @ format_int (sp_ID p)) e)
       | None \<Rightarrow> validate_profiles (profiles(sp_ID p \<mapsto> p)) ps))"

definition port_key :: "Inbound \<Rightarrow> string" where
  "port_key inbound =
     to_lower (ib_Network inbound) @ ''|'' @ trim_space (ib_Listen inbound) @ ''|'' @ format_int (ib_Port inbound)"

definition listen_ok :: "string \<Rightarrow> bool" where
  "listen_ok listen \<longleftrightarrow> listen = ''0.0.0.0'' \<or> listen = ''::'' \<or> parse_ip listen \<noteq> None"

fun validate_inbounds ::
    "(int \<rightharpoonup> SecurityProfile) \<Rightarrow> (string \<rightharpoonup> int) \<Rightarrow> int set \<Rightarrow> Inbound list \<Rightarrow> go_error option" where
  "validate_inbounds profiles ports ids [] = None"
| "validate_inbounds profiles ports ids (ib # ibs) =
     (if ib_ID ib \<le> 0 then Some (Msg ''inbound id is required'')
      else if ib_ID ib \<in> ids then Some (Msg (''duplicate inbound id '' @ format_int (ib_ID ib)))
      else if ib_Port ib \<le> 0 \<or> 65535 < ib_Port ib
      then Some (Msg (''inbound '' @ format_int (ib_ID ib) @ '' has invalid port''))
      else if \<not> listen_ok (trim_space (ib_Listen ib))
      then Some (Msg (''inbound '' @ format_int (ib_ID ib) @ '' has invalid listen address''))
      else (case ports (port_key ib) of
         Some previous \<Rightarrow>
           Some (Msg (''inbound '' @ format_int (ib_ID ib) @ '' conflicts with inbound '' @ format_int previous))
       | None \<Rightarrow>
           (case validateInbound ib
                   (case profiles (ib_SecurityProfileID ib) of None \<Rightarrow> zero_profile | Some p \<Rightarrow> p)
                   (profiles (ib_SecurityProfileID ib) \<noteq> None) of
              Some e \<Rightarrow> Some (Wrapped (''inbound '' @ format_int (ib_ID ib)) e)
            | None \<Rightarrow> validate_inbounds profiles (ports(port_key ib \<mapsto> ib_ID ib)) (insert (ib_ID ib) ids) ibs)))"

definition ValidateDesiredConfig :: "DesiredConfig \<Rightarrow> go_error option" where
  "ValidateDesiredConfig config =
     (if dc_SchemaVersion config \<noteq> SchemaVersion
      then Some (Msg (''unsupported schema version '' @ format_int (dc_SchemaVersion config)))
      else if dc_Version config = 0 \<or> dc_AgentNodeID config \<le> 0
      then Some (Msg ''config version and agent node id are required'')
      else (case validate_profiles Map.empty (dc_Security config) of
         Inl e \<Rightarrow> Some e
       | Inr profiles \<Rightarrow> validate_inbounds profiles Map.empty {} (dc_Inbounds config)))"

section \<open>Secret references\<close>

definition add_ref :: "string \<Rightarrow> string list \<Rightarrow> string list" where
  "add_ref ref refs =
     (let r = trim_space ref in if r = [] then refs else if r \<in> set refs then refs else refs @ [r])"

definition profile_refs :: "SecurityProfile \<Rightarrow> string list" where
  "profile_refs p =
     (case sp_TLS p of None \<Rightarrow> [] | Some t \<Rightarrow> [tls_CertificateRef t, tls_PrivateKeyRef t])
     @ (case sp_Reality p of None \<Rightarrow> [] | Some r \<Rightarrow> [rl_PrivateKeyRef r])"

definition inbound_refs :: "Inbound \<Rightarrow> string list" where
  "inbound_refs ib =
     (case ib_SS2022 ib of None \<Rightarrow> [] | Some c \<Rightarrow> [ss_ServerKeyRef c])
     @ (case ib_Hysteria2 ib of None \<Rightarrow> [] | Some c \<Rightarrow> [hy_ObfsPasswordRef c])"

definition ReferencedSecretRefs :: "DesiredConfig \<Rightarrow> string list" where
  "ReferencedSecretRefs config =
     sort (fold add_ref
       (concat (map profile_refs (dc_Security config)) @ concat (map inbound_refs (dc_Inbounds config))) [])"

section \<open>What a well-formed configuration is\<close>

definition names_admissible :: "string list \<Rightarrow> bool" where
  "names_admissible names \<longleftrightarrow> 1 \<le> length names \<and> length names \<le> 16 \<and>
     (\<forall>n \<in> set names. parse_ip (trim_space n) \<noteq> None \<or> hostNamePattern (trim_space n))"

definition short_id_norm :: "string \<Rightarrow> string" where
  "short_id_norm x = to_lower (trim_space x)"

definition short_id_admissible :: "string \<Rightarrow> bool" where
  "short_id_admissible x \<longleftrightarrow> short_id_norm x \<noteq> [] \<and> length (short_id_norm x) \<le> 16 \<and>
     even (length (short_id_norm x)) \<and> list_all is_hex_char (short_id_norm x)"

definition reality_admissible :: "RealityProfile \<Rightarrow> bool" where
  "reality_admissible r \<longleftrightarrow> names_admissible (rl_ServerNames r) \<and>
     (\<exists>host port n. split_host_port (trim_space (rl_Destination r)) = Some (host, port) \<and> host \<noteq> [] \<and>
        atoi port = Some n \<and> 1 \<le> n \<and> n \<le> 65535 \<and>
        (\<forall>a. parse_ip (trim_chars host ''[]'') = Some a \<longrightarrow> \<not> ip_reserved a)) \<and>
     validSecretRef (rl_PrivateKeyRef r) \<and> trim_space (rl_PublicKey r) \<noteq> [] \<and>
     1 \<le> length (rl_ShortIDs r) \<and> length (rl_ShortIDs r) \<le> 8 \<and>
     (\<forall>x \<in> set (rl_ShortIDs r). short_id_admissible x) \<and>
     distinct (map short_id_norm (rl_ShortIDs r))"

definition tls_admissible :: "TLSProfile \<Rightarrow> bool" where
  "tls_admissible t \<longleftrightarrow> names_admissible (tls_ServerNames t) \<and>
     validSecretRef (tls_CertificateRef t) \<and> validSecretRef (tls_PrivateKeyRef t) \<and>
     tls_version_ok (tls_MinVersion t) \<and> tls_version_ok (tls_MaxVersion t)"

definition profile_admissible :: "SecurityProfile \<Rightarrow> bool" where
  "profile_admissible p \<longleftrightarrow>
     (sp_Type p = SecurityTLS \<and> sp_Reality p = None \<and> (\<exists>t. sp_TLS p = Some t \<and> tls_admissible t)) \<or>
     (sp_Type p = SecurityReality \<and> sp_TLS p = None \<and> (\<exists>r. sp_Reality p = Some r \<and> reality_admissible r))"

definition stream_admissible :: "Transport \<Rightarrow> bool" where
  "stream_admissible t \<longleftrightarrow>
     (tr_Type t = TransportTCP \<and> tr_Path t = [] \<and> tr_ServiceName t = []) \<or>
     (tr_Type t = TransportWebSocket \<and> has_prefix (tr_Path t) ''/'') \<or>
     (tr_Type t = TransportGRPC \<and> trim_space (tr_ServiceName t) \<noteq> [] \<and>
        CHR 0x0D \<notin> set (tr_ServiceName t) \<and> CHR 0x0A \<notin> set (tr_ServiceName t))"

text \<open>The protocols an inbound carries a payload for; an admissible one carries its own only.\<close>

definition payloads :: "Inbound \<Rightarrow> string list" where
  "payloads ib =
     (if ib_VLESS ib \<noteq> None then [ProtocolVLESS] else []) @ (if ib_VMess ib \<noteq> None then [ProtocolVMess] else [])
     @ (if ib_Trojan ib \<noteq> None then [ProtocolTrojan] else []) @ (if ib_SS2022 ib \<noteq> None then [ProtocolSS2022] else [])
     @ (if ib_TUIC ib \<noteq> None then [ProtocolTUIC] else []) @ (if ib_Hysteria2 ib \<noteq> None then [ProtocolHysteria2] else [])"

definition uses_tls :: "SecurityProfile option \<Rightarrow> bool" where
  "uses_tls prof \<longleftrightarrow> (\<exists>p. prof = Some p \<and> sp_Type p = SecurityTLS)"

definition uses_reality :: "SecurityProfile option \<Rightarrow> bool" where
  "uses_reality prof \<longleftrightarrow> (\<exists>p. prof = Some p \<and> sp_Type p = SecurityReality)"

definition vless_admissible :: "SecurityProfile option \<Rightarrow> Transport \<Rightarrow> VLESSConfig \<Rightarrow> bool" where
  "vless_admissible prof t v \<longleftrightarrow> (uses_tls prof \<or> uses_reality prof) \<and> vl_Decryption v = ''none'' \<and>
     stream_admissible t \<and> (vl_Flow v = [] \<or> vl_Flow v = ''xtls-rprx-vision'' \<and> tr_Type t = TransportTCP) \<and>
     (uses_reality prof \<longrightarrow> vl_Flow v = ''xtls-rprx-vision'')"

definition ss2022_admissible :: "SecurityProfile option \<Rightarrow> Inbound \<Rightarrow> SS2022Config \<Rightarrow> bool" where
  "ss2022_admissible prof ib c \<longleftrightarrow> prof = None \<and> ib_SecurityProfileID ib = 0 \<and>
     ss_Method c \<in> set ss2022_methods \<and> validSecretRef (ss_ServerKeyRef c) \<and>
     ss_Network c \<in> {''tcp'', ''udp'', ''tcp,udp''} \<and> tr_Type (ib_Transport ib) \<in> {[], TransportTCP}"

definition tuic_admissible :: "TUICConfig \<Rightarrow> bool" where
  "tuic_admissible c \<longleftrightarrow> tu_Version c = 5 \<and> tu_CongestionControl c \<in> {''bbr'', ''cubic'', ''new_reno''} \<and>
     tu_HeartbeatSeconds c \<in> {1..300}"

definition hop_range_admissible :: "string \<Rightarrow> bool" where
  "hop_range_admissible s \<longleftrightarrow>
     (\<exists>a b lo hi. split_on CHR ''-'' s = [a, b] \<and> atoi (trim_space a) = Some lo \<and> atoi (trim_space b) = Some hi \<and>
        1 \<le> lo \<and> lo \<le> hi \<and> hi \<le> 65535 \<and> hi \<le> lo + 1000)"

definition hysteria2_admissible :: "Hysteria2Config \<Rightarrow> bool" where
  "hysteria2_admissible c \<longleftrightarrow> 0 < hy_UpMbps c \<and> 0 < hy_DownMbps c \<and>
     (hy_Obfs c = [] \<or> hy_Obfs c = ''salamander'' \<and> validSecretRef (hy_ObfsPasswordRef c)) \<and>
     (hy_HopPorts c = [] \<or> hop_range_admissible (hy_HopPorts c) \<and> hy_HopIntervalSeconds c \<in> {5..3600})"

definition quic_over_tls :: "SecurityProfile option \<Rightarrow> Inbound \<Rightarrow> bool" where
  "quic_over_tls prof ib \<longleftrightarrow> uses_tls prof \<and> ib_Network ib = ''udp'' \<and> tr_Type (ib_Transport ib) = TransportQUIC"

definition inbound_admissible :: "SecurityProfile option \<Rightarrow> Inbound \<Rightarrow> bool" where
  "inbound_admissible prof ib \<longleftrightarrow> ib_TrafficMultiplierMilli ib \<in> {1..100000} \<and>
     payloads ib = [ib_Protocol ib] \<and>
     (\<forall>v. ib_VLESS ib = Some v \<longrightarrow> vless_admissible prof (ib_Transport ib) v) \<and>
     (ib_VMess ib \<noteq> None \<longrightarrow> (prof = None \<or> uses_tls prof) \<and> stream_admissible (ib_Transport ib)) \<and>
     (ib_Trojan ib \<noteq> None \<longrightarrow> uses_tls prof \<and> stream_admissible (ib_Transport ib)) \<and>
     (\<forall>c. ib_SS2022 ib = Some c \<longrightarrow> ss2022_admissible prof ib c) \<and>
     (\<forall>c. ib_TUIC ib = Some c \<longrightarrow> quic_over_tls prof ib \<and> tuic_admissible c) \<and>
     (\<forall>c. ib_Hysteria2 ib = Some c \<longrightarrow> quic_over_tls prof ib \<and> hysteria2_admissible c)"

definition profile_of :: "DesiredConfig \<Rightarrow> int \<Rightarrow> SecurityProfile option" where
  "profile_of c i = map_of (map (\<lambda>p. (sp_ID p, p)) (dc_Security c)) i"

definition config_well_formed :: "DesiredConfig \<Rightarrow> bool" where
  "config_well_formed c \<longleftrightarrow> dc_SchemaVersion c = SchemaVersion \<and> 0 < dc_Version c \<and> 0 < dc_AgentNodeID c \<and>
     (\<forall>p \<in> set (dc_Security c). 0 < sp_ID p \<and> profile_admissible p) \<and> distinct (map sp_ID (dc_Security c)) \<and>
     (\<forall>ib \<in> set (dc_Inbounds c). 0 < ib_ID ib \<and> ib_Port ib \<in> {1..65535} \<and> listen_ok (trim_space (ib_Listen ib)) \<and>
        inbound_admissible (profile_of c (ib_SecurityProfileID ib)) ib) \<and>
     distinct (map ib_ID (dc_Inbounds c)) \<and> distinct (map port_key (dc_Inbounds c))"

section \<open>The validator decides well-formedness\<close>

lemma validate_names_iff:
  "validate_names ns = None \<longleftrightarrow>
     (\<forall>n \<in> set ns. parse_ip (trim_space n) \<noteq> None \<or> hostNamePattern (trim_space n))"
  by (induction ns) (auto simp: Let_def)

lemma validateServerNames_iff [validate_simps]: "validateServerNames ns = None \<longleftrightarrow> names_admissible ns"
  by (auto simp: validateServerNames_def names_admissible_def validate_names_iff Suc_le_eq)

lemma validate_short_ids_iff:
  "validate_short_ids seen xs = None \<longleftrightarrow>
     (\<forall>x \<in> set xs. short_id_admissible x) \<and> distinct (map short_id_norm xs) \<and>
     (\<forall>x \<in> set xs. short_id_norm x \<notin> seen)"
proof (induction xs arbitrary: seen)
  case (Cons x xs)
  have step: "validate_short_ids seen (x # xs) = None \<longleftrightarrow> short_id_admissible x \<and> short_id_norm x \<notin> seen \<and>
      validate_short_ids (insert (short_id_norm x) seen) xs = None"
    by (auto simp: Let_def short_id_norm_def short_id_admissible_def hex_decodes_def even_iff_mod_2_eq_zero)
  show ?case unfolding step Cons.IH by (auto simp: image_iff)
qed simp

lemma validateReality_iff [validate_simps]: "validateReality r = None \<longleftrightarrow> reality_admissible r"
proof -
  have reserved: "\<not> (case v of None \<Rightarrow> False | Some a \<Rightarrow> ip_reserved a) \<longleftrightarrow>
      (\<forall>a. v = Some a \<longrightarrow> \<not> ip_reserved a)" for v
    by (cases v) simp_all
  show ?thesis
    by (auto simp: validateReality_def reality_admissible_def validate_simps validate_short_ids_iff reserved
        Suc_le_eq split: prod.splits)
qed

lemma validateSecurityProfile_iff [validate_simps]:
  "validateSecurityProfile p = None \<longleftrightarrow> profile_admissible p"
  by (auto simp: validateSecurityProfile_def profile_admissible_def tls_admissible_def validate_simps
      SecurityTLS_def SecurityReality_def)

lemma validateStreamTransport_iff [validate_simps]:
  "validateStreamTransport t = None \<longleftrightarrow> stream_admissible t"
  by (auto simp: validateStreamTransport_def stream_admissible_def contains_any_def list_ex_iff
      TransportTCP_def TransportWebSocket_def TransportGRPC_def)

lemma validatePortRange_iff [validate_simps]: "validatePortRange s = None \<longleftrightarrow> hop_range_admissible s"
  by (auto simp: validatePortRange_def hop_range_admissible_def split: list.splits option.splits)

lemma profile_default:
  "sp_Type (case prof of None \<Rightarrow> zero_profile | Some p \<Rightarrow> p) = SecurityTLS \<and> prof \<noteq> None \<longleftrightarrow> uses_tls prof"
  "sp_Type (case prof of None \<Rightarrow> zero_profile | Some p \<Rightarrow> p) = SecurityReality \<and> prof \<noteq> None \<longleftrightarrow> uses_reality prof"
  by (auto simp: uses_tls_def uses_reality_def split: option.splits)

abbreviation profile_or_zero :: "SecurityProfile option \<Rightarrow> SecurityProfile" where
  "profile_or_zero prof \<equiv> (case prof of None \<Rightarrow> zero_profile | Some p \<Rightarrow> p)"

lemma payloads_singleton [simp]:
  "payloads ib = [ProtocolVLESS] \<longleftrightarrow> ib_VLESS ib \<noteq> None \<and> ib_VMess ib = None \<and> ib_Trojan ib = None \<and>
     ib_SS2022 ib = None \<and> ib_TUIC ib = None \<and> ib_Hysteria2 ib = None"
  "payloads ib = [ProtocolVMess] \<longleftrightarrow> ib_VMess ib \<noteq> None \<and> ib_VLESS ib = None \<and> ib_Trojan ib = None \<and>
     ib_SS2022 ib = None \<and> ib_TUIC ib = None \<and> ib_Hysteria2 ib = None"
  "payloads ib = [ProtocolTrojan] \<longleftrightarrow> ib_Trojan ib \<noteq> None \<and> ib_VLESS ib = None \<and> ib_VMess ib = None \<and>
     ib_SS2022 ib = None \<and> ib_TUIC ib = None \<and> ib_Hysteria2 ib = None"
  "payloads ib = [ProtocolSS2022] \<longleftrightarrow> ib_SS2022 ib \<noteq> None \<and> ib_VLESS ib = None \<and> ib_VMess ib = None \<and>
     ib_Trojan ib = None \<and> ib_TUIC ib = None \<and> ib_Hysteria2 ib = None"
  "payloads ib = [ProtocolTUIC] \<longleftrightarrow> ib_TUIC ib \<noteq> None \<and> ib_VLESS ib = None \<and> ib_VMess ib = None \<and>
     ib_Trojan ib = None \<and> ib_SS2022 ib = None \<and> ib_Hysteria2 ib = None"
  "payloads ib = [ProtocolHysteria2] \<longleftrightarrow> ib_Hysteria2 ib \<noteq> None \<and> ib_VLESS ib = None \<and> ib_VMess ib = None \<and>
     ib_Trojan ib = None \<and> ib_SS2022 ib = None \<and> ib_TUIC ib = None"
  by (auto simp: payloads_def protocol_consts)

lemma payloads_known:
  "payloads ib = [q] \<Longrightarrow> q \<in> {ProtocolVLESS, ProtocolVMess, ProtocolTrojan, ProtocolSS2022, ProtocolTUIC, ProtocolHysteria2}"
  by (auto simp: payloads_def split: if_splits)

lemma validateVLESS_iff:
  "ib_Protocol ib = ProtocolVLESS \<Longrightarrow>
   validateVLESS ib (profile_or_zero prof) (prof \<noteq> None) = None \<longleftrightarrow>
     payloads ib = [ib_Protocol ib] \<and> (\<exists>v. ib_VLESS ib = Some v \<and> vless_admissible prof (ib_Transport ib) v)"
  by (cases prof) (auto simp: validateVLESS_def vless_admissible_def uses_tls_def uses_reality_def validate_simps
      SecurityTLS_def SecurityReality_def)

lemma validateVMess_iff:
  "ib_Protocol ib = ProtocolVMess \<Longrightarrow>
   validateVMess ib (profile_or_zero prof) (prof \<noteq> None) = None \<longleftrightarrow>
     payloads ib = [ib_Protocol ib] \<and> (prof = None \<or> uses_tls prof) \<and> stream_admissible (ib_Transport ib)"
  by (cases prof) (auto simp: validateVMess_def uses_tls_def validate_simps)

lemma validateTrojan_iff:
  "ib_Protocol ib = ProtocolTrojan \<Longrightarrow>
   validateTrojan ib (profile_or_zero prof) (prof \<noteq> None) = None \<longleftrightarrow>
     payloads ib = [ib_Protocol ib] \<and> uses_tls prof \<and> stream_admissible (ib_Transport ib)"
  by (cases prof) (auto simp: validateTrojan_def uses_tls_def validate_simps)

lemma validateSS2022_iff:
  "ib_Protocol ib = ProtocolSS2022 \<Longrightarrow>
   validateSS2022 ib (prof \<noteq> None) = None \<longleftrightarrow>
     payloads ib = [ib_Protocol ib] \<and> (\<exists>c. ib_SS2022 ib = Some c \<and> ss2022_admissible prof ib c)"
  by (cases prof) (auto simp: validateSS2022_def ss2022_admissible_def validate_simps)

lemma validateTUIC_iff:
  "ib_Protocol ib = ProtocolTUIC \<Longrightarrow>
   validateTUIC ib (profile_or_zero prof) (prof \<noteq> None) = None \<longleftrightarrow>
     payloads ib = [ib_Protocol ib] \<and> (\<exists>c. ib_TUIC ib = Some c \<and> quic_over_tls prof ib \<and> tuic_admissible c)"
  by (cases prof) (auto simp: validateTUIC_def tuic_admissible_def quic_over_tls_def uses_tls_def validate_simps not_less)

lemma validateHysteria2_payload:
  "(if hy_UpMbps c \<le> 0 \<or> hy_DownMbps c \<le> 0 then Some (Msg ''hysteria2 bandwidth is required'')
    else if hy_Obfs c \<noteq> [] \<and> hy_Obfs c \<noteq> ''salamander'' then Some (Msg ''hysteria2 obfs is invalid'')
    else if hy_Obfs c = ''salamander'' \<and> \<not> validSecretRef (hy_ObfsPasswordRef c)
    then Some (Msg ''hysteria2 salamander secret reference is required'')
    else if hy_HopPorts c \<noteq> [] then
      (case validatePortRange (hy_HopPorts c) of
         Some e \<Rightarrow> Some e
       | None \<Rightarrow>
           if hy_HopIntervalSeconds c < 5 \<or> 3600 < hy_HopIntervalSeconds c
           then Some (Msg ''hysteria2 hop interval is invalid'') else None)
    else None) = None \<longleftrightarrow> hysteria2_admissible c"
  by (cases "hy_Obfs c = []"; cases "hy_HopPorts c = []")
    (auto simp: hysteria2_admissible_def validate_simps)

lemma validateHysteria2_iff:
  "ib_Protocol ib = ProtocolHysteria2 \<Longrightarrow>
   validateHysteria2 ib (profile_or_zero prof) (prof \<noteq> None) = None \<longleftrightarrow>
     payloads ib = [ib_Protocol ib] \<and> (\<exists>c. ib_Hysteria2 ib = Some c \<and> quic_over_tls prof ib \<and> hysteria2_admissible c)"
  unfolding validateHysteria2_def require_None guard_None [of _ "Msg ''hysteria2 protocol payload is invalid''"]
    guard_None [of _ "Msg ''hysteria2 requires tls''"] guard_None [of _ "Msg ''hysteria2 requires udp/quic''"]
    validateHysteria2_payload
  by (cases prof) (auto simp: quic_over_tls_def uses_tls_def)

lemma protocols_neq [simp]:
  "ProtocolVMess \<noteq> ProtocolVLESS" "ProtocolTrojan \<noteq> ProtocolVLESS" "ProtocolTrojan \<noteq> ProtocolVMess"
  "ProtocolSS2022 \<noteq> ProtocolVLESS" "ProtocolSS2022 \<noteq> ProtocolVMess" "ProtocolSS2022 \<noteq> ProtocolTrojan"
  "ProtocolTUIC \<noteq> ProtocolVLESS" "ProtocolTUIC \<noteq> ProtocolVMess" "ProtocolTUIC \<noteq> ProtocolTrojan"
  "ProtocolTUIC \<noteq> ProtocolSS2022" "ProtocolHysteria2 \<noteq> ProtocolVLESS" "ProtocolHysteria2 \<noteq> ProtocolVMess"
  "ProtocolHysteria2 \<noteq> ProtocolTrojan" "ProtocolHysteria2 \<noteq> ProtocolSS2022" "ProtocolHysteria2 \<noteq> ProtocolTUIC"
  by (simp_all add: protocol_consts)

lemma validateInbound_iff [validate_simps]:
  "validateInbound ib (profile_or_zero prof) (prof \<noteq> None) = None \<longleftrightarrow> inbound_admissible prof ib"
proof -
  note unfold = validateInbound_def inbound_admissible_def
  consider (vless) "ib_Protocol ib = ProtocolVLESS" | (vmess) "ib_Protocol ib = ProtocolVMess"
    | (trojan) "ib_Protocol ib = ProtocolTrojan" | (ss) "ib_Protocol ib = ProtocolSS2022"
    | (tuic) "ib_Protocol ib = ProtocolTUIC" | (hy) "ib_Protocol ib = ProtocolHysteria2"
    | (other) "ib_Protocol ib \<notin> {ProtocolVLESS, ProtocolVMess, ProtocolTrojan, ProtocolSS2022, ProtocolTUIC, ProtocolHysteria2}"
    by blast
  then show ?thesis
  proof cases
    case vless
    with validateVLESS_iff [OF vless, of prof] show ?thesis by (auto simp: unfold)
  next
    case vmess
    with validateVMess_iff [OF vmess, of prof] show ?thesis by (auto simp: unfold)
  next
    case trojan
    with validateTrojan_iff [OF trojan, of prof] show ?thesis by (auto simp: unfold)
  next
    case ss
    with validateSS2022_iff [OF ss, of prof] show ?thesis by (auto simp: unfold)
  next
    case tuic
    with validateTUIC_iff [OF tuic, of prof] show ?thesis by (auto simp: unfold)
  next
    case hy
    with validateHysteria2_iff [OF hy, of prof] show ?thesis by (auto simp: unfold)
  next
    case other
    with payloads_known [of ib "ib_Protocol ib"] show ?thesis by (auto simp: unfold)
  qed
qed

lemma validate_profiles_Inr_iff:
  "validate_profiles m ps = Inr m' \<longleftrightarrow>
     (\<forall>p \<in> set ps. 0 < sp_ID p \<and> profile_admissible p \<and> m (sp_ID p) = None) \<and> distinct (map sp_ID ps) \<and>
     m' = m ++ map_of (map (\<lambda>p. (sp_ID p, p)) ps)"
proof (induction ps arbitrary: m)
  case Nil
  then show ?case by auto
next
  case (Cons p ps)
  have step: "validate_profiles m (p # ps) = Inr m' \<longleftrightarrow> 0 < sp_ID p \<and> m (sp_ID p) = None \<and> profile_admissible p \<and>
      validate_profiles (m(sp_ID p \<mapsto> p)) ps = Inr m'"
    using validateSecurityProfile_iff [of p] by (auto split: option.splits)
  show ?case
  proof (cases "sp_ID p \<in> sp_ID ` set ps")
    case True
    then show ?thesis unfolding step Cons.IH by auto
  next
    case False
    then have none: "map_of (map (\<lambda>p. (sp_ID p, p)) ps) (sp_ID p) = None"
      by (auto simp: map_of_eq_None_iff)
    have add: "m(sp_ID p \<mapsto> p) ++ map_of (map (\<lambda>p. (sp_ID p, p)) ps) =
        m ++ map_of (map (\<lambda>p. (sp_ID p, p)) (p # ps))"
      using none by (auto simp: fun_eq_iff map_add_def split: option.splits)
    define M where "M = map_of (map (\<lambda>p. (sp_ID p, p)) (p # ps))"
    show ?thesis
      unfolding step Cons.IH add M_def [symmetric] using False by (auto simp: image_iff)
  qed
qed

lemma validate_inbounds_iff:
  "validate_inbounds profiles ports ids ibs = None \<longleftrightarrow>
     (\<forall>ib \<in> set ibs. 0 < ib_ID ib \<and> ib_Port ib \<in> {1..65535} \<and> listen_ok (trim_space (ib_Listen ib)) \<and>
        inbound_admissible (profiles (ib_SecurityProfileID ib)) ib \<and> ib_ID ib \<notin> ids \<and> ports (port_key ib) = None) \<and>
     distinct (map ib_ID ibs) \<and> distinct (map port_key ibs)"
proof (induction ibs arbitrary: ports ids)
  case Nil
  then show ?case by simp
next
  case (Cons ib ibs)
  have step: "validate_inbounds profiles ports ids (ib # ibs) = None \<longleftrightarrow>
      0 < ib_ID ib \<and> ib_ID ib \<notin> ids \<and> ib_Port ib \<in> {1..65535} \<and> listen_ok (trim_space (ib_Listen ib)) \<and>
      ports (port_key ib) = None \<and> inbound_admissible (profiles (ib_SecurityProfileID ib)) ib \<and>
      validate_inbounds profiles (ports(port_key ib \<mapsto> ib_ID ib)) (insert (ib_ID ib) ids) ibs = None"
    by (auto simp: validate_simps simp del: not_None_eq)
  show ?case unfolding step Cons.IH by (auto simp: image_iff)
qed

lemma ValidateDesiredConfig_iff: "ValidateDesiredConfig c = None \<longleftrightarrow> config_well_formed c"
proof (cases "validate_profiles Map.empty (dc_Security c)")
  case (Inl e)
  then have "\<not> ((\<forall>p \<in> set (dc_Security c). 0 < sp_ID p \<and> profile_admissible p) \<and> distinct (map sp_ID (dc_Security c)))"
    using validate_profiles_Inr_iff [of Map.empty "dc_Security c"] by auto
  with Inl show ?thesis
    by (auto simp: ValidateDesiredConfig_def config_well_formed_def)
next
  case (Inr m)
  then have m: "m = profile_of c"
    and ok: "\<forall>p \<in> set (dc_Security c). 0 < sp_ID p \<and> profile_admissible p" "distinct (map sp_ID (dc_Security c))"
    by (auto simp: validate_profiles_Inr_iff profile_of_def)
  from Inr have "ValidateDesiredConfig c = None \<longleftrightarrow> dc_SchemaVersion c = SchemaVersion \<and> 0 < dc_Version c \<and>
      0 < dc_AgentNodeID c \<and> validate_inbounds m Map.empty {} (dc_Inbounds c) = None"
    by (auto simp: ValidateDesiredConfig_def)
  then show ?thesis
    using ok by (auto simp: config_well_formed_def validate_inbounds_iff m)
qed

section \<open>Facts about secret references\<close>

lemma add_ref_fold:
  assumes "distinct refs" "\<forall>r \<in> set refs. r \<noteq> []"
  shows "distinct (fold add_ref xs refs) \<and>
    set (fold add_ref xs refs) = set refs \<union> {trim_space r | r. r \<in> set xs \<and> trim_space r \<noteq> []}"
  using assms
proof (induction xs arbitrary: refs)
  case (Cons x xs)
  have "distinct (add_ref x refs)" "\<forall>r \<in> set (add_ref x refs). r \<noteq> []"
    using Cons.prems by (auto simp: add_ref_def Let_def)
  from Cons.IH [OF this] show ?case
    by (auto simp: add_ref_def Let_def split: if_splits)
qed simp

lemma ReferencedSecretRefs_spec:
  "sorted (ReferencedSecretRefs c)" "distinct (ReferencedSecretRefs c)"
  "set (ReferencedSecretRefs c) = {trim_space r | r.
     r \<in> (\<Union>p \<in> set (dc_Security c). set (profile_refs p)) \<union> (\<Union>ib \<in> set (dc_Inbounds c). set (inbound_refs ib))
     \<and> trim_space r \<noteq> []}"
  using add_ref_fold [of "[]" "concat (map profile_refs (dc_Security c)) @ concat (map inbound_refs (dc_Inbounds c))"]
  by (auto simp: ReferencedSecretRefs_def simp del: fold_append)

section \<open>Example configuration\<close>

definition example_tls :: TLSProfile where
  "example_tls = \<lparr>tls_ServerNames = [''a.io''], tls_CertificateRef = ''tls:cert:1:1'',
     tls_PrivateKeyRef = ''tls:key:1:1'', tls_MinVersion = ''1.2'', tls_MaxVersion = [], tls_ALPN = []\<rparr>"

definition example_profile :: SecurityProfile where
  "example_profile =
     \<lparr>sp_ID = 9, sp_Name = ''tls'', sp_Type = ''tls'', sp_TLS = Some example_tls, sp_Reality = None\<rparr>"

definition example_trojan :: Inbound where
  "example_trojan = \<lparr>ib_ID = 5, ib_Name = ''t'', ib_Protocol = ''trojan'', ib_Listen = ''0.0.0.0'', ib_Port = 443,
     ib_Network = ''tcp'', ib_Enabled = True,
     ib_Transport = \<lparr>tr_Type = ''tcp'', tr_Path = [], tr_Host = [], tr_ServiceName = []\<rparr>,
     ib_SecurityProfileID = 9, ib_TrafficMultiplierMilli = 1000, ib_VLESS = None, ib_VMess = None,
     ib_Trojan = Some TrojanConfig, ib_SS2022 = None, ib_TUIC = None, ib_Hysteria2 = None\<rparr>"

definition example_config :: DesiredConfig where
  "example_config = \<lparr>dc_SchemaVersion = 1, dc_Version = 7, dc_GeneratedAt = 1, dc_AgentNodeID = 3,
     dc_Inbounds = [example_trojan], dc_Security = [example_profile],
     dc_Routing = \<lparr>rc_DNSProfile = [], rc_BlockProfile = [], rc_OutboundProfile = []\<rparr>\<rparr>"

lemmas example_defs = example_config_def example_trojan_def example_profile_def example_tls_def

lemma example_profile_admissible: "profile_admissible example_profile"
proof -
  have "validSecretRef ''tls:cert:1:1''" "validSecretRef ''tls:key:1:1''" "hostNamePattern (trim_space ''a.io'')"
    by code_simp+
  then show ?thesis
    by (simp add: profile_admissible_def tls_admissible_def names_admissible_def example_defs
        SecurityTLS_def tls_version_ok_def)
qed

lemma example_trojan_admissible: "inbound_admissible (Some example_profile) example_trojan"
  by (simp add: inbound_admissible_def payloads_def example_defs uses_tls_def stream_admissible_def protocol_consts)

lemma example_config_accepted: "ValidateDesiredConfig example_config = None"
proof -
  have "listen_ok (trim_space ''0.0.0.0'')" by code_simp
  with example_profile_admissible example_trojan_admissible show ?thesis
    unfolding ValidateDesiredConfig_iff
    by (simp add: config_well_formed_def example_defs profile_of_def SchemaVersion_def)
qed

section \<open>Properties\<close>

text \<open>
  C2. ValidateDesiredConfig returns a nil error exactly for the well-formed configurations:
  supported schema, positive version and node id, positive and pairwise distinct profile and
  inbound ids, admissible TLS or REALITY profiles, ports in range, parsable listen addresses,
  pairwise distinct network/listen/port keys, and for every inbound exactly the payload of its
  own protocol with that protocol's transport, security and field constraints.
\<close>

theorem validator_decides_well_formedness:
  "ValidateDesiredConfig c = None \<longleftrightarrow> config_well_formed c"
  by (rule ValidateDesiredConfig_iff)

text \<open>
  The conflict check is exact: for inbounds with parsable listen addresses the joined
  string key that ValidateDesiredConfig compares is equal for two inbounds exactly when they
  have the same lower-cased network, trimmed listen address and port.
\<close>

lemma listen_ok_no_bar: "listen_ok l \<Longrightarrow> CHR ''|'' \<notin> set l"
  by (auto simp: listen_ok_def dest: parse_ip_no_bar)

lemma format_int_no_bar: "CHR ''|'' \<notin> set (format_int i)"
  using bar_not_digit by (auto dest!: format_int_chars)

lemma port_key_identifies_endpoint:
  assumes "listen_ok (trim_space (ib_Listen a))" and "listen_ok (trim_space (ib_Listen b))"
  shows "port_key a = port_key b \<longleftrightarrow>
    to_lower (ib_Network a) = to_lower (ib_Network b) \<and>
    trim_space (ib_Listen a) = trim_space (ib_Listen b) \<and> ib_Port a = ib_Port b"
proof -
  have "port_key a = port_key b \<longleftrightarrow>
      to_lower (ib_Network a) @ CHR ''|'' # trim_space (ib_Listen a) =
      to_lower (ib_Network b) @ CHR ''|'' # trim_space (ib_Listen b) \<and> format_int (ib_Port a) = format_int (ib_Port b)"
    using last_separator_unique [OF format_int_no_bar format_int_no_bar,
        of "to_lower (ib_Network a) @ CHR ''|'' # trim_space (ib_Listen a)" "ib_Port a"
           "to_lower (ib_Network b) @ CHR ''|'' # trim_space (ib_Listen b)" "ib_Port b"]
    by (simp add: port_key_def)
  also have "\<dots> \<longleftrightarrow> to_lower (ib_Network a) = to_lower (ib_Network b) \<and>
      trim_space (ib_Listen a) = trim_space (ib_Listen b) \<and> ib_Port a = ib_Port b"
    using last_separator_unique [OF listen_ok_no_bar [OF assms(1)] listen_ok_no_bar [OF assms(2)]] by simp
  finally show ?thesis .
qed

lemma port_key_identifies_endpoint_witness:
  "listen_ok (trim_space (ib_Listen example_trojan)) \<and>
   port_key example_trojan \<noteq> port_key (example_trojan\<lparr>ib_Port := 8443\<rparr>)"
proof -
  have l: "listen_ok (trim_space ''0.0.0.0'')" by code_simp
  show ?thesis
    using port_key_identifies_endpoint [of example_trojan "example_trojan\<lparr>ib_Port := 8443\<rparr>"] l
    by (simp add: example_trojan_def)
qed

text \<open>
  In an accepted configuration in which no Hysteria2 inbound names an obfuscation password
  without salamander obfuscation, ReferencedSecretRefs returns a sorted list without duplicates
  of references that all match the pattern of the secret store, so that none of them is refused
  for its form when the stored state is checked.
\<close>

definition no_stray_obfs_ref :: "Inbound \<Rightarrow> bool" where
  "no_stray_obfs_ref ib =
     (case ib_Hysteria2 ib of None \<Rightarrow> True
      | Some c \<Rightarrow> hy_Obfs c = ''salamander'' \<or> trim_space (hy_ObfsPasswordRef c) = [])"

lemma admissible_profile_refs:
  "profile_admissible p \<Longrightarrow> r \<in> set (profile_refs p) \<Longrightarrow> validSecretRef r"
  by (auto simp: profile_admissible_def tls_admissible_def reality_admissible_def profile_refs_def)

lemma admissible_inbound_refs:
  "inbound_admissible prof ib \<Longrightarrow> no_stray_obfs_ref ib \<Longrightarrow> r \<in> set (inbound_refs ib) \<Longrightarrow> trim_space r \<noteq> [] \<Longrightarrow>
     validSecretRef r"
  by (auto simp: inbound_admissible_def ss2022_admissible_def hysteria2_admissible_def inbound_refs_def
      no_stray_obfs_ref_def split: option.splits)

lemma accepted_refs_match_pattern:
  assumes "ValidateDesiredConfig c = None" and "list_all no_stray_obfs_ref (dc_Inbounds c)"
  shows "sorted (ReferencedSecretRefs c) \<and> distinct (ReferencedSecretRefs c) \<and>
    list_all secretRefPattern (ReferencedSecretRefs c)"
proof -
  from assms(1) have wf: "config_well_formed c" by (simp add: ValidateDesiredConfig_iff)
  have "secretRefPattern x" if "x \<in> set (ReferencedSecretRefs c)" for x
  proof -
    from that obtain r where x: "x = trim_space r" and ne: "trim_space r \<noteq> []"
      and r: "r \<in> (\<Union>p \<in> set (dc_Security c). set (profile_refs p)) \<union> (\<Union>ib \<in> set (dc_Inbounds c). set (inbound_refs ib))"
      by (auto simp: ReferencedSecretRefs_spec)
    have "validSecretRef r"
      using r wf assms(2) ne
      by (auto simp: config_well_formed_def list_all_iff intro: admissible_profile_refs admissible_inbound_refs)
    with x show ?thesis by (simp add: validSecretRef_def)
  qed
  then show ?thesis by (simp add: ReferencedSecretRefs_spec list_all_iff)
qed

lemma accepted_refs_match_pattern_witness:
  "ReferencedSecretRefs example_config = [''tls:cert:1:1'', ''tls:key:1:1''] \<and>
   list_all secretRefPattern (ReferencedSecretRefs example_config)"
proof -
  have "list_all no_stray_obfs_ref (dc_Inbounds example_config)"
    by (simp add: example_defs no_stray_obfs_ref_def)
  moreover have "ReferencedSecretRefs example_config = [''tls:cert:1:1'', ''tls:key:1:1'']"
    by code_simp
  ultimately show ?thesis
    using accepted_refs_match_pattern [OF example_config_accepted] by simp
qed

end
