(* ===== verification/Wire.thy ===== *)
theory Wire
  imports Complex_Main Protocol "HOL-Library.Product_Lexorder"
begin

text \<open>
  The messages of the control channel: internal/protocol/wire.go. The standard library's
  cryptography and its JSON encoder are arguments of the definitions that call them: a record
  of primitives (\<open>Crypto\<close>) and one encoding function per message type. What the code
  relies on is stated as named predicates on these arguments (\<open>signature_scheme\<close>,
  \<open>aead_correct\<close>, \<open>aead_authentic\<close>). uint64 fields are natural numbers and int64 fields
  integers; where the code adds such numbers the width is written out.
\<close>

section \<open>Primitives the code calls\<close>

record Crypto =
  cr_sha256 :: "string \<Rightarrow> string"
  cr_sign :: "string \<Rightarrow> string \<Rightarrow> string"
  cr_verify :: "string \<Rightarrow> string \<Rightarrow> string \<Rightarrow> bool"
  cr_seal :: "string \<Rightarrow> string \<Rightarrow> string \<Rightarrow> string \<Rightarrow> string"
  cr_open :: "string \<Rightarrow> string \<Rightarrow> string \<Rightarrow> string \<Rightarrow> string option"

text \<open>
  ed25519.Sign and ed25519.Verify for a key pair; cipher.AEAD's Seal and Open: opening what was
  sealed under the same key, nonce and additional data gives the plaintext, and opening it with
  other additional data fails.
\<close>

definition signature_scheme :: "Crypto \<Rightarrow> string \<Rightarrow> string \<Rightarrow> bool" where
  "signature_scheme cr sk pk \<longleftrightarrow> (\<forall>m. cr_verify cr pk m (cr_sign cr sk m))"

definition aead_correct :: "Crypto \<Rightarrow> bool" where
  "aead_correct cr \<longleftrightarrow> (\<forall>k n p a. cr_open cr k n (cr_seal cr k n p a) a = Some p)"

definition aead_authentic :: "Crypto \<Rightarrow> bool" where
  "aead_authentic cr \<longleftrightarrow>
     (\<forall>k n p a k' n' a' p'. cr_open cr k' n' (cr_seal cr k n p a) a' = Some p' \<longrightarrow> a' = a \<and> p' = p)"

definition nonce_size :: nat where
  "nonce_size = 12"

definition hex_digest :: "Crypto \<Rightarrow> string \<Rightarrow> string" where
  "hex_digest cr payload = hex_encode (cr_sha256 cr payload)"

lemma aead_correctD: "aead_correct cr \<Longrightarrow> cr_open cr k n (cr_seal cr k n p a) a = Some p"
  by (simp add: aead_correct_def)

section \<open>Messages\<close>

definition ProtocolVersion :: int where "ProtocolVersion = 1"
definition TypeHello :: string where "TypeHello = ''hello''"
definition TypeHelloAck :: string where "TypeHelloAck = ''hello_ack''"
definition TypeDesiredConfig :: string where "TypeDesiredConfig = ''desired_config''"
definition TypeConfigResult :: string where "TypeConfigResult = ''config_result''"
definition TypeHeartbeat :: string where "TypeHeartbeat = ''heartbeat''"
definition TypeHeartbeatAck :: string where "TypeHeartbeatAck = ''heartbeat_ack''"
definition TypeUserSnapshot :: string where "TypeUserSnapshot = ''user_snapshot''"
definition TypeUserDisconnect :: string where "TypeUserDisconnect = ''user_disconnect''"
definition TypeUserResult :: string where "TypeUserResult = ''user_result''"
definition TypeTrafficBatch :: string where "TypeTrafficBatch = ''traffic_batch''"
definition TypeTrafficAck :: string where "TypeTrafficAck = ''traffic_ack''"
definition TypeAccessBatch :: string where "TypeAccessBatch = ''access_batch''"
definition TypeAccessAck :: string where "TypeAccessAck = ''access_ack''"
definition TypeOnlineSnapshot :: string where "TypeOnlineSnapshot = ''online_snapshot''"
definition TypeError :: string where "TypeError = ''error''"

record Envelope =
  en_ID :: string
  en_ReplyTo :: string
  en_Type :: string
  en_SentAt :: int
  en_Payload :: string

record Hello =
  he_ProtocolVersion :: int
  he_MachineID :: string
  he_BootID :: string
  he_AgentVersion :: string
  he_AppliedConfigVersion :: nat
  he_AppliedConfigHash :: string
  he_AppliedUserRevision :: nat

record HelloAck =
  ha_ProtocolVersion :: int
  ha_SessionID :: string
  ha_ServerTime :: int
  ha_HeartbeatIntervalSec :: int
  ha_DesiredConfigVersion :: nat
  ha_DesiredUserRevision :: nat

text \<open>
  The two percentages are float64 values; they are rational numbers here, so the rounding of
  the division is left out.
\<close>

record SystemMetrics =
  sm_SampledAt :: int
  sm_CPUPercent :: rat
  sm_MemoryPercent :: rat
  sm_MemoryUsedBytes :: nat
  sm_MemoryTotalBytes :: nat
  sm_NetworkReceiveBPS :: nat
  sm_NetworkTransmitBPS :: nat
  sm_UptimeSeconds :: nat

record Heartbeat =
  hb_SessionID :: string
  hb_AppliedConfigVersion :: nat
  hb_AppliedConfigHash :: string
  hb_AppliedUserRevision :: nat
  hb_WALPendingBatches :: nat
  hb_WALPendingBytes :: nat
  hb_XrayRunning :: bool
  hb_XrayVersion :: string
  hb_SystemMetrics :: "SystemMetrics option"

record ConfigResult =
  cf_Version :: nat
  cf_SHA256 :: string
  cf_Status :: string
  cf_ErrorCode :: string
  cf_ErrorMessage :: string

record UserCredential =
  uc_SubscriberID :: int
  uc_InboundID :: int
  uc_Kind :: string
  uc_Value :: string
  uc_ExpiresAt :: int
  uc_SpeedLimitBPS :: nat
  uc_DeviceLimit :: nat
  uc_QuotaGeneration :: nat

record UserSnapshot =
  us_Revision :: nat
  us_Users :: "UserCredential list"

record UserDisconnect =
  ud_SubscriberIDs :: "int list"

record UserResult =
  ur_Revision :: nat
  ur_Status :: string
  ur_ErrorCode :: string
  ur_ErrorMessage :: string

record TrafficItem =
  ti_SubscriberID :: int
  ti_InboundID :: int
  ti_QuotaGeneration :: nat
  ti_UploadBytes :: nat
  ti_DownloadBytes :: nat

record TrafficBatch =
  tb_BootID :: string
  tb_Sequence :: nat
  tb_ConfigVersion :: nat
  tb_IntervalStartedAt :: int
  tb_IntervalEndedAt :: int
  tb_PayloadSHA256 :: string
  tb_Items :: "TrafficItem list"

record TrafficAck =
  ta_BootID :: string
  ta_Sequence :: nat
  ta_PayloadSHA256 :: string
  ta_Status :: string

record AccessItem =
  ai_SessionKey :: string
  ai_SubscriberID :: int
  ai_InboundID :: int
  ai_Host :: string
  ai_Network :: string
  ai_Protocol :: string
  ai_DestinationPort :: nat
  ai_StartedAt :: int
  ai_LastSeenAt :: int
  ai_EndedAt :: "int option"
  ai_UploadBytes :: nat
  ai_DownloadBytes :: nat
  ai_ConnectionCount :: nat
  ai_Active :: bool

record AccessBatch =
  ab_BootID :: string
  ab_Sequence :: nat
  ab_ConfigVersion :: nat
  ab_IntervalStartedAt :: int
  ab_IntervalEndedAt :: int
  ab_PayloadSHA256 :: string
  ab_Items :: "AccessItem list"

record AccessAck =
  aa_BootID :: string
  aa_Sequence :: nat
  aa_PayloadSHA256 :: string
  aa_Status :: string

record OnlineUser =
  ou_SubscriberID :: int
  ou_InboundID :: int
  ou_Addresses :: "string list"

record OnlineSnapshot =
  os_CapturedAt :: int
  os_Users :: "OnlineUser list"

record ErrorMessage =
  er_Code :: string
  er_Message :: string

section \<open>Payload digests\<close>

text \<open>
  sort.Slice is not stable, so for items with equal keys the order is that of the runtime's
  algorithm; \<^const>\<open>sort_key\<close> keeps the given order there. The batches the store builds have
  one item per key.
\<close>

definition traffic_item_key :: "TrafficItem \<Rightarrow> int \<times> int \<times> nat" where
  "traffic_item_key i = (ti_SubscriberID i, ti_InboundID i, ti_QuotaGeneration i)"

definition canonical_traffic_batch :: "TrafficBatch \<Rightarrow> TrafficBatch" where
  "canonical_traffic_batch batch =
     batch\<lparr>tb_PayloadSHA256 := [], tb_Items := sort_key traffic_item_key (tb_Items batch)\<rparr>"

definition TrafficPayloadSHA256 ::
  "Crypto \<Rightarrow> (TrafficBatch \<Rightarrow> string result) \<Rightarrow> TrafficBatch \<Rightarrow> string result" where
  "TrafficPayloadSHA256 cr marshal batch =
     (case marshal (canonical_traffic_batch batch) of
        Inl e \<Rightarrow> Inl e
      | Inr raw \<Rightarrow> Inr (hex_digest cr raw))"

definition canonical_access_batch :: "AccessBatch \<Rightarrow> AccessBatch" where
  "canonical_access_batch batch =
     batch\<lparr>ab_PayloadSHA256 := [], ab_Items := sort_key ai_SessionKey (ab_Items batch)\<rparr>"

definition AccessPayloadSHA256 ::
  "Crypto \<Rightarrow> (AccessBatch \<Rightarrow> string result) \<Rightarrow> AccessBatch \<Rightarrow> string result" where
  "AccessPayloadSHA256 cr marshal batch =
     (case marshal (canonical_access_batch batch) of
        Inl e \<Rightarrow> Inl e
      | Inr raw \<Rightarrow> Inr (hex_digest cr raw))"

section \<open>Envelopes\<close>

text \<open>
  A JSON decoder reads one value from the front of its input and leaves the rest; a second
  Decode returns io.EOF exactly when only white space is left.
\<close>

type_synonym 'a json_decoder = "string \<Rightarrow> ('a \<times> string) result"

definition json_blank :: "string \<Rightarrow> bool" where
  "json_blank s \<longleftrightarrow> list_all (\<lambda>c. c \<in> {CHR 0x20, CHR 0x09, CHR 0x0A, CHR 0x0D}) s"

definition decodeStrict :: "'a json_decoder \<Rightarrow> string \<Rightarrow> 'a result" where
  "decodeStrict decode raw =
     (case decode raw of
        Inl e \<Rightarrow> Inl e
      | Inr (v, rest) \<Rightarrow>
          if json_blank rest then Inr v else Inl (Msg ''multiple JSON values are not allowed''))"

definition NewEnvelope ::
  "('p \<Rightarrow> string result) \<Rightarrow> string \<Rightarrow> string \<Rightarrow> 'p \<Rightarrow> int \<Rightarrow> Envelope result" where
  "NewEnvelope marshal ident messageType payload now =
     (if ident = [] \<or> messageType = [] then Inl (Msg ''message id and type are required'')
      else case marshal payload of
             Inl e \<Rightarrow> Inl e
           | Inr raw \<Rightarrow> Inr \<lparr>en_ID = ident, en_ReplyTo = [], en_Type = messageType,
                            en_SentAt = now, en_Payload = raw\<rparr>)"

definition DecodeEnvelope :: "Envelope json_decoder \<Rightarrow> string \<Rightarrow> Envelope result" where
  "DecodeEnvelope decode raw =
     (case decodeStrict decode raw of
        Inl e \<Rightarrow> Inl e
      | Inr envelope \<Rightarrow>
          if en_ID envelope = [] \<or> en_Type envelope = [] \<or> en_SentAt envelope = 0 \<or> en_Payload envelope = []
          then Inl (Msg ''message envelope is incomplete'')
          else Inr envelope)"

definition DecodePayload :: "'a json_decoder \<Rightarrow> Envelope \<Rightarrow> 'a result" where
  "DecodePayload decode envelope =
     (case decodeStrict decode (en_Payload envelope) of
        Inl e \<Rightarrow> Inl (Wrapped (''decode '' @ en_Type envelope @ '' payload'') e)
      | Inr v \<Rightarrow> Inr v)"

text \<open>A decoder reads back what the encoder wrote, and stops there.\<close>

definition json_codec :: "('a \<Rightarrow> string result) \<Rightarrow> 'a json_decoder \<Rightarrow> bool" where
  "json_codec marshal decode \<longleftrightarrow>
     (\<forall>v raw rest. marshal v = Inr raw \<and> json_blank rest \<longrightarrow> decode (raw @ rest) = Inr (v, rest))"

lemma json_codecD: "json_codec marshal decode \<Longrightarrow> marshal v = Inr raw \<Longrightarrow> decode raw = Inr (v, [])"
  unfolding json_codec_def by (drule spec [of _ v], drule spec [of _ raw], drule spec [of _ "[]"]) (simp add: json_blank_def)

lemma decodeStrict_codec [simp]:
  "json_codec marshal decode \<Longrightarrow> marshal v = Inr raw \<Longrightarrow> decodeStrict decode raw = Inr v"
  by (simp add: decodeStrict_def json_codecD json_blank_def)

section \<open>Lemmas\<close>

lemma canonical_traffic_batch_idem [simp]:
  "canonical_traffic_batch (canonical_traffic_batch b) = canonical_traffic_batch b"
  by (simp add: canonical_traffic_batch_def sort_key_id_if_sorted)

lemma distinct_map_sort_key [simp]: "distinct (map f (sort_key g xs)) \<longleftrightarrow> distinct (map f xs)"
  by (rule mset_eq_imp_distinct_iff) simp

lemma filter_key_distinct: "distinct (map f zs) \<Longrightarrow> k \<in> set zs \<Longrightarrow> filter (\<lambda>x. f k = f x) zs = [k]"
  by (induction zs) (auto simp: filter_empty_conv image_iff)

lemma distinct_keys_sort_eq:
  assumes "mset xs = mset ys" and "distinct (map f xs)"
  shows "sort_key f xs = sort_key f ys"
proof (rule properties_for_sort_key [symmetric])
  show "mset (sort_key f xs) = mset ys" using assms by simp
  show "sorted (map f (sort_key f xs))" by simp
  fix k assume k: "k \<in> set (sort_key f xs)"
  have d: "distinct (map f (sort_key f xs))" and dy: "distinct (map f ys)"
    using assms by (simp, metis mset_map mset_eq_imp_distinct_iff)
  have "k \<in> set ys" using k assms(1) by (metis set_mset_mset set_sort)
  with k d dy show "filter (\<lambda>x. f k = f x) (sort_key f xs) = filter (\<lambda>x. f k = f x) ys"
    by (simp add: filter_key_distinct)
qed

end
