(* ===== verification/Sql.thy ===== *)
theory Sql
  imports Wire
begin

text \<open>
  The substrate of the durable store: database/sql transactions over SQLite as the stores of
  internal/state use them, and the tables of the schema in store.go. A statement runs against
  the database and a list of faults: one entry per statement, an error the driver reports
  instead of running it; when the list is used up, statements run. A transaction works on a
  copy of the database, which replaces it when the commit succeeds and is dropped on every
  other path (the deferred Rollback).

  A TEXT column that holds an instant in the RFC3339Nano layout is modelled by the instant, for
  the years 1 to 9999, where formatting and parsing are inverse; SQL comparisons of such
  columns compare the texts, see \<open>text_key\<close>.
\<close>

section \<open>Statements and transactions\<close>

type_synonym faults = "go_error option list"

type_synonym ('db, 'a) tx = "faults \<times> 'db \<Rightarrow> 'a result \<times> faults \<times> 'db"

definition next_fault :: "faults \<Rightarrow> go_error option" where
  "next_fault fs = (case fs of [] \<Rightarrow> None | f # _ \<Rightarrow> f)"

definition stmt :: "('db \<Rightarrow> ('a \<times> 'db) result) \<Rightarrow> ('db, 'a) tx" where
  "stmt f c =
     (case next_fault (fst c) of
        Some e \<Rightarrow> (Inl e, tl (fst c), snd c)
      | None \<Rightarrow>
          (case f (snd c) of
             Inl e \<Rightarrow> (Inl e, tl (fst c), snd c)
           | Inr (x, db') \<Rightarrow> (Inr x, tl (fst c), db')))"

definition tx_return :: "'a \<Rightarrow> ('db, 'a) tx" where
  "tx_return x c = (Inr x, c)"

definition tx_lift :: "'a result \<Rightarrow> ('db, 'a) tx" where
  "tx_lift r c = (r, c)"

definition tx_bind :: "('db, 'a) tx \<Rightarrow> ('a \<Rightarrow> ('db, 'b) tx) \<Rightarrow> ('db, 'b) tx" where
  "tx_bind m k c = (case m c of (Inl e, c') \<Rightarrow> (Inl e, c') | (Inr x, c') \<Rightarrow> k x c')"

text \<open>A statement whose error the code ignores\<close>

definition tx_ignore :: "('db, 'a) tx \<Rightarrow> ('db, unit) tx" where
  "tx_ignore m c = (case m c of (_, c') \<Rightarrow> (Inr (), c'))"

fun tx_iter :: "('x \<Rightarrow> ('db, unit) tx) \<Rightarrow> 'x list \<Rightarrow> ('db, unit) tx" where
  "tx_iter f [] = tx_return ()"
| "tx_iter f (x # xs) = tx_bind (f x) (\<lambda>_. tx_iter f xs)"

text \<open>BeginTx, the body, Commit; Rollback on every error\<close>

definition transact :: "('db, 'a) tx \<Rightarrow> ('db, 'a) tx" where
  "transact body c =
     (case c of (fs, db) \<Rightarrow>
        (case stmt (\<lambda>d. Inr ((), d)) (fs, db) of
           (Inl e, fs1, _) \<Rightarrow> (Inl e, fs1, db)
         | (Inr _, fs1, _) \<Rightarrow>
             (case body (fs1, db) of
                (Inl e, fs2, _) \<Rightarrow> (Inl e, fs2, db)
              | (Inr x, fs2, db2) \<Rightarrow>
                  (case stmt (\<lambda>d. Inr (x, d)) (fs2, db2) of
                     (Inl e, fs3, _) \<Rightarrow> (Inl e, fs3, db)
                   | (Inr y, fs3, db3) \<Rightarrow> (Inr y, fs3, db3)))))"

text \<open>
  Steps on memory, which cannot fail; a step whose error the code looks at itself, where only
  a panic goes on up; a step on one component of a larger state.
\<close>

definition tx_get :: "('s \<Rightarrow> 'x) \<Rightarrow> ('s, 'x) tx" where
  "tx_get g c = (Inr (g (snd c)), c)"

definition tx_modify :: "('s \<Rightarrow> 's) \<Rightarrow> ('s, unit) tx" where
  "tx_modify g c = (Inr (), fst c, g (snd c))"

definition tx_attempt :: "('s, 'x) tx \<Rightarrow> ('s, 'x result) tx" where
  "tx_attempt m c = (case m c of (Inl (ErrPanic p), c') \<Rightarrow> (Inl (ErrPanic p), c') | (r, c') \<Rightarrow> (Inr r, c'))"

definition tx_zoom :: "('s \<Rightarrow> 'a) \<Rightarrow> (('a \<Rightarrow> 'a) \<Rightarrow> 's \<Rightarrow> 's) \<Rightarrow> ('a, 'x) tx \<Rightarrow> ('s, 'x) tx" where
  "tx_zoom get upd m c = (case m (fst c, get (snd c)) of (r, fs', a) \<Rightarrow> (r, fs', upd (\<lambda>_. a) (snd c)))"

text \<open>\<open>tx_ok m db x db'\<close>: under some faults, m returns x and leaves db'.\<close>

definition tx_ok :: "('db, 'a) tx \<Rightarrow> 'db \<Rightarrow> 'a \<Rightarrow> 'db \<Rightarrow> bool" where
  "tx_ok m db x db' \<longleftrightarrow> (\<exists>fs fs'. m (fs, db) = (Inr x, fs', db'))"

lemma tx_okI: "m (fs, db) = (Inr x, fs', db') \<Longrightarrow> tx_ok m db x db'"
  by (auto simp: tx_ok_def)

lemma stmt_Inr_iff:
  "stmt f (fs, db) = (Inr x, fs', db') \<longleftrightarrow> next_fault fs = None \<and> f db = Inr (x, db') \<and> fs' = tl fs"
  by (auto simp: stmt_def split: option.splits sum.splits prod.splits)

lemma next_fault_Nil [simp]: "next_fault [] = None"
  by (simp add: next_fault_def)

lemma tx_ok_stmt [store_simps]: "tx_ok (stmt f) db x db' \<longleftrightarrow> f db = Inr (x, db')"
  unfolding tx_ok_def stmt_Inr_iff by (metis next_fault_Nil)

lemma tx_ok_return [store_simps]: "tx_ok (tx_return y) db x db' \<longleftrightarrow> x = y \<and> db' = db"
  by (auto simp: tx_ok_def tx_return_def)

lemma tx_ok_lift [store_simps]: "tx_ok (tx_lift r) db x db' \<longleftrightarrow> r = Inr x \<and> db' = db"
  by (auto simp: tx_ok_def tx_lift_def)

lemma tx_ok_bindE:
  assumes "tx_ok (tx_bind m k) db y db''"
  obtains x db' where "tx_ok m db x db'" "tx_ok (k x) db' y db''"
proof -
  from assms obtain fs fs' where b: "tx_bind m k (fs, db) = (Inr y, fs', db'')" by (auto simp: tx_ok_def)
  obtain r fs1 db1 where m: "m (fs, db) = (r, fs1, db1)" by (metis prod.exhaust)
  with b obtain x where "r = Inr x" "k x (fs1, db1) = (Inr y, fs', db'')"
    by (cases r) (auto simp: tx_bind_def)
  with m that show thesis by (blast intro: tx_okI)
qed

lemma tx_ok_ignoreE:
  assumes "tx_ok (tx_ignore (stmt f)) db y db'"
  obtains "db' = db" | x where "f db = Inr (x, db')"
  using assms
  by (auto simp: tx_ok_def tx_ignore_def stmt_def split: option.splits sum.splits prod.splits)

lemma transact_Inr_iff:
  "transact body (fs, db) = (Inr x, fs', db') \<longleftrightarrow>
     next_fault fs = None \<and> (\<exists>fs2. body (tl fs, db) = (Inr x, fs2, db') \<and> next_fault fs2 = None \<and> fs' = tl fs2)"
  by (auto simp: transact_def stmt_def split: prod.splits option.splits sum.splits)

lemma tx_ok_transactD: "tx_ok (transact body) db x db' \<Longrightarrow> tx_ok body db x db'"
  unfolding tx_ok_def transact_Inr_iff by blast

lemma transact_rollback: "transact body (fs, db) = (Inl e, fs', db') \<Longrightarrow> db' = db"
  by (auto simp: transact_def stmt_def split: prod.splits sum.splits option.splits)

lemma tx_run_no_faults [simp]:
  "stmt f ([], db) = (case f db of Inl e \<Rightarrow> (Inl e, [], db) | Inr (x, db') \<Rightarrow> (Inr x, [], db'))"
  "tx_return x ([], db) = (Inr x, [], db)"
  "tx_lift r ([], db) = (r, [], db)"
  by (auto simp: stmt_def tx_return_def tx_lift_def split: sum.splits)

lemma tx_bind_no_faults:
  "m c = (Inr x, c') \<Longrightarrow> tx_bind m k c = k x c'"
  "m c = (Inl e, c') \<Longrightarrow> tx_bind m k c = (Inl e, c')"
  by (simp_all add: tx_bind_def)

lemma transact_no_faults:
  "body ([], db) = (Inr x, [], db') \<Longrightarrow> transact body ([], db) = (Inr x, [], db')"
  "body ([], db) = (Inl e, [], db') \<Longrightarrow> transact body ([], db) = (Inl e, [], db)"
  by (simp_all add: transact_def)

lemma tx_ok_iter_inv:
  assumes "tx_ok (tx_iter f xs) db u db'" and "P db"
    and "\<And>x d v d'. x \<in> set xs \<Longrightarrow> P d \<Longrightarrow> tx_ok (f x) d v d' \<Longrightarrow> P d'"
  shows "P db'"
  using assms
proof (induction xs arbitrary: db)
  case Nil
  then show ?case by (simp add: tx_ok_return)
next
  case (Cons x xs)
  from Cons.prems(1) obtain v d where s: "tx_ok (f x) db v d" and r: "tx_ok (tx_iter f xs) d u db'"
    by (auto elim: tx_ok_bindE)
  from Cons.prems(2,3) s have "P d" by (meson list.set_intros(1))
  with Cons.IH [OF r] Cons.prems(3) show ?case by (meson list.set_intros(2))
qed

section \<open>Values\<close>

text \<open>database/sql refuses a uint64 argument with its high bit set.\<close>

definition max_int64 :: nat where "max_int64 = 2 ^ 63 - 1"

definition sql_uint :: "nat \<Rightarrow> unit result" where
  "sql_uint n = (if n \<le> max_int64 then Inr () else Inl (Msg ''uint64 values with high bit set are not supported''))"

text \<open>
  Scanning an INTEGER column into a uint64. SQLite turns an integer sum that overflows 64 bits
  into a REAL, whose text form strconv.ParseUint refuses; the columns here hold sums of
  non-negative numbers, so a sum is a REAL exactly when it exceeds the largest int64.
\<close>

definition scan_uint :: "int \<Rightarrow> nat result" where
  "scan_uint i =
     (if 0 \<le> i \<and> i \<le> int max_int64 then Inr (nat i)
      else Inl (Msg ''sql: Scan error: converting driver.Value type to a uint64''))"

text \<open>strconv.ParseUint(s, 10, 64) with the error ignored: 0 for a syntax error, the largest
  uint64 for a value out of range\<close>

fun parse_uint_from :: "nat \<Rightarrow> string \<Rightarrow> nat" where
  "parse_uint_from n [] = n"
| "parse_uint_from n (c # s) =
     (case digit_value c of
        None \<Rightarrow> 0
      | Some d \<Rightarrow> if 10 * n + d \<ge> 2 ^ 64 then 2 ^ 64 - 1 else parse_uint_from (10 * n + d) s)"

definition parse_uint_ignore :: "string \<Rightarrow> nat" where
  "parse_uint_ignore s = parse_uint_from 0 s"

text \<open>CAST(text AS INTEGER): an optional sign and the longest run of digits, clamped to int64\<close>

definition digits_value :: "string \<Rightarrow> nat" where
  "digits_value s = (case parse_digits (takeWhile is_digit_char s) of None \<Rightarrow> 0 | Some n \<Rightarrow> n)"

definition cast_integer :: "string \<Rightarrow> int" where
  "cast_integer s =
     (if has_prefix s ''-'' then - min (int (digits_value (drop 1 s))) (2 ^ 63)
      else int (min (digits_value (if has_prefix s ''+'' then drop 1 s else s)) max_int64))"

lemma parse_digits_from_ge: "parse_digits_from acc s = Some m \<Longrightarrow> acc \<le> m"
  by (induction s arbitrary: acc) (fastforce split: option.splits)+

lemma parse_uint_from_eq: "parse_digits_from n s = Some m \<Longrightarrow> m < 2 ^ 64 \<Longrightarrow> parse_uint_from n s = m"
proof (induction s arbitrary: n)
  case Nil
  then show ?case by simp
next
  case (Cons c s)
  from Cons.prems(1) obtain d where d: "digit_value c = Some d" and p: "parse_digits_from (10 * n + d) s = Some m"
    by (auto split: option.splits)
  from parse_digits_from_ge [OF p] Cons.prems(2) have "\<not> 10 * n + d \<ge> 2 ^ 64" by linarith
  with d Cons.IH [OF p Cons.prems(2)] show ?case by (simp del: power_numeral)
qed

lemma parse_uint_ignore_format [simp]: "n < 2 ^ 64 \<Longrightarrow> parse_uint_ignore (format_uint n) = n"
  unfolding parse_uint_ignore_def by (rule parse_uint_from_eq [OF parse_digits_from_format_uint])

lemma digits_value_format [simp]: "digits_value (format_uint n) = n"
proof -
  have "takeWhile is_digit_char (format_uint n) = format_uint n"
    by (simp add: takeWhile_eq_all_conv format_uint_digits)
  then show ?thesis by (simp only: digits_value_def parse_digits_format_uint option.case)
qed

lemma format_uint_no_sign: "\<not> has_prefix (format_uint n) ''-''" "\<not> has_prefix (format_uint n) ''+''"
proof -
  have "\<not> is_digit_char CHR ''-''" "\<not> is_digit_char CHR ''+''"
    by (simp_all add: is_digit_char_def byte_of_def)
  then show "\<not> has_prefix (format_uint n) ''-''" "\<not> has_prefix (format_uint n) ''+''"
    using format_uint_hd_digit [of n]
    by (metis format_uint_not_Nil has_prefix_def hd_take length_Cons list.sel(1) list.size(3) zero_less_Suc)+
qed

lemma cast_integer_format [simp]: "n \<le> max_int64 \<Longrightarrow> cast_integer (format_uint n) = int n"
  by (simp add: cast_integer_def format_uint_no_sign)

section \<open>Instants as text\<close>

definition nanos_per_second :: int where "nanos_per_second = 1000000000"

definition seconds_part :: "int \<Rightarrow> int" where
  "seconds_part t = t div nanos_per_second"

text \<open>
  The end of the text after the seconds: the layout drops trailing zeros of the fraction, and
  drops the point with them when nothing is left. The texts before it have the same length and
  order as the seconds.
\<close>

definition nine_digits :: "nat \<Rightarrow> string" where
  "nine_digits n = map (\<lambda>i. digit_char (n div 10 ^ i mod 10)) (rev [0..<9])"

definition fraction_text :: "int \<Rightarrow> string" where
  "fraction_text t =
     (let ds = rev (dropWhile (\<lambda>c. c = CHR ''0'') (rev (nine_digits (nat (t mod nanos_per_second)))))
      in if ds = [] then ''Z'' else ''.'' @ ds @ ''Z'')"

definition text_key :: "int \<Rightarrow> int \<times> string" where
  "text_key t = (seconds_part t, fraction_text t)"

definition text_min :: "int \<Rightarrow> int \<Rightarrow> int" where
  "text_min a b = (if text_key b < text_key a then b else a)"

definition text_max :: "int \<Rightarrow> int \<Rightarrow> int" where
  "text_max a b = (if text_key a < text_key b then b else a)"

lemma text_min_cases: "text_min a b = a \<or> text_min a b = b"
  by (simp add: text_min_def)

lemma text_max_cases: "text_max a b = a \<or> text_max a b = b"
  by (simp add: text_max_def)

lemma seconds_part_mono: "a \<le> b \<Longrightarrow> seconds_part a \<le> seconds_part b"
  by (simp add: seconds_part_def nanos_per_second_def zdiv_mono1)

lemma seconds_part_min: "seconds_part (text_min a b) = min (seconds_part a) (seconds_part b)"
  by (auto simp: text_min_def text_key_def less_prod_def min_def)

lemma seconds_part_max: "seconds_part (text_max a b) = max (seconds_part a) (seconds_part b)"
  by (auto simp: text_max_def text_key_def less_prod_def max_def)

lemma near_if_same_second: "seconds_part a \<le> seconds_part b \<Longrightarrow> a < b + nanos_per_second"
  using div_mult_mod_eq [of a nanos_per_second] div_mult_mod_eq [of b nanos_per_second]
    pos_mod_bound [of nanos_per_second a] pos_mod_sign [of nanos_per_second b]
  by (simp add: seconds_part_def nanos_per_second_def)

lemma text_min_near: "text_min a b < min a b + nanos_per_second"
  by (rule near_if_same_second) (auto simp: seconds_part_min min_def dest: seconds_part_mono)

lemma text_max_near: "max a b < text_max a b + nanos_per_second"
  by (rule near_if_same_second) (auto simp: seconds_part_max max_def dest: seconds_part_mono)

end
