(* ===== verification/Files.thy ===== *)
theory Files
  imports Sql "HOL-Library.AList"
begin

text \<open>
  The file system as the agent uses it (packages os and path/filepath): a finite list of
  regular files by path, each with its content and mode. Directories are implicit. Every call
  is a statement of theory Sql over this list, so it may fail with an arbitrary error. Paths
  are cleaned and joined as filepath.Clean and filepath.Join do on Unix.
\<close>

section \<open>Paths\<close>

text \<open>One component against the reversed stack of components kept so far\<close>

definition path_push :: "bool \<Rightarrow> string \<Rightarrow> string list \<Rightarrow> string list" where
  "path_push rooted c stack =
     (if c = [] \<or> c = ''.'' then stack
      else if c = ''..'' then
        (case stack of
           [] \<Rightarrow> if rooted then [] else [''..'']
         | t # rest \<Rightarrow> if t = ''..'' then ''..'' # stack else rest)
      else c # stack)"

definition path_parts :: "string \<Rightarrow> string list" where
  "path_parts p = rev (fold (path_push (has_prefix p ''/'')) (split_on CHR ''/'' p) [])"

definition path_of_parts :: "bool \<Rightarrow> string list \<Rightarrow> string" where
  "path_of_parts rooted parts =
     (if rooted then ''/'' @ join_with ''/'' parts
      else if parts = [] then ''.'' else join_with ''/'' parts)"

definition path_clean :: "string \<Rightarrow> string" where
  "path_clean p = path_of_parts (has_prefix p ''/'') (path_parts p)"

text \<open>filepath.Join of two elements\<close>

definition path_join :: "string \<Rightarrow> string \<Rightarrow> string" where
  "path_join dir name =
     (if dir = [] \<and> name = [] then []
      else if dir = [] then path_clean name
      else if name = [] then path_clean dir
      else path_clean (dir @ ''/'' @ name))"

text \<open>The directory and the last element of a path with a separator\<close>

definition path_dir :: "string \<Rightarrow> string" where
  "path_dir p = rev (drop 1 (dropWhile (\<lambda>c. c \<noteq> CHR ''/'') (rev p)))"

definition path_base :: "string \<Rightarrow> string" where
  "path_base p = rev (takeWhile (\<lambda>c. c \<noteq> CHR ''/'') (rev p))"

text \<open>A file name: one component that Clean keeps\<close>

definition plain_name :: "string \<Rightarrow> bool" where
  "plain_name n \<longleftrightarrow> n \<noteq> [] \<and> n \<noteq> ''.'' \<and> n \<noteq> ''..'' \<and> CHR ''/'' \<notin> set n"

definition clean_dir :: "string \<Rightarrow> bool" where
  "clean_dir d \<longleftrightarrow> has_prefix d ''/'' \<and> (\<exists>parts. parts \<noteq> [] \<and> list_all plain_name parts \<and> d = ''/'' @ join_with ''/'' parts)"

lemma split_on_join:
  "parts \<noteq> [] \<Longrightarrow> list_all (\<lambda>w. sep \<notin> set w) parts \<Longrightarrow> split_on sep (join_with [sep] parts) = parts"
  by (induction "[sep]" parts rule: join_with.induct) (simp_all add: split_on_no_sep split_on_append_sep)

lemma fold_push_plain: "list_all plain_name parts \<Longrightarrow> fold (path_push r) parts stack = rev parts @ stack"
  by (induction parts arbitrary: stack) (auto simp: path_push_def plain_name_def)

lemma path_parts_rooted:
  assumes "list_all plain_name parts"
  shows "path_parts (''/'' @ join_with ''/'' parts) = parts"
proof (cases "parts = []")
  case True
  then show ?thesis by (simp add: path_parts_def path_push_def)
next
  case False
  have ns: "list_all (\<lambda>w. CHR ''/'' \<notin> set w) parts" using assms by (auto simp: list.pred_set plain_name_def)
  have "split_on CHR ''/'' (''/'' @ join_with ''/'' parts) = [] # parts"
    using split_on_join [OF False ns] by simp
  then show ?thesis using fold_push_plain [OF assms]
    by (simp add: path_parts_def path_push_def)
qed

lemma path_clean_rooted:
  "list_all plain_name parts \<Longrightarrow> path_clean (''/'' @ join_with ''/'' parts) = ''/'' @ join_with ''/'' parts"
  using path_parts_rooted by (simp add: path_clean_def path_of_parts_def has_prefix_def)

lemma join_with_snoc: "parts \<noteq> [] \<Longrightarrow> join_with sep (parts @ [w]) = join_with sep parts @ sep @ w"
proof (induction sep parts rule: join_with.induct)
  case (3 sep v w ws)
  then show ?case by simp
qed simp_all

lemma path_join_clean_dir:
  assumes "clean_dir d" and "plain_name n"
  shows "path_join d n = d @ ''/'' @ n"
proof -
  from assms(1) obtain parts where p: "parts \<noteq> []" "list_all plain_name parts" "d = ''/'' @ join_with ''/'' parts"
    by (auto simp: clean_dir_def)
  have "d @ ''/'' @ n = ''/'' @ join_with ''/'' (parts @ [n])" using p by (simp add: join_with_snoc)
  moreover have "list_all plain_name (parts @ [n])" using p assms(2) by simp
  ultimately show ?thesis using path_clean_rooted [of "parts @ [n]"] p(3) assms(2)
    by (simp add: path_join_def plain_name_def)
qed

lemma path_base_join [simp]: "plain_name n \<Longrightarrow> path_base (d @ CHR ''/'' # n) = n"
proof -
  assume "plain_name n"
  then have "takeWhile (\<lambda>c. c \<noteq> CHR ''/'') (rev n @ CHR ''/'' # rev d) = rev n"
    by (subst takeWhile_append2) (auto simp: plain_name_def)
  then show ?thesis by (simp add: path_base_def)
qed

lemma path_dir_join [simp]: "plain_name n \<Longrightarrow> path_dir (d @ CHR ''/'' # n) = d"
proof -
  assume "plain_name n"
  then have "dropWhile (\<lambda>c. c \<noteq> CHR ''/'') (rev n @ CHR ''/'' # rev d) = CHR ''/'' # rev d"
    by (subst dropWhile_append2) (auto simp: plain_name_def)
  then show ?thesis by (simp add: path_dir_def)
qed

section \<open>Frames\<close>

text \<open>Every run of m, failing or not, changes the state within the relation R.\<close>

definition keeps :: "('db \<Rightarrow> 'db \<Rightarrow> bool) \<Rightarrow> ('db, 'a) tx \<Rightarrow> bool" where
  "keeps R m \<longleftrightarrow> (\<forall>fs s r fs' s'. m (fs, s) = (r, fs', s') \<longrightarrow> R s s')"

named_theorems keeps_rules \<open>frame rules for statements\<close>

lemma keepsD: "keeps R m \<Longrightarrow> m (fs, s) = (r, fs', s') \<Longrightarrow> R s s'"
  unfolding keeps_def by blast

lemma keeps_ok: "keeps R m \<Longrightarrow> tx_ok m s x s' \<Longrightarrow> R s s'"
  unfolding keeps_def tx_ok_def by blast

lemma keeps_stmt [keeps_rules]: "reflp R \<Longrightarrow> (\<And>s x s'. f s = Inr (x, s') \<Longrightarrow> R s s') \<Longrightarrow> keeps R (stmt f)"
  unfolding keeps_def stmt_def by (auto split: option.splits sum.splits prod.splits dest: reflpD)

lemma keeps_pure [keeps_rules]: "reflp R \<Longrightarrow> keeps R (tx_lift r)" "reflp R \<Longrightarrow> keeps R (tx_return x)"
  by (auto simp: keeps_def tx_lift_def tx_return_def dest: reflpD)

lemma keeps_bind [keeps_rules]: "transp R \<Longrightarrow> keeps R m \<Longrightarrow> (\<And>x. keeps R (k x)) \<Longrightarrow> keeps R (tx_bind m k)"
  unfolding keeps_def tx_bind_def by (auto split: prod.splits sum.splits) (metis transpD)

definition tx_finally :: "('db, 'a) tx \<Rightarrow> ('db, 'b) tx \<Rightarrow> ('db, 'a) tx" where
  "tx_finally m cleanup c = (case m c of (r, c') \<Rightarrow> (r, snd (cleanup c')))"

lemma keeps_finally [keeps_rules]: "transp R \<Longrightarrow> keeps R m \<Longrightarrow> keeps R c \<Longrightarrow> keeps R (tx_finally m c)"
  unfolding keeps_def tx_finally_def by (auto split: prod.splits) (metis prod.collapse transpD)

lemma keeps_if [keeps_rules]: "keeps R m \<Longrightarrow> keeps R n \<Longrightarrow> keeps R (if b then m else n)"
  by simp

section \<open>Files\<close>

record File =
  fl_content :: string
  fl_mode :: nat

type_synonym fs = "(string \<times> File) list"

definition fs_lookup :: "fs \<Rightarrow> string \<Rightarrow> File option" where
  "fs_lookup s p = map_of s p"

definition fs_set :: "string \<Rightarrow> File \<Rightarrow> fs \<Rightarrow> fs" where
  "fs_set p f s = AList.update p f s"

definition fs_unset :: "string \<Rightarrow> fs \<Rightarrow> fs" where
  "fs_unset p s = AList.delete p s"

definition fs_inv :: "fs \<Rightarrow> bool" where
  "fs_inv s \<longleftrightarrow> distinct (map fst s)"

lemma fs_lookup_set [simp]: "fs_lookup (fs_set p f s) q = (if q = p then Some f else fs_lookup s q)"
  by (simp add: fs_lookup_def fs_set_def update_conv')

lemma fs_lookup_unset [simp]: "fs_lookup (fs_unset p s) q = (if q = p then None else fs_lookup s q)"
  by (simp add: fs_lookup_def fs_unset_def delete_conv')

lemma fs_inv_set [simp]: "fs_inv s \<Longrightarrow> fs_inv (fs_set p f s)"
  by (simp add: fs_inv_def fs_set_def distinct_update)

lemma fs_inv_unset [simp]: "fs_inv s \<Longrightarrow> fs_inv (fs_unset p s)"
  by (simp add: fs_inv_def fs_unset_def distinct_delete)

text \<open>os.ReadFile, os.Remove, os.MkdirAll, os.ReadDir (the names of the regular files, sorted)\<close>

definition os_read_file :: "string \<Rightarrow> (fs, string) tx" where
  "os_read_file p = stmt (\<lambda>s. case fs_lookup s p of None \<Rightarrow> Inl ErrNotExist | Some f \<Rightarrow> Inr (fl_content f, s))"

definition os_remove :: "string \<Rightarrow> (fs, unit) tx" where
  "os_remove p = stmt (\<lambda>s. case fs_lookup s p of None \<Rightarrow> Inl ErrNotExist | Some f \<Rightarrow> Inr ((), fs_unset p s))"

definition os_mkdir_all :: "string \<Rightarrow> (fs, unit) tx" where
  "os_mkdir_all p = stmt (\<lambda>s. Inr ((), s))"

definition dir_entries :: "string \<Rightarrow> fs \<Rightarrow> string list" where
  "dir_entries d s = sort (map path_base (filter (\<lambda>p. path_dir p = d) (map fst s)))"

definition os_read_dir :: "string \<Rightarrow> (fs, string list) tx" where
  "os_read_dir d = stmt (\<lambda>s. Inr (dir_entries d s, s))"

text \<open>os.Rename, os.OpenFile with O_EXCL, File.Chmod, File.Write (a failing write leaves the
  file as it is, here: empty), File.Sync and File.Close\<close>

definition os_rename :: "string \<Rightarrow> string \<Rightarrow> (fs, unit) tx" where
  "os_rename src dst = stmt (\<lambda>s. case fs_lookup s src of
     None \<Rightarrow> Inl ErrNotExist | Some f \<Rightarrow> Inr ((), fs_set dst f (fs_unset src s)))"

definition os_create_exclusive :: "string \<Rightarrow> nat \<Rightarrow> (fs, unit) tx" where
  "os_create_exclusive p mode = stmt (\<lambda>s. case fs_lookup s p of
     Some _ \<Rightarrow> Inl (ErrIO ''file exists'') | None \<Rightarrow> Inr ((), fs_set p \<lparr>fl_content = [], fl_mode = mode\<rparr> s))"

definition os_file_update :: "string \<Rightarrow> (File \<Rightarrow> File) \<Rightarrow> (fs, unit) tx" where
  "os_file_update p g = stmt (\<lambda>s. case fs_lookup s p of
     None \<Rightarrow> Inl ErrNotExist | Some f \<Rightarrow> Inr ((), fs_set p (g f) s))"

definition os_sync :: "(fs, unit) tx" where "os_sync = stmt (\<lambda>s. Inr ((), s))"
definition os_close :: "(fs, unit) tx" where "os_close = stmt (\<lambda>s. Inr ((), s))"

text \<open>Equality of two file systems away from one path\<close>

definition fs_same_except :: "string \<Rightarrow> fs \<Rightarrow> fs \<Rightarrow> bool" where
  "fs_same_except p s t \<longleftrightarrow> (\<forall>q. q \<noteq> p \<longrightarrow> fs_lookup t q = fs_lookup s q)"

lemma fs_same_except_order [simp]: "reflp (fs_same_except p)" "transp (fs_same_except p)"
  by (auto simp: fs_same_except_def intro!: reflpI transpI)

lemma fs_same_except_set [simp]: "fs_same_except p s s" "fs_same_except p s (fs_set p f s)" "fs_same_except p s (fs_unset p s)"
  by (simp_all add: fs_same_except_def)

section \<open>Replacing a file\<close>

text \<open>
  The common part of the atomic writers: the temporary file is created, gets its mode and
  content, is flushed and closed, and is renamed over the target; the deferred Remove drops
  what is left of it. The name CreateTemp chooses is an argument.
\<close>

definition mode_0600 :: nat where "mode_0600 = 6 * 64"
definition mode_0640 :: nat where "mode_0640 = 6 * 64 + 4 * 8"
definition mode_0644 :: nat where "mode_0644 = 6 * 64 + 4 * 8 + 4"

definition write_temporary :: "string \<Rightarrow> string \<Rightarrow> nat \<Rightarrow> (fs, unit) tx" where
  "write_temporary tmp raw mode =
     tx_bind (os_file_update tmp (\<lambda>f. f\<lparr>fl_mode := mode\<rparr>)) (\<lambda>_.
     tx_bind (os_file_update tmp (\<lambda>f. f\<lparr>fl_content := raw\<rparr>)) (\<lambda>_.
     tx_bind os_sync (\<lambda>_. os_close)))"

definition replace_file :: "string \<Rightarrow> string \<Rightarrow> string \<Rightarrow> nat \<Rightarrow> (fs, unit) tx" where
  "replace_file tmp path raw mode =
     tx_bind (os_create_exclusive tmp mode_0600) (\<lambda>_.
     tx_finally (tx_bind (write_temporary tmp raw mode) (\<lambda>_. os_rename tmp path)) (os_remove tmp))"

lemma keeps_tmp [keeps_rules]:
  "keeps (fs_same_except p) (os_create_exclusive p m)" "keeps (fs_same_except p) (os_file_update p g)"
  "keeps (fs_same_except p) os_sync" "keeps (fs_same_except p) os_close" "keeps (fs_same_except p) (os_remove p)"
  unfolding os_create_exclusive_def os_file_update_def os_sync_def os_close_def os_remove_def
  by (rule keeps_stmt; auto split: option.splits)+

lemma keeps_write_temporary [keeps_rules]: "keeps (fs_same_except tmp) (write_temporary tmp raw mode)"
  unfolding write_temporary_def by (intro keeps_rules) simp_all

lemma write_temporary_ok:
  "tx_ok (write_temporary tmp raw mode) s u s' \<Longrightarrow> fs_lookup s tmp \<noteq> None \<Longrightarrow>
     fs_lookup s' tmp = Some \<lparr>fl_content = raw, fl_mode = mode\<rparr> \<and> fs_same_except tmp s s'"
  using keeps_ok [OF keeps_write_temporary, of tmp raw mode s u s']
  by (auto simp: write_temporary_def os_file_update_def os_sync_def os_close_def store_simps
      elim!: tx_ok_bindE split: option.splits)

lemma run_bind_cases:
  assumes "tx_bind m k c = (r, c')"
  obtains e where "m c = (Inl e, c')" "r = Inl e" | x c1 where "m c = (Inr x, c1)" "k x c1 = (r, c')"
  using assms by (cases "m c"; cases "fst (m c)") (auto simp: tx_bind_def)

lemma os_rename_run:
  "os_rename src dst (fs, s) = (r, fs', s') \<Longrightarrow>
     (\<exists>e. r = Inl e \<and> s' = s) \<or> (\<exists>f. r = Inr () \<and> fs_lookup s src = Some f \<and> s' = fs_set dst f (fs_unset src s))"
  by (auto simp: os_rename_def stmt_def split: option.splits sum.splits prod.splits)

lemma os_remove_run:
  "snd (os_remove p (fs, s)) = (fs', s') \<Longrightarrow> s' = s \<or> s' = fs_unset p s"
  by (auto simp: os_remove_def stmt_def split: option.splits sum.splits prod.splits)

text \<open>
  Either the target holds exactly the new content and mode and nothing else changed, or the
  call failed and at most the temporary file is left behind.
\<close>

lemma replace_file_atomic:
  assumes run: "replace_file tmp path raw mode (fs, s) = (r, fs', s')"
    and fresh: "fs_lookup s tmp = None" and ne: "tmp \<noteq> path"
  shows "(r = Inr () \<and> (\<forall>q. fs_lookup s' q = (if q = path then Some \<lparr>fl_content = raw, fl_mode = mode\<rparr> else fs_lookup s q)))
    \<or> (\<exists>e. r = Inl e \<and> fs_same_except tmp s s')"
  using run unfolding replace_file_def
proof (cases rule: run_bind_cases)
  case (1 e)
  then show ?thesis using keepsD [OF keeps_tmp(1), of tmp mode_0600 fs s] by fastforce
next
  case (2 x c1)
  obtain fs1 s1 where c1: "c1 = (fs1, s1)" by (cases c1)
  from 2(1) c1 have s1: "s1 = fs_set tmp \<lparr>fl_content = [], fl_mode = mode_0600\<rparr> s"
    using fresh by (auto simp: os_create_exclusive_def stmt_Inr_iff split: option.splits)
  obtain r2 fs2 s2 where m: "tx_bind (write_temporary tmp raw mode) (\<lambda>_. os_rename tmp path) (fs1, s1) = (r2, fs2, s2)"
    by (metis prod.exhaust)
  with 2(2) c1 have r: "r = r2" and rm: "snd (os_remove tmp (fs2, s2)) = (fs', s')" by (simp_all add: tx_finally_def)
  from os_remove_run [OF rm] have s': "s' = s2 \<or> s' = fs_unset tmp s2" .
  have se1: "fs_same_except tmp s s1" by (simp add: s1)
  from m show ?thesis
  proof (cases rule: run_bind_cases)
    case (1 e)
    then have "fs_same_except tmp s1 s2" using keepsD [OF keeps_write_temporary] by blast
    with se1 s' 1 r show ?thesis by (auto simp: fs_same_except_def)
  next
    case (2 y c3)
    obtain fs3 s3 where c3: "c3 = (fs3, s3)" by (cases c3)
    have w: "fs_lookup s3 tmp = Some \<lparr>fl_content = raw, fl_mode = mode\<rparr>" "fs_same_except tmp s1 s3"
      using write_temporary_ok [OF tx_okI, of tmp raw mode fs1 s1 y fs3 s3] 2(1) c3 s1 by simp_all
    from os_rename_run [OF 2(2) [unfolded c3]] w s' r se1 ne fresh show ?thesis
      by (auto simp: fs_same_except_def)
  qed
qed

lemma replace_file_run:
  assumes "fs_lookup s tmp = None"
  shows "\<exists>s'. replace_file tmp path raw mode ([], s) = (Inr (), [], s')"
  using assms
  by (simp add: replace_file_def write_temporary_def tx_bind_def tx_finally_def os_create_exclusive_def
      os_file_update_def os_sync_def os_close_def os_rename_def os_remove_def split: option.splits)

end
