(* ===== verification/Signing.thy ===== *)
theory Signing
  imports Wire
begin

text \<open>
  What the control plane signs and seals for the agent: signed configurations
  (internal/protocol/signing.go), signed maintenance commands (internal/protocol/maintenance.go)
  and sealed secret bundles (internal/protocol/secrets.go). uuid.Validate is third-party code
  and an argument of the validators; so are the encoder and the cryptographic primitives.
\<close>

section \<open>Signed configurations\<close>

definition ed25519_private_key_size :: nat where "ed25519_private_key_size = 64"
definition ed25519_public_key_size :: nat where "ed25519_public_key_size = 32"

record SignedConfig =
  sg_KeyID :: string
  sg_SHA256 :: string
  sg_Signature :: string
  sg_Config :: DesiredConfig

definition SignConfig ::
  "Crypto \<Rightarrow> (DesiredConfig \<Rightarrow> string result) \<Rightarrow> DesiredConfig \<Rightarrow> string \<Rightarrow> string \<Rightarrow> SignedConfig result" where
  "SignConfig cr marshal config keyID privateKey =
     (case ValidateDesiredConfig config of
        Some e \<Rightarrow> Inl e
      | None \<Rightarrow>
          if keyID = [] \<or> length privateKey \<noteq> ed25519_private_key_size
          then Inl (Msg ''config signing key is invalid'')
          else case marshal config of
                 Inl e \<Rightarrow> Inl e
               | Inr payload \<Rightarrow>
                   Inr \<lparr>sg_KeyID = keyID, sg_SHA256 = hex_digest cr payload,
                        sg_Signature = b64_encode (cr_sign cr privateKey payload),
                        sg_Config = config\<rparr>)"

definition VerifySignedConfig ::
  "Crypto \<Rightarrow> (DesiredConfig \<Rightarrow> string result) \<Rightarrow> SignedConfig \<Rightarrow> string \<Rightarrow> go_error option" where
  "VerifySignedConfig cr marshal msg publicKey =
     (if length publicKey \<noteq> ed25519_public_key_size then Some (Msg ''config verification key is invalid'')
      else case ValidateDesiredConfig (sg_Config msg) of
        Some e \<Rightarrow> Some e
      | None \<Rightarrow>
          (case marshal (sg_Config msg) of
             Inl e \<Rightarrow> Some e
           | Inr payload \<Rightarrow>
               if sg_SHA256 msg \<noteq> hex_digest cr payload then Some (Msg ''config digest mismatch'')
               else case b64_raw_decode (sg_Signature msg) of
                      None \<Rightarrow> Some (Msg ''config signature is invalid'')
                    | Some signature \<Rightarrow>
                        if \<not> cr_verify cr publicKey payload signature
                        then Some (Msg ''config signature is invalid'') else None))"

lemma VerifySignedConfig_iff:
  "VerifySignedConfig cr marshal msg publicKey = None \<longleftrightarrow>
     length publicKey = 32 \<and> config_well_formed (sg_Config msg) \<and>
     (\<exists>payload signature. marshal (sg_Config msg) = Inr payload \<and>
        sg_SHA256 msg = hex_digest cr payload \<and>
        b64_raw_decode (sg_Signature msg) = Some signature \<and>
        cr_verify cr publicKey payload signature)"
  by (auto simp: VerifySignedConfig_def ed25519_public_key_size_def ValidateDesiredConfig_iff [symmetric]
      split: option.splits sum.splits if_splits)

section \<open>Maintenance commands\<close>

definition MaintenanceActionCheckUpdate :: string where
  "MaintenanceActionCheckUpdate = ''check_update''"
definition MaintenanceActionUpdate :: string where
  "MaintenanceActionUpdate = ''update''"
definition MaintenanceActionUninstall :: string where
  "MaintenanceActionUninstall = ''uninstall''"

lemmas maintenance_actions = MaintenanceActionCheckUpdate_def MaintenanceActionUpdate_def
  MaintenanceActionUninstall_def

definition second :: int where "second = 1000000000"
definition minute :: int where "minute = 60 * second"

text \<open>The regular expression: v, three numbers separated by dots, an optional suffix\<close>

definition version_suffix_char :: "char \<Rightarrow> bool" where
  "version_suffix_char c \<longleftrightarrow>
     is_digit_char c \<or> is_upper_char c \<or> is_lower_char c \<or> c = CHR ''.'' \<or> c = CHR ''-''"

definition version_suffix :: "string \<Rightarrow> bool" where
  "version_suffix s \<longleftrightarrow>
     (case s of [] \<Rightarrow> True
      | c # t \<Rightarrow> (c = CHR ''-'' \<or> c = CHR ''+'') \<and> t \<noteq> [] \<and> list_all version_suffix_char t)"

definition digit_run :: "string \<Rightarrow> (string \<times> string) option" where
  "digit_run s =
     (let d = takeWhile is_digit_char s
      in if d = [] then None else Some (d, dropWhile is_digit_char s))"

definition expect_char :: "char \<Rightarrow> string \<Rightarrow> string option" where
  "expect_char c s = (case s of [] \<Rightarrow> None | x # t \<Rightarrow> if x = c then Some t else None)"

definition maintenanceVersionPattern :: "string \<Rightarrow> bool" where
  "maintenanceVersionPattern s =
     (case expect_char CHR ''v'' s of None \<Rightarrow> False | Some s1 \<Rightarrow>
      (case digit_run s1 of None \<Rightarrow> False | Some (_, s2) \<Rightarrow>
       (case expect_char CHR ''.'' s2 of None \<Rightarrow> False | Some s3 \<Rightarrow>
        (case digit_run s3 of None \<Rightarrow> False | Some (_, s4) \<Rightarrow>
         (case expect_char CHR ''.'' s4 of None \<Rightarrow> False | Some s5 \<Rightarrow>
          (case digit_run s5 of None \<Rightarrow> False | Some (_, s6) \<Rightarrow> version_suffix s6))))))"

record MaintenanceCommand =
  mc_CommandID :: string
  mc_AgentNodeID :: int
  mc_Action :: string
  mc_TargetVersion :: string
  mc_IssuedAt :: int
  mc_ExpiresAt :: int

record SignedMaintenanceCommand =
  sc_KeyID :: string
  sc_SHA256 :: string
  sc_Signature :: string
  sc_Command :: MaintenanceCommand

record MaintenanceResult =
  mr_CommandID :: string
  mr_Action :: string
  mr_Status :: string
  mr_CurrentVersion :: string
  mr_LatestVersion :: string
  mr_UpdateAvailable :: bool
  mr_Message :: string
  mr_OccurredAt :: int

definition ValidateMaintenanceCommand :: "(string \<Rightarrow> bool) \<Rightarrow> MaintenanceCommand \<Rightarrow> go_error option" where
  "ValidateMaintenanceCommand uuid_ok command =
     (let action = to_lower (trim_space (mc_Action command));
          target = trim_space (mc_TargetVersion command)
      in if \<not> uuid_ok (mc_CommandID command) \<or> mc_AgentNodeID command \<le> 0 \<or> mc_IssuedAt command = 0
            \<or> mc_ExpiresAt command = 0
         then Some (Msg ''maintenance command identity or time is invalid'')
         else if \<not> mc_ExpiresAt command > mc_IssuedAt command
            \<or> mc_ExpiresAt command - mc_IssuedAt command > 5 * minute
         then Some (Msg ''maintenance command validity window is invalid'')
         else if action = MaintenanceActionCheckUpdate \<or> action = MaintenanceActionUninstall then
           (if target \<noteq> [] then Some (Msg ''maintenance target version is not allowed for this action'')
            else None)
         else if action = MaintenanceActionUpdate then
           (if \<not> maintenanceVersionPattern target then Some (Msg ''maintenance target version is invalid'')
            else None)
         else Some (Msg ''maintenance action is invalid''))"

definition SignMaintenanceCommand ::
  "Crypto \<Rightarrow> (MaintenanceCommand \<Rightarrow> string result) \<Rightarrow> (string \<Rightarrow> bool) \<Rightarrow> MaintenanceCommand \<Rightarrow> string \<Rightarrow> string
     \<Rightarrow> SignedMaintenanceCommand result" where
  "SignMaintenanceCommand cr marshal uuid_ok command keyID privateKey =
     (case ValidateMaintenanceCommand uuid_ok command of
        Some e \<Rightarrow> Inl e
      | None \<Rightarrow>
          if trim_space keyID = [] \<or> length privateKey \<noteq> ed25519_private_key_size
          then Inl (Msg ''maintenance signing key is invalid'')
          else case marshal command of
                 Inl e \<Rightarrow> Inl e
               | Inr payload \<Rightarrow>
                   Inr \<lparr>sc_KeyID = keyID, sc_SHA256 = hex_digest cr payload,
                        sc_Signature = b64_encode (cr_sign cr privateKey payload),
                        sc_Command = command\<rparr>)"

definition VerifySignedMaintenanceCommand ::
  "Crypto \<Rightarrow> (MaintenanceCommand \<Rightarrow> string result) \<Rightarrow> (string \<Rightarrow> bool) \<Rightarrow> SignedMaintenanceCommand \<Rightarrow> string \<Rightarrow> string
     \<Rightarrow> int \<Rightarrow> go_error option" where
  "VerifySignedMaintenanceCommand cr marshal uuid_ok msg keyID publicKey now =
     (if sc_KeyID msg \<noteq> trim_space keyID \<or> length publicKey \<noteq> ed25519_public_key_size
      then Some (Msg ''maintenance verification key is invalid'')
      else case ValidateMaintenanceCommand uuid_ok (sc_Command msg) of
        Some e \<Rightarrow> Some e
      | None \<Rightarrow>
          if now < mc_IssuedAt (sc_Command msg) - 30 * second \<or> \<not> now < mc_ExpiresAt (sc_Command msg)
          then Some (Msg ''maintenance command is outside its validity window'')
          else case marshal (sc_Command msg) of
            Inl e \<Rightarrow> Some e
          | Inr payload \<Rightarrow>
              if \<not> equal_fold (sc_SHA256 msg) (hex_digest cr payload)
              then Some (Msg ''maintenance command digest mismatch'')
              else case b64_raw_decode (sc_Signature msg) of
                     None \<Rightarrow> Some (Msg ''maintenance command signature is invalid'')
                   | Some signature \<Rightarrow>
                       if \<not> cr_verify cr publicKey payload signature
                       then Some (Msg ''maintenance command signature is invalid'') else None)"

definition ValidateMaintenanceResult :: "(string \<Rightarrow> bool) \<Rightarrow> MaintenanceResult \<Rightarrow> go_error option" where
  "ValidateMaintenanceResult uuid_ok res =
     (if \<not> uuid_ok (mr_CommandID res) \<or> mr_OccurredAt res = 0
      then Some (Msg ''maintenance result identity or time is invalid'')
      else if to_lower (trim_space (mr_Action res)) \<notin>
                {MaintenanceActionCheckUpdate, MaintenanceActionUpdate, MaintenanceActionUninstall}
      then Some (Msg ''maintenance result action is invalid'')
      else if to_lower (trim_space (mr_Status res)) \<notin> {''accepted'', ''succeeded'', ''failed'', ''checked''}
      then Some (Msg ''maintenance result status is invalid'')
      else if mr_CurrentVersion res \<noteq> [] \<and> mr_CurrentVersion res \<noteq> ''dev''
              \<and> \<not> maintenanceVersionPattern (mr_CurrentVersion res)
      then Some (Msg ''maintenance current version is invalid'')
      else if mr_LatestVersion res \<noteq> [] \<and> \<not> maintenanceVersionPattern (mr_LatestVersion res)
      then Some (Msg ''maintenance latest version is invalid'')
      else None)"

lemma ValidateMaintenanceCommand_iff:
  "ValidateMaintenanceCommand uuid_ok c = None \<longleftrightarrow>
     uuid_ok (mc_CommandID c) \<and> 0 < mc_AgentNodeID c \<and> mc_IssuedAt c \<noteq> 0 \<and> mc_ExpiresAt c \<noteq> 0 \<and>
     mc_IssuedAt c < mc_ExpiresAt c \<and> mc_ExpiresAt c \<le> mc_IssuedAt c + 5 * minute \<and>
     (to_lower (trim_space (mc_Action c)) \<in> {''check_update'', ''uninstall''} \<and>
        trim_space (mc_TargetVersion c) = [] \<or>
      to_lower (trim_space (mc_Action c)) = ''update'' \<and>
        maintenanceVersionPattern (trim_space (mc_TargetVersion c)))"
  by (auto simp: ValidateMaintenanceCommand_def maintenance_actions Let_def)

lemma VerifySignedMaintenanceCommand_iff:
  "VerifySignedMaintenanceCommand cr marshal uuid_ok msg keyID publicKey now = None \<longleftrightarrow>
     sc_KeyID msg = trim_space keyID \<and> length publicKey = 32 \<and>
     ValidateMaintenanceCommand uuid_ok (sc_Command msg) = None \<and>
     mc_IssuedAt (sc_Command msg) - 30 * second \<le> now \<and> now < mc_ExpiresAt (sc_Command msg) \<and>
     (\<exists>payload signature. marshal (sc_Command msg) = Inr payload \<and>
        equal_fold (sc_SHA256 msg) (hex_digest cr payload) \<and>
        b64_raw_decode (sc_Signature msg) = Some signature \<and>
        cr_verify cr publicKey payload signature)"
  by (auto simp: VerifySignedMaintenanceCommand_def ed25519_public_key_size_def
      split: option.splits sum.splits if_splits)

end
