(* ===== verification/Config.thy ===== *)
theory Config
  imports Files Signing
begin

text \<open>
  The command line: internal/config/config.go. Package flag is modelled as far as Parse uses
  it: flags with one or two dashes, values after an equals sign or in the next argument, the
  first other argument ends the flags. The texts of durations and integers are read by the
  arguments parse_duration and parse_int (time.ParseDuration and strconv.ParseInt with base 0).
\<close>

section \<open>Options\<close>

record Config =
  cfg_Command :: string
  cfg_StateDir :: string
  cfg_ConfigDir :: string
  cfg_RuntimeDir :: string
  cfg_MaintenanceDir :: string
  cfg_MaintenanceStateDir :: string
  cfg_EnrollmentURL :: string
  cfg_EnrollmentTokenFile :: string
  cfg_Version :: string
  cfg_HeartbeatInterval :: int
  cfg_TrafficInterval :: int
  cfg_AccessInterval :: int
  cfg_ReconnectMin :: int
  cfg_ReconnectMax :: int
  cfg_MaxFrameBytes :: int
  cfg_UpdateCheckInterval :: int

definition default_config :: "string \<Rightarrow> string \<Rightarrow> Config" where
  "default_config command version =
     \<lparr>cfg_Command = command, cfg_StateDir = ''/var/lib/iepl-agent'', cfg_ConfigDir = ''/etc/iepl-agent'',
      cfg_RuntimeDir = ''/run/iepl-agent/secrets'', cfg_MaintenanceDir = ''/run/iepl-agent/maintenance'',
      cfg_MaintenanceStateDir = ''/var/lib/iepl-agent-maintenance'', cfg_EnrollmentURL = [], cfg_EnrollmentTokenFile = [],
      cfg_Version = version, cfg_HeartbeatInterval = 5 * second, cfg_TrafficInterval = second,
      cfg_AccessInterval = 15 * second, cfg_ReconnectMin = second, cfg_ReconnectMax = minute,
      cfg_MaxFrameBytes = 1024 * 1024, cfg_UpdateCheckInterval = 60 * minute\<rparr>"

datatype flag_setter =
    SetString "string \<Rightarrow> Config \<Rightarrow> Config"
  | SetDuration "int \<Rightarrow> Config \<Rightarrow> Config"
  | SetInt "int \<Rightarrow> Config \<Rightarrow> Config"

definition flag_table :: "(string \<times> flag_setter) list" where
  "flag_table =
     [(''state-dir'', SetString (\<lambda>v. cfg_StateDir_update (\<lambda>_. v))),
      (''config-dir'', SetString (\<lambda>v. cfg_ConfigDir_update (\<lambda>_. v))),
      (''runtime-dir'', SetString (\<lambda>v. cfg_RuntimeDir_update (\<lambda>_. v))),
      (''maintenance-dir'', SetString (\<lambda>v. cfg_MaintenanceDir_update (\<lambda>_. v))),
      (''maintenance-state-dir'', SetString (\<lambda>v. cfg_MaintenanceStateDir_update (\<lambda>_. v))),
      (''url'', SetString (\<lambda>v. cfg_EnrollmentURL_update (\<lambda>_. v))),
      (''token-file'', SetString (\<lambda>v. cfg_EnrollmentTokenFile_update (\<lambda>_. v))),
      (''heartbeat'', SetDuration (\<lambda>v. cfg_HeartbeatInterval_update (\<lambda>_. v))),
      (''traffic-interval'', SetDuration (\<lambda>v. cfg_TrafficInterval_update (\<lambda>_. v))),
      (''access-interval'', SetDuration (\<lambda>v. cfg_AccessInterval_update (\<lambda>_. v))),
      (''reconnect-min'', SetDuration (\<lambda>v. cfg_ReconnectMin_update (\<lambda>_. v))),
      (''reconnect-max'', SetDuration (\<lambda>v. cfg_ReconnectMax_update (\<lambda>_. v))),
      (''max-frame-bytes'', SetInt (\<lambda>v. cfg_MaxFrameBytes_update (\<lambda>_. v))),
      (''update-check-interval'', SetDuration (\<lambda>v. cfg_UpdateCheckInterval_update (\<lambda>_. v)))]"

definition set_flag ::
  "(string \<Rightarrow> int option) \<Rightarrow> (string \<Rightarrow> int option) \<Rightarrow> flag_setter \<Rightarrow> string \<Rightarrow> Config \<Rightarrow> Config result" where
  "set_flag parse_duration parse_int setter v cfg =
     (case setter of
        SetString f \<Rightarrow> Inr (f v cfg)
      | SetDuration f \<Rightarrow> (case parse_duration v of None \<Rightarrow> Inl (Msg ''invalid duration'') | Some d \<Rightarrow> Inr (f d cfg))
      | SetInt f \<Rightarrow> (case parse_int v of None \<Rightarrow> Inl (Msg ''invalid integer'') | Some i \<Rightarrow> Inr (f i cfg)))"

text \<open>The name and the value of a flag argument, without its dashes\<close>

definition split_flag :: "string \<Rightarrow> string \<times> string option" where
  "split_flag s =
     (let tail = dropWhile (\<lambda>c. c \<noteq> CHR ''='') (drop 1 s)
      in if tail = [] then (s, None) else (take (length s - length tail) s, Some (drop 1 tail)))"

fun parse_flags ::
  "(string \<Rightarrow> int option) \<Rightarrow> (string \<Rightarrow> int option) \<Rightarrow> string list \<Rightarrow> Config \<Rightarrow> Config result" where
  "parse_flags pd pint [] cfg = Inr cfg"
| "parse_flags pd pint (s # rest) cfg =
     (if length s < 2 \<or> \<not> has_prefix s ''-'' \<or> s = ''--'' then Inr cfg
      else let body = (if has_prefix s ''--'' then drop 2 s else drop 1 s)
      in if body = [] \<or> has_prefix body ''-'' \<or> has_prefix body ''='' then Inl (Msg ''bad flag syntax'')
         else (case split_flag body of (name, val) \<Rightarrow>
           (case map_of flag_table name of
              None \<Rightarrow> Inl (Msg ''flag provided but not defined'')
            | Some setter \<Rightarrow>
                (case val of
                   Some v \<Rightarrow>
                     (case set_flag pd pint setter v cfg of Inl e \<Rightarrow> Inl e | Inr cfg' \<Rightarrow> parse_flags pd pint rest cfg')
                 | None \<Rightarrow>
                     (case rest of
                        [] \<Rightarrow> Inl (Msg ''flag needs an argument'')
                      | v # rest' \<Rightarrow>
                          (case set_flag pd pint setter v cfg of
                             Inl e \<Rightarrow> Inl e | Inr cfg' \<Rightarrow> parse_flags pd pint rest' cfg'))))))"

definition clean_config :: "Config \<Rightarrow> Config" where
  "clean_config cfg =
     cfg\<lparr>cfg_StateDir := path_clean (cfg_StateDir cfg), cfg_ConfigDir := path_clean (cfg_ConfigDir cfg),
         cfg_RuntimeDir := path_clean (cfg_RuntimeDir cfg), cfg_MaintenanceDir := path_clean (cfg_MaintenanceDir cfg),
         cfg_MaintenanceStateDir := path_clean (cfg_MaintenanceStateDir cfg)\<rparr>"

definition check_config :: "Config \<Rightarrow> go_error option" where
  "check_config cfg =
     (if cfg_Command cfg \<notin> {''enroll'', ''run'', ''check'', ''maintain'', ''version''} then Some (Msg ''unsupported command'')
      else if cfg_Command cfg = ''enroll'' \<and>
        (trim_space (cfg_EnrollmentURL cfg) = [] \<or> trim_space (cfg_EnrollmentTokenFile cfg) = [])
      then Some (Msg ''enroll requires --url and --token-file'')
      else if cfg_HeartbeatInterval cfg < 5 * second \<or> cfg_TrafficInterval cfg < second
        \<or> cfg_AccessInterval cfg < 10 * second \<or> cfg_ReconnectMin cfg \<le> 0 \<or> cfg_ReconnectMax cfg < cfg_ReconnectMin cfg
        \<or> cfg_MaxFrameBytes cfg < 64 * 1024 \<or> cfg_MaxFrameBytes cfg > 8 * 1024 * 1024
        \<or> cfg_UpdateCheckInterval cfg < minute
      then Some (Msg ''runtime timing or frame limits are invalid'')
      else None)"

definition ParseConfig ::
  "(string \<Rightarrow> int option) \<Rightarrow> (string \<Rightarrow> int option) \<Rightarrow> string list \<Rightarrow> string \<Rightarrow> Config result" where
  "ParseConfig parse_duration parse_int args version =
     (case args of
        [] \<Rightarrow> Inl (Msg ''command is required: enroll, run, check, or maintain'')
      | command # rest \<Rightarrow>
          (case parse_flags parse_duration parse_int rest (default_config (to_lower (trim_space command)) version) of
             Inl e \<Rightarrow> Inl e
           | Inr cfg \<Rightarrow>
               (case check_config (clean_config cfg) of Some e \<Rightarrow> Inl e | None \<Rightarrow> Inr (clean_config cfg))))"

definition StateDBPath :: "Config \<Rightarrow> string" where "StateDBPath c = path_join (cfg_StateDir c) ''agent.db''"
definition MachineIDPath :: "Config \<Rightarrow> string" where "MachineIDPath c = path_join (cfg_StateDir c) ''machine-id''"
definition BootIDPath :: "Config \<Rightarrow> string" where "BootIDPath c = path_join (cfg_StateDir c) ''boot-id''"
definition ClientKeyPath :: "Config \<Rightarrow> string" where "ClientKeyPath c = path_join (cfg_ConfigDir c) ''client.key''"
definition ClientCertPath :: "Config \<Rightarrow> string" where "ClientCertPath c = path_join (cfg_ConfigDir c) ''client.crt''"
definition CACertPath :: "Config \<Rightarrow> string" where "CACertPath c = path_join (cfg_ConfigDir c) ''control-ca.crt''"
definition IdentityPath :: "Config \<Rightarrow> string" where "IdentityPath c = path_join (cfg_ConfigDir c) ''identity.json''"
definition MaintenanceRequestDir :: "Config \<Rightarrow> string" where
  "MaintenanceRequestDir c = path_join (cfg_MaintenanceDir c) ''requests''"
definition MaintenanceReadyPath :: "Config \<Rightarrow> string" where
  "MaintenanceReadyPath c = path_join (cfg_MaintenanceStateDir c) ''ready''"
definition MaintenanceResultPath :: "Config \<Rightarrow> string" where
  "MaintenanceResultPath c = path_join (cfg_StateDir c) ''maintenance-result.json''"
definition MaintenanceProcessedDir :: "Config \<Rightarrow> string" where
  "MaintenanceProcessedDir c = path_join (cfg_MaintenanceStateDir c) ''processed''"

section \<open>Clean paths\<close>

text \<open>The kept components: plain names, after leading parent references in a relative path\<close>

definition kept_parts :: "bool \<Rightarrow> string list \<Rightarrow> bool" where
  "kept_parts rooted parts \<longleftrightarrow>
     (\<exists>k names. parts = replicate k ''..'' @ names \<and> list_all plain_name names \<and> (rooted \<longrightarrow> k = 0))"

lemma path_push_kept:
  assumes "kept_parts r (rev stack)" and "CHR ''/'' \<notin> set c"
  shows "kept_parts r (rev (path_push r c stack))"
proof -
  from assms(1) obtain k names where st: "rev stack = replicate k ''..'' @ names" "list_all plain_name names" "r \<longrightarrow> k = 0"
    by (auto simp: kept_parts_def)
  have stack: "stack = rev names @ replicate k ''..''" using st(1) by (metis rev_append rev_replicate rev_rev_ident)
  consider "c = [] \<or> c = ''.''" | "c = ''..''" | "plain_name c" using assms(2) by (auto simp: plain_name_def)
  then show ?thesis
  proof cases
    case 1
    with assms(1) show ?thesis by (auto simp: path_push_def)
  next
    case 2
    show ?thesis
    proof (cases names rule: rev_cases)
      case Nil
      then show ?thesis
      proof (cases k)
        case 0
        with Nil 2 stack show ?thesis
          by (auto simp: path_push_def kept_parts_def intro: exI [of _ 0] exI [of _ "Suc 0"] exI [of _ "[]"])
      next
        case (Suc j)
        with Nil 2 stack st(3) show ?thesis unfolding kept_parts_def
          by (intro exI [of _ "Suc k"] exI [of _ "[]"]) (simp add: path_push_def replicate_append_same)
      qed
    next
      case (snoc ns n)
      with st(2) have "n \<noteq> ''..''" by (auto simp: plain_name_def)
      with snoc 2 stack st(2,3) show ?thesis unfolding kept_parts_def
        by (intro exI [of _ k] exI [of _ ns]) (simp add: path_push_def)
    qed
  next
    case 3
    with stack st show ?thesis unfolding kept_parts_def
      by (intro exI [of _ k] exI [of _ "names @ [c]"]) (auto simp: path_push_def plain_name_def)
  qed
qed

lemma fold_push_kept:
  "list_all (\<lambda>c. CHR ''/'' \<notin> set c) cs \<Longrightarrow> kept_parts r (rev stack) \<Longrightarrow> kept_parts r (rev (fold (path_push r) cs stack))"
  by (induction cs arbitrary: stack) (simp_all add: path_push_kept)

lemma path_parts_kept: "kept_parts (has_prefix p ''/'') (path_parts p)"
proof -
  have "list_all (\<lambda>c. CHR ''/'' \<notin> set c) (split_on CHR ''/'' p)"
    by (auto simp: list.pred_set dest: split_on_no_sep_in_parts)
  moreover have "kept_parts r (rev [])" for r by (auto simp: kept_parts_def intro: exI [of _ 0] exI [of _ "[]"])
  ultimately show ?thesis unfolding path_parts_def by (rule fold_push_kept)
qed

lemma fold_push_dots: "fold (path_push False) (replicate k ''..'') (replicate j ''..'') = replicate (j + k) ''..''"
proof (induction k arbitrary: j)
  case (Suc k)
  have "path_push False ''..'' (replicate j ''..'') = replicate (Suc j) ''..''"
    by (cases j) (simp_all add: path_push_def)
  with Suc.IH [of "Suc j"] show ?case by simp
qed simp

lemma path_clean_idempotent [simp]: "path_clean (path_clean p) = path_clean p"
proof -
  let ?r = "has_prefix p ''/''"
  from path_parts_kept [of p] obtain k names where
    pp: "path_parts p = replicate k ''..'' @ names" "list_all plain_name names" "?r \<longrightarrow> k = 0"
    by (auto simp: kept_parts_def)
  show ?thesis
  proof (cases ?r)
    case True
    with pp path_clean_rooted [of names] show ?thesis by (simp add: path_clean_def path_of_parts_def)
  next
    case False
    show ?thesis
    proof (cases "path_parts p = []")
      case True
      with False have "path_clean p = ''.''" by (simp add: path_clean_def path_of_parts_def)
      moreover have "path_clean ''.'' = ''.''" by code_simp
      ultimately show ?thesis by simp
    next
      case ne: False
      let ?q = "join_with ''/'' (path_parts p)"
      have q: "path_clean p = ?q" using False ne by (simp add: path_clean_def path_of_parts_def)
      have "list_all (\<lambda>w. CHR ''/'' \<notin> set w \<and> w \<noteq> []) names"
        by (rule list.pred_mono_strong [OF pp(2)]) (simp add: plain_name_def)
      moreover have "list_all (\<lambda>w. CHR ''/'' \<notin> set w \<and> w \<noteq> []) (replicate k ''..'')"
        by (induction k) simp_all
      ultimately have "list_all (\<lambda>w. CHR ''/'' \<notin> set w \<and> w \<noteq> []) (path_parts p)" by (simp add: pp(1))
      then have ns: "list_all (\<lambda>w. CHR ''/'' \<notin> set w) (path_parts p)" and hd: "hd (path_parts p) \<noteq> []" "CHR ''/'' \<notin> set (hd (path_parts p))"
        using ne list.set_sel(1) [OF ne] by (auto simp: list.pred_set)
      have sp: "split_on CHR ''/'' ?q = path_parts p" by (rule split_on_join [OF ne ns])
      have "hd ?q = hd (hd (path_parts p)) \<and> ?q \<noteq> []" using ne hd by (cases "path_parts p" rule: remdups_adj.cases) auto
      moreover have "hd (hd (path_parts p)) \<noteq> CHR ''/''" using hd by (metis hd_in_set)
      ultimately have nr: "\<not> has_prefix ?q ''/''" by (cases ?q) (auto simp: has_prefix_def)
      have "fold (path_push False) (path_parts p) [] = rev (path_parts p)"
        using fold_push_dots [of k 0] fold_push_plain [OF pp(2), of False "replicate k ''..''"] by (simp add: pp(1))
      then have "path_parts ?q = path_parts p" using nr sp by (simp add: path_parts_def)
      with nr ne q show ?thesis by (simp add: path_clean_def path_of_parts_def)
    qed
  qed
qed

section \<open>Properties\<close>

text \<open>
  A configuration that Parse returns is usable: the command is one of the five, enrolment
  has its two arguments, every interval and the frame size are within their limits with the
  reconnect bounds ordered and positive, and the five directories are clean paths.
\<close>

lemma parsed_config_within_limits:
  assumes "ParseConfig pd pint args version = Inr cfg"
  shows "cfg_Command cfg \<in> {''enroll'', ''run'', ''check'', ''maintain'', ''version''} \<and>
    (cfg_Command cfg = ''enroll'' \<longrightarrow> trim_space (cfg_EnrollmentURL cfg) \<noteq> [] \<and> trim_space (cfg_EnrollmentTokenFile cfg) \<noteq> []) \<and>
    5 * second \<le> cfg_HeartbeatInterval cfg \<and> second \<le> cfg_TrafficInterval cfg \<and> 10 * second \<le> cfg_AccessInterval cfg \<and>
    0 < cfg_ReconnectMin cfg \<and> cfg_ReconnectMin cfg \<le> cfg_ReconnectMax cfg \<and>
    65536 \<le> cfg_MaxFrameBytes cfg \<and> cfg_MaxFrameBytes cfg \<le> 8388608 \<and> minute \<le> cfg_UpdateCheckInterval cfg \<and>
    (\<forall>d \<in> {cfg_StateDir cfg, cfg_ConfigDir cfg, cfg_RuntimeDir cfg, cfg_MaintenanceDir cfg, cfg_MaintenanceStateDir cfg}.
       path_clean d = d)"
proof -
  from assms obtain cfg0 where c: "cfg = clean_config cfg0" and k: "check_config cfg = None"
    by (auto simp: ParseConfig_def split: list.splits sum.splits option.splits)
  have "\<forall>d \<in> {cfg_StateDir cfg, cfg_ConfigDir cfg, cfg_RuntimeDir cfg, cfg_MaintenanceDir cfg, cfg_MaintenanceStateDir cfg}.
       path_clean d = d"
    by (auto simp: c clean_config_def)
  with k show ?thesis by (auto simp: check_config_def split: if_splits)
qed

lemma parsed_config_within_limits_witness:
  "\<exists>cfg. ParseConfig (\<lambda>s. if s = ''30s'' then Some (30 * second) else None) (\<lambda>_. None)
       [''run'', ''--heartbeat'', ''30s'', ''-state-dir=/var/lib/../lib/agent/''] ''v1.0.0'' = Inr cfg \<and>
     cfg_StateDir cfg = ''/var/lib/agent'' \<and> cfg_ReconnectMin cfg \<le> cfg_ReconnectMax cfg"
proof -
  let ?pd = "\<lambda>s. if s = ''30s'' then Some (30 * second) else None"
  have c: "to_lower (trim_space ''run'') = ''run''" by code_simp
  have s: "split_flag ''heartbeat'' = (''heartbeat'', None)"
    "split_flag ''state-dir=/var/lib/../lib/agent/'' = (''state-dir'', Some ''/var/lib/../lib/agent/'')" by code_simp+
  have p: "path_clean ''/var/lib/../lib/agent/'' = ''/var/lib/agent''" by code_simp
  have "parse_flags ?pd (\<lambda>_. None) [''--heartbeat'', ''30s'', ''-state-dir=/var/lib/../lib/agent/''] (default_config ''run'' ''v1.0.0'')
      = Inr ((default_config ''run'' ''v1.0.0'')\<lparr>cfg_HeartbeatInterval := 30 * second, cfg_StateDir := ''/var/lib/../lib/agent/''\<rparr>)"
    by (simp add: has_prefix_def s flag_table_def set_flag_def)
  then have run: "ParseConfig ?pd (\<lambda>_. None) [''run'', ''--heartbeat'', ''30s'', ''-state-dir=/var/lib/../lib/agent/''] ''v1.0.0''
      = Inr (clean_config ((default_config ''run'' ''v1.0.0'')\<lparr>cfg_HeartbeatInterval := 30 * second, cfg_StateDir := ''/var/lib/../lib/agent/''\<rparr>))"
    by (simp add: ParseConfig_def c check_config_def clean_config_def default_config_def second_def minute_def)
  from parsed_config_within_limits [OF run] run show ?thesis by (auto simp: clean_config_def p)
qed

end
