(* ===== verification/Secret_Envelope.thy ===== *)
theory Secret_Envelope
  imports Signing
begin

text \<open>
  Sealed secret bundles: internal/protocol/secrets.go. The random nonce is an argument of the
  sealing function. The last section holds the properties of the signed and sealed messages.
\<close>

section \<open>Sealing and opening\<close>

definition TypeSecretBundle :: string where "TypeSecretBundle = ''secret_bundle''"

record SecretMaterial =
  mt_Ref :: string
  mt_Value :: string

record SecretEnvelope =
  se_AgentNodeID :: int
  se_ConfigVersion :: nat
  se_SHA256 :: string
  se_Nonce :: string
  se_Ciphertext :: string

fun check_materials :: "string option \<Rightarrow> SecretMaterial list \<Rightarrow> go_error option" where
  "check_materials prev [] = None"
| "check_materials prev (m # ms) =
     (if trim_space (mt_Ref m) = [] \<or> trim_space (mt_Value m) = []
      then Some (Msg ''secret material is incomplete'')
      else if prev = Some (mt_Ref m) then Some (Msg ''secret material reference is duplicated'')
      else if b64_raw_decode (mt_Value m) = None then Some (Msg ''secret material value is invalid'')
      else check_materials (Some (mt_Ref m)) ms)"

definition canonicalSecretMaterials :: "SecretMaterial list \<Rightarrow> SecretMaterial list result" where
  "canonicalSecretMaterials materials =
     (let canonical = sort_key mt_Ref materials
      in case check_materials None canonical of Some e \<Rightarrow> Inl e | None \<Rightarrow> Inr canonical)"

definition secretAAD :: "int \<Rightarrow> nat \<Rightarrow> string" where
  "secretAAD agentNodeID configVersion =
     ''iepl-agent-secret:v1:'' @ format_int agentNodeID @ '':'' @ format_uint configVersion"

definition SealSecretEnvelope ::
  "Crypto \<Rightarrow> (SecretMaterial list \<Rightarrow> string result) \<Rightarrow> string result \<Rightarrow> string \<Rightarrow> int \<Rightarrow> nat
     \<Rightarrow> SecretMaterial list \<Rightarrow> SecretEnvelope result" where
  "SealSecretEnvelope cr marshal rand_read key agentNodeID configVersion materials =
     (if length key \<noteq> 32 \<or> agentNodeID \<le> 0 \<or> configVersion = 0 \<or> length materials > 1000
      then Inl (Msg ''secret envelope input is invalid'')
      else bind_result (canonicalSecretMaterials materials) (\<lambda>canonical.
           bind_result (marshal canonical) (\<lambda>plaintext.
           bind_result rand_read (\<lambda>nonce.
             Inr \<lparr>se_AgentNodeID = agentNodeID, se_ConfigVersion = configVersion,
                  se_SHA256 = hex_digest cr plaintext, se_Nonce = b64_encode nonce,
                  se_Ciphertext = b64_encode (cr_seal cr key nonce plaintext (secretAAD agentNodeID configVersion))\<rparr>))))"

definition OpenSecretEnvelope ::
  "Crypto \<Rightarrow> SecretMaterial list json_decoder \<Rightarrow> string \<Rightarrow> SecretEnvelope \<Rightarrow> SecretMaterial list result" where
  "OpenSecretEnvelope cr decode key envelope =
     (if length key \<noteq> 32 \<or> se_AgentNodeID envelope \<le> 0 \<or> se_ConfigVersion envelope = 0
      then Inl (Msg ''secret envelope identity is invalid'')
      else case (b64_raw_decode (se_Nonce envelope), b64_raw_decode (se_Ciphertext envelope)) of
        (Some nonce, Some ciphertext) \<Rightarrow>
          if length nonce \<noteq> nonce_size then Inl (Msg ''secret envelope encoding is invalid'')
          else (case cr_open cr key nonce ciphertext (secretAAD (se_AgentNodeID envelope) (se_ConfigVersion envelope)) of
            None \<Rightarrow> Inl (Msg ''secret envelope authentication failed'')
          | Some plaintext \<Rightarrow>
              if \<not> equal_fold (se_SHA256 envelope) (hex_digest cr plaintext)
              then Inl (Msg ''secret envelope digest mismatch'')
              else (case decode plaintext of
                      Inl _ \<Rightarrow> Inl (Msg ''secret envelope payload is invalid'')
                    | Inr (materials, _) \<Rightarrow> canonicalSecretMaterials materials))
      | _ \<Rightarrow> Inl (Msg ''secret envelope encoding is invalid''))"

section \<open>Lemmas\<close>

definition material_ok :: "SecretMaterial \<Rightarrow> bool" where
  "material_ok m \<longleftrightarrow>
     trim_space (mt_Ref m) \<noteq> [] \<and> trim_space (mt_Value m) \<noteq> [] \<and> b64_raw_decode (mt_Value m) \<noteq> None"

lemma check_materials_sorted:
  "sorted (map mt_Ref ms) \<Longrightarrow> (\<forall>r. prev = Some r \<longrightarrow> (\<forall>m \<in> set ms. r \<le> mt_Ref m)) \<Longrightarrow>
   check_materials prev ms = None \<longleftrightarrow>
     list_all material_ok ms \<and> distinct (map mt_Ref ms) \<and> (\<forall>r. prev = Some r \<longrightarrow> r \<notin> mt_Ref ` set ms)"
proof (induction ms arbitrary: prev)
  case Nil
  then show ?case by simp
next
  case (Cons m ms)
  from Cons.prems(1) have s: "sorted (map mt_Ref ms)" and le: "\<forall>x \<in> set ms. mt_Ref m \<le> mt_Ref x" by auto
  have IH: "check_materials (Some (mt_Ref m)) ms = None \<longleftrightarrow>
      list_all material_ok ms \<and> distinct (map mt_Ref ms) \<and> mt_Ref m \<notin> mt_Ref ` set ms"
    using Cons.IH [OF s, of "Some (mt_Ref m)"] le by simp
  have "r \<notin> mt_Ref ` set ms" if "prev = Some r" "r \<noteq> mt_Ref m" for r
    using Cons.prems(2) le that by force
  then show ?case by (auto simp: IH material_ok_def [of m])
qed

lemma canonicalSecretMaterials_iff:
  "canonicalSecretMaterials ms = Inr cs \<longleftrightarrow>
     cs = sort_key mt_Ref ms \<and> list_all material_ok ms \<and> distinct (map mt_Ref ms)"
proof -
  have "check_materials None (sort_key mt_Ref ms) = None \<longleftrightarrow>
      list_all material_ok (sort_key mt_Ref ms) \<and> distinct (map mt_Ref (sort_key mt_Ref ms))"
    by (subst check_materials_sorted) simp_all
  also have "\<dots> \<longleftrightarrow> list_all material_ok ms \<and> distinct (map mt_Ref ms)"
    by (simp add: list.pred_set)
  finally show ?thesis
    by (auto simp: canonicalSecretMaterials_def split: option.splits)
qed

lemma canonicalSecretMaterials_idem:
  "canonicalSecretMaterials ms = Inr cs \<Longrightarrow> canonicalSecretMaterials cs = Inr cs"
  by (auto simp: canonicalSecretMaterials_iff sort_key_id_if_sorted list.pred_set)

lemma colon_not_digit: "\<not> is_digit_char CHR '':''"
  by (simp add: is_digit_char_def byte_of_def)

lemma secretAAD_inject [simp]: "secretAAD a v = secretAAD b w \<longleftrightarrow> a = b \<and> v = w"
  using last_separator_unique [of "CHR '':''" "format_uint v" "format_uint w" "format_int a" "format_int b"]
    format_uint_digits colon_not_digit
  by (auto simp: secretAAD_def)

lemma SealSecretEnvelope_InrD:
  assumes "SealSecretEnvelope cr marshal rnd key nid ver ms = Inr envl"
  obtains cs p n where "length key = 32" "0 < nid" "0 < ver" "canonicalSecretMaterials ms = Inr cs"
    "marshal cs = Inr p" "rnd = Inr n"
    "envl = \<lparr>se_AgentNodeID = nid, se_ConfigVersion = ver, se_SHA256 = hex_digest cr p,
       se_Nonce = b64_encode n, se_Ciphertext = b64_encode (cr_seal cr key n p (secretAAD nid ver))\<rparr>"
  using assms
  by (auto simp: SealSecretEnvelope_def bind_result_Inr_iff split: if_splits)

section \<open>Properties\<close>

text \<open>An encoding of one value, for concrete instances of the encoder arguments\<close>

definition single_marshal :: "'a \<Rightarrow> string \<Rightarrow> 'a \<Rightarrow> string result" where
  "single_marshal v0 raw0 v = (if v = v0 then Inr raw0 else Inl (Msg ''unsupported''))"

definition single_decode :: "'a \<Rightarrow> string \<Rightarrow> 'a json_decoder" where
  "single_decode v0 raw0 s =
     (if take (length raw0) s = raw0 then Inr (v0, drop (length raw0) s) else Inl (Msg ''unsupported''))"

lemma single_codec: "json_codec (single_marshal v0 raw0) (single_decode v0 raw0)"
  by (auto simp: json_codec_def single_marshal_def single_decode_def split: if_splits)

text \<open>
  Concrete primitives that satisfy the laws: the signature is the payload, the sealed text is
  the additional data, with its length in unary, and the plaintext.
\<close>

definition plain_seal :: "string \<Rightarrow> string \<Rightarrow> string" where
  "plain_seal p a = replicate (length a) (CHR ''1'') @ CHR ''0'' # a @ p"

definition plain_open :: "string \<Rightarrow> string \<Rightarrow> string option" where
  "plain_open c a =
     (let n = length (takeWhile (\<lambda>x. x = CHR ''1'') c); rest = drop (Suc n) c
      in if take n rest = a then Some (drop n rest) else None)"

definition plain_crypto :: Crypto where
  "plain_crypto = \<lparr>cr_sha256 = (\<lambda>p. p), cr_sign = (\<lambda>k m. m), cr_verify = (\<lambda>k m s. m = s),
     cr_seal = (\<lambda>k n p a. plain_seal p a), cr_open = (\<lambda>k n c a. plain_open c a)\<rparr>"

lemma takeWhile_replicate_stop: "takeWhile (\<lambda>x. x = a) (replicate n a @ b # xs) = replicate n a" if "b \<noteq> a"
  using that by (induction n) auto

lemma plain_open_seal: "plain_open (plain_seal p a) a' = (if a' = a then Some p else None)"
  by (auto simp: plain_open_def plain_seal_def takeWhile_replicate_stop Let_def)

lemma plain_crypto_laws:
  "aead_correct plain_crypto" "aead_authentic plain_crypto" "signature_scheme plain_crypto sk pk"
  by (auto simp: aead_correct_def aead_authentic_def signature_scheme_def plain_crypto_def plain_open_seal
      split: if_splits)

text \<open>
  Whatever SignConfig signs, VerifySignedConfig accepts under the matching public key, and
  the signed message carries the configuration unchanged.
\<close>

lemma signed_config_verifies:
  assumes "SignConfig cr marshal config keyID sk = Inr msg"
    and "signature_scheme cr sk pk" and "length pk = 32"
  shows "VerifySignedConfig cr marshal msg pk = None \<and> sg_Config msg = config \<and> sg_KeyID msg = keyID"
  using assms
  by (auto simp: SignConfig_def VerifySignedConfig_iff ValidateDesiredConfig_iff [symmetric] signature_scheme_def
      split: option.splits if_splits sum.splits)

lemma signed_config_verifies_witness:
  "\<exists>msg. SignConfig plain_crypto (\<lambda>c. Inr (format_uint (dc_Version c))) example_config ''k1'' (replicate 64 CHR ''s'') = Inr msg \<and>
     VerifySignedConfig plain_crypto (\<lambda>c. Inr (format_uint (dc_Version c))) msg (replicate 32 CHR ''p'') = None"
proof -
  let ?m = "\<lambda>c. Inr (format_uint (dc_Version c))"
  obtain msg where "SignConfig plain_crypto ?m example_config ''k1'' (replicate 64 CHR ''s'') = Inr msg"
    by (simp add: SignConfig_def example_config_accepted ed25519_private_key_size_def)
  with signed_config_verifies [OF this plain_crypto_laws(3), of "replicate 32 CHR ''p''"]
  show ?thesis by auto
qed

text \<open>
  C27. A signed maintenance command verifies at an instant exactly when the instant is in its
  validity window: from thirty seconds before it was issued to just before it expires.
\<close>

theorem maintenance_command_window:
  assumes "SignMaintenanceCommand cr marshal uuid_ok command keyID sk = Inr msg"
    and "signature_scheme cr sk pk" and "length pk = 32" and "trim_space keyID = keyID"
  shows "VerifySignedMaintenanceCommand cr marshal uuid_ok msg keyID pk now = None \<longleftrightarrow>
    mc_IssuedAt command - 30 * second \<le> now \<and> now < mc_ExpiresAt command"
  using assms
  by (auto simp: SignMaintenanceCommand_def VerifySignedMaintenanceCommand_iff signature_scheme_def equal_fold_def
      split: option.splits if_splits sum.splits)

definition example_command :: MaintenanceCommand where
  "example_command = \<lparr>mc_CommandID = ''c1'', mc_AgentNodeID = 7, mc_Action = ''update'',
     mc_TargetVersion = ''v1.2.3'', mc_IssuedAt = 1000 * second, mc_ExpiresAt = 1200 * second\<rparr>"

lemma example_command_valid: "ValidateMaintenanceCommand (\<lambda>s. s \<noteq> []) example_command = None"
proof -
  have "to_lower (trim_space ''update'') = ''update''" and "maintenanceVersionPattern (trim_space ''v1.2.3'')"
    by code_simp+
  then show ?thesis
    by (simp add: ValidateMaintenanceCommand_iff example_command_def second_def minute_def)
qed

theorem maintenance_command_window_witness:
  "\<exists>msg. SignMaintenanceCommand plain_crypto (\<lambda>c. Inr (mc_CommandID c)) (\<lambda>s. s \<noteq> []) example_command ''k1''
       (replicate 64 CHR ''s'') = Inr msg \<and>
     VerifySignedMaintenanceCommand plain_crypto (\<lambda>c. Inr (mc_CommandID c)) (\<lambda>s. s \<noteq> []) msg ''k1''
       (replicate 32 CHR ''p'') (1100 * second) = None \<and>
     VerifySignedMaintenanceCommand plain_crypto (\<lambda>c. Inr (mc_CommandID c)) (\<lambda>s. s \<noteq> []) msg ''k1''
       (replicate 32 CHR ''p'') (1200 * second) \<noteq> None"
proof -
  have k: "trim_space ''k1'' = ''k1''" by code_simp
  obtain msg where "SignMaintenanceCommand plain_crypto (\<lambda>c. Inr (mc_CommandID c)) (\<lambda>s. s \<noteq> []) example_command
      ''k1'' (replicate 64 CHR ''s'') = Inr msg"
    by (simp add: SignMaintenanceCommand_def example_command_valid k ed25519_private_key_size_def)
  with maintenance_command_window [OF this plain_crypto_laws(3) _ k, of "replicate 32 CHR ''p''"]
  show ?thesis by (auto simp: example_command_def second_def)
qed

text \<open>
  C28. Opening a sealed bundle gives back the materials in canonical order: the given ones,
  sorted by reference.
\<close>

theorem secret_envelope_roundtrip:
  assumes "SealSecretEnvelope cr marshal (Inr nonce) key nid ver ms = Inr envl"
    and "aead_correct cr" and "json_codec marshal decode" and "length nonce = nonce_size"
  shows "OpenSecretEnvelope cr decode key envl = Inr (sort_key mt_Ref ms)"
proof -
  from assms(1) obtain cs p where "length key = 32" "0 < nid" "0 < ver"
    and c: "canonicalSecretMaterials ms = Inr cs" and "marshal cs = Inr p"
    and "envl = \<lparr>se_AgentNodeID = nid, se_ConfigVersion = ver, se_SHA256 = hex_digest cr p,
       se_Nonce = b64_encode nonce, se_Ciphertext = b64_encode (cr_seal cr key nonce p (secretAAD nid ver))\<rparr>"
    by (elim SealSecretEnvelope_InrD) auto
  moreover from c have "canonicalSecretMaterials cs = Inr (sort_key mt_Ref ms)"
    using canonicalSecretMaterials_idem [OF c] by (simp add: canonicalSecretMaterials_iff)
  ultimately show ?thesis using assms(2-4)
    by (simp add: OpenSecretEnvelope_def aead_correctD json_codecD equal_fold_def)
qed

definition example_materials :: "SecretMaterial list" where
  "example_materials = [\<lparr>mt_Ref = ''b'', mt_Value = ''QUJD''\<rparr>, \<lparr>mt_Ref = ''a'', mt_Value = ''QUI''\<rparr>]"

lemma example_materials_canonical:
  "canonicalSecretMaterials example_materials = Inr (rev example_materials)"
proof -
  have "trim_space ''a'' = ''a''" "trim_space ''b'' = ''b''" "trim_space ''QUJD'' = ''QUJD''"
    "trim_space ''QUI'' = ''QUI''" "b64_raw_decode ''QUJD'' = Some ''ABC''" "b64_raw_decode ''QUI'' = Some ''AB''"
    by code_simp+
  moreover have "sort_key mt_Ref example_materials = rev example_materials" by code_simp
  ultimately show ?thesis
    unfolding canonicalSecretMaterials_iff by (simp add: example_materials_def material_ok_def)
qed

lemma example_seal:
  "\<exists>envl. SealSecretEnvelope plain_crypto (single_marshal (rev example_materials) ''[]'') (Inr (replicate 12 CHR ''n''))
     (replicate 32 CHR ''k'') 7 3 example_materials = Inr envl"
  by (simp add: SealSecretEnvelope_def example_materials_canonical single_marshal_def)
     (simp add: example_materials_def)

theorem secret_envelope_roundtrip_witness:
  "\<exists>envl. SealSecretEnvelope plain_crypto (single_marshal (rev example_materials) ''[]'')
       (Inr (replicate 12 CHR ''n'')) (replicate 32 CHR ''k'') 7 3 example_materials = Inr envl \<and>
     OpenSecretEnvelope plain_crypto (single_decode (rev example_materials) ''[]'') (replicate 32 CHR ''k'') envl
       = Inr (rev example_materials)"
proof -
  have s: "sort_key mt_Ref example_materials = rev example_materials" by code_simp
  from example_seal obtain envl where e: "SealSecretEnvelope plain_crypto (single_marshal (rev example_materials) ''[]'')
       (Inr (replicate 12 CHR ''n'')) (replicate 32 CHR ''k'') 7 3 example_materials = Inr envl" by blast
  have "length (replicate 12 CHR ''n'') = nonce_size" by (simp add: nonce_size_def)
  from secret_envelope_roundtrip [OF e plain_crypto_laws(1) single_codec this] s e show ?thesis by auto
qed

text \<open>
  C29. A sealed bundle is bound to its node and configuration version: with another node id or
  version in the clear part of the envelope it does not open, under any key.
\<close>

theorem secret_envelope_bound_to_node_and_version:
  assumes "SealSecretEnvelope cr marshal (Inr nonce) key nid ver ms = Inr envl"
    and "aead_authentic cr" and "nid' \<noteq> nid \<or> ver' \<noteq> ver"
  shows "\<exists>e. OpenSecretEnvelope cr decode key' (envl\<lparr>se_AgentNodeID := nid', se_ConfigVersion := ver'\<rparr>) = Inl e"
proof -
  from assms(1) obtain cs p where
    e: "envl = \<lparr>se_AgentNodeID = nid, se_ConfigVersion = ver, se_SHA256 = hex_digest cr p,
       se_Nonce = b64_encode nonce, se_Ciphertext = b64_encode (cr_seal cr key nonce p (secretAAD nid ver))\<rparr>"
    by (elim SealSecretEnvelope_InrD) auto
  have "cr_open cr key' n' (cr_seal cr key nonce p (secretAAD nid ver)) (secretAAD nid' ver') = None" for n'
  proof (rule ccontr)
    assume "cr_open cr key' n' (cr_seal cr key nonce p (secretAAD nid ver)) (secretAAD nid' ver') \<noteq> None"
    then have "secretAAD nid' ver' = secretAAD nid ver"
      using assms(2) unfolding aead_authentic_def by blast
    with assms(3) show False by simp
  qed
  then show ?thesis by (simp add: e OpenSecretEnvelope_def)
qed

theorem secret_envelope_bound_to_node_and_version_witness:
  "\<exists>envl e. SealSecretEnvelope plain_crypto (single_marshal (rev example_materials) ''[]'')
       (Inr (replicate 12 CHR ''n'')) (replicate 32 CHR ''k'') 7 3 example_materials = Inr envl \<and>
     OpenSecretEnvelope plain_crypto (single_decode (rev example_materials) ''[]'') (replicate 32 CHR ''k'')
       (envl\<lparr>se_AgentNodeID := 7, se_ConfigVersion := 4\<rparr>) = Inl e"
proof -
  from example_seal obtain envl where e: "SealSecretEnvelope plain_crypto (single_marshal (rev example_materials) ''[]'')
       (Inr (replicate 12 CHR ''n'')) (replicate 32 CHR ''k'') 7 3 example_materials = Inr envl" by blast
  from secret_envelope_bound_to_node_and_version [OF e plain_crypto_laws(2), of 7 4
      "single_decode (rev example_materials) ''[]''" "replicate 32 CHR ''k''"] e
  show ?thesis by auto
qed

end
