(* ===== verification/Secret_Store.thy ===== *)
theory Secret_Store
  imports Files Secret_Envelope
begin

text \<open>
  The encrypted secret store: internal/secretstore/store.go. Secrets are sealed under a local
  master key with the reference as additional data, and stored under the hash of the reference.
  The nonce, the temporary file name and the fresh master key are arguments. The last sections
  state the store's contract as a locale and interpret it.
\<close>

section \<open>Operations\<close>

record SecretStore =
  st_durableDir :: string
  st_runtimeDir :: string
  st_key :: string

definition writeExclusive :: "string \<Rightarrow> string \<Rightarrow> nat \<Rightarrow> (fs, unit) tx" where
  "writeExclusive path raw mode =
     tx_bind (os_create_exclusive path mode) (\<lambda>_.
     tx_bind (os_file_update path (\<lambda>f. f\<lparr>fl_content := raw\<rparr>)) (\<lambda>_.
     tx_bind os_sync (\<lambda>_. os_close)))"

definition secret_atomicWrite :: "string \<Rightarrow> string \<Rightarrow> string \<Rightarrow> nat \<Rightarrow> (fs, unit) tx" where
  "secret_atomicWrite tmp path raw mode = replace_file tmp path raw mode"

text \<open>Run m; when it fails, run the handler on its error.\<close>

definition tx_catch :: "('db, 'a) tx \<Rightarrow> (go_error \<Rightarrow> ('db, 'a) tx) \<Rightarrow> ('db, 'a) tx" where
  "tx_catch m h c = (case m c of (Inl e, c') \<Rightarrow> h e c' | (Inr x, c') \<Rightarrow> (Inr x, c'))"

definition load_master_key :: "string result \<Rightarrow> string \<Rightarrow> (fs, string) tx" where
  "load_master_key fresh_key keyPath =
     tx_catch (os_read_file keyPath) (\<lambda>err.
       if error_is err ErrNotExist then
         tx_bind (tx_lift fresh_key) (\<lambda>key.
         tx_catch (tx_bind (writeExclusive keyPath key mode_0600) (\<lambda>_. tx_return key)) (\<lambda>werr.
           tx_catch (os_read_file keyPath) (\<lambda>_. tx_lift (Inl werr))))
       else tx_lift (Inl err))"

definition OpenSecretStore :: "string result \<Rightarrow> string \<Rightarrow> string \<Rightarrow> (fs, SecretStore) tx" where
  "OpenSecretStore fresh_key configDir runtimeDir =
     (if configDir = [] \<or> runtimeDir = [] then tx_lift (Inl (Msg ''secret directories are required''))
      else tx_bind (os_mkdir_all configDir) (\<lambda>_.
           tx_bind (os_mkdir_all runtimeDir) (\<lambda>_.
           tx_bind (load_master_key fresh_key (path_join configDir ''state.key'')) (\<lambda>key.
           if length key \<noteq> 32 then tx_lift (Inl (Msg ''local secret master key is invalid''))
           else tx_bind (os_mkdir_all (path_join configDir ''secrets'')) (\<lambda>_.
                tx_return \<lparr>st_durableDir = path_join configDir ''secrets'', st_runtimeDir = runtimeDir, st_key = key\<rparr>)))))"

definition secretName :: "Crypto \<Rightarrow> string \<Rightarrow> string" where
  "secretName cr ref = hex_encode (cr_sha256 cr ref)"

definition durablePath :: "Crypto \<Rightarrow> SecretStore \<Rightarrow> string \<Rightarrow> string" where
  "durablePath cr st ref = path_join (st_durableDir st) (secretName cr ref @ ''.enc'')"

definition Put :: "Crypto \<Rightarrow> string result \<Rightarrow> string \<Rightarrow> SecretStore \<Rightarrow> string \<Rightarrow> string \<Rightarrow> (fs, unit) tx" where
  "Put cr rand_read tmp st ref plaintext =
     (if \<not> secretRefPattern ref \<or> plaintext = [] \<or> length plaintext > 1024 * 1024
      then tx_lift (Inl (Msg ''secret material is invalid''))
      else tx_bind (tx_lift rand_read) (\<lambda>nonce.
           secret_atomicWrite tmp (durablePath cr st ref) (nonce @ cr_seal cr (st_key st) nonce plaintext ref) mode_0600))"

definition Resolve :: "Crypto \<Rightarrow> SecretStore \<Rightarrow> string \<Rightarrow> (fs, string) tx" where
  "Resolve cr st ref =
     (if \<not> secretRefPattern ref then tx_lift (Inl (Msg ''secret reference is invalid''))
      else tx_bind (os_read_file (durablePath cr st ref)) (\<lambda>raw.
           if length raw \<le> nonce_size then tx_lift (Inl (Msg ''encrypted secret is invalid''))
           else case cr_open cr (st_key st) (take nonce_size raw) (drop nonce_size raw) ref of
                  None \<Rightarrow> tx_lift (Inl (Msg ''encrypted secret authentication failed''))
                | Some plaintext \<Rightarrow> tx_return plaintext))"

definition Materialize :: "Crypto \<Rightarrow> string \<Rightarrow> SecretStore \<Rightarrow> string \<Rightarrow> string \<Rightarrow> nat \<Rightarrow> (fs, string) tx" where
  "Materialize cr tmp st ref extension mode =
     tx_bind (Resolve cr st ref) (\<lambda>plaintext.
       if extension \<noteq> ''.crt'' \<and> extension \<noteq> ''.key''
       then tx_lift (Inl (Msg ''secret material extension is invalid''))
       else let path = path_join (st_runtimeDir st) (secretName cr ref @ extension)
            in tx_bind (secret_atomicWrite tmp path plaintext mode) (\<lambda>_. tx_return path))"

definition remove_entry :: "string \<Rightarrow> (fs, unit) tx" where
  "remove_entry path =
     tx_catch (os_remove path) (\<lambda>err. if error_is err ErrNotExist then tx_return () else tx_lift (Inl err))"

definition RemoveMaterialized :: "SecretStore \<Rightarrow> (fs, unit) tx" where
  "RemoveMaterialized st =
     tx_bind (os_read_dir (st_runtimeDir st)) (\<lambda>entries.
     tx_iter (\<lambda>name. remove_entry (path_join (st_runtimeDir st) name)) entries)"

section \<open>File names\<close>

lemma hex_digit_inject: "a < 16 \<Longrightarrow> b < 16 \<Longrightarrow> hex_digit a = hex_digit b \<longleftrightarrow> a = b"
  by (auto simp: hex_digit_def split: if_splits)

lemma hex_encode_inject [simp]: "hex_encode s = hex_encode t \<longleftrightarrow> s = t"
proof
  have byte: "byte_of c = byte_of d" if "hex_digit (byte_of c div 16) = hex_digit (byte_of d div 16)"
    "hex_digit (byte_of c mod 16) = hex_digit (byte_of d mod 16)" for c d
  proof -
    have "byte_of c div 16 = byte_of d div 16" "byte_of c mod 16 = byte_of d mod 16"
      using that byte_of_lt [of c] byte_of_lt [of d] by (simp_all add: hex_digit_inject less_mult_imp_div_less)
    then show ?thesis by (metis div_mult_mod_eq)
  qed
  show "hex_encode s = hex_encode t \<Longrightarrow> s = t"
  proof (induction s arbitrary: t)
    case Nil
    then show ?case by (cases t) (simp_all add: hex_encode_def)
  next
    case (Cons c s)
    then obtain d t' where "t = d # t'" by (cases t) (simp_all add: hex_encode_def)
    with Cons byte show ?case by (auto simp: hex_encode_def) (metis char_of_byte_of)
  qed
qed simp

lemma byte_of_hex_digit: "d < 16 \<Longrightarrow> byte_of (hex_digit d) = (if d < 10 then 48 + d else 87 + d)"
  by (simp add: hex_digit_def)

lemma hex_digit_chars: "d < 16 \<Longrightarrow> hex_digit d \<noteq> CHR ''/'' \<and> hex_digit d \<noteq> CHR ''.''"
  using byte_of_hex_digit [of d] by (auto simp: byte_of_def split: if_splits)

lemma hex_encode_chars: "c \<in> set (hex_encode s) \<Longrightarrow> c \<noteq> CHR ''/'' \<and> c \<noteq> CHR ''.''"
  using hex_digit_chars byte_of_lt by (auto simp: hex_encode_def less_mult_imp_div_less)

lemma plain_secret_name: "e \<in> {''.enc'', ''.crt'', ''.key''} \<Longrightarrow> plain_name (secretName cr ref @ e)"
  using hex_encode_chars by (auto simp: plain_name_def secretName_def Cons_eq_append_conv append_eq_Cons_conv)

lemma durablePath_eq:
  "clean_dir (st_durableDir st) \<Longrightarrow> durablePath cr st ref = st_durableDir st @ ''/'' @ secretName cr ref @ ''.enc''"
  by (simp add: durablePath_def path_join_clean_dir plain_secret_name)

section \<open>Contract\<close>

text \<open>
  What the rest of the agent relies on: a successful Put makes the value the one a later lookup
  of that reference returns and touches no other reference; a failed Put changes nothing.
\<close>

datatype ('k, 'v) put_event = PutEvent (ev_key: 'k) (ev_value: 'v) (ev_ok: bool)

inductive put_run ::
  "('s \<Rightarrow> 'k \<Rightarrow> 'v \<Rightarrow> bool \<Rightarrow> 's \<Rightarrow> bool) \<Rightarrow> 's \<Rightarrow> ('k, 'v) put_event list \<Rightarrow> 's \<Rightarrow> bool"
  for put s0 where
  start: "put_run put s0 [] s0"
| put: "put_run put s0 es s \<Longrightarrow> put s k v ok s' \<Longrightarrow> put_run put s0 (es @ [PutEvent k v ok]) s'"

definition apply_puts :: "('k, 'v) put_event list \<Rightarrow> ('k \<rightharpoonup> 'v) \<Rightarrow> ('k \<rightharpoonup> 'v)" where
  "apply_puts es m = fold (\<lambda>e m. if ev_ok e then m(ev_key e \<mapsto> ev_value e) else m) es m"

locale secret_contract =
  fixes inv :: "'s \<Rightarrow> bool"
    and lookup :: "'s \<Rightarrow> 'k \<rightharpoonup> 'v"
    and put :: "'s \<Rightarrow> 'k \<Rightarrow> 'v \<Rightarrow> bool \<Rightarrow> 's \<Rightarrow> bool"
  assumes put_ok: "inv s \<Longrightarrow> put s k v True s' \<Longrightarrow> inv s' \<and> lookup s' = (lookup s)(k \<mapsto> v)"
    and put_failed: "inv s \<Longrightarrow> put s k v False s' \<Longrightarrow> inv s' \<and> lookup s' = lookup s"
begin

lemma run_refines_map: "put_run put s0 es s \<Longrightarrow> inv s0 \<Longrightarrow> inv s \<and> lookup s = apply_puts es (lookup s0)"
proof (induction rule: put_run.induct)
  case (put es s k v ok s')
  then show ?case
    using put_ok [of s k v s'] put_failed [of s k v s'] by (cases ok) (simp_all add: apply_puts_def)
qed (simp add: apply_puts_def)

end

definition aead_expands :: "Crypto \<Rightarrow> bool" where
  "aead_expands cr \<longleftrightarrow> (\<forall>k n p a. cr_seal cr k n p a \<noteq> [])"

text \<open>Distinct references have distinct hashes, and the directory is a clean absolute path.\<close>

definition secret_laws :: "Crypto \<Rightarrow> SecretStore \<Rightarrow> bool" where
  "secret_laws cr st \<longleftrightarrow> aead_correct cr \<and> aead_expands cr \<and> clean_dir (st_durableDir st) \<and>
     inj_on (cr_sha256 cr) {r. secretRefPattern r}"

definition secret_lookup :: "Crypto \<Rightarrow> SecretStore \<Rightarrow> fs \<Rightarrow> string \<rightharpoonup> string" where
  "secret_lookup cr st s ref = (case Resolve cr st ref ([], s) of (Inr p, _) \<Rightarrow> Some p | (Inl _, _) \<Rightarrow> None)"

text \<open>A name CreateTemp gives: it starts with .secret- and no file has it\<close>

definition fresh_temporary :: "string \<Rightarrow> string \<Rightarrow> fs \<Rightarrow> bool" where
  "fresh_temporary dir tmp s \<longleftrightarrow> (\<exists>x. tmp = dir @ ''/.secret-'' @ x) \<and> fs_lookup s tmp = None"

definition secret_put :: "Crypto \<Rightarrow> SecretStore \<Rightarrow> fs \<Rightarrow> string \<Rightarrow> string \<Rightarrow> bool \<Rightarrow> fs \<Rightarrow> bool" where
  "secret_put cr st s ref v ok s' \<longleftrightarrow>
     (\<exists>nonce tmp fs r fs'. length nonce = nonce_size \<and> fresh_temporary (st_durableDir st) tmp s \<and>
        Put cr (Inr nonce) tmp st ref v (fs, s) = (r, fs', s') \<and> ok = (r = Inr ()))"

lemma temporary_not_durable:
  assumes "clean_dir (st_durableDir st)" and "tmp = st_durableDir st @ ''/.secret-'' @ x"
  shows "tmp \<noteq> durablePath cr st ref"
proof
  assume "tmp = durablePath cr st ref"
  then have "''.secret-'' @ x = secretName cr ref @ ''.enc''" using assms by (simp add: durablePath_eq)
  then have "secretName cr ref = [] \<or> CHR ''.'' \<in> set (secretName cr ref)"
    by (cases "secretName cr ref") auto
  moreover have "CHR ''.'' \<notin> set (secretName cr ref)" using hex_encode_chars by (auto simp: secretName_def)
  ultimately have "secretName cr ref = []" by blast
  with \<open>''.secret-'' @ x = secretName cr ref @ ''.enc''\<close> show False by simp
qed

lemma secret_lookup_eq:
  "secret_lookup cr st s ref =
     (if \<not> secretRefPattern ref then None
      else case fs_lookup s (durablePath cr st ref) of
             None \<Rightarrow> None
           | Some f \<Rightarrow> if length (fl_content f) \<le> nonce_size then None
               else cr_open cr (st_key st) (take nonce_size (fl_content f)) (drop nonce_size (fl_content f)) ref)"
  by (auto simp: secret_lookup_def Resolve_def tx_bind_def os_read_file_def split: option.splits)

lemma durablePath_inject:
  "secret_laws cr st \<Longrightarrow> secretRefPattern a \<Longrightarrow> secretRefPattern b \<Longrightarrow>
     durablePath cr st a = durablePath cr st b \<longleftrightarrow> a = b"
  by (auto simp: secret_laws_def durablePath_eq secretName_def dest: inj_onD)

lemma secret_put_cases:
  assumes "secret_laws cr st" and "secret_put cr st s ref v ok s'"
  shows "secret_lookup cr st s' = (if ok then (secret_lookup cr st s)(ref \<mapsto> v) else secret_lookup cr st s)"
proof -
  from assms(2) obtain nonce tmp fs r fs' x where n: "length nonce = nonce_size"
    and tmp: "tmp = st_durableDir st @ ''/.secret-'' @ x" "fs_lookup s tmp = None"
    and run: "Put cr (Inr nonce) tmp st ref v (fs, s) = (r, fs', s')" and ok: "ok = (r = Inr ())"
    by (auto simp: secret_put_def fresh_temporary_def)
  have nd: "tmp \<noteq> durablePath cr st q" for q
    using temporary_not_durable [OF _ tmp(1)] assms(1) by (simp add: secret_laws_def)
  show ?thesis
  proof (cases "secretRefPattern ref \<and> v \<noteq> [] \<and> length v \<le> 1024 * 1024")
    case False
    with run ok show ?thesis by (auto simp: Put_def tx_lift_def split: if_splits)
  next
    case True
    let ?raw = "nonce @ cr_seal cr (st_key st) nonce v ref"
    from run True have w: "replace_file tmp (durablePath cr st ref) ?raw mode_0600 (fs, s) = (r, fs', s')"
      by (simp add: Put_def tx_bind_def tx_lift_def secret_atomicWrite_def)
    from replace_file_atomic [OF w tmp(2) nd] show ?thesis
    proof
      assume a: "r = Inr () \<and> (\<forall>q. fs_lookup s' q =
        (if q = durablePath cr st ref then Some \<lparr>fl_content = ?raw, fl_mode = mode_0600\<rparr> else fs_lookup s q))"
      have "secret_lookup cr st s' q = ((secret_lookup cr st s)(ref \<mapsto> v)) q" for q
      proof (cases "q = ref")
        case True
        with a n \<open>secretRefPattern ref \<and> v \<noteq> [] \<and> length v \<le> 1024 * 1024\<close> assms(1) show ?thesis
          by (simp add: secret_lookup_eq secret_laws_def aead_expands_def aead_correctD)
      next
        case False
        with a True durablePath_inject [OF assms(1), of q ref] show ?thesis by (simp add: secret_lookup_eq)
      qed
      with a ok show ?thesis by auto
    next
      assume f: "\<exists>e. r = Inl e \<and> fs_same_except tmp s s'"
      then have "fs_lookup s' (durablePath cr st q) = fs_lookup s (durablePath cr st q)" for q
        using nd [of q] by (auto simp: fs_same_except_def)
      with f ok show ?thesis by (auto simp: secret_lookup_eq fun_eq_iff)
    qed
  qed
qed

interpretation secrets: secret_contract "\<lambda>s. secret_laws cr st" "secret_lookup cr st" "secret_put cr st" for cr st
proof
  fix s k v s'
  assume l: "secret_laws cr st"
  { assume "secret_put cr st s k v True s'"
    from secret_put_cases [OF l this] l show "secret_laws cr st \<and> secret_lookup cr st s' = (secret_lookup cr st s)(k \<mapsto> v)" by simp }
  { assume "secret_put cr st s k v False s'"
    from secret_put_cases [OF l this] l show "secret_laws cr st \<and> secret_lookup cr st s' = secret_lookup cr st s" by simp }
qed

section \<open>Properties\<close>

text \<open>
  C9. The encrypted store implements a map from references to secrets: after any sequence of
  Put calls, with arbitrary faults of the file operations in between, resolving a reference
  gives the value of the last Put of that reference that returned nil, and what was stored
  before when there was none. In particular a Put that fails half way loses nothing.
\<close>

theorem secret_store_refines_map:
  assumes "secret_laws cr st" and "put_run (secret_put cr st) s0 es s"
  shows "secret_lookup cr st s = apply_puts es (secret_lookup cr st s0)"
  using secrets.run_refines_map [OF assms(2,1)] by blast

definition example_store :: SecretStore where
  "example_store = \<lparr>st_durableDir = ''/etc/iepl-agent/secrets'', st_runtimeDir = ''/run/iepl-agent/secrets'',
     st_key = replicate 32 CHR ''k''\<rparr>"

lemma example_dirs: "clean_dir ''/etc/iepl-agent/secrets''" "clean_dir ''/run/iepl-agent/secrets''"
  "clean_dir ''/etc/iepl-agent''"
proof -
  have p: "list_all plain_name [''etc'', ''iepl-agent'', ''secrets'']" "list_all plain_name [''run'', ''iepl-agent'', ''secrets'']"
    by (simp_all add: plain_name_def)
  show "clean_dir ''/etc/iepl-agent/secrets''" unfolding clean_dir_def
    by (intro conjI exI [of _ "[''etc'', ''iepl-agent'', ''secrets'']"]) (use p in \<open>simp_all add: has_prefix_def\<close>)
  show "clean_dir ''/run/iepl-agent/secrets''" unfolding clean_dir_def
    by (intro conjI exI [of _ "[''run'', ''iepl-agent'', ''secrets'']"]) (use p in \<open>simp_all add: has_prefix_def\<close>)
  show "clean_dir ''/etc/iepl-agent''" unfolding clean_dir_def
    by (intro conjI exI [of _ "[''etc'', ''iepl-agent'']"]) (use p in \<open>simp_all add: has_prefix_def\<close>)
qed

lemma example_store_laws: "secret_laws plain_crypto example_store"
  using plain_crypto_laws(1) example_dirs
  by (simp add: secret_laws_def aead_expands_def plain_crypto_def plain_seal_def example_store_def)

lemma example_put: "\<exists>s. secret_put plain_crypto example_store [] ''tls:cert:1:1'' ''pem'' True s"
proof -
  let ?tmp = "''/etc/iepl-agent/secrets/.secret-1''" and ?n = "replicate 12 CHR ''n''"
  have r: "secretRefPattern ''tls:cert:1:1''" by code_simp
  have f: "fresh_temporary (st_durableDir example_store) ?tmp []"
    by (auto simp: fresh_temporary_def example_store_def fs_lookup_def)
  have "fs_lookup [] ?tmp = None" by (simp add: fs_lookup_def)
  from replace_file_run [OF this] obtain s where
    "Put plain_crypto (Inr ?n) ?tmp example_store ''tls:cert:1:1'' ''pem'' ([], []) = (Inr (), [], s)"
    using r by (fastforce simp: Put_def tx_bind_def secret_atomicWrite_def)
  moreover have "length ?n = nonce_size" by (simp add: nonce_size_def)
  ultimately show ?thesis using f unfolding secret_put_def by blast
qed

theorem secret_store_refines_map_witness:
  "\<exists>s. put_run (secret_put plain_crypto example_store) [] [PutEvent ''tls:cert:1:1'' ''pem'' True] s \<and>
     secret_lookup plain_crypto example_store s ''tls:cert:1:1'' = Some ''pem''"
proof -
  from example_put obtain s where p: "secret_put plain_crypto example_store [] ''tls:cert:1:1'' ''pem'' True s" by blast
  have "put_run (secret_put plain_crypto example_store) [] ([] @ [PutEvent ''tls:cert:1:1'' ''pem'' True]) s"
    by (rule put_run.put, rule put_run.start, rule p)
  then have run: "put_run (secret_put plain_crypto example_store) [] [PutEvent ''tls:cert:1:1'' ''pem'' True] s" by simp
  from secret_store_refines_map [OF example_store_laws run] run show ?thesis by (auto simp: apply_puts_def)
qed

text \<open>
  A stored secret is bound to its reference: when the file of one reference is replaced by
  the file of another one, resolving it fails instead of returning the other secret.
\<close>

lemma secret_bound_to_reference:
  assumes "aead_authentic cr" and "a \<noteq> b" and "length nonce = nonce_size"
    and "fs_lookup s (durablePath cr st a) = Some f" and "fl_content f = nonce @ cr_seal cr (st_key st) nonce v b"
  shows "\<exists>e fs'. Resolve cr st a (fs, s) = (Inl e, fs', s)"
proof -
  have "cr_open cr (st_key st) nonce (cr_seal cr (st_key st) nonce v b) a = None"
  proof (rule ccontr)
    assume "cr_open cr (st_key st) nonce (cr_seal cr (st_key st) nonce v b) a \<noteq> None"
    then have "a = b" using assms(1) unfolding aead_authentic_def by blast
    with assms(2) show False by simp
  qed
  with assms(3-5) show ?thesis
    by (auto simp: Resolve_def tx_bind_def os_read_file_def stmt_def tx_lift_def split: option.splits)
qed

lemma secret_bound_to_reference_witness:
  "\<exists>e fs'. Resolve plain_crypto example_store ''tls:key:1:1''
     ([], [(durablePath plain_crypto example_store ''tls:key:1:1'',
            \<lparr>fl_content = replicate 12 CHR ''n'' @ plain_seal ''pem'' ''tls:cert:1:1'', fl_mode = mode_0600\<rparr>)])
     = (Inl e, fs', [(durablePath plain_crypto example_store ''tls:key:1:1'',
            \<lparr>fl_content = replicate 12 CHR ''n'' @ plain_seal ''pem'' ''tls:cert:1:1'', fl_mode = mode_0600\<rparr>)])"
  by (rule secret_bound_to_reference [OF plain_crypto_laws(2), of _ "''tls:cert:1:1''" "replicate 12 CHR ''n''" _ _
        "\<lparr>fl_content = replicate 12 CHR ''n'' @ plain_seal ''pem'' ''tls:cert:1:1'', fl_mode = mode_0600\<rparr>" "''pem''"])
     (simp_all add: fs_lookup_def nonce_size_def plain_crypto_def)

text \<open>
  RemoveMaterialized leaves no plaintext behind: when it returns nil, whatever faults were
  tolerated on the way, no file is left directly in the runtime directory, and every file of
  another directory is as it was.
\<close>

definition fs_paths_ok :: "fs \<Rightarrow> bool" where
  "fs_paths_ok s \<longleftrightarrow> (\<forall>p \<in> fst ` set s. plain_name (path_base p) \<and> p = path_dir p @ ''/'' @ path_base p)"

definition genuine_faults :: "faults \<Rightarrow> bool" where
  "genuine_faults fs \<longleftrightarrow> (\<forall>e. Some e \<in> set fs \<longrightarrow> \<not> error_is e ErrNotExist)"

lemma next_fault_genuine:
  "genuine_faults fs \<Longrightarrow> next_fault fs = Some e \<Longrightarrow> \<not> error_is e ErrNotExist"
  "genuine_faults fs \<Longrightarrow> genuine_faults (tl fs)"
  by (cases fs; auto simp: genuine_faults_def next_fault_def)+

lemma remove_entry_run:
  assumes "remove_entry p (fs, s) = (Inr u, fs', s')" and "genuine_faults fs"
  shows "genuine_faults fs' \<and> fs_lookup s' p = None \<and> fs_same_except p s s'"
  using assms next_fault_genuine [of fs]
  by (auto simp: remove_entry_def tx_catch_def os_remove_def stmt_def tx_return_def tx_lift_def
      split: option.splits sum.splits prod.splits if_splits)

lemma remove_entries_run:
  "tx_iter (\<lambda>n. remove_entry (g n)) ns (fs, s) = (Inr u, fs', s') \<Longrightarrow> genuine_faults fs \<Longrightarrow>
   \<forall>q. fs_lookup s' q = (if q \<in> g ` set ns then None else fs_lookup s q)"
proof (induction ns arbitrary: fs s)
  case Nil
  then show ?case by (simp add: tx_return_def)
next
  case (Cons n ns)
  from Cons.prems(1) obtain v fs1 s1 where 1: "remove_entry (g n) (fs, s) = (Inr v, fs1, s1)"
    and 2: "tx_iter (\<lambda>n. remove_entry (g n)) ns (fs1, s1) = (Inr u, fs', s')"
    by (auto elim: run_bind_cases)
  from remove_entry_run [OF 1 Cons.prems(2)] Cons.IH [OF 2] show ?case
    by (auto simp: fs_same_except_def)
qed

lemma fs_keys_lookup: "p \<in> fst ` set s \<longleftrightarrow> fs_lookup s p \<noteq> None"
  by (simp add: fs_lookup_def map_of_eq_None_iff)

lemma remove_materialized_leaves_nothing:
  assumes "RemoveMaterialized st (fs, s) = (Inr u, fs', s')" and "genuine_faults fs"
    and "fs_paths_ok s" and "clean_dir (st_runtimeDir st)"
  shows "dir_entries (st_runtimeDir st) s' = [] \<and>
    (\<forall>p. path_dir p \<noteq> st_runtimeDir st \<longrightarrow> fs_lookup s' p = fs_lookup s p)"
proof -
  let ?d = "st_runtimeDir st" and ?ns = "dir_entries (st_runtimeDir st) s"
  from assms(1) have it: "tx_iter (\<lambda>n. remove_entry (path_join ?d n)) ?ns (tl fs, s) = (Inr u, fs', s')"
    by (auto simp: RemoveMaterialized_def os_read_dir_def tx_bind_def stmt_def split: option.splits)
  note L = remove_entries_run [OF it next_fault_genuine(2) [OF assms(2)], rule_format]
  have names: "path_join ?d n = ?d @ ''/'' @ n \<and> plain_name n" if "n \<in> set ?ns" for n
    using that assms(3) path_join_clean_dir [OF assms(4)] by (auto simp: dir_entries_def fs_paths_ok_def)
  have gone: "fs_lookup s' p = None" if "path_dir p = ?d" for p
  proof (cases "p \<in> fst ` set s")
    case True
    with assms(3) that have p: "p = ?d @ ''/'' @ path_base p" by (auto simp: fs_paths_ok_def)
    have "path_base p \<in> set ?ns" using True that by (auto simp: dir_entries_def)
    with names p have "p \<in> path_join ?d ` set ?ns" by (metis image_eqI)
    then show ?thesis by (simp add: L)
  next
    case False
    then show ?thesis using fs_keys_lookup [of p s] by (simp add: L)
  qed
  have "path_dir p \<noteq> ?d" if "p \<in> fst ` set s'" for p
    using that gone fs_keys_lookup by blast
  then have "filter (\<lambda>p. path_dir p = ?d) (map fst s') = []" by (auto simp: filter_empty_conv)
  then have "dir_entries ?d s' = []" by (simp add: dir_entries_def)
  moreover have "fs_lookup s' p = fs_lookup s p" if "path_dir p \<noteq> ?d" for p
  proof -
    have "p \<notin> path_join ?d ` set ?ns" using names that by auto
    then show ?thesis by (simp add: L)
  qed
  ultimately show ?thesis by blast
qed

definition example_runtime_fs :: fs where
  "example_runtime_fs = [(''/run/iepl-agent/secrets/a.key'', \<lparr>fl_content = ''k'', fl_mode = mode_0600\<rparr>),
     (''/etc/iepl-agent/client.key'', \<lparr>fl_content = ''c'', fl_mode = mode_0600\<rparr>)]"

lemma remove_materialized_leaves_nothing_witness:
  "\<exists>s'. RemoveMaterialized example_store ([], example_runtime_fs) = (Inr (), [], s') \<and>
     dir_entries ''/run/iepl-agent/secrets'' s' = []"
proof -
  have e: "dir_entries ''/run/iepl-agent/secrets'' example_runtime_fs = [''a.key'']" by code_simp
  have j: "path_join ''/run/iepl-agent/secrets'' ''a.key'' = ''/run/iepl-agent/secrets/a.key''" by code_simp
  have ok: "fs_paths_ok example_runtime_fs"
  proof -
    have "plain_name (path_base ''/run/iepl-agent/secrets/a.key'')" "plain_name (path_base ''/etc/iepl-agent/client.key'')"
      "path_dir ''/run/iepl-agent/secrets/a.key'' = ''/run/iepl-agent/secrets''"
      "path_base ''/run/iepl-agent/secrets/a.key'' = ''a.key''"
      "path_dir ''/etc/iepl-agent/client.key'' = ''/etc/iepl-agent''" "path_base ''/etc/iepl-agent/client.key'' = ''client.key''"
      by code_simp+
    then show ?thesis by (simp add: fs_paths_ok_def example_runtime_fs_def)
  qed
  obtain s' where run: "RemoveMaterialized example_store ([], example_runtime_fs) = (Inr (), [], s')"
    by (simp add: RemoveMaterialized_def os_read_dir_def tx_bind_def example_store_def e remove_entry_def tx_catch_def
        os_remove_def j)
       (simp add: example_runtime_fs_def fs_lookup_def)
  have "clean_dir (st_runtimeDir example_store)" using example_dirs(2) by (simp add: example_store_def)
  from remove_materialized_leaves_nothing [OF run _ ok this] run show ?thesis
    by (auto simp: genuine_faults_def example_store_def)
qed

text \<open>
  The master key is created once: opening the store again, on the files the first opening
  left and with whatever fresh key at hand, gives the same store and changes no file.
\<close>

lemma load_master_key_stable:
  assumes "load_master_key f1 p ([], s) = (Inr key, fs1, s1)"
  shows "fs1 = [] \<and> load_master_key f2 p ([], s1) = (Inr key, [], s1)"
  using assms
  by (auto simp: load_master_key_def tx_catch_def os_read_file_def tx_bind_def writeExclusive_def os_create_exclusive_def
      os_file_update_def os_sync_def os_close_def split: option.splits sum.splits prod.splits if_splits)

lemma master_key_created_once:
  assumes "OpenSecretStore fresh1 configDir runtimeDir ([], s) = (Inr st, [], s1)"
  shows "OpenSecretStore fresh2 configDir runtimeDir ([], s1) = (Inr st, [], s1) \<and> length (st_key st) = 32"
proof -
  from assms have dirs: "configDir \<noteq> []" "runtimeDir \<noteq> []" by (auto simp: OpenSecretStore_def)
  obtain r fs2 s2 where k: "load_master_key fresh1 (path_join configDir ''state.key'') ([], s) = (r, fs2, s2)"
    by (metis prod.exhaust)
  with assms dirs obtain key where r: "r = Inr key"
    by (cases r) (auto simp: OpenSecretStore_def tx_bind_def os_mkdir_all_def)
  note L = load_master_key_stable [OF k [unfolded r]]
  with assms dirs k r have o: "length key = 32" "s2 = s1"
      "st = \<lparr>st_durableDir = path_join configDir ''secrets'', st_runtimeDir = runtimeDir, st_key = key\<rparr>"
    by (auto simp: OpenSecretStore_def tx_bind_def os_mkdir_all_def split: if_splits)
  with L dirs show ?thesis by (simp add: OpenSecretStore_def tx_bind_def os_mkdir_all_def)
qed

lemma master_key_created_once_witness:
  "\<exists>st s1. OpenSecretStore (Inr (replicate 32 CHR ''a'')) ''/etc/x'' ''/run/x'' ([], []) = (Inr st, [], s1) \<and>
     OpenSecretStore (Inr (replicate 32 CHR ''b'')) ''/etc/x'' ''/run/x'' ([], s1) = (Inr st, [], s1)"
proof -
  obtain st s1 where "OpenSecretStore (Inr (replicate 32 CHR ''a'')) ''/etc/x'' ''/run/x'' ([], []) = (Inr st, [], s1)"
    by (simp add: OpenSecretStore_def tx_bind_def os_mkdir_all_def load_master_key_def tx_catch_def os_read_file_def
        fs_lookup_def [of "[]"] writeExclusive_def os_create_exclusive_def os_file_update_def os_sync_def os_close_def)
  with master_key_created_once [OF this, of "Inr (replicate 32 CHR ''b'')"] show ?thesis by blast
qed

end
