(* ===== verification/Identity.thy ===== *)
theory Identity
  imports Config Secret_Store
begin

text \<open>
  Enrolment and the stored identity: internal/identity/identity.go. The certificate, URL, PEM,
  JSON and HTTP functions of the standard library and uuid are fields of \<open>IdentityEnv\<close>; key
  generation, the fresh machine id, the clock and the names of temporary files are arguments.
  What is modelled is the order of the checks, the files written and the errors.
\<close>

section \<open>Data\<close>

record Identity =
  id_AgentNodeID :: int
  id_MachineID :: string
  id_WSSURL :: string
  id_ConfigSigningKeyID :: string
  id_ConfigSigningPublicKey :: string
  id_CertificateNotAfter :: string
  id_SecretEnvelopeKey :: string

record enrollmentRequest =
  eq_Token :: string
  eq_MachineID :: string
  eq_CSRPEM :: string

record enrollmentResponse =
  es_AgentNodeID :: int
  es_WSSURL :: string
  es_CertificatePEM :: string
  es_CACertificatePEM :: string
  es_ConfigSigningKeyID :: string
  es_ConfigSigningPublicKey :: string
  es_CertificateNotAfter :: string
  es_SecretEnvelopeKey :: string

record Url =
  ul_Scheme :: string
  ul_Host :: string
  ul_HasUser :: bool
  ul_String :: string

record Certificate =
  ct_IsCA :: bool
  ct_PublicKey :: string
  ct_NotAfter :: int

record IdentityEnv =
  ie_uuid_ok :: "string \<Rightarrow> bool"
  ie_url_parse :: "string \<Rightarrow> Url option"
  ie_pem_decode :: "string \<Rightarrow> (string \<times> string) option"
  ie_x509_parse :: "string \<Rightarrow> Certificate option"
  ie_verify_chain :: "Certificate \<Rightarrow> Certificate \<Rightarrow> int \<Rightarrow> bool"
  ie_parse_rfc3339 :: "string \<Rightarrow> int option"
  ie_create_csr :: "string \<Rightarrow> string \<Rightarrow> string result"
  ie_encode_request :: "enrollmentRequest \<Rightarrow> string result"
  ie_new_request :: "string \<Rightarrow> string \<Rightarrow> unit result"
  ie_http_post :: "string \<Rightarrow> string \<Rightarrow> (int \<times> string result) result"
  ie_decode_response :: "enrollmentResponse json_decoder"
  ie_public_key :: "string \<Rightarrow> string"
  ie_private_pem :: "string \<Rightarrow> string result"
  ie_marshal_identity :: "Identity \<Rightarrow> string result"
  ie_decode_identity :: "Identity json_decoder"
  ie_load_key_pair :: "string \<Rightarrow> string \<Rightarrow> string result"

section \<open>Operations\<close>

definition identity_atomicWrite :: "(string \<Rightarrow> string) \<Rightarrow> string \<Rightarrow> string \<Rightarrow> nat \<Rightarrow> (fs, unit) tx" where
  "identity_atomicWrite tmp path raw mode =
     tx_bind (os_mkdir_all (path_dir path)) (\<lambda>_. replace_file (tmp path) path raw mode)"

definition EnsureMachineID :: "IdentityEnv \<Rightarrow> (string \<Rightarrow> string) \<Rightarrow> string \<Rightarrow> string \<Rightarrow> (fs, string) tx" where
  "EnsureMachineID env tmp fresh path =
     tx_bind
       (tx_catch (tx_bind (os_read_file path) (\<lambda>raw. tx_return (Some (trim_space raw))))
          (\<lambda>err. if error_is err ErrNotExist then tx_return None else tx_lift (Inl err)))
       (\<lambda>stored. case stored of
          Some value \<Rightarrow>
            if \<not> ie_uuid_ok env value then tx_lift (Inl (Msg ''stored machine id is invalid'')) else tx_return value
        | None \<Rightarrow>
            tx_bind (identity_atomicWrite tmp path (fresh @ [CHR 0x0A]) mode_0600) (\<lambda>_. tx_return fresh))"

definition parseCertificate :: "IdentityEnv \<Rightarrow> string \<Rightarrow> Certificate option" where
  "parseCertificate env raw =
     (case ie_pem_decode env raw of
        None \<Rightarrow> None
      | Some (ty, bytes) \<Rightarrow> if ty \<noteq> ''CERTIFICATE'' then None else ie_x509_parse env bytes)"

definition wss_url_ok :: "IdentityEnv \<Rightarrow> string \<Rightarrow> bool" where
  "wss_url_ok env u = (case ie_url_parse env u of None \<Rightarrow> False | Some p \<Rightarrow> ul_Scheme p = ''wss'' \<and> ul_Host p \<noteq> [])"

definition key_of_size :: "nat \<Rightarrow> string \<Rightarrow> string option" where
  "key_of_size n text = (case b64_raw_decode text of None \<Rightarrow> None | Some k \<Rightarrow> if length k = n then Some k else None)"

definition validateEnrollmentResult ::
  "IdentityEnv \<Rightarrow> int \<Rightarrow> enrollmentResponse \<Rightarrow> string \<Rightarrow> string \<Rightarrow> string \<Rightarrow> Identity result" where
  "validateEnrollmentResult env now res machineID publicKey privateKey =
     (if es_AgentNodeID res \<le> 0 \<or> trim_space (es_ConfigSigningKeyID res) = []
      then Inl (Msg ''enrollment response identity is incomplete'')
      else if \<not> wss_url_ok env (es_WSSURL res) \<or>
        (case ie_url_parse env (es_WSSURL res) of None \<Rightarrow> True | Some p \<Rightarrow> ul_HasUser p)
      then Inl (Msg ''enrollment WSS URL is invalid'')
      else if key_of_size ed25519_public_key_size (es_ConfigSigningPublicKey res) = None
      then Inl (Msg ''enrollment config signing key is invalid'')
      else if key_of_size 32 (es_SecretEnvelopeKey res) = None
      then Inl (Msg ''enrollment secret envelope key is invalid'')
      else case parseCertificate env (es_CACertificatePEM res) of
        None \<Rightarrow> Inl (Msg ''enrollment CA certificate is invalid'')
      | Some ca \<Rightarrow>
          if \<not> ct_IsCA ca then Inl (Msg ''enrollment CA certificate is invalid'')
          else (case parseCertificate env (es_CertificatePEM res) of
            None \<Rightarrow> Inl (Msg ''enrollment client certificate does not match local key'')
          | Some cert \<Rightarrow>
              if publicKey \<noteq> ct_PublicKey cert \<or> ie_public_key env privateKey \<noteq> ct_PublicKey cert
              then Inl (Msg ''enrollment client certificate does not match local key'')
              else if \<not> ie_verify_chain env ca cert now
              then Inl (Msg ''enrollment client certificate chain is invalid'')
              else if ie_parse_rfc3339 env (es_CertificateNotAfter res) \<noteq> Some (ct_NotAfter cert)
              then Inl (Msg ''enrollment certificate expiry is invalid'')
              else Inr \<lparr>id_AgentNodeID = es_AgentNodeID res, id_MachineID = machineID, id_WSSURL = es_WSSURL res,
                        id_ConfigSigningKeyID = es_ConfigSigningKeyID res,
                        id_ConfigSigningPublicKey = es_ConfigSigningPublicKey res,
                        id_CertificateNotAfter = es_CertificateNotAfter res,
                        id_SecretEnvelopeKey = es_SecretEnvelopeKey res\<rparr>))"

text \<open>The exchange with the enrolment endpoint, without effects on files\<close>

definition enrollment_exchange ::
  "IdentityEnv \<Rightarrow> string \<Rightarrow> string \<Rightarrow> string \<Rightarrow> string \<Rightarrow> enrollmentResponse result" where
  "enrollment_exchange env url token machineID privateKey =
     bind_result (ie_create_csr env privateKey (''iepl-agent-'' @ machineID)) (\<lambda>csr.
     bind_result (ie_encode_request env \<lparr>eq_Token = token, eq_MachineID = machineID, eq_CSRPEM = csr\<rparr>) (\<lambda>payload.
     bind_result (ie_new_request env url payload) (\<lambda>_.
     case ie_http_post env url payload of
       Inl e \<Rightarrow> Inl (Wrapped ''enroll agent'' e)
     | Inr (status, body) \<Rightarrow>
         bind_result body (\<lambda>responseRaw.
         if status \<noteq> 201 then Inl (Msg (''enroll agent: server returned HTTP '' @ format_int status))
         else (case ie_decode_response env (take (128 * 1024) responseRaw) of
                 Inl _ \<Rightarrow> Inl (Msg ''enrollment response is invalid'')
               | Inr (res, _) \<Rightarrow> Inr res)))))"

definition write_identity_files ::
  "(string \<Rightarrow> string) \<Rightarrow> Config \<Rightarrow> string \<Rightarrow> enrollmentResponse \<Rightarrow> string \<Rightarrow> (fs, unit) tx" where
  "write_identity_files tmp cfg privatePEM res identityRaw =
     tx_iter (\<lambda>(path, raw, mode). identity_atomicWrite tmp path raw mode)
       [(ClientKeyPath cfg, privatePEM, mode_0600), (ClientCertPath cfg, es_CertificatePEM res, mode_0644),
        (CACertPath cfg, es_CACertificatePEM res, mode_0644), (IdentityPath cfg, identityRaw @ [CHR 0x0A], mode_0600)]"

definition Enroll ::
  "IdentityEnv \<Rightarrow> (string \<Rightarrow> string) \<Rightarrow> string \<Rightarrow> (string \<times> string) result \<Rightarrow> int \<Rightarrow> Config \<Rightarrow> (fs, Identity) tx" where
  "Enroll env tmp fresh_id key_pair now cfg =
     (case ie_url_parse env (trim_space (cfg_EnrollmentURL cfg)) of
        None \<Rightarrow> tx_lift (Inl (Msg ''enrollment URL must be absolute HTTPS''))
      | Some url \<Rightarrow>
          if ul_Scheme url \<noteq> ''https'' \<or> ul_Host url = []
          then tx_lift (Inl (Msg ''enrollment URL must be absolute HTTPS''))
          else
            tx_bind (tx_catch (os_read_file (cfg_EnrollmentTokenFile cfg)) (\<lambda>e. tx_lift (Inl (Wrapped ''read enrollment token'' e)))) (\<lambda>tokenRaw.
            if length tokenRaw > 4096 \<or> trim_space tokenRaw = []
            then tx_lift (Inl (Msg ''enrollment token file is invalid''))
            else
              tx_bind (EnsureMachineID env tmp fresh_id (MachineIDPath cfg)) (\<lambda>machineID.
              tx_bind (tx_lift key_pair) (\<lambda>(publicKey, privateKey).
              tx_bind (tx_lift (enrollment_exchange env (ul_String url) (trim_space tokenRaw) machineID privateKey)) (\<lambda>res.
              tx_bind (tx_lift (validateEnrollmentResult env now res machineID publicKey privateKey)) (\<lambda>identity.
              tx_bind (tx_lift (ie_private_pem env privateKey)) (\<lambda>privatePEM.
              tx_bind (tx_lift (ie_marshal_identity env identity)) (\<lambda>identityRaw.
              tx_bind (os_mkdir_all (cfg_ConfigDir cfg)) (\<lambda>_.
              tx_bind (write_identity_files tmp cfg privatePEM res identityRaw) (\<lambda>_.
              tx_bind (tx_catch (os_remove (cfg_EnrollmentTokenFile cfg)) (\<lambda>e.
                 if error_is e ErrNotExist then tx_return ()
                 else tx_lift (Inl (Wrapped ''remove consumed enrollment token'' e)))) (\<lambda>_.
              tx_return identity)))))))))))"

definition LoadIdentity :: "IdentityEnv \<Rightarrow> Config \<Rightarrow> (fs, Identity \<times> string \<times> string) tx" where
  "LoadIdentity env cfg =
     tx_bind (os_read_file (IdentityPath cfg)) (\<lambda>identityRaw.
     case ie_decode_identity env identityRaw of
       Inl _ \<Rightarrow> tx_lift (Inl (Msg ''stored identity is invalid''))
     | Inr (identity, _) \<Rightarrow>
         tx_bind (os_read_file (ClientCertPath cfg)) (\<lambda>cert.
         tx_bind (os_read_file (ClientKeyPath cfg)) (\<lambda>key.
         tx_bind (tx_lift (ie_load_key_pair env cert key)) (\<lambda>certificate.
         case key_of_size ed25519_public_key_size (id_ConfigSigningPublicKey identity) of
           None \<Rightarrow> tx_lift (Inl (Msg ''stored identity fields are invalid''))
         | Some publicKey \<Rightarrow>
             if key_of_size 32 (id_SecretEnvelopeKey identity) = None \<or> id_AgentNodeID identity \<le> 0
                \<or> \<not> ie_uuid_ok env (id_MachineID identity)
             then tx_lift (Inl (Msg ''stored identity fields are invalid''))
             else if \<not> wss_url_ok env (id_WSSURL identity) then tx_lift (Inl (Msg ''stored WSS URL is invalid''))
             else tx_return (identity, certificate, publicKey)))))"

section \<open>Frames of the operations\<close>

text \<open>A path that no step writes keeps its file, on every outcome.\<close>

definition fs_agree :: "string \<Rightarrow> fs \<Rightarrow> fs \<Rightarrow> bool" where
  "fs_agree p s t \<longleftrightarrow> fs_lookup t p = fs_lookup s p"

lemma fs_agree_order [simp]: "reflp (fs_agree p)" "transp (fs_agree p)"
  by (auto simp: fs_agree_def intro!: reflpI transpI)

lemma keeps_catch [keeps_rules]: "transp R \<Longrightarrow> keeps R m \<Longrightarrow> (\<And>e. keeps R (h e)) \<Longrightarrow> keeps R (tx_catch m h)"
  unfolding keeps_def tx_catch_def by (auto split: prod.splits sum.splits) (metis transpD)

lemma keeps_iter [keeps_rules]:
  "reflp R \<Longrightarrow> transp R \<Longrightarrow> (\<And>x. x \<in> set xs \<Longrightarrow> keeps R (f x)) \<Longrightarrow> keeps R (tx_iter f xs)"
  by (induction xs) (auto intro!: keeps_rules)

lemma keeps_agree_files [keeps_rules]:
  "keeps (fs_agree p) (os_read_file q)" "keeps (fs_agree p) (os_mkdir_all q)" "keeps (fs_agree p) os_sync"
  "keeps (fs_agree p) os_close"
  "q \<noteq> p \<Longrightarrow> keeps (fs_agree p) (os_remove q)" "q \<noteq> p \<Longrightarrow> keeps (fs_agree p) (os_create_exclusive q m)"
  "q \<noteq> p \<Longrightarrow> keeps (fs_agree p) (os_file_update q g)"
  "q \<noteq> p \<Longrightarrow> q' \<noteq> p \<Longrightarrow> keeps (fs_agree p) (os_rename q q')"
  unfolding os_read_file_def os_mkdir_all_def os_sync_def os_close_def os_remove_def os_create_exclusive_def
    os_file_update_def os_rename_def
  by (rule keeps_stmt; auto simp: fs_agree_def split: option.splits)+

lemma keeps_agree_replace [keeps_rules]:
  "tmp \<noteq> p \<Longrightarrow> path \<noteq> p \<Longrightarrow> keeps (fs_agree p) (replace_file tmp path raw mode)"
  unfolding replace_file_def write_temporary_def by (intro keeps_rules) simp_all

lemma keeps_agree_atomicWrite [keeps_rules]:
  "tmp path \<noteq> p \<Longrightarrow> path \<noteq> p \<Longrightarrow> keeps (fs_agree p) (identity_atomicWrite tmp path raw mode)"
  unfolding identity_atomicWrite_def by (intro keeps_rules) simp_all

lemma keeps_agree_machine_id [keeps_rules]:
  "tmp path \<noteq> p \<Longrightarrow> path \<noteq> p \<Longrightarrow> keeps (fs_agree p) (EnsureMachineID env tmp fresh path)"
  unfolding EnsureMachineID_def by (intro keeps_rules) (auto split: option.splits intro!: keeps_rules)

text \<open>The same for the failing runs only\<close>

definition keeps_on_error :: "('db \<Rightarrow> 'db \<Rightarrow> bool) \<Rightarrow> ('db, 'a) tx \<Rightarrow> bool" where
  "keeps_on_error R m \<longleftrightarrow> (\<forall>fs s e fs' s'. m (fs, s) = (Inl e, fs', s') \<longrightarrow> R s s')"

lemma keeps_on_error_frame: "keeps R m \<Longrightarrow> keeps_on_error R m"
  unfolding keeps_def keeps_on_error_def by blast

lemma keeps_on_error_bind:
  "transp R \<Longrightarrow> keeps R m \<Longrightarrow> (\<And>x. keeps_on_error R (k x)) \<Longrightarrow> keeps_on_error R (tx_bind m k)"
  unfolding keeps_def keeps_on_error_def tx_bind_def by (auto split: prod.splits sum.splits) (metis transpD)

definition identity_paths :: "Config \<Rightarrow> string list" where
  "identity_paths cfg = [ClientKeyPath cfg, ClientCertPath cfg, CACertPath cfg, IdentityPath cfg]"

text \<open>CreateTemp chooses names of files that do not exist and that are none of the agent's own files.\<close>

definition fresh_names :: "(string \<Rightarrow> string) \<Rightarrow> Config \<Rightarrow> fs \<Rightarrow> bool" where
  "fresh_names tmp cfg s \<longleftrightarrow>
     (\<forall>p. fs_lookup s (tmp p) = None \<and> tmp p \<notin> set (MachineIDPath cfg # identity_paths cfg))"

lemma identity_atomicWrite_ok:
  assumes "tx_ok (identity_atomicWrite tmp path raw mode) s u s'" and "fs_lookup s (tmp path) = None" "tmp path \<noteq> path"
  shows "fs_lookup s' q = (if q = path then Some \<lparr>fl_content = raw, fl_mode = mode\<rparr> else fs_lookup s q)"
proof -
  from assms(1) obtain s1 where s1: "tx_ok (os_mkdir_all (path_dir path)) s () s1"
    and r: "tx_ok (replace_file (tmp path) path raw mode) s1 u s'"
    unfolding identity_atomicWrite_def by (elim tx_ok_bindE) simp
  from s1 have "s1 = s" by (simp add: os_mkdir_all_def store_simps)
  with r obtain fs fs' where run: "replace_file (tmp path) path raw mode (fs, s) = (Inr u, fs', s')"
    by (auto simp: tx_ok_def)
  from replace_file_atomic [OF run assms(2,3)] show ?thesis by simp
qed

lemma tx_ok_catch_stmtD:
  "tx_ok (tx_catch (stmt f) h) s x s' \<Longrightarrow> f s = Inr (x, s') \<or> (\<exists>e. tx_ok (h e) s x s')"
  by (auto simp: tx_ok_def tx_catch_def stmt_def split: option.splits sum.splits prod.splits) blast+

lemma EnsureMachineID_ok:
  assumes "tx_ok (EnsureMachineID env tmp fresh path) s v s'" and "ie_uuid_ok env fresh"
    and "fs_lookup s (tmp path) = None" and "tmp path \<noteq> path"
  shows "ie_uuid_ok env v \<and> (\<forall>q. q \<noteq> path \<longrightarrow> fs_lookup s' q = fs_lookup s q)"
proof -
  let ?rd = "tx_catch (tx_bind (os_read_file path) (\<lambda>raw. tx_return (Some (trim_space raw))))
          (\<lambda>err. if error_is err ErrNotExist then tx_return None else tx_lift (Inl err))"
  from assms(1) obtain o1 s1 where rd: "tx_ok ?rd s o1 s1"
    and k: "tx_ok (case o1 of
          Some value \<Rightarrow> if \<not> ie_uuid_ok env value then tx_lift (Inl (Msg ''stored machine id is invalid'')) else tx_return value
        | None \<Rightarrow> tx_bind (identity_atomicWrite tmp path (fresh @ [CHR 0x0A]) mode_0600) (\<lambda>_. tx_return fresh)) s1 v s'"
    unfolding EnsureMachineID_def by (rule tx_ok_bindE)
  have "keeps (=) ?rd" unfolding os_read_file_def
    by (intro keeps_rules) (auto intro!: reflpI transpI split: option.splits)
  with rd have s1: "s1 = s" by (auto dest: keeps_ok)
  show ?thesis
  proof (cases o1)
    case None
    with k s1 have "tx_ok (identity_atomicWrite tmp path (fresh @ [CHR 0x0A]) mode_0600) s () s' \<and> v = fresh"
      by (auto simp: store_simps elim!: tx_ok_bindE)
    then have w: "tx_ok (identity_atomicWrite tmp path (fresh @ [CHR 0x0A]) mode_0600) s () s'" and v: "v = fresh" by simp_all
    show ?thesis using identity_atomicWrite_ok [OF w assms(3,4)] assms(2) v by simp
  next
    case (Some w)
    with k s1 show ?thesis by (auto simp: store_simps split: if_splits)
  qed
qed

lemma identity_names_distinct:
  assumes "clean_dir (cfg_ConfigDir cfg)"
  shows "distinct (identity_paths cfg)"
proof -
  have n: "plain_name ''client.key''" "plain_name ''client.crt''" "plain_name ''control-ca.crt''" "plain_name ''identity.json''"
    by (simp_all add: plain_name_def)
  show ?thesis
    by (simp add: identity_paths_def ClientKeyPath_def ClientCertPath_def CACertPath_def IdentityPath_def
        path_join_clean_dir [OF assms n(1)] path_join_clean_dir [OF assms n(2)] path_join_clean_dir [OF assms n(3)]
        path_join_clean_dir [OF assms n(4)])
qed

lemma write_identity_files_ok:
  assumes "tx_ok (write_identity_files tmp cfg pem res raw) s u s'" and "fresh_names tmp cfg s"
    and "clean_dir (cfg_ConfigDir cfg)"
  shows "fs_lookup s' (ClientKeyPath cfg) = Some \<lparr>fl_content = pem, fl_mode = mode_0600\<rparr> \<and>
    fs_lookup s' (ClientCertPath cfg) = Some \<lparr>fl_content = es_CertificatePEM res, fl_mode = mode_0644\<rparr> \<and>
    fs_lookup s' (IdentityPath cfg) = Some \<lparr>fl_content = raw @ [CHR 0x0A], fl_mode = mode_0600\<rparr>"
proof -
  let ?w = "identity_atomicWrite tmp"
  from assms(1) obtain s1 s2 s3 where
    1: "tx_ok (?w (ClientKeyPath cfg) pem mode_0600) s () s1"
    and 2: "tx_ok (?w (ClientCertPath cfg) (es_CertificatePEM res) mode_0644) s1 () s2"
    and 3: "tx_ok (?w (CACertPath cfg) (es_CACertificatePEM res) mode_0644) s2 () s3"
    and 4: "tx_ok (?w (IdentityPath cfg) (raw @ [CHR 0x0A]) mode_0600) s3 () s'"
    unfolding write_identity_files_def by (auto simp: store_simps elim!: tx_ok_bindE)
  have f: "fs_lookup s (tmp p) = None" "tmp p \<notin> set (identity_paths cfg)" for p
    using assms(2) by (simp_all add: fresh_names_def)
  have d: "distinct (identity_paths cfg)" by (rule identity_names_distinct [OF assms(3)])
  have n: "tmp p \<noteq> ClientKeyPath cfg" "tmp p \<noteq> ClientCertPath cfg" "tmp p \<noteq> CACertPath cfg" "tmp p \<noteq> IdentityPath cfg" for p
    using f(2) [of p] by (auto simp: identity_paths_def)
  note l1 = identity_atomicWrite_ok [OF 1 f(1) n(1)]
  have f1: "fs_lookup s1 (tmp p) = None" for p by (simp add: l1 f(1) n(1))
  note l2 = identity_atomicWrite_ok [OF 2 f1 n(2)]
  have f2: "fs_lookup s2 (tmp p) = None" for p by (simp add: l2 f1 n(2))
  note l3 = identity_atomicWrite_ok [OF 3 f2 n(3)]
  have f3: "fs_lookup s3 (tmp p) = None" for p by (simp add: l3 f2 n(3))
  note l4 = identity_atomicWrite_ok [OF 4 f3 n(4)]
  show ?thesis using d by (auto simp: l1 l2 l3 l4 identity_paths_def)
qed

lemma validateEnrollmentResult_ok:
  assumes "validateEnrollmentResult env now res mid pub priv = Inr i"
  shows "id_MachineID i = mid \<and> id_AgentNodeID i > 0 \<and> wss_url_ok env (id_WSSURL i) \<and>
    (\<exists>k. key_of_size ed25519_public_key_size (id_ConfigSigningPublicKey i) = Some k) \<and>
    key_of_size 32 (id_SecretEnvelopeKey i) \<noteq> None \<and>
    (\<exists>ca cert. parseCertificate env (es_CACertificatePEM res) = Some ca \<and> ct_IsCA ca \<and>
       parseCertificate env (es_CertificatePEM res) = Some cert \<and> ct_PublicKey cert = ie_public_key env priv \<and>
       ie_verify_chain env ca cert now)"
  using assms by (auto simp: validateEnrollmentResult_def split: if_splits option.splits)

text \<open>
  Documented behaviour of encoding/json and crypto/tls: decoding a marshalled identity, with
  the newline appended, gives it back; a certificate and the PEM form of the private key whose
  public key it carries form a key pair.
\<close>

definition identity_laws :: "IdentityEnv \<Rightarrow> bool" where
  "identity_laws env \<longleftrightarrow>
     (\<forall>i raw. ie_marshal_identity env i = Inr raw \<longrightarrow> (\<exists>rest. ie_decode_identity env (raw @ [CHR 0x0A]) = Inr (i, rest))) \<and>
     (\<forall>priv pem raw cert. ie_private_pem env priv = Inr pem \<and> parseCertificate env raw = Some cert \<and>
        ct_PublicKey cert = ie_public_key env priv \<longrightarrow> (\<exists>pair. ie_load_key_pair env raw pem = Inr pair))"

lemma LoadIdentity_run:
  assumes "fs_lookup s (IdentityPath cfg) = Some fi" "ie_decode_identity env (fl_content fi) = Inr (i, rest)"
    and "fs_lookup s (ClientCertPath cfg) = Some fc" "fs_lookup s (ClientKeyPath cfg) = Some fk"
    and "ie_load_key_pair env (fl_content fc) (fl_content fk) = Inr pair"
    and "key_of_size ed25519_public_key_size (id_ConfigSigningPublicKey i) = Some pk"
    and "key_of_size 32 (id_SecretEnvelopeKey i) \<noteq> None" "id_AgentNodeID i > 0" "ie_uuid_ok env (id_MachineID i)"
    and "wss_url_ok env (id_WSSURL i)"
  shows "LoadIdentity env cfg ([], s) = (Inr (i, pair, pk), [], s)"
  using assms by (simp add: LoadIdentity_def tx_bind_def os_read_file_def)

section \<open>A concrete enrolment\<close>

definition example_response :: enrollmentResponse where
  "example_response = \<lparr>es_AgentNodeID = 7, es_WSSURL = ''wss://c'', es_CertificatePEM = ''cert'', es_CACertificatePEM = ''ca'',
     es_ConfigSigningKeyID = ''k1'', es_ConfigSigningPublicKey = b64_encode (replicate 32 CHR ''s''),
     es_CertificateNotAfter = ''2030'', es_SecretEnvelopeKey = b64_encode (replicate 32 CHR ''e'')\<rparr>"

definition example_identity :: Identity where
  "example_identity = \<lparr>id_AgentNodeID = 7, id_MachineID = ''m-1'', id_WSSURL = ''wss://c'', id_ConfigSigningKeyID = ''k1'',
     id_ConfigSigningPublicKey = b64_encode (replicate 32 CHR ''s''), id_CertificateNotAfter = ''2030'',
     id_SecretEnvelopeKey = b64_encode (replicate 32 CHR ''e'')\<rparr>"

definition example_identity_env :: "int \<Rightarrow> IdentityEnv" where
  "example_identity_env status =
     \<lparr>ie_uuid_ok = (\<lambda>v. v = ''m-1''),
      ie_url_parse = (\<lambda>u. Some \<lparr>ul_Scheme = takeWhile (\<lambda>c. c \<noteq> CHR '':'') u, ul_Host = ''c'', ul_HasUser = False, ul_String = u\<rparr>),
      ie_pem_decode = (\<lambda>raw. Some (''CERTIFICATE'', raw)),
      ie_x509_parse = (\<lambda>raw. Some \<lparr>ct_IsCA = (raw = ''ca''), ct_PublicKey = ''pub'', ct_NotAfter = 9\<rparr>),
      ie_verify_chain = (\<lambda>ca cert now. now \<le> ct_NotAfter cert),
      ie_parse_rfc3339 = (\<lambda>t. if t = ''2030'' then Some 9 else None),
      ie_create_csr = (\<lambda>priv cn. Inr cn),
      ie_encode_request = (\<lambda>r. Inr (eq_Token r)),
      ie_new_request = (\<lambda>u p. Inr ()),
      ie_http_post = (\<lambda>u p. Inr (status, Inr ''body'')),
      ie_decode_response = (\<lambda>raw. Inr (example_response, [])),
      ie_public_key = (\<lambda>priv. ''pub''),
      ie_private_pem = (\<lambda>priv. Inr priv),
      ie_marshal_identity = single_marshal example_identity ''{}'',
      ie_decode_identity = single_decode example_identity ''{}'',
      ie_load_key_pair = (\<lambda>cert key. Inr key)\<rparr>"

definition example_enroll_config :: Config where
  "example_enroll_config = (default_config ''enroll'' ''v1'')\<lparr>cfg_EnrollmentURL := ''https://c'', cfg_EnrollmentTokenFile := ''/root/token''\<rparr>"

definition example_token_fs :: fs where
  "example_token_fs = [(''/root/token'', \<lparr>fl_content = ''t'', fl_mode = mode_0600\<rparr>)]"

lemma example_identity_laws: "identity_laws (example_identity_env status)"
  by (auto simp: identity_laws_def example_identity_env_def single_marshal_def single_decode_def split: if_splits)

lemma example_identity_paths:
  "MachineIDPath example_enroll_config = ''/var/lib/iepl-agent/machine-id''"
  "identity_paths example_enroll_config = [''/etc/iepl-agent/client.key'', ''/etc/iepl-agent/client.crt'',
     ''/etc/iepl-agent/control-ca.crt'', ''/etc/iepl-agent/identity.json'']"
  by code_simp+

lemma example_trims: "trim_space ''k1'' = ''k1''" "trim_space ''t'' = ''t''" "trim_space ''https://c'' = ''https://c''"
  by code_simp+

lemma example_exchange:
  "enrollment_exchange (example_identity_env 201) u t m p = Inr example_response"
  by (simp add: enrollment_exchange_def example_identity_env_def)

lemma example_validation:
  "validateEnrollmentResult (example_identity_env 201) 5 example_response ''m-1'' ''pub'' ''priv'' = Inr example_identity"
  by (simp add: validateEnrollmentResult_def example_response_def example_trims wss_url_ok_def key_of_size_def
      parseCertificate_def example_identity_env_def example_identity_def ed25519_public_key_size_def)

lemma identity_atomicWrite_run:
  assumes "fs_lookup s (tmp path) = None" "tmp path \<noteq> path"
  shows "\<exists>s'. identity_atomicWrite tmp path raw mode ([], s) = (Inr (), [], s') \<and>
    (\<forall>q. q \<noteq> path \<longrightarrow> fs_lookup s' q = fs_lookup s q)"
proof -
  from replace_file_run [OF assms(1), of path raw mode] obtain s' where
    "replace_file (tmp path) path raw mode ([], s) = (Inr (), [], s')" by blast
  then have r: "identity_atomicWrite tmp path raw mode ([], s) = (Inr (), [], s')"
    by (simp add: identity_atomicWrite_def tx_bind_def os_mkdir_all_def)
  then have "tx_ok (identity_atomicWrite tmp path raw mode) s () s'" unfolding tx_ok_def by blast
  from identity_atomicWrite_ok [OF this assms] r show ?thesis by auto
qed

lemma identity_writes_run:
  "\<forall>p. fs_lookup s (tmp p) = None \<Longrightarrow> \<forall>f \<in> set xs. \<forall>q. tmp q \<noteq> fst f \<Longrightarrow>
     \<exists>s'. tx_iter (\<lambda>(path, raw, mode). identity_atomicWrite tmp path raw mode) xs ([], s) = (Inr (), [], s')"
proof (induction xs arbitrary: s)
  case Nil
  then show ?case by simp
next
  case (Cons f xs)
  obtain path raw mode where f: "f = (path, raw, mode)" by (cases f)
  have t: "fs_lookup s (tmp path) = None" "tmp path \<noteq> path" using Cons.prems f by auto
  from identity_atomicWrite_run [of s tmp path, OF t] obtain s1 where
    r: "identity_atomicWrite tmp path raw mode ([], s) = (Inr (), [], s1)" "\<forall>q. q \<noteq> path \<longrightarrow> fs_lookup s1 q = fs_lookup s q"
    by blast
  have "\<forall>p. fs_lookup s1 (tmp p) = None" using r(2) Cons.prems f by simp
  from Cons.IH [OF this] Cons.prems(2) r f show ?case by (simp add: tx_bind_def)
qed

definition example_enrolment :: "int \<Rightarrow> Identity result \<times> faults \<times> fs" where
  "example_enrolment status = Enroll (example_identity_env status) (\<lambda>_. ''/tmp/x'') ''m-1'' (Inr (''pub'', ''priv'')) 5
     example_enroll_config ([], example_token_fs)"

text \<open>The steps up to the machine id, which both examples share\<close>

lemma example_machine_id:
  "\<exists>s1. fs_lookup s1 ''/tmp/x'' = None \<and>
     EnsureMachineID (example_identity_env status) (\<lambda>_. ''/tmp/x'') ''m-1'' (MachineIDPath example_enroll_config)
       ([], example_token_fs) = (Inr ''m-1'', [], s1)"
proof -
  let ?tmp = "\<lambda>_::string. ''/tmp/x''" and ?mid = "''/var/lib/iepl-agent/machine-id''"
  have l: "fs_lookup example_token_fs ''/tmp/x'' = None" "fs_lookup example_token_fs ?mid = None"
    by (simp_all add: example_token_fs_def fs_lookup_def)
  obtain s1 where w1: "identity_atomicWrite ?tmp ?mid [CHR ''m'', CHR ''-'', CHR ''1'', CHR 0x0A] mode_0600 ([], example_token_fs) = (Inr (), [], s1)"
      "fs_lookup s1 ''/tmp/x'' = None"
    using identity_atomicWrite_run [of example_token_fs ?tmp ?mid "[CHR ''m'', CHR ''-'', CHR ''1'', CHR 0x0A]" mode_0600, OF l(1)] l(1)
    by auto
  then show ?thesis
    using l(2) by (simp add: EnsureMachineID_def example_identity_paths tx_bind_def tx_catch_def os_read_file_def)
qed

lemma example_enroll_inputs:
  "ie_url_parse (example_identity_env status) ''https://c''
     = Some \<lparr>ul_Scheme = ''https'', ul_Host = ''c'', ul_HasUser = False, ul_String = ''https://c''\<rparr>"
  "cfg_EnrollmentURL example_enroll_config = ''https://c''" "cfg_EnrollmentTokenFile example_enroll_config = ''/root/token''"
  "fs_lookup example_token_fs ''/root/token'' = Some \<lparr>fl_content = ''t'', fl_mode = mode_0600\<rparr>"
  by (simp_all add: example_identity_env_def example_enroll_config_def example_token_fs_def fs_lookup_def)

lemmas enroll_run_simps = example_enroll_inputs tx_bind_def example_trims os_read_file_def tx_catch_def

lemma example_enrolment_run: "fst (example_enrolment 201) = Inr example_identity"
proof -
  let ?env = "example_identity_env 201" and ?cfg = "example_enroll_config" and ?tmp = "\<lambda>_::string. ''/tmp/x''"
  obtain s1 where m: "fs_lookup s1 ''/tmp/x'' = None"
    "EnsureMachineID ?env ?tmp ''m-1'' (MachineIDPath ?cfg) ([], example_token_fs) = (Inr ''m-1'', [], s1)"
    using example_machine_id by blast
  have "\<forall>f \<in> set [(ClientKeyPath ?cfg, ''priv'', mode_0600), (ClientCertPath ?cfg, es_CertificatePEM example_response, mode_0644),
        (CACertPath ?cfg, es_CACertificatePEM example_response, mode_0644), (IdentityPath ?cfg, ''{}'' @ [CHR 0x0A], mode_0600)].
      \<forall>q. ?tmp q \<noteq> fst f"
    using example_identity_paths(2) by (simp add: identity_paths_def)
  from identity_writes_run [of s1 ?tmp, OF _ this] m(1)
  obtain s2 where w2: "write_identity_files ?tmp ?cfg ''priv'' example_response ''{}'' ([], s1) = (Inr (), [], s2)"
    unfolding write_identity_files_def by blast
  have p: "ie_private_pem ?env ''priv'' = Inr ''priv''" "ie_marshal_identity ?env example_identity = Inr ''{}''"
    by (simp_all add: example_identity_env_def single_marshal_def)
  show ?thesis unfolding example_enrolment_def Enroll_def
    by (simp add: enroll_run_simps p m(2) w2 example_exchange example_validation os_mkdir_all_def os_remove_def
        split: option.splits)
qed

lemma example_enrolment_refused: "\<exists>e. fst (example_enrolment 500) = Inl e"
proof -
  obtain s1 where m: "EnsureMachineID (example_identity_env 500) (\<lambda>_. ''/tmp/x'') ''m-1'' (MachineIDPath example_enroll_config)
      ([], example_token_fs) = (Inr ''m-1'', [], s1)"
    using example_machine_id by blast
  have x: "\<exists>e. enrollment_exchange (example_identity_env 500) u t m p = Inl e" for u t m p
    by (simp add: enrollment_exchange_def example_identity_env_def)
  show ?thesis unfolding example_enrolment_def Enroll_def
    using x [of "''https://c''" "''t''" "''m-1''" "''priv''"] by (auto simp: enroll_run_simps m)
qed

section \<open>Properties\<close>

text \<open>
  C30. An enrolment that succeeds, whatever faults the file operations reported on the way,
  leaves an identity that Load accepts: the agent can restart at once with the identity Enroll
  returned, and with the signing key the response carried.
\<close>

theorem enrolled_identity_loads:
  assumes "identity_laws env" and "clean_dir (cfg_ConfigDir cfg)" and "fresh_names tmp cfg s"
    and "ie_uuid_ok env fresh" and "cfg_EnrollmentTokenFile cfg \<notin> set (identity_paths cfg)"
    and "Enroll env tmp fresh key_pair now cfg (fs, s) = (Inr i, fs', s')"
  shows "\<exists>pair pk. LoadIdentity env cfg ([], s') = (Inr (i, pair, pk), [], s') \<and>
    b64_raw_decode (id_ConfigSigningPublicKey i) = Some pk"
proof -
  let ?tok = "cfg_EnrollmentTokenFile cfg"
  from assms(6) have "tx_ok (Enroll env tmp fresh key_pair now cfg) s i s'" by (rule tx_okI)
  then obtain s0 tokenRaw s1 mid s2 pub priv res pem raw s3 where
    rd: "tx_ok (tx_catch (os_read_file ?tok) (\<lambda>e. tx_lift (Inl (Wrapped ''read enrollment token'' e)))) s tokenRaw s0"
    and em: "tx_ok (EnsureMachineID env tmp fresh (MachineIDPath cfg)) s0 mid s1"
    and val: "validateEnrollmentResult env now res mid pub priv = Inr i"
    and pem: "ie_private_pem env priv = Inr pem" and raw: "ie_marshal_identity env i = Inr raw"
    and mk: "tx_ok (os_mkdir_all (cfg_ConfigDir cfg)) s1 () s2"
    and w: "tx_ok (write_identity_files tmp cfg pem res raw) s2 () s3"
    and rm: "tx_ok (tx_catch (os_remove ?tok) (\<lambda>e. if error_is e ErrNotExist then tx_return ()
                 else tx_lift (Inl (Wrapped ''remove consumed enrollment token'' e)))) s3 () s'"
    unfolding Enroll_def
    by (auto simp: tx_ok_lift tx_ok_return split: option.splits if_splits elim!: tx_ok_bindE)
  have s0: "s0 = s" using rd tx_ok_catch_stmtD [OF rd [unfolded os_read_file_def]]
    by (auto simp: store_simps split: option.splits)
  have s2: "s2 = s1" using mk by (simp add: os_mkdir_all_def store_simps)
  have t: "fs_lookup s (tmp p) = None" "tmp p \<noteq> MachineIDPath cfg" for p using assms(3) by (auto simp: fresh_names_def)
  note E = EnsureMachineID_ok [OF em [unfolded s0] assms(4) t]
  have "fresh_names tmp cfg s1" using E assms(3) by (auto simp: fresh_names_def)
  note W = write_identity_files_ok [OF w [unfolded s2] this assms(2)]
  have "fs_lookup s' q = fs_lookup s3 q" if "q \<noteq> ?tok" for q
    using that tx_ok_catch_stmtD [OF rm [unfolded os_remove_def]]
    by (auto simp: store_simps split: option.splits if_splits)
  with assms(5) W have f: "fs_lookup s' (ClientKeyPath cfg) = Some \<lparr>fl_content = pem, fl_mode = mode_0600\<rparr>"
    "fs_lookup s' (ClientCertPath cfg) = Some \<lparr>fl_content = es_CertificatePEM res, fl_mode = mode_0644\<rparr>"
    "fs_lookup s' (IdentityPath cfg) = Some \<lparr>fl_content = raw @ [CHR 0x0A], fl_mode = mode_0600\<rparr>"
    by (auto simp: identity_paths_def)
  note V = validateEnrollmentResult_ok [OF val]
  then obtain pk cert where pk: "key_of_size ed25519_public_key_size (id_ConfigSigningPublicKey i) = Some pk"
    and cert: "parseCertificate env (es_CertificatePEM res) = Some cert" "ct_PublicKey cert = ie_public_key env priv" by blast
  from assms(1) raw obtain rest where dec: "ie_decode_identity env (raw @ [CHR 0x0A]) = Inr (i, rest)"
    unfolding identity_laws_def by blast
  from assms(1) pem cert obtain pair where pair: "ie_load_key_pair env (es_CertificatePEM res) pem = Inr pair"
    unfolding identity_laws_def by blast
  have "LoadIdentity env cfg ([], s') = (Inr (i, pair, pk), [], s')"
    by (rule LoadIdentity_run [OF f(3) _ f(2,1) _ pk]) (use V E dec pair in simp_all)
  moreover have "b64_raw_decode (id_ConfigSigningPublicKey i) = Some pk"
    using pk by (auto simp: key_of_size_def split: option.splits if_splits)
  ultimately show ?thesis by blast
qed

theorem enrolled_identity_loads_witness:
  "\<exists>fs' s' pair pk. Enroll (example_identity_env 201) (\<lambda>_. ''/tmp/x'') ''m-1'' (Inr (''pub'', ''priv'')) 5
     example_enroll_config ([], example_token_fs) = (Inr example_identity, fs', s') \<and>
     LoadIdentity (example_identity_env 201) example_enroll_config ([], s') = (Inr (example_identity, pair, pk), [], s')"
proof -
  from example_enrolment_run obtain fs' s' where run: "Enroll (example_identity_env 201) (\<lambda>_. ''/tmp/x'') ''m-1'' (Inr (''pub'', ''priv'')) 5
     example_enroll_config ([], example_token_fs) = (Inr example_identity, fs', s')"
    unfolding example_enrolment_def by (metis prod.collapse)
  have d: "clean_dir (cfg_ConfigDir example_enroll_config)"
    using example_dirs(3) by (simp add: example_enroll_config_def default_config_def)
  have n: "fresh_names (\<lambda>_. ''/tmp/x'') example_enroll_config example_token_fs"
    by (simp add: fresh_names_def example_identity_paths example_token_fs_def fs_lookup_def)
  have u: "ie_uuid_ok (example_identity_env 201) ''m-1''" by (simp add: example_identity_env_def)
  have t: "cfg_EnrollmentTokenFile example_enroll_config \<notin> set (identity_paths example_enroll_config)"
    by (simp add: example_identity_paths) (simp add: example_enroll_config_def)
  from enrolled_identity_loads [OF example_identity_laws d n u t run] run show ?thesis by blast
qed

text \<open>
  C31. An enrolment that fails, at whatever step and with whatever faults, leaves the one-time
  token file as it was, so the operator can try again.
\<close>

theorem failed_enrolment_keeps_token:
  assumes "cfg_EnrollmentTokenFile cfg \<notin> set (MachineIDPath cfg # identity_paths cfg)"
    and "\<forall>p. tmp p \<noteq> cfg_EnrollmentTokenFile cfg"
    and "Enroll env tmp fresh key_pair now cfg (fs, s) = (Inl e, fs', s')"
  shows "fs_lookup s' (cfg_EnrollmentTokenFile cfg) = fs_lookup s (cfg_EnrollmentTokenFile cfg)"
proof -
  let ?R = "fs_agree (cfg_EnrollmentTokenFile cfg)"
  have w: "keeps ?R (write_identity_files tmp cfg pem res raw)" for pem res raw
    unfolding write_identity_files_def by (rule keeps_iter)
      (use assms(1,2) in \<open>auto simp: identity_paths_def intro!: keeps_rules\<close>)
  have m: "keeps ?R (EnsureMachineID env tmp fresh (MachineIDPath cfg))"
    by (rule keeps_agree_machine_id) (use assms(1,2) in auto)
  have r: "keeps_on_error ?R (tx_bind (tx_catch (os_remove (cfg_EnrollmentTokenFile cfg)) (\<lambda>e.
      if error_is e ErrNotExist then tx_return () else tx_lift (Inl (Wrapped ''remove consumed enrollment token'' e)))) (\<lambda>_.
      tx_return i))" for i
    by (auto simp: keeps_on_error_def tx_bind_def tx_catch_def os_remove_def stmt_def tx_return_def tx_lift_def fs_agree_def
        split: option.splits sum.splits prod.splits if_splits)
  have "keeps_on_error ?R (Enroll env tmp fresh key_pair now cfg)"
    unfolding Enroll_def
    by (auto split: option.splits prod.splits intro!: keeps_on_error_bind keeps_on_error_frame [OF keeps_pure(1)]
        keeps_rules w m r)
  with assms(3) show ?thesis unfolding keeps_on_error_def fs_agree_def by blast
qed

theorem failed_enrolment_keeps_token_witness:
  "\<exists>e fs' s'. Enroll (example_identity_env 500) (\<lambda>_. ''/tmp/x'') ''m-1'' (Inr (''pub'', ''priv'')) 5
     example_enroll_config ([], example_token_fs) = (Inl e, fs', s') \<and>
     fs_lookup s' ''/root/token'' = fs_lookup example_token_fs ''/root/token''"
proof -
  from example_enrolment_refused obtain e fs' s' where run: "Enroll (example_identity_env 500) (\<lambda>_. ''/tmp/x'') ''m-1'' (Inr (''pub'', ''priv'')) 5
     example_enroll_config ([], example_token_fs) = (Inl e, fs', s')"
    unfolding example_enrolment_def by (metis prod.collapse)
  have t: "cfg_EnrollmentTokenFile example_enroll_config = ''/root/token''" by (simp add: example_enroll_config_def)
  then have "cfg_EnrollmentTokenFile example_enroll_config \<notin> set (MachineIDPath example_enroll_config # identity_paths example_enroll_config)"
    by (simp add: example_identity_paths)
  from failed_enrolment_keeps_token [OF this _ run] run t show ?thesis by auto
qed

end
