(* ===== verification/State_Store.thy ===== *)
theory State_Store
  imports Sql Signing
begin

text \<open>
  The durable store: internal/state/store.go. The tables of the schema are lists of rows in
  insertion order, with the primary keys and unique columns checked where the statements
  insert; the meta table is a map from keys to texts. Every method is a transaction or a
  statement of theory Sql, with the schema's constraint errors, the driver's conversion errors
  and arbitrary faults of single statements. The access log's tables belong to theory
  Access_Store.
\<close>

section \<open>Schema\<close>

record ConfigRow =
  cv_version :: nat
  cv_sha256 :: string
  cv_signed_json :: string
  cv_status :: string
  cv_created_at :: int
  cv_applied_at :: "int option"

record UserRow =
  uw_credential :: UserCredential
  uw_revision :: nat

record TrafficRow =
  tw_subscriber_id :: int
  tw_inbound_id :: int
  tw_quota_generation :: nat
  tw_upload_bytes :: nat
  tw_download_bytes :: nat
  tw_interval_started_at :: int
  tw_updated_at :: int

record WalRow =
  wr_boot_id :: string
  wr_sequence :: nat
  wr_payload_sha256 :: string
  wr_payload_json :: string
  wr_created_at :: int

record Db =
  db_meta :: "string \<rightharpoonup> string"
  db_config_revisions :: "ConfigRow list"
  db_users :: "UserRow list"
  db_traffic_accumulator :: "TrafficRow list"
  db_traffic_wal :: "WalRow list"
  db_access_accumulator :: "AccessItem list"
  db_access_wal :: "WalRow list"

definition empty_db :: Db where
  "empty_db = \<lparr>db_meta = Map.empty, db_config_revisions = [], db_users = [], db_traffic_accumulator = [],
     db_traffic_wal = [], db_access_accumulator = [], db_access_wal = []\<rparr>"

text \<open>The encoders the stores call\<close>

record Codecs =
  cd_crypto :: Crypto
  cd_config_marshal :: "SignedConfig \<Rightarrow> string result"
  cd_config_unmarshal :: "string \<Rightarrow> SignedConfig result"
  cd_traffic_marshal :: "TrafficBatch \<Rightarrow> string result"
  cd_traffic_unmarshal :: "string \<Rightarrow> TrafficBatch result"
  cd_access_marshal :: "AccessBatch \<Rightarrow> string result"
  cd_access_unmarshal :: "string \<Rightarrow> AccessBatch result"

definition codecs_inverse :: "Codecs \<Rightarrow> bool" where
  "codecs_inverse E \<longleftrightarrow>
     (\<forall>v raw. cd_config_marshal E v = Inr raw \<longrightarrow> cd_config_unmarshal E raw = Inr v) \<and>
     (\<forall>v raw. cd_traffic_marshal E v = Inr raw \<longrightarrow> cd_traffic_unmarshal E raw = Inr v) \<and>
     (\<forall>v raw. cd_access_marshal E v = Inr raw \<longrightarrow> cd_access_unmarshal E raw = Inr v)"

section \<open>Meta table and migration\<close>

text \<open>INSERT ... ON CONFLICT(key) DO NOTHING, and UPDATE meta SET value = v WHERE key = k\<close>

definition meta_init :: "string \<Rightarrow> string \<Rightarrow> Db \<Rightarrow> (unit \<times> Db) result" where
  "meta_init k v db =
     Inr ((), case db_meta db k of None \<Rightarrow> db\<lparr>db_meta := (db_meta db)(k \<mapsto> v)\<rparr> | Some _ \<Rightarrow> db)"

definition meta_update :: "string \<Rightarrow> string \<Rightarrow> Db \<Rightarrow> (unit \<times> Db) result" where
  "meta_update k v db =
     Inr ((), case db_meta db k of None \<Rightarrow> db | Some _ \<Rightarrow> db\<lparr>db_meta := (db_meta db)(k \<mapsto> v)\<rparr>)"

definition schema_defaults :: "(string \<times> string) list" where
  "schema_defaults =
     [(''schema_version'', ''1''), (''traffic_sequence'', ''0''), (''access_sequence'', ''0''),
      (''applied_config_version'', ''0''), (''applied_config_hash'', ''''), (''applied_user_revision'', ''0'')]"

text \<open>The script's statements commit one by one, so a fault leaves the earlier ones in place.\<close>

definition migrate :: "(Db, unit) tx" where
  "migrate = tx_iter (\<lambda>(k, v). stmt (meta_init k v)) schema_defaults"

record RuntimeState =
  rs_AppliedConfigVersion :: nat
  rs_AppliedConfigHash :: string
  rs_AppliedUserRevision :: nat

definition meta_text :: "Db \<Rightarrow> string \<Rightarrow> string" where
  "meta_text db k = (case db_meta db k of None \<Rightarrow> [] | Some v \<Rightarrow> v)"

definition runtime_state_of :: "Db \<Rightarrow> RuntimeState" where
  "runtime_state_of db =
     \<lparr>rs_AppliedConfigVersion = parse_uint_ignore (meta_text db ''applied_config_version''),
      rs_AppliedConfigHash = meta_text db ''applied_config_hash'',
      rs_AppliedUserRevision = parse_uint_ignore (meta_text db ''applied_user_revision'')\<rparr>"

definition RuntimeStateQuery :: "(Db, RuntimeState) tx" where
  "RuntimeStateQuery = stmt (\<lambda>db. Inr (runtime_state_of db, db))"

definition runtimeStateTx :: "(Db, RuntimeState) tx" where
  "runtimeStateTx = stmt (\<lambda>db.
     if db_meta db ''applied_config_version'' = None \<or> db_meta db ''applied_config_hash'' = None
        \<or> db_meta db ''applied_user_revision'' = None
     then Inl (Msg ''sql: Scan error: converting NULL to string is unsupported'')
     else Inr (runtime_state_of db, db))"

definition reset_row :: "nat \<Rightarrow> ConfigRow \<Rightarrow> ConfigRow" where
  "reset_row version r =
     (if cv_version r = version then r\<lparr>cv_status := ''received'', cv_applied_at := None\<rparr> else r)"

definition ResetAppliedRuntime :: "(Db, unit) tx" where
  "ResetAppliedRuntime = transact
     (tx_bind runtimeStateTx (\<lambda>stateValue.
      tx_bind (if rs_AppliedConfigVersion stateValue > 0
               then tx_bind (tx_lift (sql_uint (rs_AppliedConfigVersion stateValue))) (\<lambda>_.
                    stmt (\<lambda>db. Inr ((), db\<lparr>db_config_revisions :=
                      map (reset_row (rs_AppliedConfigVersion stateValue)) (db_config_revisions db)\<rparr>)))
               else tx_return ()) (\<lambda>_.
      tx_iter (\<lambda>(k, v). stmt (meta_update k v))
        [(''applied_config_version'', ''0''), (''applied_config_hash'', ''''), (''applied_user_revision'', ''0'')])))"

section \<open>Users\<close>

definition user_key :: "UserRow \<Rightarrow> int \<times> int" where
  "user_key r = (uc_SubscriberID (uw_credential r), uc_InboundID (uw_credential r))"

definition unique_violation :: go_error where
  "unique_violation = ErrIO ''UNIQUE constraint failed''"

definition insert_user :: "nat \<Rightarrow> UserCredential \<Rightarrow> (Db, unit) tx" where
  "insert_user revision user =
     (if uc_SubscriberID user \<le> 0 \<or> uc_InboundID user \<le> 0 \<or> uc_Kind user = [] \<or> uc_Value user = []
      then tx_lift (Inl (Msg ''user snapshot contains an invalid credential''))
      else tx_bind (tx_lift (sql_uint revision)) (\<lambda>_.
           tx_bind (tx_lift (sql_uint (uc_SpeedLimitBPS user))) (\<lambda>_.
           tx_bind (tx_lift (sql_uint (uc_QuotaGeneration user))) (\<lambda>_.
           stmt (\<lambda>db. let row = \<lparr>uw_credential = user, uw_revision = revision\<rparr>
                      in if user_key row \<in> user_key ` set (db_users db) then Inl unique_violation
                         else Inr ((), db\<lparr>db_users := db_users db @ [row]\<rparr>))))))"

definition ReplaceUsers :: "UserSnapshot \<Rightarrow> (Db, unit) tx" where
  "ReplaceUsers snapshot =
     (if us_Revision snapshot = 0 \<or> length (us_Users snapshot) > 100000
      then tx_lift (Inl (Msg ''user snapshot is invalid''))
      else transact
        (tx_bind runtimeStateTx (\<lambda>state.
           if us_Revision snapshot < rs_AppliedUserRevision state
           then tx_lift (Inl (Msg ''user snapshot revision is stale''))
           else if us_Revision snapshot = rs_AppliedUserRevision state then tx_return ()
           else tx_bind (stmt (\<lambda>db. Inr ((), db\<lparr>db_users := []\<rparr>))) (\<lambda>_.
                tx_bind (tx_iter (insert_user (us_Revision snapshot)) (us_Users snapshot)) (\<lambda>_.
                stmt (meta_update ''applied_user_revision'' (format_uint (us_Revision snapshot))))))))"

definition Users :: "(Db, UserCredential list) tx" where
  "Users = stmt (\<lambda>db.
     Inr (map uw_credential (sort_key (\<lambda>r. (uc_InboundID (uw_credential r), uc_SubscriberID (uw_credential r)))
                              (db_users db)), db))"

section \<open>Configuration revisions\<close>

definition find_config :: "nat \<Rightarrow> Db \<Rightarrow> ConfigRow option" where
  "find_config version db = find (\<lambda>r. cv_version r = version) (db_config_revisions db)"

definition insert_config :: "ConfigRow \<Rightarrow> Db \<Rightarrow> (unit \<times> Db) result" where
  "insert_config row db =
     (if cv_version row \<in> cv_version ` set (db_config_revisions db)
         \<or> cv_sha256 row \<in> cv_sha256 ` set (db_config_revisions db)
      then Inl unique_violation
      else Inr ((), db\<lparr>db_config_revisions := db_config_revisions db @ [row]\<rparr>))"

definition SaveDesiredConfig :: "Codecs \<Rightarrow> int \<Rightarrow> SignedConfig \<Rightarrow> (Db, bool) tx" where
  "SaveDesiredConfig E now msg =
     tx_bind (tx_lift (cd_config_marshal E msg)) (\<lambda>raw. transact
       (tx_bind (tx_lift (sql_uint (dc_Version (sg_Config msg)))) (\<lambda>_.
        tx_bind (stmt (\<lambda>db. Inr (find_config (dc_Version (sg_Config msg)) db, db))) (\<lambda>existing.
          case existing of
            Some row \<Rightarrow>
              if cv_sha256 row \<noteq> sg_SHA256 msg
              then tx_lift (Inl (Msg ''config version conflicts with existing hash''))
              else tx_return (cv_status row \<noteq> ''applied'')
          | None \<Rightarrow>
              tx_bind runtimeStateTx (\<lambda>state.
                if dc_Version (sg_Config msg) \<le> rs_AppliedConfigVersion state
                then tx_lift (Inl (Msg ''config version is not newer than applied state''))
                else tx_bind (stmt (insert_config
                       \<lparr>cv_version = dc_Version (sg_Config msg), cv_sha256 = sg_SHA256 msg, cv_signed_json = raw,
                        cv_status = ''received'', cv_created_at = now, cv_applied_at = None\<rparr>)) (\<lambda>_.
                     tx_return True))))))"

definition mark_row :: "int \<Rightarrow> nat \<Rightarrow> string \<Rightarrow> ConfigRow \<Rightarrow> ConfigRow" where
  "mark_row now version hash r =
     (if cv_version r = version \<and> cv_sha256 r = hash
      then r\<lparr>cv_status := ''applied'', cv_applied_at := Some now\<rparr> else r)"

definition prune_configs :: "nat \<Rightarrow> Db \<Rightarrow> (unit \<times> Db) result" where
  "prune_configs version db =
     Inr ((), db\<lparr>db_config_revisions :=
       filter (\<lambda>r. \<not> (cv_status r \<noteq> ''applied'' \<or> cv_version r < version)) (db_config_revisions db)\<rparr>)"

definition MarkConfigApplied :: "int \<Rightarrow> nat \<Rightarrow> string \<Rightarrow> (Db, unit) tx" where
  "MarkConfigApplied now version hash = transact
     (tx_bind (tx_lift (sql_uint version)) (\<lambda>_.
      tx_bind (stmt (\<lambda>db. Inr (
          length (filter (\<lambda>r. cv_version r = version \<and> cv_sha256 r = hash) (db_config_revisions db)),
          db\<lparr>db_config_revisions := map (mark_row now version hash) (db_config_revisions db)\<rparr>))) (\<lambda>affected.
      if affected \<noteq> 1 then tx_lift (Inl (Msg ''config revision does not exist''))
      else tx_bind (tx_iter (\<lambda>(k, v). stmt (meta_update k v))
             [(''applied_config_version'', format_uint version), (''applied_config_hash'', hash)]) (\<lambda>_.
           tx_ignore (stmt (prune_configs version))))))"

definition AppliedConfig :: "Codecs \<Rightarrow> (Db, SignedConfig) tx" where
  "AppliedConfig E =
     tx_bind RuntimeStateQuery (\<lambda>stateValue.
       if rs_AppliedConfigVersion stateValue = 0 then tx_lift (Inl ErrNoRows)
       else tx_bind (tx_lift (sql_uint (rs_AppliedConfigVersion stateValue))) (\<lambda>_.
            tx_bind (stmt (\<lambda>db.
              case find (\<lambda>r. cv_version r = rs_AppliedConfigVersion stateValue \<and> cv_status r = ''applied'')
                     (db_config_revisions db) of
                None \<Rightarrow> Inl ErrNoRows
              | Some r \<Rightarrow> Inr (cv_signed_json r, db))) (\<lambda>raw.
            tx_lift (cd_config_unmarshal E raw))))"

section \<open>Traffic\<close>

record TrafficDelta =
  td_SubscriberID :: int
  td_InboundID :: int
  td_QuotaGeneration :: nat
  td_UploadBytes :: nat
  td_DownloadBytes :: nat

definition traffic_row_key :: "TrafficRow \<Rightarrow> int \<times> int \<times> nat" where
  "traffic_row_key r = (tw_subscriber_id r, tw_inbound_id r, tw_quota_generation r)"

definition delta_key :: "TrafficDelta \<Rightarrow> int \<times> int \<times> nat" where
  "delta_key d = (td_SubscriberID d, td_InboundID d, td_QuotaGeneration d)"

definition merge_traffic_row :: "TrafficRow \<Rightarrow> TrafficRow \<Rightarrow> TrafficRow" where
  "merge_traffic_row excluded r =
     r\<lparr>tw_upload_bytes := tw_upload_bytes r + tw_upload_bytes excluded,
       tw_download_bytes := tw_download_bytes r + tw_download_bytes excluded,
       tw_interval_started_at := text_min (tw_interval_started_at r) (tw_interval_started_at excluded),
       tw_updated_at := text_max (tw_updated_at r) (tw_updated_at excluded)\<rparr>"

definition upsert_traffic :: "TrafficRow \<Rightarrow> TrafficRow list \<Rightarrow> TrafficRow list" where
  "upsert_traffic row rows =
     (if traffic_row_key row \<in> traffic_row_key ` set rows
      then map (\<lambda>r. if traffic_row_key r = traffic_row_key row then merge_traffic_row row r else r) rows
      else rows @ [row])"

definition delta_row :: "int \<Rightarrow> int \<Rightarrow> TrafficDelta \<Rightarrow> TrafficRow" where
  "delta_row started ended d =
     \<lparr>tw_subscriber_id = td_SubscriberID d, tw_inbound_id = td_InboundID d,
      tw_quota_generation = td_QuotaGeneration d, tw_upload_bytes = td_UploadBytes d,
      tw_download_bytes = td_DownloadBytes d, tw_interval_started_at = started, tw_updated_at = ended\<rparr>"

definition add_delta :: "int \<Rightarrow> int \<Rightarrow> TrafficDelta \<Rightarrow> (Db, unit) tx" where
  "add_delta started ended delta =
     (if td_SubscriberID delta \<le> 0 \<or> td_InboundID delta \<le> 0
      then tx_lift (Inl (Msg ''traffic identity is invalid''))
      else tx_bind (tx_lift (sql_uint (td_QuotaGeneration delta))) (\<lambda>_.
           tx_bind (tx_lift (sql_uint (td_UploadBytes delta))) (\<lambda>_.
           tx_bind (tx_lift (sql_uint (td_DownloadBytes delta))) (\<lambda>_.
           stmt (\<lambda>db. Inr ((), db\<lparr>db_traffic_accumulator :=
             upsert_traffic (delta_row started ended delta) (db_traffic_accumulator db)\<rparr>))))))"

definition AddTrafficWindow :: "TrafficDelta list \<Rightarrow> int \<Rightarrow> int \<Rightarrow> (Db, unit) tx" where
  "AddTrafficWindow deltas startedAt endedAt =
     (if startedAt = 0 \<or> endedAt = 0 \<or> \<not> endedAt > startedAt
      then tx_lift (Inl (Msg ''traffic collection window is invalid''))
      else if deltas = [] then tx_return ()
      else transact (tx_iter (add_delta startedAt endedAt) deltas))"

definition AddTraffic :: "int \<Rightarrow> TrafficDelta list \<Rightarrow> (Db, unit) tx" where
  "AddTraffic now deltas = AddTrafficWindow deltas (now - second) now"

definition scan_traffic_row :: "TrafficRow \<Rightarrow> TrafficItem result" where
  "scan_traffic_row r =
     bind_result (scan_uint (int (tw_upload_bytes r))) (\<lambda>up.
     bind_result (scan_uint (int (tw_download_bytes r))) (\<lambda>down.
       Inr \<lparr>ti_SubscriberID = tw_subscriber_id r, ti_InboundID = tw_inbound_id r,
            ti_QuotaGeneration = tw_quota_generation r, ti_UploadBytes = up, ti_DownloadBytes = down\<rparr>))"

fun scan_all :: "('r \<Rightarrow> 'a result) \<Rightarrow> 'r list \<Rightarrow> 'a list result" where
  "scan_all f [] = Inr []"
| "scan_all f (r # rs) = bind_result (f r) (\<lambda>x. bind_result (scan_all f rs) (\<lambda>xs. Inr (x # xs)))"

text \<open>The loop's interval: 0 is the zero time, the value before the first row\<close>

definition widen_interval :: "int \<times> int \<Rightarrow> int \<times> int \<Rightarrow> int \<times> int" where
  "widen_interval row acc =
     (if fst acc = 0 \<or> fst row < fst acc then fst row else fst acc,
      if snd row > snd acc then snd row else snd acc)"

definition rows_interval :: "(int \<times> int) list \<Rightarrow> int \<times> int" where
  "rows_interval rows = fold widen_interval rows (0, 0)"

definition close_interval :: "int \<Rightarrow> int \<times> int \<Rightarrow> int \<times> int" where
  "close_interval now interval =
     (let intervalEnd = (if snd interval = 0 then now else snd interval)
      in (if fst interval = 0 \<or> \<not> intervalEnd > fst interval then intervalEnd - second else fst interval,
          intervalEnd))"

text \<open>SELECT CAST(value AS INTEGER) + 1 FROM meta WHERE key = k, scanned into a uint64\<close>

definition next_sequence :: "string \<Rightarrow> Db \<Rightarrow> nat result" where
  "next_sequence k db =
     (case db_meta db k of None \<Rightarrow> Inl ErrNoRows | Some v \<Rightarrow> scan_uint (cast_integer v + 1))"

definition wal_key :: "WalRow \<Rightarrow> string \<times> nat" where
  "wal_key r = (wr_boot_id r, wr_sequence r)"

definition insert_wal :: "WalRow \<Rightarrow> WalRow list \<Rightarrow> WalRow list result" where
  "insert_wal row rows =
     (if wal_key row \<in> wal_key ` set rows then Inl unique_violation else Inr (rows @ [row]))"

definition order_wal :: "WalRow list \<Rightarrow> WalRow list" where
  "order_wal rows = sort_key (\<lambda>r. (text_key (wr_created_at r), wr_sequence r)) rows"

definition wal_matches :: "string \<Rightarrow> nat \<Rightarrow> string \<Rightarrow> WalRow \<Rightarrow> bool" where
  "wal_matches bootID sequence hash r \<longleftrightarrow>
     wr_boot_id r = bootID \<and> wr_sequence r = sequence \<and> wr_payload_sha256 r = hash"

definition traffic_batch_of :: "string \<Rightarrow> nat \<Rightarrow> nat \<Rightarrow> int \<times> int \<Rightarrow> TrafficItem list \<Rightarrow> TrafficBatch" where
  "traffic_batch_of bootID sequence configVersion interval items =
     \<lparr>tb_BootID = bootID, tb_Sequence = sequence, tb_ConfigVersion = configVersion,
      tb_IntervalStartedAt = fst interval, tb_IntervalEndedAt = snd interval,
      tb_PayloadSHA256 = [], tb_Items = items\<rparr>"

text \<open>The writing half of DrainTraffic, from the payload digest on\<close>

definition store_traffic_batch :: "Codecs \<Rightarrow> int \<Rightarrow> TrafficBatch \<Rightarrow> (Db, TrafficBatch) tx" where
  "store_traffic_batch E createdAt batch0 =
     tx_bind (tx_lift (TrafficPayloadSHA256 (cd_crypto E) (cd_traffic_marshal E) batch0)) (\<lambda>hash.
     tx_bind (tx_lift (cd_traffic_marshal E (batch0\<lparr>tb_PayloadSHA256 := hash\<rparr>))) (\<lambda>raw.
     tx_bind (stmt (\<lambda>db. bind_result
         (insert_wal \<lparr>wr_boot_id = tb_BootID batch0, wr_sequence = tb_Sequence batch0, wr_payload_sha256 = hash,
            wr_payload_json = raw, wr_created_at = createdAt\<rparr> (db_traffic_wal db))
         (\<lambda>wal. Inr ((), db\<lparr>db_traffic_wal := wal\<rparr>)))) (\<lambda>_.
     tx_bind (stmt (meta_update ''traffic_sequence'' (format_uint (tb_Sequence batch0)))) (\<lambda>_.
     tx_bind (stmt (\<lambda>db. Inr ((), db\<lparr>db_traffic_accumulator := []\<rparr>))) (\<lambda>_.
     tx_return (batch0\<lparr>tb_PayloadSHA256 := hash\<rparr>))))))"

definition DrainTraffic :: "Codecs \<Rightarrow> int \<Rightarrow> string \<Rightarrow> nat \<Rightarrow> (Db, TrafficBatch option) tx" where
  "DrainTraffic E now bootID configVersion = transact
     (tx_bind (stmt (\<lambda>db. Inr (sort_key traffic_row_key (db_traffic_accumulator db), db))) (\<lambda>rows.
      tx_bind (tx_lift (scan_all scan_traffic_row rows)) (\<lambda>items.
      if items = [] then tx_return None
      else
        tx_bind (stmt (\<lambda>db. bind_result (next_sequence ''traffic_sequence'' db) (\<lambda>s. Inr (s, db)))) (\<lambda>sequence.
        tx_bind (store_traffic_batch E now (traffic_batch_of bootID sequence configVersion
            (close_interval now (rows_interval (map (\<lambda>r. (tw_interval_started_at r, tw_updated_at r)) rows)))
            items)) (\<lambda>batch.
        tx_return (Some batch))))))"

definition pending_limit :: "int \<Rightarrow> nat" where
  "pending_limit limit = (if limit \<le> 0 \<or> limit > 1000 then 100 else nat limit)"

definition PendingTraffic :: "Codecs \<Rightarrow> int \<Rightarrow> (Db, TrafficBatch list) tx" where
  "PendingTraffic E limit =
     tx_bind (stmt (\<lambda>db. Inr (take (pending_limit limit) (order_wal (db_traffic_wal db)), db))) (\<lambda>rows.
       tx_lift (scan_all (\<lambda>r. cd_traffic_unmarshal E (wr_payload_json r)) rows))"

definition AcknowledgeTraffic :: "string \<Rightarrow> nat \<Rightarrow> string \<Rightarrow> (Db, unit) tx" where
  "AcknowledgeTraffic bootID sequence hash =
     tx_bind (tx_lift (sql_uint sequence)) (\<lambda>_.
     tx_bind (stmt (\<lambda>db. Inr (length (filter (wal_matches bootID sequence hash) (db_traffic_wal db)),
         db\<lparr>db_traffic_wal := filter (\<lambda>r. \<not> wal_matches bootID sequence hash r) (db_traffic_wal db)\<rparr>))) (\<lambda>affected.
     if affected \<noteq> 1 then tx_lift (Inl (Msg ''traffic acknowledgement does not match pending WAL''))
     else tx_return ()))"

definition wal_stats :: "WalRow list \<Rightarrow> nat \<times> nat" where
  "wal_stats rows = (length rows, sum_list (map (length \<circ> wr_payload_json) rows))"

definition PendingTrafficStats :: "(Db, nat \<times> nat) tx" where
  "PendingTrafficStats = stmt (\<lambda>db. Inr (wal_stats (db_traffic_wal db), db))"

section \<open>Lemmas\<close>

lemma meta_update_Inr [store_simps]:
  "meta_update k v db = Inr (u, db') \<longleftrightarrow>
     db' = (if db_meta db k = None then db else db\<lparr>db_meta := (db_meta db)(k \<mapsto> v)\<rparr>)"
  by (auto simp: meta_update_def split: option.splits)

lemma sql_uint_Inr [store_simps]: "sql_uint n = Inr u \<longleftrightarrow> n \<le> max_int64"
  by (simp add: sql_uint_def)

lemma tx_ok_runtimeStateTx [store_simps]:
  "tx_ok runtimeStateTx db st db' \<longleftrightarrow>
     db' = db \<and> st = runtime_state_of db \<and> db_meta db ''applied_config_version'' \<noteq> None \<and>
     db_meta db ''applied_config_hash'' \<noteq> None \<and> db_meta db ''applied_user_revision'' \<noteq> None"
  by (auto simp: runtimeStateTx_def store_simps split: if_splits)

lemma tx_ok_iter_Nil [store_simps]: "tx_ok (tx_iter f []) db u db' \<longleftrightarrow> db' = db"
  by (simp add: store_simps)

lemma tx_ok_iter_ConsE:
  assumes "tx_ok (tx_iter f (x # xs)) db u db'"
  obtains v d where "tx_ok (f x) db v d" "tx_ok (tx_iter f xs) d u db'"
  using assms by (auto elim: tx_ok_bindE)

lemmas tx_elims = tx_ok_bindE tx_ok_iter_ConsE tx_ok_ignoreE

subsection \<open>Users\<close>

definition user_row :: "nat \<Rightarrow> UserCredential \<Rightarrow> UserRow" where
  "user_row rv u = \<lparr>uw_credential = u, uw_revision = rv\<rparr>"

definition valid_user :: "nat \<Rightarrow> UserCredential \<Rightarrow> bool" where
  "valid_user rv u \<longleftrightarrow> 0 < uc_SubscriberID u \<and> 0 < uc_InboundID u \<and> uc_Kind u \<noteq> [] \<and> uc_Value u \<noteq> [] \<and>
     rv \<le> max_int64 \<and> uc_SpeedLimitBPS u \<le> max_int64 \<and> uc_QuotaGeneration u \<le> max_int64"

definition snapshot_valid :: "UserSnapshot \<Rightarrow> bool" where
  "snapshot_valid s \<longleftrightarrow> 0 < us_Revision s \<and> length (us_Users s) \<le> 100000 \<and>
     list_all (valid_user (us_Revision s)) (us_Users s) \<and>
     distinct (map (\<lambda>u. (uc_SubscriberID u, uc_InboundID u)) (us_Users s))"

lemma user_key_user_row [simp]: "user_key (user_row rv u) = (uc_SubscriberID u, uc_InboundID u)"
  by (simp add: user_key_def user_row_def)

lemma insert_user_run:
  "insert_user rv u ([], db) =
     (if valid_user rv u \<and> (uc_SubscriberID u, uc_InboundID u) \<notin> user_key ` set (db_users db)
      then (Inr (), [], db\<lparr>db_users := db_users db @ [user_row rv u]\<rparr>)
      else (fst (insert_user rv u ([], db)), [], db)) \<and>
   (\<not> (valid_user rv u \<and> (uc_SubscriberID u, uc_InboundID u) \<notin> user_key ` set (db_users db)) \<longrightarrow>
      (\<exists>e. fst (insert_user rv u ([], db)) = Inl e))"
  by (auto simp: insert_user_def valid_user_def sql_uint_def tx_bind_def Let_def user_row_def user_key_def)

lemma tx_ok_insert_user:
  "tx_ok (insert_user rv u) db v db' \<Longrightarrow>
     valid_user rv u \<and> (uc_SubscriberID u, uc_InboundID u) \<notin> user_key ` set (db_users db) \<and>
     db' = db\<lparr>db_users := db_users db @ [user_row rv u]\<rparr>"
  by (auto simp: insert_user_def valid_user_def user_row_def user_key_def store_simps Let_def
      elim!: tx_elims split: if_splits)

lemma tx_ok_insert_users:
  "tx_ok (tx_iter (insert_user rv) us) db v db' \<Longrightarrow>
     list_all (valid_user rv) us \<and>
     (distinct (map user_key (db_users db)) \<longrightarrow> distinct (map user_key (db_users db'))) \<and>
     db' = db\<lparr>db_users := db_users db @ map (user_row rv) us\<rparr>"
proof (induction us arbitrary: db)
  case Nil
  then show ?case by (simp add: store_simps)
next
  case (Cons u us)
  then obtain w d where s: "tx_ok (insert_user rv u) db w d" and r: "tx_ok (tx_iter (insert_user rv) us) d v db'"
    by (auto elim: tx_elims)
  note a = tx_ok_insert_user [OF s] and b = Cons.IH [OF r]
  from a have "distinct (map user_key (db_users db)) \<longrightarrow> distinct (map user_key (db_users d))" by simp
  moreover from a b have "list_all (valid_user rv) (u # us)"
    and "db' = db\<lparr>db_users := db_users db @ map (user_row rv) (u # us)\<rparr>" by simp_all
  ultimately show ?case using b by blast
qed

lemma ReplaceUsers_okE:
  assumes "tx_ok (ReplaceUsers s) db u db'"
  obtains "us_Revision s = rs_AppliedUserRevision (runtime_state_of db)" "db' = db"
  | "snapshot_valid s" "rs_AppliedUserRevision (runtime_state_of db) < us_Revision s"
    "db' = db\<lparr>db_users := map (user_row (us_Revision s)) (us_Users s),
       db_meta := (db_meta db)(''applied_user_revision'' \<mapsto> format_uint (us_Revision s))\<rparr>"
proof -
  have comp: "map (user_key \<circ> user_row r) us = map (\<lambda>u. (uc_SubscriberID u, uc_InboundID u)) us" for r us by simp
  show thesis
  using assms that
  by (auto simp: ReplaceUsers_def store_simps snapshot_valid_def comp elim!: tx_elims
      dest!: tx_ok_transactD tx_ok_insert_users split: if_splits)
qed

subsection \<open>Configuration revisions\<close>

lemma find_config_Some: "find_config v db = Some r \<Longrightarrow> r \<in> set (db_config_revisions db) \<and> cv_version r = v"
  by (auto simp: find_config_def find_Some_iff)

lemma find_config_None: "find_config v db = None \<longleftrightarrow> v \<notin> cv_version ` set (db_config_revisions db)"
  by (auto simp: find_config_def find_None_iff)

definition received_row :: "int \<Rightarrow> SignedConfig \<Rightarrow> string \<Rightarrow> ConfigRow" where
  "received_row now msg raw =
     \<lparr>cv_version = dc_Version (sg_Config msg), cv_sha256 = sg_SHA256 msg, cv_signed_json = raw,
      cv_status = ''received'', cv_created_at = now, cv_applied_at = None\<rparr>"

lemma SaveDesiredConfig_okE:
  assumes "tx_ok (SaveDesiredConfig E now msg) db b db'"
  obtains r where "r \<in> set (db_config_revisions db)" "cv_version r = dc_Version (sg_Config msg)"
      "cv_sha256 r = sg_SHA256 msg" "b = (cv_status r \<noteq> ''applied'')" "db' = db"
  | raw where "b" "cd_config_marshal E msg = Inr raw" "dc_Version (sg_Config msg) \<le> max_int64"
      "rs_AppliedConfigVersion (runtime_state_of db) < dc_Version (sg_Config msg)"
      "dc_Version (sg_Config msg) \<notin> cv_version ` set (db_config_revisions db)"
      "sg_SHA256 msg \<notin> cv_sha256 ` set (db_config_revisions db)"
      "db' = db\<lparr>db_config_revisions := db_config_revisions db @ [received_row now msg raw]\<rparr>"
  using assms that
  by (auto simp: SaveDesiredConfig_def store_simps insert_config_def received_row_def find_config_None
      elim!: tx_elims dest!: tx_ok_transactD split: option.splits if_splits dest!: find_config_Some)

definition marked_db :: "int \<Rightarrow> nat \<Rightarrow> string \<Rightarrow> Db \<Rightarrow> Db" where
  "marked_db now version hash db = db\<lparr>db_config_revisions := map (mark_row now version hash) (db_config_revisions db),
     db_meta := (db_meta db)(''applied_config_version'' \<mapsto> format_uint version, ''applied_config_hash'' \<mapsto> hash)\<rparr>"

lemma MarkConfigApplied_okE:
  assumes "tx_ok (MarkConfigApplied now version hash) db u db'"
    and "db_meta db ''applied_config_version'' \<noteq> None" "db_meta db ''applied_config_hash'' \<noteq> None"
  obtains r where "filter (\<lambda>r. cv_version r = version \<and> cv_sha256 r = hash) (db_config_revisions db) = [r]"
    "version \<le> max_int64"
    "db' = marked_db now version hash db \<or> prune_configs version (marked_db now version hash db) = Inr ((), db')"
  using assms that
  by (auto simp: MarkConfigApplied_def store_simps marked_db_def length_Suc_conv
      elim!: tx_elims dest!: tx_ok_transactD split: if_splits)

definition reset_db :: "Db \<Rightarrow> Db" where
  "reset_db db =
     (let v = rs_AppliedConfigVersion (runtime_state_of db)
      in db\<lparr>db_config_revisions := (if 0 < v then map (reset_row v) (db_config_revisions db) else db_config_revisions db),
            db_meta := (db_meta db)(''applied_config_version'' \<mapsto> ''0'',
              ''applied_config_hash'' \<mapsto> [], ''applied_user_revision'' \<mapsto> ''0'')\<rparr>)"

lemma tx_ok_meta_updates:
  "tx_ok (tx_iter (\<lambda>(k, v). stmt (meta_update k v)) kvs) db u db' \<Longrightarrow> list_all (\<lambda>(k, v). db_meta db k \<noteq> None) kvs \<Longrightarrow>
     db' = db\<lparr>db_meta := fold (\<lambda>(k, v) m. m(k \<mapsto> v)) kvs (db_meta db)\<rparr>"
proof (induction kvs arbitrary: db)
  case Nil
  then show ?case by (simp add: store_simps)
next
  case (Cons x kvs)
  obtain k v where x: "x = (k, v)" by (cases x)
  from Cons.prems x have r: "tx_ok (tx_iter (\<lambda>(k, v). stmt (meta_update k v)) kvs) (db\<lparr>db_meta := (db_meta db)(k \<mapsto> v)\<rparr>) u db'"
    by (auto elim!: tx_elims simp: store_simps simp del: tx_iter.simps split: if_splits)
  have "list_all (\<lambda>(k', v'). db_meta (db\<lparr>db_meta := (db_meta db)(k \<mapsto> v)\<rparr>) k' \<noteq> None) kvs"
    using Cons.prems(2) by (auto simp: list.pred_set)
  from Cons.IH [OF r this] x show ?case by simp
qed

lemma ResetAppliedRuntime_ok:
  assumes "tx_ok ResetAppliedRuntime db u db'"
  shows "db' = reset_db db"
proof -
  let ?v = "rs_AppliedConfigVersion (runtime_state_of db)"
  let ?kvs = "[(''applied_config_version'', ''0''), (''applied_config_hash'', []), (''applied_user_revision'', ''0'')]"
  from assms obtain d where m: "db_meta db ''applied_config_version'' \<noteq> None" "db_meta db ''applied_config_hash'' \<noteq> None"
      "db_meta db ''applied_user_revision'' \<noteq> None"
    and d: "d = (if 0 < ?v then db\<lparr>db_config_revisions := map (reset_row ?v) (db_config_revisions db)\<rparr> else db)"
    and k: "tx_ok (tx_iter (\<lambda>(k, v). stmt (meta_update k v)) ?kvs) d u db'"
    unfolding ResetAppliedRuntime_def
    by (auto simp: store_simps simp del: tx_iter.simps elim!: tx_ok_bindE dest!: tx_ok_transactD split: if_splits)
  have "db' = d\<lparr>db_meta := fold (\<lambda>(k, v) m. m(k \<mapsto> v)) ?kvs (db_meta d)\<rparr>"
    by (rule tx_ok_meta_updates [OF k]) (use m d in auto)
  then show ?thesis by (simp add: d reset_db_def Let_def)
qed

subsection \<open>Atomicity\<close>

definition atomic :: "('db, 'a) tx \<Rightarrow> bool" where
  "atomic m \<longleftrightarrow> (\<forall>fs db e fs' db'. m (fs, db) = (Inl e, fs', db') \<longrightarrow> db' = db)"

lemma atomic_transact: "atomic (transact body)"
  unfolding atomic_def by (blast dest: transact_rollback)

lemma atomic_statement: "atomic (stmt f)"
  by (auto simp: atomic_def stmt_def split: option.splits sum.splits prod.splits)

lemma atomic_pure: "atomic (tx_lift r)" "atomic (tx_return x)"
  by (simp_all add: atomic_def tx_lift_def tx_return_def)

lemmas atomic_basic = atomic_transact atomic_statement atomic_pure

lemma atomic_lift_bind: "(\<And>x. atomic (k x)) \<Longrightarrow> atomic (tx_bind (tx_lift r) k)"
  by (cases r) (simp_all add: atomic_def tx_bind_def tx_lift_def)

lemma atomic_runD: "atomic m \<Longrightarrow> m (fs, db) = (r, fs', db') \<Longrightarrow> db' = db \<or> (\<exists>x. r = Inr x \<and> tx_ok m db x db')"
  by (cases r) (auto simp: atomic_def tx_ok_def)

lemma store_operations_atomic:
  "atomic (ReplaceUsers s)" "atomic (SaveDesiredConfig E now msg)" "atomic (MarkConfigApplied now v h)"
  "atomic ResetAppliedRuntime" "atomic (AddTrafficWindow ds st en)" "atomic (DrainTraffic E now boot cv)"
  by (simp_all add: ReplaceUsers_def SaveDesiredConfig_def MarkConfigApplied_def ResetAppliedRuntime_def
      AddTrafficWindow_def DrainTraffic_def atomic_basic atomic_lift_bind)

end
