(* ===== verification/Runtime_Xray.thy ===== *)
theory Runtime_Xray
  imports Identity State_Store
begin

text \<open>
  The data plane: internal/runtime/xray.go. The embedded Xray core is the type variable 'core
  with the operations of \<open>CoreOps\<close>; every call into it is a statement, so it may also fail with
  an arbitrary error. The state is the runtime's struct and the file system of the secret
  store. A nil dereference or an index out of range is the error \<open>ErrPanic\<close>. The mutex makes
  every operation one step. One operation reads the clock once.
\<close>

section \<open>The embedded core\<close>

record PanelProtocol =
  pp_Type :: string
  pp_Port :: int
  pp_Enable :: bool
  pp_Security :: string
  pp_SNI :: string
  pp_Fingerprint :: string
  pp_RealityServerAddr :: string
  pp_RealityServerPort :: int
  pp_RealityPrivateKey :: string
  pp_RealityPublicKey :: string
  pp_RealityShortID :: string
  pp_Transport :: string
  pp_Host :: string
  pp_Path :: string
  pp_ServiceName :: string
  pp_Cipher :: string
  pp_ServerKey :: string
  pp_Flow :: string
  pp_HopPorts :: string
  pp_HopInterval :: int
  pp_ObfsPassword :: string
  pp_ReduceRTT :: bool
  pp_UDPRelayMode :: string
  pp_CongestionController :: string
  pp_UpMbps :: int
  pp_DownMbps :: int
  pp_Obfs :: string
  pp_Encryption :: string
  pp_CertMode :: string
  pp_CertificateFile :: string
  pp_PrivateKeyFile :: string
  pp_TLSMinVersion :: string
  pp_TLSMaxVersion :: string
  pp_TLSALPN :: "string list"

record NodeInfo =
  ni_Id :: int
  ni_Type :: string
  ni_PushInterval :: int
  ni_PullInterval :: int
  ni_Protocol :: PanelProtocol

record UserInfo =
  ui_Id :: int
  ui_Uuid :: string
  ui_SpeedLimit :: int
  ui_DeviceLimit :: int

record UserTraffic =
  ut_UID :: int
  ut_Upload :: int
  ut_Download :: int

record AccessSample =
  as_SessionKey :: string
  as_SubscriberID :: int
  as_InboundID :: int
  as_Host :: string
  as_Network :: string
  as_Protocol :: string
  as_DestinationPort :: nat
  as_StartedAt :: int
  as_LastSeenAt :: int
  as_EndedAt :: "int option"
  as_UploadBytes :: nat
  as_DownloadBytes :: nat
  as_ConnectionCount :: nat
  as_Active :: bool

record 'core CoreOps =
  xc_build :: "NodeInfo \<Rightarrow> string \<Rightarrow> unit result"
  xc_start :: "'core result"
  xc_add_node :: "string \<Rightarrow> NodeInfo \<Rightarrow> 'core \<Rightarrow> 'core result"
  xc_add_limiter :: "string \<Rightarrow> UserInfo list \<Rightarrow> string \<Rightarrow> 'core \<Rightarrow> 'core"
  xc_add_users :: "string \<Rightarrow> UserInfo list \<Rightarrow> NodeInfo \<Rightarrow> 'core \<Rightarrow> 'core result"
  xc_del_users :: "UserInfo list \<Rightarrow> string \<Rightarrow> NodeInfo \<Rightarrow> 'core \<Rightarrow> go_error option \<times> 'core"
  xc_close :: "'core \<Rightarrow> go_error option \<times> 'core"
  xc_traffic :: "string \<Rightarrow> 'core \<Rightarrow> UserTraffic list \<times> 'core"
  xc_access :: "'core \<Rightarrow> AccessSample list \<times> 'core"
  xc_online :: "string \<Rightarrow> 'core \<Rightarrow> (int \<times> string) list"

text \<open>
  What the runtime calls besides the core: the secret store, uuid.Validate, the clock in
  seconds, the names of temporary files, and the order in which a Go map with the given keys is
  iterated.
\<close>

record 'core RuntimeEnv =
  re_core :: "'core CoreOps"
  re_crypto :: Crypto
  re_secrets :: SecretStore
  re_tmp :: "string \<Rightarrow> string"
  re_uuid_ok :: "string \<Rightarrow> bool"
  re_now :: int
  re_order :: "int list \<Rightarrow> int list"

record 'core XrayRuntime =
  xr_active :: "'core option"
  xr_config :: "DesiredConfig option"
  xr_users :: "UserCredential list"
  xr_pendingAccess :: "AccessItem list"

record 'core RuntimeWorld =
  rw_files :: fs
  rw_runtime :: "'core XrayRuntime"

definition embeddedXrayVersion :: string where
  "embeddedXrayVersion = ''wyx2685-xray-20260414''"

definition NewXray :: "'core XrayRuntime" where
  "NewXray = \<lparr>xr_active = None, xr_config = None, xr_users = [], xr_pendingAccess = []\<rparr>"

abbreviation on_files :: "(fs, 'x) tx \<Rightarrow> ('core RuntimeWorld, 'x) tx" where
  "on_files \<equiv> tx_zoom rw_files rw_files_update"

abbreviation the_runtime :: "('core XrayRuntime \<Rightarrow> 'x) \<Rightarrow> ('core RuntimeWorld, 'x) tx" where
  "the_runtime g \<equiv> tx_get (\<lambda>w. g (rw_runtime w))"

abbreviation set_runtime :: "('core XrayRuntime \<Rightarrow> 'core XrayRuntime) \<Rightarrow> ('core RuntimeWorld, unit) tx" where
  "set_runtime g \<equiv> tx_modify (rw_runtime_update g)"

section \<open>Credentials\<close>

definition ss2022_key_length :: "string \<Rightarrow> nat" where
  "ss2022_key_length method = (if method = ''2022-blake3-aes-128-gcm'' then 16 else 32)"

definition normalizeSS2022Key :: "string \<Rightarrow> string \<Rightarrow> string result" where
  "normalizeSS2022Key method material =
     (if length material = ss2022_key_length method then Inr material
      else let encoded = trim_space material;
               decoded = (case b64_std_decode encoded of Some d \<Rightarrow> Some d | None \<Rightarrow> b64_raw_decode encoded)
           in case decoded of
                None \<Rightarrow> Inl (Msg ''key length does not match the SS2022 method'')
              | Some d \<Rightarrow> if length d \<noteq> ss2022_key_length method
                         then Inl (Msg ''key length does not match the SS2022 method'') else Inr d)"

definition validateRuntimeCredential :: "(string \<Rightarrow> bool) \<Rightarrow> Inbound \<Rightarrow> string \<Rightarrow> unit result" where
  "validateRuntimeCredential uuid_ok inbound val =
     (if ib_Protocol inbound \<in> {ProtocolVLESS, ProtocolVMess, ProtocolTUIC} then
        (if \<not> uuid_ok val then Inl (Msg ''credential must be a UUID'') else Inr ())
      else if ib_Protocol inbound = ProtocolSS2022 then
        (case ib_SS2022 inbound of
           None \<Rightarrow> Inl (ErrPanic ''nil pointer dereference'')
         | Some c \<Rightarrow> (case normalizeSS2022Key (ss_Method c) val of
                       Inl _ \<Rightarrow> Inl (Msg ''SS2022 credential is invalid'') | Inr _ \<Rightarrow> Inr ()))
      else if ib_Protocol inbound \<in> {ProtocolTrojan, ProtocolHysteria2} then
        (if length val < 8 \<or> length val > 255 then Inl (Msg ''password length is invalid'') else Inr ())
      else Inr ())"

text \<open>
  int(math.Ceil(float64(n*8) / 1000000)): the product wraps at 64 bits; the quotient is exact
  here, which the float64 division is as far as the ceiling goes for products below 2^53.
\<close>

definition speed_mbps :: "nat \<Rightarrow> int" where
  "speed_mbps bps = (if bps > 0 then int ((bps * 8 mod 2 ^ 64 + 999999) div 1000000) else 0)"

definition group_add :: "int \<Rightarrow> 'v \<Rightarrow> (int \<times> 'v list) list \<Rightarrow> (int \<times> 'v list) list" where
  "group_add k v g =
     (if k \<in> fst ` set g then map (\<lambda>(k', vs). (k', if k' = k then vs @ [v] else vs)) g else g @ [(k, [v])])"

definition group_get :: "(int \<times> 'v list) list \<Rightarrow> int \<Rightarrow> 'v list" where
  "group_get g k = (case map_of g k of None \<Rightarrow> [] | Some vs \<Rightarrow> vs)"

definition enabled_inbound :: "DesiredConfig \<Rightarrow> int \<Rightarrow> Inbound option" where
  "enabled_inbound desired i =
     map_of (rev (map (\<lambda>ib. (ib_ID ib, ib)) (filter ib_Enabled (dc_Inbounds desired)))) i"

definition user_skipped :: "int \<Rightarrow> UserCredential \<Rightarrow> bool" where
  "user_skipped now u \<longleftrightarrow>
     uc_SubscriberID u \<le> 0 \<or> uc_Value u = [] \<or> (uc_ExpiresAt u > 0 \<and> uc_ExpiresAt u \<le> now)"

definition panel_user :: "UserCredential \<Rightarrow> UserInfo" where
  "panel_user u = \<lparr>ui_Id = uc_SubscriberID u, ui_Uuid = uc_Value u, ui_SpeedLimit = speed_mbps (uc_SpeedLimitBPS u),
     ui_DeviceLimit = int (uc_DeviceLimit u)\<rparr>"

fun group_panel_users ::
  "(string \<Rightarrow> bool) \<Rightarrow> int \<Rightarrow> DesiredConfig \<Rightarrow> UserCredential list \<Rightarrow> (int \<times> UserInfo list) list
     \<Rightarrow> (int \<times> UserInfo list) list result" where
  "group_panel_users uuid_ok now desired [] grouped = Inr grouped"
| "group_panel_users uuid_ok now desired (u # us) grouped =
     (case enabled_inbound desired (uc_InboundID u) of
        None \<Rightarrow> Inl (Msg (''user '' @ format_int (uc_SubscriberID u) @ '' references an unavailable inbound''))
      | Some inbound \<Rightarrow>
          if user_skipped now u then group_panel_users uuid_ok now desired us grouped
          else (case validateRuntimeCredential uuid_ok inbound (uc_Value u) of
                  Inl (ErrPanic p) \<Rightarrow> Inl (ErrPanic p)
                | Inl e \<Rightarrow> Inl (Wrapped (''user '' @ format_int (uc_SubscriberID u)) e)
                | Inr _ \<Rightarrow> group_panel_users uuid_ok now desired us (group_add (uc_InboundID u) (panel_user u) grouped)))"

definition panelUsersByInbound ::
  "(string \<Rightarrow> bool) \<Rightarrow> int \<Rightarrow> DesiredConfig \<Rightarrow> UserCredential list \<Rightarrow> (int \<times> UserInfo list) list result" where
  "panelUsersByInbound uuid_ok now desired users = group_panel_users uuid_ok now desired users []"

definition usersAvailableInConfig :: "DesiredConfig \<Rightarrow> UserCredential list \<Rightarrow> UserCredential list" where
  "usersAvailableInConfig desired users =
     (let available = ib_ID ` set (filter ib_Enabled (dc_Inbounds desired))
      in filter (\<lambda>u. uc_InboundID u \<in> available) users)"

definition inboundTag :: "int \<Rightarrow> string" where
  "inboundTag i = ''inbound-'' @ format_int i"

definition tag_inbound :: "string \<Rightarrow> int" where
  "tag_inbound tag = parse_int64_ignore (trim_prefix tag ''inbound-'')"

definition findInbound :: "DesiredConfig \<Rightarrow> int \<Rightarrow> Inbound" where
  "findInbound desired i =
     (case find (\<lambda>ib. ib_ID ib = i) (dc_Inbounds desired) of
        Some ib \<Rightarrow> ib
      | None \<Rightarrow> \<lparr>ib_ID = i, ib_Name = [], ib_Protocol = [], ib_Listen = [], ib_Port = 0, ib_Network = [],
           ib_Enabled = False, ib_Transport = zero_transport, ib_SecurityProfileID = 0, ib_TrafficMultiplierMilli = 0,
           ib_VLESS = None, ib_VMess = None, ib_Trojan = None, ib_SS2022 = None, ib_TUIC = None, ib_Hysteria2 = None\<rparr>)"

definition securityProfile :: "SecurityProfile list \<Rightarrow> int \<Rightarrow> SecurityProfile option" where
  "securityProfile profiles i = find (\<lambda>p. sp_ID p = i) profiles"

section \<open>Nodes\<close>

definition deref :: "'a option \<Rightarrow> ('s, 'a) tx" where
  "deref p = (case p of None \<Rightarrow> tx_lift (Inl (ErrPanic ''nil pointer dereference'')) | Some x \<Rightarrow> tx_return x)"

definition first_of :: "'a list \<Rightarrow> ('s, 'a) tx" where
  "first_of xs = (case xs of [] \<Rightarrow> tx_lift (Inl (ErrPanic ''index out of range'')) | x # _ \<Rightarrow> tx_return x)"

text \<open>fmt.Errorf around the error of a call\<close>

definition tx_wrap :: "string \<Rightarrow> ('s, 'a) tx \<Rightarrow> ('s, 'a) tx" where
  "tx_wrap label m = tx_bind (tx_attempt m) (\<lambda>r. case r of Inl e \<Rightarrow> tx_lift (Inl (Wrapped label e)) | Inr x \<Rightarrow> tx_return x)"

definition zero_protocol :: PanelProtocol where
  "zero_protocol = \<lparr>pp_Type = [], pp_Port = 0, pp_Enable = False, pp_Security = [], pp_SNI = [], pp_Fingerprint = [],
     pp_RealityServerAddr = [], pp_RealityServerPort = 0, pp_RealityPrivateKey = [], pp_RealityPublicKey = [],
     pp_RealityShortID = [], pp_Transport = [], pp_Host = [], pp_Path = [], pp_ServiceName = [], pp_Cipher = [],
     pp_ServerKey = [], pp_Flow = [], pp_HopPorts = [], pp_HopInterval = 0, pp_ObfsPassword = [], pp_ReduceRTT = False,
     pp_UDPRelayMode = [], pp_CongestionController = [], pp_UpMbps = 0, pp_DownMbps = 0, pp_Obfs = [], pp_Encryption = [],
     pp_CertMode = [], pp_CertificateFile = [], pp_PrivateKeyFile = [], pp_TLSMinVersion = [], pp_TLSMaxVersion = [],
     pp_TLSALPN = []\<rparr>"

definition base_protocol :: "Inbound \<Rightarrow> PanelProtocol" where
  "base_protocol ib = zero_protocol\<lparr>pp_Port := ib_Port ib, pp_Enable := ib_Enabled ib, pp_Transport := tr_Type (ib_Transport ib),
     pp_Host := tr_Host (ib_Transport ib), pp_Path := tr_Path (ib_Transport ib), pp_ServiceName := tr_ServiceName (ib_Transport ib)\<rparr>"

text \<open>The switch over the inbound's protocol\<close>

definition protocol_fields :: "'core RuntimeEnv \<Rightarrow> Inbound \<Rightarrow> (fs, PanelProtocol) tx" where
  "protocol_fields env ib =
     (let p = base_protocol ib in
      if ib_Protocol ib = ProtocolVLESS then
        tx_bind (deref (ib_VLESS ib)) (\<lambda>c.
        tx_return (p\<lparr>pp_Type := ''vless'', pp_Flow := vl_Flow c, pp_Encryption := vl_Decryption c\<rparr>))
      else if ib_Protocol ib = ProtocolVMess then tx_return (p\<lparr>pp_Type := ''vmess''\<rparr>)
      else if ib_Protocol ib = ProtocolTrojan then tx_return (p\<lparr>pp_Type := ''trojan''\<rparr>)
      else if ib_Protocol ib = ProtocolSS2022 then
        tx_bind (deref (ib_SS2022 ib)) (\<lambda>c.
        tx_bind (tx_wrap ''resolve SS2022 server key'' (Resolve (re_crypto env) (re_secrets env) (ss_ServerKeyRef c))) (\<lambda>material.
        tx_bind (tx_wrap ''normalize SS2022 server key'' (tx_lift (normalizeSS2022Key (ss_Method c) material))) (\<lambda>serverKey.
        tx_return (p\<lparr>pp_Type := ''shadowsocks'', pp_Cipher := ss_Method c, pp_ServerKey := serverKey\<rparr>))))
      else if ib_Protocol ib = ProtocolTUIC then
        tx_bind (deref (ib_TUIC ib)) (\<lambda>c.
        tx_return (p\<lparr>pp_Type := ''tuic'', pp_CongestionController := tu_CongestionControl c,
          pp_ReduceRTT := tu_ZeroRTTHandshake c, pp_UDPRelayMode := tu_UDPRelayMode c\<rparr>))
      else if ib_Protocol ib = ProtocolHysteria2 then
        tx_bind (deref (ib_Hysteria2 ib)) (\<lambda>c.
        tx_bind (if hy_ObfsPasswordRef c \<noteq> []
                 then tx_bind (tx_wrap ''resolve Hysteria2 obfuscation password''
                        (Resolve (re_crypto env) (re_secrets env) (hy_ObfsPasswordRef c))) (\<lambda>raw. tx_return (trim_space raw))
                 else tx_return []) (\<lambda>obfsPassword.
        tx_return (p\<lparr>pp_Type := ''hysteria2'', pp_UpMbps := hy_UpMbps c, pp_DownMbps := hy_DownMbps c, pp_Obfs := hy_Obfs c,
          pp_HopPorts := hy_HopPorts c, pp_HopInterval := hy_HopIntervalSeconds c, pp_ObfsPassword := obfsPassword\<rparr>)))
      else tx_lift (Inl (Msg ''unsupported Xray protocol'')))"

definition tls_fields :: "'core RuntimeEnv \<Rightarrow> TLSProfile \<Rightarrow> PanelProtocol \<Rightarrow> (fs, PanelProtocol) tx" where
  "tls_fields env t p =
     tx_bind (first_of (tls_ServerNames t)) (\<lambda>sni.
     tx_bind (tx_wrap ''materialize TLS certificate''
       (Materialize (re_crypto env) (re_tmp env (tls_CertificateRef t)) (re_secrets env) (tls_CertificateRef t) ''.crt'' mode_0644)) (\<lambda>crt.
     tx_bind (tx_wrap ''materialize TLS private key''
       (Materialize (re_crypto env) (re_tmp env (tls_PrivateKeyRef t)) (re_secrets env) (tls_PrivateKeyRef t) ''.key'' mode_0600)) (\<lambda>key.
     tx_return (p\<lparr>pp_SNI := sni, pp_CertMode := ''file'', pp_TLSMinVersion := tls_MinVersion t,
       pp_TLSMaxVersion := tls_MaxVersion t, pp_TLSALPN := tls_ALPN t, pp_CertificateFile := crt, pp_PrivateKeyFile := key\<rparr>))))"

definition reality_fields :: "'core RuntimeEnv \<Rightarrow> RealityProfile \<Rightarrow> PanelProtocol \<Rightarrow> (fs, PanelProtocol) tx" where
  "reality_fields env r p =
     (let (host, portRaw) = (case split_host_port (rl_Destination r) of None \<Rightarrow> ([], []) | Some hp \<Rightarrow> hp) in
      tx_bind (tx_wrap ''resolve REALITY private key'' (Resolve (re_crypto env) (re_secrets env) (rl_PrivateKeyRef r))) (\<lambda>privateKey.
      tx_bind (first_of (rl_ServerNames r)) (\<lambda>sni.
      tx_bind (first_of (rl_ShortIDs r)) (\<lambda>shortID.
      tx_return (p\<lparr>pp_SNI := sni, pp_RealityServerAddr := host, pp_RealityServerPort := parse_int64_ignore portRaw,
        pp_RealityPrivateKey := trim_space privateKey, pp_RealityPublicKey := rl_PublicKey r,
        pp_RealityShortID := shortID, pp_Fingerprint := rl_Fingerprint r\<rparr>)))))"

definition security_fields :: "'core RuntimeEnv \<Rightarrow> DesiredConfig \<Rightarrow> Inbound \<Rightarrow> PanelProtocol \<Rightarrow> (fs, PanelProtocol) tx" where
  "security_fields env desired ib p0 =
     (if ib_SecurityProfileID ib = 0 then tx_return p0
      else case securityProfile (dc_Security desired) (ib_SecurityProfileID ib) of
        None \<Rightarrow> tx_lift (Inl (Msg ''security profile was not found''))
      | Some profile \<Rightarrow>
          let p = p0\<lparr>pp_Security := sp_Type profile\<rparr> in
          if sp_Type profile = SecurityTLS then tx_bind (deref (sp_TLS profile)) (\<lambda>t. tls_fields env t p)
          else if sp_Type profile = SecurityReality then tx_bind (deref (sp_Reality profile)) (\<lambda>r. reality_fields env r p)
          else tx_return p)"

definition panelNodeForInbound :: "'core RuntimeEnv \<Rightarrow> DesiredConfig \<Rightarrow> Inbound \<Rightarrow> (fs, NodeInfo) tx" where
  "panelNodeForInbound env desired ib =
     tx_bind (protocol_fields env ib) (\<lambda>p0.
     tx_bind (security_fields env desired ib p0) (\<lambda>p.
     tx_return \<lparr>ni_Id = ib_ID ib, ni_Type = pp_Type p, ni_PushInterval = 60, ni_PullInterval = 315360000, ni_Protocol = p\<rparr>))"

type_synonym runtimeNode = "string \<times> NodeInfo"

fun build_nodes :: "'core RuntimeEnv \<Rightarrow> DesiredConfig \<Rightarrow> Inbound list \<Rightarrow> (fs, runtimeNode list) tx" where
  "build_nodes env desired [] = tx_return []"
| "build_nodes env desired (ib # ibs) =
     (if \<not> ib_Enabled ib then build_nodes env desired ibs
      else tx_bind (panelNodeForInbound env desired ib) (\<lambda>info.
           tx_bind (build_nodes env desired ibs) (\<lambda>nodes. tx_return ((inboundTag (ib_ID ib), info) # nodes))))"

definition buildNodes :: "'core RuntimeEnv \<Rightarrow> DesiredConfig \<Rightarrow> (fs, runtimeNode list) tx" where
  "buildNodes env desired = build_nodes env desired (dc_Inbounds desired)"

section \<open>Starting and closing the core\<close>

definition access_item :: "AccessSample \<Rightarrow> AccessItem" where
  "access_item s = \<lparr>ai_SessionKey = as_SessionKey s, ai_SubscriberID = as_SubscriberID s, ai_InboundID = as_InboundID s,
     ai_Host = as_Host s, ai_Network = as_Network s, ai_Protocol = as_Protocol s, ai_DestinationPort = as_DestinationPort s,
     ai_StartedAt = as_StartedAt s, ai_LastSeenAt = as_LastSeenAt s, ai_EndedAt = as_EndedAt s,
     ai_UploadBytes = as_UploadBytes s, ai_DownloadBytes = as_DownloadBytes s, ai_ConnectionCount = as_ConnectionCount s,
     ai_Active = as_Active s\<rparr>"

definition accessSamplesToItems :: "AccessSample list \<Rightarrow> AccessItem list" where
  "accessSamplesToItems samples = map access_item samples"

type_synonym ('core, 'x) rt = "('core RuntimeWorld, 'x) tx"

definition call_core :: "'x result \<Rightarrow> ('core, 'x) rt" where
  "call_core r = stmt (\<lambda>w. bind_result r (\<lambda>x. Inr (x, w)))"

definition core_close :: "'core RuntimeEnv \<Rightarrow> 'core \<Rightarrow> ('core, go_error option \<times> 'core) rt" where
  "core_close env core =
     tx_bind (tx_attempt (call_core (Inr (xc_close (re_core env) core)))) (\<lambda>r.
     tx_return (case r of Inl e \<Rightarrow> (Some e, core) | Inr shut \<Rightarrow> shut))"

text \<open>A core that could not be set up is closed and dropped.\<close>

definition give_up :: "'core RuntimeEnv \<Rightarrow> 'core \<Rightarrow> go_error \<Rightarrow> ('core, 'x) rt" where
  "give_up env core e = tx_bind (core_close env core) (\<lambda>_. tx_lift (Inl e))"

definition or_give_up :: "'core RuntimeEnv \<Rightarrow> 'core \<Rightarrow> ('core, 'x) rt \<Rightarrow> ('core, 'x) rt" where
  "or_give_up env core m =
     tx_bind (tx_attempt m) (\<lambda>r. case r of Inl e \<Rightarrow> give_up env core e | Inr x \<Rightarrow> tx_return x)"

fun add_nodes :: "'core RuntimeEnv \<Rightarrow> (int \<times> UserInfo list) list \<Rightarrow> runtimeNode list \<Rightarrow> 'core \<Rightarrow> ('core, 'core) rt" where
  "add_nodes env grouped [] core = tx_return core"
| "add_nodes env grouped ((tag, info) # nodes) core =
     tx_bind (or_give_up env core (call_core (xc_add_node (re_core env) tag info core))) (\<lambda>core1.
     add_nodes env grouped nodes
       (xc_add_limiter (re_core env) tag (group_get grouped (tag_inbound tag)) (ni_Type info) core1))"

fun add_users :: "'core RuntimeEnv \<Rightarrow> (int \<times> UserInfo list) list \<Rightarrow> runtimeNode list \<Rightarrow> 'core \<Rightarrow> ('core, 'core) rt" where
  "add_users env grouped [] core = tx_return core"
| "add_users env grouped ((tag, info) # nodes) core =
     (let panelUsers = group_get grouped (tag_inbound tag) in
      if panelUsers = [] then add_users env grouped nodes core
      else tx_bind (or_give_up env core (call_core (xc_add_users (re_core env) tag panelUsers info core))) (\<lambda>core1.
           add_users env grouped nodes core1))"

definition startCore ::
  "'core RuntimeEnv \<Rightarrow> runtimeNode list \<Rightarrow> DesiredConfig \<Rightarrow> UserCredential list \<Rightarrow> ('core, 'core) rt" where
  "startCore env nodes desired users =
     tx_bind (call_core (xc_start (re_core env))) (\<lambda>core.
     tx_bind (or_give_up env core (tx_lift (panelUsersByInbound (re_uuid_ok env) (re_now env) desired users))) (\<lambda>grouped.
     tx_bind (add_nodes env grouped nodes core) (\<lambda>core1. add_users env grouped nodes core1)))"

text \<open>previous.Close, then the access samples it still holds\<close>

definition close_active :: "'core RuntimeEnv \<Rightarrow> 'core \<Rightarrow> ('core, go_error option) rt" where
  "close_active env core =
     tx_bind (core_close env core) (\<lambda>(closeErr, shut).
     tx_bind (set_runtime (\<lambda>r. r\<lparr>xr_pendingAccess := xr_pendingAccess r @ accessSamplesToItems (fst (xc_access (re_core env) shut)),
       xr_active := Some (snd (xc_access (re_core env) shut))\<rparr>)) (\<lambda>_.
     tx_return closeErr))"

section \<open>Operations\<close>

definition restore_core ::
  "'core RuntimeEnv \<Rightarrow> runtimeNode list \<Rightarrow> DesiredConfig \<Rightarrow> UserCredential list \<Rightarrow> ('core, 'core result) rt" where
  "restore_core env nodes config users =
     tx_bind (tx_attempt (startCore env nodes config users)) (\<lambda>restored.
     tx_bind (set_runtime (\<lambda>r. r\<lparr>xr_active := (case restored of Inl _ \<Rightarrow> None | Inr core \<Rightarrow> Some core)\<rparr>)) (\<lambda>_.
     tx_return restored))"

text \<open>The previous configuration comes back when its nodes can still be built.\<close>

definition restore_previous :: "'core RuntimeEnv \<Rightarrow> DesiredConfig option \<Rightarrow> UserCredential list \<Rightarrow> ('core, unit) rt" where
  "restore_previous env previousConfig previousUsers =
     (case previousConfig of
        None \<Rightarrow> tx_return ()
      | Some pc \<Rightarrow>
          tx_bind (tx_attempt (on_files (buildNodes env pc))) (\<lambda>built.
          case built of
            Inl _ \<Rightarrow> tx_return ()
          | Inr previousNodes \<Rightarrow> tx_bind (restore_core env previousNodes pc previousUsers) (\<lambda>_. tx_return ())))"

text \<open>The part of ApplyConfig that replaces the running core, in two steps\<close>

definition install_config ::
  "'core RuntimeEnv \<Rightarrow> runtimeNode list \<Rightarrow> DesiredConfig \<Rightarrow> UserCredential list \<Rightarrow> DesiredConfig option \<Rightarrow> UserCredential list
     \<Rightarrow> ('core, unit) rt" where
  "install_config env nodes desired candidateUsers previousConfig previousUsers =
     tx_bind (set_runtime (\<lambda>r. r\<lparr>xr_active := None\<rparr>)) (\<lambda>_.
     tx_bind (tx_attempt (startCore env nodes desired candidateUsers)) (\<lambda>started.
     case started of
       Inl e \<Rightarrow> tx_bind (restore_previous env previousConfig previousUsers) (\<lambda>_. tx_lift (Inl e))
     | Inr candidate \<Rightarrow>
         set_runtime (\<lambda>r. r\<lparr>xr_active := Some candidate, xr_config := Some desired, xr_users := candidateUsers\<rparr>)))"

definition swap_core :: "'core RuntimeEnv \<Rightarrow> runtimeNode list \<Rightarrow> DesiredConfig \<Rightarrow> ('core, unit) rt" where
  "swap_core env nodes desired =
     tx_bind (the_runtime (\<lambda>r. r)) (\<lambda>r.
     tx_bind (case xr_active r of None \<Rightarrow> tx_return None | Some previous \<Rightarrow> close_active env previous) (\<lambda>closeErr.
     case closeErr of
       Some e \<Rightarrow> tx_lift (Inl e)
     | None \<Rightarrow> install_config env nodes desired (usersAvailableInConfig desired (xr_users r)) (xr_config r) (xr_users r)))"

definition ApplyConfig :: "'core RuntimeEnv \<Rightarrow> DesiredConfig \<Rightarrow> ('core, unit) rt" where
  "ApplyConfig env desired =
     (case ValidateDesiredConfig desired of
        Some e \<Rightarrow> tx_lift (Inl e)
      | None \<Rightarrow>
          tx_bind (on_files (buildNodes env desired)) (\<lambda>nodes.
          tx_bind (tx_iter (\<lambda>(tag, info). tx_wrap (''validate '' @ tag) (call_core (xc_build (re_core env) info tag))) nodes) (\<lambda>_.
          swap_core env nodes desired)))"

text \<open>The part of ApplyUsers that replaces the running core, in two steps\<close>

definition install_users ::
  "'core RuntimeEnv \<Rightarrow> runtimeNode list \<Rightarrow> DesiredConfig \<Rightarrow> UserCredential list \<Rightarrow> UserCredential list \<Rightarrow> ('core, unit) rt" where
  "install_users env nodes config users previousUsers =
     tx_bind (tx_attempt (startCore env nodes config users)) (\<lambda>started.
     case started of
       Inl e \<Rightarrow>
         tx_bind (restore_core env nodes config previousUsers) (\<lambda>restored.
         case restored of
           Inl _ \<Rightarrow> tx_lift (Inl (Wrapped ''apply users'' e))
         | Inr _ \<Rightarrow> tx_lift (Inl e))
     | Inr candidate \<Rightarrow> set_runtime (\<lambda>r. r\<lparr>xr_active := Some candidate, xr_users := users\<rparr>))"

definition swap_users ::
  "'core RuntimeEnv \<Rightarrow> 'core \<Rightarrow> DesiredConfig \<Rightarrow> runtimeNode list \<Rightarrow> UserCredential list \<Rightarrow> ('core, unit) rt" where
  "swap_users env previous config nodes users =
     tx_bind (the_runtime xr_users) (\<lambda>previousUsers.
     tx_bind (close_active env previous) (\<lambda>closeErr.
     tx_bind (set_runtime (\<lambda>r. r\<lparr>xr_active := None\<rparr>)) (\<lambda>_.
     case closeErr of
       Some e \<Rightarrow> tx_bind (restore_core env nodes config previousUsers) (\<lambda>_. tx_lift (Inl e))
     | None \<Rightarrow> install_users env nodes config users previousUsers)))"

definition ApplyUsers :: "'core RuntimeEnv \<Rightarrow> UserCredential list \<Rightarrow> ('core, unit) rt" where
  "ApplyUsers env users =
     tx_bind (the_runtime (\<lambda>r. (xr_active r, xr_config r))) (\<lambda>state.
     case state of
       (Some previous, Some config) \<Rightarrow>
         tx_bind (tx_lift (panelUsersByInbound (re_uuid_ok env) (re_now env) config users)) (\<lambda>_.
         tx_bind (on_files (buildNodes env config)) (\<lambda>nodes.
         swap_users env previous config nodes users))
     | _ \<Rightarrow>
         if users = [] then set_runtime (\<lambda>r. r\<lparr>xr_users := []\<rparr>)
         else tx_lift (Inl (Msg ''Xray config must be applied before users'')))"

subsection \<open>Disconnecting\<close>

definition userKey :: "UserCredential \<Rightarrow> string" where
  "userKey u = format_int (uc_InboundID u) @ ''/'' @ format_int (uc_SubscriberID u)"

definition sameRuntimeCredential :: "UserCredential \<Rightarrow> UserCredential \<Rightarrow> bool" where
  "sameRuntimeCredential l r \<longleftrightarrow> uc_Kind l = uc_Kind r \<and> uc_Value l = uc_Value r \<and> uc_ExpiresAt l = uc_ExpiresAt r \<and>
     uc_SpeedLimitBPS l = uc_SpeedLimitBPS r \<and> uc_DeviceLimit l = uc_DeviceLimit r \<and> uc_QuotaGeneration l = uc_QuotaGeneration r"

definition stale_users :: "UserCredential list \<Rightarrow> UserCredential list \<Rightarrow> UserCredential list" where
  "stale_users users nextUsers =
     (let nxt = map_of (rev (map (\<lambda>u. (userKey u, u)) nextUsers))
      in filter (\<lambda>previous. case nxt (userKey previous) of None \<Rightarrow> True
                            | Some current \<Rightarrow> \<not> sameRuntimeCredential previous current) users)"

definition subscriber_users :: "UserCredential list \<Rightarrow> int list \<Rightarrow> UserCredential list" where
  "subscriber_users users subscriberIDs =
     (let wanted = set (filter (\<lambda>i. i > 0) subscriberIDs) in filter (\<lambda>u. uc_SubscriberID u \<in> wanted) users)"

definition removable :: "UserCredential \<Rightarrow> bool" where
  "removable u \<longleftrightarrow> uc_InboundID u > 0 \<and> uc_SubscriberID u > 0 \<and> trim_space (uc_Value u) \<noteq> []"

definition removal_groups :: "UserCredential list \<Rightarrow> (int \<times> UserInfo list) list" where
  "removal_groups stale =
     fold (\<lambda>u. group_add (uc_InboundID u)
        \<lparr>ui_Id = uc_SubscriberID u, ui_Uuid = uc_Value u, ui_SpeedLimit = 0, ui_DeviceLimit = 0\<rparr>) (filter removable stale) []"

text \<open>active.DelUsers: an error of the core leaves what it removed before the failing user.\<close>

definition core_del_users ::
  "'core RuntimeEnv \<Rightarrow> UserInfo list \<Rightarrow> string \<Rightarrow> NodeInfo \<Rightarrow> ('core, go_error option) rt" where
  "core_del_users env users tag info =
     tx_bind (the_runtime xr_active) (\<lambda>active.
     tx_bind (deref active) (\<lambda>core.
     tx_bind (tx_attempt (call_core (Inr (xc_del_users (re_core env) users tag info core)))) (\<lambda>r.
     case r of
       Inl e \<Rightarrow> tx_return (Some e)
     | Inr (err, core') \<Rightarrow> tx_bind (set_runtime (\<lambda>x. x\<lparr>xr_active := Some core'\<rparr>)) (\<lambda>_. tx_return err))))"

fun disconnect_groups ::
  "'core RuntimeEnv \<Rightarrow> DesiredConfig \<Rightarrow> (int \<times> UserInfo list) list \<Rightarrow> int list \<Rightarrow> go_error option \<Rightarrow> ('core, go_error option) rt" where
  "disconnect_groups env config g [] firstErr = tx_return firstErr"
| "disconnect_groups env config g (k # ks) firstErr =
     (if group_get g k = [] then disconnect_groups env config g ks firstErr
      else tx_bind (tx_attempt (on_files (panelNodeForInbound env config (findInbound config k)))) (\<lambda>node.
           case node of
             Inl e \<Rightarrow> disconnect_groups env config g ks (if firstErr = None then Some e else firstErr)
           | Inr info \<Rightarrow>
               tx_bind (core_del_users env (group_get g k) (inboundTag k) info) (\<lambda>err.
               disconnect_groups env config g ks
                 (case err of
                    Some e \<Rightarrow> if firstErr = None then Some (Wrapped (''disconnect users on inbound '' @ format_int k) e) else firstErr
                  | None \<Rightarrow> firstErr))))"

definition disconnectUsersLocked :: "'core RuntimeEnv \<Rightarrow> UserCredential list \<Rightarrow> ('core, unit) rt" where
  "disconnectUsersLocked env stale =
     (if stale = [] then tx_return ()
      else let g = removal_groups stale in
        tx_bind (the_runtime xr_config) (\<lambda>cfg.
        tx_bind (if g = [] then tx_return None
                 else tx_bind (deref cfg) (\<lambda>config. disconnect_groups env config g (re_order env (map fst g)) None)) (\<lambda>firstErr.
        case firstErr of Some e \<Rightarrow> tx_lift (Inl e) | None \<Rightarrow> tx_return ())))"

definition DisconnectUsers :: "'core RuntimeEnv \<Rightarrow> UserCredential list \<Rightarrow> ('core, unit) rt" where
  "DisconnectUsers env nextUsers =
     tx_bind (the_runtime (\<lambda>r. r)) (\<lambda>r.
     if xr_active r = None \<or> xr_config r = None \<or> xr_users r = [] then tx_return ()
     else if stale_users (xr_users r) nextUsers = [] then tx_return ()
     else disconnectUsersLocked env (stale_users (xr_users r) nextUsers))"

definition DisconnectSubscribers :: "'core RuntimeEnv \<Rightarrow> int list \<Rightarrow> ('core, unit) rt" where
  "DisconnectSubscribers env subscriberIDs =
     tx_bind (the_runtime (\<lambda>r. r)) (\<lambda>r.
     if xr_active r = None \<or> xr_config r = None \<or> xr_users r = [] \<or> subscriberIDs = [] then tx_return ()
     else disconnectUsersLocked env (subscriber_users (xr_users r) subscriberIDs))"

subsection \<open>Collecting\<close>

definition quota_of :: "UserCredential list \<Rightarrow> int \<Rightarrow> int \<Rightarrow> nat" where
  "quota_of users inboundID uid =
     (case map_of (rev (map (\<lambda>u. (userKey u, uc_QuotaGeneration u)) users)) (format_int inboundID @ ''/'' @ format_int uid) of
        None \<Rightarrow> 0 | Some q \<Rightarrow> q)"

definition traffic_deltas :: "UserCredential list \<Rightarrow> int \<Rightarrow> UserTraffic list \<Rightarrow> TrafficDelta list" where
  "traffic_deltas users inboundID samples =
     map (\<lambda>t. \<lparr>td_SubscriberID = ut_UID t, td_InboundID = inboundID, td_QuotaGeneration = quota_of users inboundID (ut_UID t),
             td_UploadBytes = nat (ut_Upload t), td_DownloadBytes = nat (ut_Download t)\<rparr>)
       (filter (\<lambda>t. \<not> (ut_Upload t < 0 \<or> ut_Download t < 0)) samples)"

definition core_traffic :: "'core RuntimeEnv \<Rightarrow> string \<Rightarrow> ('core, UserTraffic list) rt" where
  "core_traffic env tag =
     tx_bind (the_runtime xr_active) (\<lambda>active.
     tx_bind (deref active) (\<lambda>core.
     tx_bind (call_core (Inr (xc_traffic (re_core env) tag core))) (\<lambda>(samples, core').
     tx_bind (set_runtime (\<lambda>r. r\<lparr>xr_active := Some core'\<rparr>)) (\<lambda>_. tx_return samples))))"

fun collect_inbounds :: "'core RuntimeEnv \<Rightarrow> UserCredential list \<Rightarrow> Inbound list \<Rightarrow> ('core, TrafficDelta list) rt" where
  "collect_inbounds env users [] = tx_return []"
| "collect_inbounds env users (ib # ibs) =
     (if \<not> ib_Enabled ib then collect_inbounds env users ibs
      else tx_bind (core_traffic env (inboundTag (ib_ID ib))) (\<lambda>samples.
           tx_bind (collect_inbounds env users ibs) (\<lambda>rest.
           tx_return (traffic_deltas users (ib_ID ib) samples @ rest))))"

definition CollectTraffic :: "'core RuntimeEnv \<Rightarrow> ('core, TrafficDelta list) rt" where
  "CollectTraffic env =
     tx_bind (the_runtime (\<lambda>r. r)) (\<lambda>r.
     if xr_active r = None then tx_return []
     else case xr_config r of
            None \<Rightarrow> tx_return []
          | Some config \<Rightarrow> collect_inbounds env (xr_users r) (dc_Inbounds config))"

definition CollectAccess :: "'core RuntimeEnv \<Rightarrow> ('core, AccessItem list) rt" where
  "CollectAccess env =
     tx_bind (the_runtime (\<lambda>r. r)) (\<lambda>r.
     tx_bind (set_runtime (\<lambda>r. r\<lparr>xr_pendingAccess := []\<rparr>)) (\<lambda>_.
     case xr_active r of
       None \<Rightarrow> tx_return (xr_pendingAccess r)
     | Some core \<Rightarrow>
         tx_bind (set_runtime (\<lambda>r. r\<lparr>xr_active := Some (snd (xc_access (re_core env) core))\<rparr>)) (\<lambda>_.
         tx_return (xr_pendingAccess r @ accessSamplesToItems (fst (xc_access (re_core env) core))))))"

text \<open>items[len(items)-(20000-len(pending)):] panics when the start is past the end or negative.\<close>

definition slice_from :: "int \<Rightarrow> 'a list \<Rightarrow> 'a list result" where
  "slice_from start xs =
     (if start < 0 \<or> start > int (length xs) then Inl (ErrPanic ''slice bounds out of range'') else Inr (drop (nat start) xs))"

definition RequeueAccess :: "AccessItem list \<Rightarrow> ('core, unit) rt" where
  "RequeueAccess items =
     (if items = [] then tx_return ()
      else tx_bind (the_runtime xr_pendingAccess) (\<lambda>pending.
           tx_bind (if length pending + length items > 20000
                    then tx_lift (slice_from (int (length items) - (20000 - int (length pending))) items)
                    else tx_return items) (\<lambda>kept.
           set_runtime (\<lambda>r. r\<lparr>xr_pendingAccess := xr_pendingAccess r @ kept\<rparr>))))"

definition online_users :: "(int list \<Rightarrow> int list) \<Rightarrow> int \<Rightarrow> (int \<times> string) list \<Rightarrow> OnlineUser list" where
  "online_users order inboundID online =
     (let g = fold (\<lambda>(uid, ip). group_add uid ip) online []
      in map (\<lambda>uid. \<lparr>ou_SubscriberID = uid, ou_InboundID = inboundID, ou_Addresses = group_get g uid\<rparr>) (order (map fst g)))"

definition CollectOnline :: "'core RuntimeEnv \<Rightarrow> ('core, OnlineUser list) rt" where
  "CollectOnline env =
     tx_bind (the_runtime (\<lambda>r. r)) (\<lambda>r.
     tx_return (case (xr_active r, xr_config r) of
       (Some core, Some config) \<Rightarrow>
         concat (map (\<lambda>ib. online_users (re_order env) (ib_ID ib) (xc_online (re_core env) (inboundTag (ib_ID ib)) core))
                  (filter ib_Enabled (dc_Inbounds config)))
     | _ \<Rightarrow> []))"

record Status =
  ss_Running :: bool
  ss_Version :: string

definition RuntimeStatus :: "('core, Status) rt" where
  "RuntimeStatus = the_runtime (\<lambda>r. \<lparr>ss_Running = (xr_active r \<noteq> None), ss_Version = embeddedXrayVersion\<rparr>)"

definition CloseRuntime :: "'core RuntimeEnv \<Rightarrow> ('core, unit) rt" where
  "CloseRuntime env =
     tx_bind (the_runtime xr_active) (\<lambda>active.
     case active of
       None \<Rightarrow> tx_return ()
     | Some core \<Rightarrow>
         tx_bind (close_active env core) (\<lambda>err.
         tx_bind (set_runtime (\<lambda>r. r\<lparr>xr_active := None\<rparr>)) (\<lambda>_.
         case err of Some e \<Rightarrow> tx_lift (Inl e) | None \<Rightarrow> tx_return ())))"

end
