(* ===== verification/Tx_Logic.thy ===== *)
theory Tx_Logic
  imports Secret_Store
begin

text \<open>
  A Hoare logic for the statements of theory Sql. A triple gives a condition for the value and
  the state after success and one for the error and the state after failure, for every list of
  faults that holds no panic: a fault is an error the outside reports. The rules are applied
  backwards by \<open>intro\<close>; each component proves one triple per operation from them.
\<close>

fun is_panic :: "go_error \<Rightarrow> bool" where
  "is_panic (ErrPanic p) = True"
| "is_panic _ = False"

definition calm :: "faults \<Rightarrow> bool" where
  "calm fs \<longleftrightarrow> (\<forall>e. Some e \<in> set fs \<longrightarrow> \<not> is_panic e)"

definition triple ::
  "('s \<Rightarrow> bool) \<Rightarrow> ('s, 'a) tx \<Rightarrow> ('a \<Rightarrow> 's \<Rightarrow> bool) \<Rightarrow> (go_error \<Rightarrow> 's \<Rightarrow> bool) \<Rightarrow> bool" where
  "triple P m Q E \<longleftrightarrow>
     (\<forall>fs s r fs' s'. calm fs \<and> P s \<and> m (fs, s) = (r, fs', s') \<longrightarrow>
        calm fs' \<and> (case r of Inr x \<Rightarrow> Q x s' | Inl e \<Rightarrow> E e s'))"

named_theorems triple_rules \<open>backward rules of the logic\<close>

lemma is_panic_iff: "is_panic e \<longleftrightarrow> (\<exists>p. e = ErrPanic p)"
  by (cases e) simp_all

lemma calm_Nil [simp]: "calm []"
  by (simp add: calm_def)

lemma calm_tl [simp]: "calm fs \<Longrightarrow> calm (tl fs)"
  by (cases fs) (auto simp: calm_def)

lemma calm_next_fault: "calm fs \<Longrightarrow> next_fault fs = Some e \<Longrightarrow> \<not> is_panic e"
  by (cases fs) (auto simp: calm_def next_fault_def)

lemma tripleI:
  "(\<And>fs s r fs' s'. calm fs \<Longrightarrow> P s \<Longrightarrow> m (fs, s) = (r, fs', s') \<Longrightarrow>
     calm fs' \<and> (case r of Inr x \<Rightarrow> Q x s' | Inl e \<Rightarrow> E e s')) \<Longrightarrow> triple P m Q E"
  unfolding triple_def by blast

lemma tripleD:
  "triple P m Q E \<Longrightarrow> calm fs \<Longrightarrow> P s \<Longrightarrow> m (fs, s) = (r, fs', s') \<Longrightarrow>
     calm fs' \<and> (case r of Inr x \<Rightarrow> Q x s' | Inl e \<Rightarrow> E e s')"
  unfolding triple_def by blast

lemma triple_ok: "triple P m Q E \<Longrightarrow> calm fs \<Longrightarrow> P s \<Longrightarrow> m (fs, s) = (Inr x, fs', s') \<Longrightarrow> Q x s'"
  by (drule (3) tripleD) simp

lemma triple_err: "triple P m Q E \<Longrightarrow> calm fs \<Longrightarrow> P s \<Longrightarrow> m (fs, s) = (Inl e, fs', s') \<Longrightarrow> E e s'"
  by (drule (3) tripleD) simp

lemma triple_weaken:
  assumes "triple P' m Q' E'" and "\<And>s. P s \<Longrightarrow> P' s" and "\<And>x s. Q' x s \<Longrightarrow> Q x s" and "\<And>e s. E' e s \<Longrightarrow> E e s"
  shows "triple P m Q E"
proof (rule tripleI)
  fix fs s r fs' s' assume "calm fs" "P s" "m (fs, s) = (r, fs', s')"
  with tripleD [OF assms(1)] assms(2-4) show "calm fs' \<and> (case r of Inr x \<Rightarrow> Q x s' | Inl e \<Rightarrow> E e s')"
    by (cases r) fastforce+
qed

lemma triple_pre: "triple P' m Q E \<Longrightarrow> (\<And>s. P s \<Longrightarrow> P' s) \<Longrightarrow> triple P m Q E"
  by (rule triple_weaken)

lemma triple_fact: "(b \<Longrightarrow> triple P m Q E) \<Longrightarrow> triple (\<lambda>s. b \<and> P s) m Q E" "(b \<Longrightarrow> triple (\<lambda>_. True) m Q E) \<Longrightarrow> triple (\<lambda>_. b) m Q E"
  unfolding triple_def by blast+

text \<open>A precondition can be fixed state by state.\<close>

lemma triple_at: "(\<And>s0. P s0 \<Longrightarrow> triple (\<lambda>s. s = s0) m Q E) \<Longrightarrow> triple P m Q E"
  unfolding triple_def by blast

lemma triple_return [triple_rules]: "(\<And>s. P s \<Longrightarrow> Q x s) \<Longrightarrow> triple P (tx_return x) Q E"
  by (rule tripleI) (auto simp: tx_return_def)

lemma triple_lift [triple_rules]:
  "(\<And>x s. P s \<Longrightarrow> r = Inr x \<Longrightarrow> Q x s) \<Longrightarrow> (\<And>e s. P s \<Longrightarrow> r = Inl e \<Longrightarrow> E e s) \<Longrightarrow> triple P (tx_lift r) Q E"
  by (rule tripleI) (auto simp: tx_lift_def split: sum.splits)

lemma triple_get [triple_rules]: "(\<And>s. P s \<Longrightarrow> Q (g s) s) \<Longrightarrow> triple P (tx_get g) Q E"
  by (rule tripleI) (auto simp: tx_get_def)

lemma triple_modify [triple_rules]: "(\<And>s. P s \<Longrightarrow> Q () (g s)) \<Longrightarrow> triple P (tx_modify g) Q E"
  by (rule tripleI) (auto simp: tx_modify_def)

lemma triple_stmt [triple_rules]:
  assumes "\<And>x s s'. P s \<Longrightarrow> f s = Inr (x, s') \<Longrightarrow> Q x s'" and "\<And>e s. P s \<Longrightarrow> f s = Inl e \<Longrightarrow> E e s"
    and "\<And>e s. P s \<Longrightarrow> \<not> is_panic e \<Longrightarrow> E e s"
  shows "triple P (stmt f) Q E"
proof (rule tripleI)
  fix fs s r fs' s' assume "calm fs" "P s" "stmt f (fs, s) = (r, fs', s')"
  with assms calm_next_fault [of fs] show "calm fs' \<and> (case r of Inr x \<Rightarrow> Q x s' | Inl e \<Rightarrow> E e s')"
    by (auto simp: stmt_def split: option.splits sum.splits prod.splits)
qed

lemma triple_bind [triple_rules]:
  assumes "\<And>x. triple (R x) (k x) Q E" and "triple P m R E"
  shows "triple P (tx_bind m k) Q E"
proof (rule tripleI)
  fix fs s r fs' s' assume *: "calm fs" "P s" "tx_bind m k (fs, s) = (r, fs', s')"
  from *(3) show "calm fs' \<and> (case r of Inr x \<Rightarrow> Q x s' | Inl e \<Rightarrow> E e s')"
  proof (cases rule: run_bind_cases)
    case (1 e)
    with tripleD [OF assms(2) *(1,2)] show ?thesis by fastforce
  next
    case (2 x c1)
    obtain fs1 s1 where c1: "c1 = (fs1, s1)" by (cases c1)
    with 2(1) tripleD [OF assms(2) *(1,2)] have "calm fs1" "R x s1" by fastforce+
    with tripleD [OF assms(1)] 2(2) c1 show ?thesis by blast
  qed
qed

lemma triple_attempt [triple_rules]:
  assumes "triple P m (\<lambda>x. Q (Inr x)) (\<lambda>e s. if is_panic e then E e s else Q (Inl e) s)"
  shows "triple P (tx_attempt m) Q E"
proof (rule tripleI)
  fix fs s r fs' s' assume *: "calm fs" "P s" "tx_attempt m (fs, s) = (r, fs', s')"
  obtain r0 where m: "m (fs, s) = (r0, fs', s')" using *(3)
    by (cases "m (fs, s)"; cases "fst (m (fs, s))"; cases "projl (fst (m (fs, s)))") (auto simp: tx_attempt_def)
  with *(3) have r: "r = (case r0 of Inl (ErrPanic p) \<Rightarrow> Inl (ErrPanic p) | _ \<Rightarrow> Inr r0)"
    by (auto simp: tx_attempt_def split: sum.splits go_error.splits)
  with tripleD [OF assms *(1,2) m] show "calm fs' \<and> (case r of Inr x \<Rightarrow> Q x s' | Inl e \<Rightarrow> E e s')"
    by (auto split: sum.splits go_error.splits)
qed

lemma triple_catch [triple_rules]:
  assumes "\<And>e. triple (F e) (h e) Q E" and "triple P m Q F"
  shows "triple P (tx_catch m h) Q E"
proof (rule tripleI)
  fix fs s r fs' s' assume *: "calm fs" "P s" "tx_catch m h (fs, s) = (r, fs', s')"
  obtain r0 fs1 s1 where m: "m (fs, s) = (r0, fs1, s1)" by (metis prod.exhaust)
  note t = tripleD [OF assms(2) *(1,2) m]
  show "calm fs' \<and> (case r of Inr x \<Rightarrow> Q x s' | Inl e \<Rightarrow> E e s')"
  proof (cases r0)
    case (Inl e)
    with t m *(3) tripleD [OF assms(1)] show ?thesis by (auto simp: tx_catch_def)
  next
    case (Inr x)
    with t m *(3) show ?thesis by (auto simp: tx_catch_def)
  qed
qed

lemma triple_finally [triple_rules]:
  assumes "\<And>x. triple (Qm x) c (\<lambda>_. Q x) (\<lambda>_. Q x)" and "\<And>e. triple (Em e) c (\<lambda>_. E e) (\<lambda>_. E e)" and "triple P m Qm Em"
  shows "triple P (tx_finally m c) Q E"
proof (rule tripleI)
  fix fs s r fs' s' assume *: "calm fs" "P s" "tx_finally m c (fs, s) = (r, fs', s')"
  obtain fs1 s1 r1 where m: "m (fs, s) = (r, fs1, s1)" and c: "c (fs1, s1) = (r1, fs', s')"
    using *(3) by (auto simp: tx_finally_def split: prod.splits) (metis prod.collapse)
  note t = tripleD [OF assms(3) *(1,2) m]
  show "calm fs' \<and> (case r of Inr x \<Rightarrow> Q x s' | Inl e \<Rightarrow> E e s')"
  proof (cases r)
    case (Inl e)
    with t tripleD [OF assms(2) _ _ c] show ?thesis by (cases r1) auto
  next
    case (Inr x)
    with t tripleD [OF assms(1) _ _ c] show ?thesis by (cases r1) auto
  qed
qed

lemma triple_ignore [triple_rules]:
  assumes "triple P m (\<lambda>_. Q ()) (\<lambda>_. Q ())"
  shows "triple P (tx_ignore m) Q E"
proof (rule tripleI)
  fix fs s r fs' s' assume *: "calm fs" "P s" "tx_ignore m (fs, s) = (r, fs', s')"
  obtain r0 where m: "m (fs, s) = (r0, fs', s')" and r: "r = Inr ()" using *(3)
    by (auto simp: tx_ignore_def split: prod.splits)
  with tripleD [OF assms *(1,2) m] show "calm fs' \<and> (case r of Inr x \<Rightarrow> Q x s' | Inl e \<Rightarrow> E e s')"
    by (cases r0) auto
qed

lemma triple_iter [triple_rules]:
  "(\<And>x. x \<in> set xs \<Longrightarrow> triple I (f x) (\<lambda>_. I) E) \<Longrightarrow> (\<And>s. I s \<Longrightarrow> Q () s) \<Longrightarrow> triple I (tx_iter f xs) Q E"
proof (induction xs)
  case Nil
  then show ?case by (auto intro: triple_return)
next
  case (Cons x xs)
  have "triple I (tx_bind (f x) (\<lambda>_. tx_iter f xs)) Q E"
    by (rule triple_bind [where R = "\<lambda>_. I"]) (use Cons in auto)
  then show ?case by simp
qed

lemma triple_zoom:
  assumes "triple P m Q E" and "\<And>a s. get (upd (\<lambda>_. a) s) = a"
  shows "triple (\<lambda>s. P (get s) \<and> F s \<and> (\<forall>a. F (upd (\<lambda>_. a) s))) (tx_zoom get upd m)
    (\<lambda>x s. Q x (get s) \<and> F s) (\<lambda>e s. E e (get s) \<and> F s)"
proof (rule tripleI)
  fix fs s r fs' s'
  assume *: "calm fs" "P (get s) \<and> F s \<and> (\<forall>a. F (upd (\<lambda>_. a) s))" "tx_zoom get upd m (fs, s) = (r, fs', s')"
  obtain a where m: "m (fs, get s) = (r, fs', a)" and s': "s' = upd (\<lambda>_. a) s" using *(3)
    by (auto simp: tx_zoom_def split: prod.splits)
  from tripleD [OF assms(1) *(1) _ m] *(2) s' assms(2)
  show "calm fs' \<and> (case r of Inr x \<Rightarrow> Q x (get s') \<and> F s' | Inl e \<Rightarrow> E e (get s') \<and> F s')"
    by (cases r) auto
qed

lemma tx_bind_return [simp]: "tx_bind (tx_return x) k = k x"
  by (simp add: fun_eq_iff tx_bind_def tx_return_def)

text \<open>Attempting a step changes the state as the step does.\<close>

lemma snd_tx_attempt: "snd (tx_attempt m c) = snd (m c)"
  by (auto simp: tx_attempt_def split: prod.splits sum.splits go_error.splits)

lemma keeps_attempt [keeps_rules]: "keeps R m \<Longrightarrow> keeps R (tx_attempt m)"
  unfolding keeps_def by (metis prod.collapse snd_conv snd_tx_attempt)

lemma keeps_memory [keeps_rules]: "reflp R \<Longrightarrow> keeps R (tx_get g)" "(\<And>s. R s (h s)) \<Longrightarrow> keeps R (tx_modify h)"
  by (auto simp: keeps_def tx_get_def tx_modify_def dest: reflpD)

text \<open>Operations that only report errors, and never panic\<close>

definition sound :: "('s, 'a) tx \<Rightarrow> bool" where
  "sound m \<longleftrightarrow> triple (\<lambda>_. True) m (\<lambda>_ _. True) (\<lambda>e _. \<not> is_panic e)"

named_theorems sound_rules \<open>operations that never panic\<close>

lemma sound_combinators [sound_rules]:
  "sound (tx_return x)" "sound (tx_get g)" "sound (tx_modify h)"
  "(\<And>e. r = Inl e \<Longrightarrow> \<not> is_panic e) \<Longrightarrow> sound (tx_lift r)"
  "(\<And>s e. f s = Inl e \<Longrightarrow> \<not> is_panic e) \<Longrightarrow> sound (stmt f)"
  unfolding sound_def by (auto intro!: triple_rules)

lemma sound_bind [sound_rules]: "sound m \<Longrightarrow> (\<And>x. sound (k x)) \<Longrightarrow> sound (tx_bind m k)"
  unfolding sound_def by (rule triple_bind [where R = "\<lambda>_ _. True"])

lemma sound_attempt [sound_rules]: "sound m \<Longrightarrow> sound (tx_attempt m)"
  unfolding sound_def by (rule triple_attempt) (erule triple_weaken; simp)

lemma sound_catch [sound_rules]: "sound m \<Longrightarrow> (\<And>e. \<not> is_panic e \<Longrightarrow> sound (h e)) \<Longrightarrow> sound (tx_catch m h)"
  unfolding sound_def
  by (rule triple_catch [where F = "\<lambda>e _. \<not> is_panic e"]) (auto intro: triple_fact(2))

lemma sound_iter [sound_rules]: "(\<And>x. x \<in> set xs \<Longrightarrow> sound (f x)) \<Longrightarrow> sound (tx_iter f xs)"
  unfolding sound_def by (rule triple_iter) auto

lemma sound_finally [sound_rules]: "sound m \<Longrightarrow> sound c \<Longrightarrow> sound (tx_finally m c)"
  unfolding sound_def
  by (rule triple_finally [where Qm = "\<lambda>_ _. True" and Em = "\<lambda>e _. \<not> is_panic e"])
     (auto intro: triple_fact(2) elim: triple_weaken)

lemma sound_zoom [sound_rules]: "sound m \<Longrightarrow> sound (tx_zoom get upd m)"
  unfolding sound_def triple_def tx_zoom_def by (auto split: prod.splits)

lemma sound_files [sound_rules]:
  "sound (os_read_file p)" "sound (os_remove p)" "sound (os_mkdir_all p)" "sound (os_read_dir p)" "sound (os_rename p q)"
  "sound (os_create_exclusive p m)" "sound (os_file_update p g)" "sound os_sync" "sound os_close"
  unfolding os_read_file_def os_remove_def os_mkdir_all_def os_read_dir_def os_rename_def os_create_exclusive_def
    os_file_update_def os_sync_def os_close_def
  by (rule sound_combinators(5); auto split: option.splits)+

lemma sound_replace_file [sound_rules]: "sound (replace_file tmp path raw mode)"
  unfolding replace_file_def write_temporary_def by (intro sound_rules)

lemma sound_secrets [sound_rules]:
  "sound (Resolve cr st ref)" "sound (Materialize cr tmp st ref ext mode)"
  unfolding Materialize_def Resolve_def secret_atomicWrite_def Let_def
  by (auto intro!: sound_rules split: option.splits)

section \<open>Frames, faults and results\<close>

lemma keeps_zoom [keeps_rules]:
  "keeps R m \<Longrightarrow> (\<And>a s. get (upd (\<lambda>_. a) s) = a) \<Longrightarrow> keeps (\<lambda>w w'. R (get w) (get w')) (tx_zoom get upd m)"
  unfolding keeps_def tx_zoom_def by (auto split: prod.splits)

lemma keeps_ignore [keeps_rules]: "keeps R m \<Longrightarrow> keeps R (tx_ignore m)"
  unfolding keeps_def tx_ignore_def by (auto split: prod.splits)

text \<open>A step uses up some of the faults at the front of the list and brings none of its own.\<close>

definition tidy :: "('s, 'a) tx \<Rightarrow> bool" where
  "tidy m \<longleftrightarrow> (\<forall>fs s. \<exists>n. fst (snd (m (fs, s))) = drop n fs)"

named_theorems tidy_rules \<open>steps that bring no fault of their own\<close>

lemma tidyE:
  assumes "tidy m" and "m (fs, s) = (r, fs', s')"
  obtains n where "fs' = drop n fs"
  using assms unfolding tidy_def by (metis fst_conv snd_conv)

lemma tidyD: "tidy m \<Longrightarrow> m ([], s) = (r, fs, s') \<Longrightarrow> fs = []"
  by (erule (1) tidyE) simp

lemma tidy_calm: "tidy m \<Longrightarrow> m (fs, s) = (r, fs', s') \<Longrightarrow> calm fs \<Longrightarrow> calm fs'"
  by (erule (1) tidyE) (auto simp: calm_def dest: in_set_dropD)

lemma drop_front [simp]: "\<exists>n. xs = drop n xs" "\<exists>n. tl xs = drop n xs"
  by (metis drop_0, metis drop_Suc drop_0)

lemma tidy_basic [tidy_rules]:
  "tidy (tx_return x)" "tidy (tx_lift r)" "tidy (tx_get g)" "tidy (tx_modify h)" "tidy (stmt f)"
  by (auto simp: tidy_def tx_get_def tx_modify_def tx_return_def tx_lift_def stmt_def split: option.splits sum.splits)

lemma tidy_bind [tidy_rules]:
  assumes "tidy m" and "\<And>x. tidy (k x)"
  shows "tidy (tx_bind m k)"
  unfolding tidy_def
proof (intro allI)
  fix fs s
  obtain r fs1 s1 where m: "m (fs, s) = (r, fs1, s1)" by (metis prod.exhaust)
  obtain n where n: "fs1 = drop n fs" by (rule tidyE [OF assms(1) m])
  show "\<exists>n. fst (snd (tx_bind m k (fs, s))) = drop n fs"
  proof (cases r)
    case (Inr x)
    obtain j where "fst (snd (k x (fs1, s1))) = drop j fs1" using assms(2) unfolding tidy_def by blast
    with m n Inr show ?thesis by (auto simp: tx_bind_def)
  qed (use m n in \<open>auto simp: tx_bind_def\<close>)
qed

lemma tidy_attempt [tidy_rules]: "tidy m \<Longrightarrow> tidy (tx_attempt m)"
  unfolding tidy_def by (simp add: snd_tx_attempt)

lemma tidy_ignore [tidy_rules]: "tidy m \<Longrightarrow> tidy (tx_ignore m)"
  unfolding tidy_def tx_ignore_def by (simp add: case_prod_beta)

lemma tidy_zoom [tidy_rules]: "tidy m \<Longrightarrow> tidy (tx_zoom get upd m)"
  unfolding tidy_def tx_zoom_def by (auto split: prod.splits) (metis fst_conv snd_conv)

lemma tidy_files [tidy_rules]:
  "tidy (os_read_file p)" "tidy (os_mkdir_all p)" "tidy (os_create_exclusive p mode)" "tidy (os_file_update p g)"
  "tidy os_sync" "tidy os_close"
  unfolding os_read_file_def os_mkdir_all_def os_create_exclusive_def os_file_update_def os_sync_def os_close_def
  by (rule tidy_basic)+

text \<open>Steps that report every error in their value, whatever faults occur\<close>

definition returns :: "('s, 'a) tx \<Rightarrow> bool" where
  "returns m \<longleftrightarrow> triple (\<lambda>_. True) m (\<lambda>_ _. True) (\<lambda>_ _. False)"

named_theorems returns_rules \<open>steps that always return\<close>

lemma returns_basic [returns_rules]:
  "returns (tx_return x)" "returns (tx_get g)" "returns (tx_modify h)"
  unfolding returns_def by (auto intro!: triple_rules)

lemma returns_bind [returns_rules]: "returns m \<Longrightarrow> (\<And>x. returns (k x)) \<Longrightarrow> returns (tx_bind m k)"
  unfolding returns_def by (rule triple_bind [where R = "\<lambda>_ _. True"])

lemma returns_attempt [returns_rules]: "sound m \<Longrightarrow> returns (tx_attempt m)"
  unfolding sound_def returns_def by (rule triple_attempt) (erule triple_weaken; simp)

lemma returnsD:
  assumes "returns m" and "calm fs"
  shows "\<exists>x fs' s'. m (fs, s) = (Inr x, fs', s') \<and> calm fs'"
proof -
  obtain r fs' s' where m: "m (fs, s) = (r, fs', s')" by (metis prod.exhaust)
  from tripleD [OF assms(1) [unfolded returns_def] assms(2) TrueI m] m show ?thesis by (cases r) auto
qed

lemma tx_ok_get [store_simps]: "tx_ok (tx_get g) s x s' \<longleftrightarrow> x = g s \<and> s' = s"
  by (auto simp: tx_ok_def tx_get_def)

lemma tx_ok_attemptD: "tx_ok (tx_attempt m) s (Inr x) s' \<Longrightarrow> tx_ok m s x s'"
proof -
  assume "tx_ok (tx_attempt m) s (Inr x) s'"
  then obtain fs fs' where a: "tx_attempt m (fs, s) = (Inr (Inr x), fs', s')" by (auto simp: tx_ok_def)
  then have "m (fs, s) = (Inr x, fs', s')"
    by (cases "m (fs, s)"; cases "fst (m (fs, s))") (auto simp: tx_attempt_def split: go_error.splits)
  then show ?thesis by (rule tx_okI)
qed

lemma tx_ok_finallyE:
  assumes "tx_ok (tx_finally m c) s x s'"
  obtains s1 fs1 r fs2 where "tx_ok m s x s1" "c (fs1, s1) = (r, fs2, s')"
proof -
  from assms obtain fs fs' where f: "tx_finally m c (fs, s) = (Inr x, fs', s')" by (auto simp: tx_ok_def)
  then obtain fs1 s1 where "m (fs, s) = (Inr x, fs1, s1)" "snd (c (fs1, s1)) = (fs', s')"
    by (cases "m (fs, s)") (auto simp: tx_finally_def)
  with that show thesis by (metis prod.collapse tx_okI)
qed

lemma tidy_transact [tidy_rules]:
  assumes "tidy body"
  shows "tidy (transact body)"
  unfolding tidy_def
proof (intro allI)
  fix fs db
  obtain r fs1 db1 where b: "body (tl fs, db) = (r, fs1, db1)" by (metis prod.exhaust)
  obtain n where n: "fs1 = drop n (tl fs)" by (rule tidyE [OF assms b])
  have d: "drop n (tl fs) = drop (Suc n) fs" "tl (drop n (tl fs)) = drop (Suc (Suc n)) fs" by (simp_all add: drop_Suc tl_drop)
  have "fst (snd (transact body (fs, db))) \<in> {tl fs, fs1, tl fs1}"
    using b by (cases r) (simp_all add: transact_def stmt_def split: option.splits)
  then show "\<exists>m. fst (snd (transact body (fs, db))) = drop m fs"
    using d n drop_front(2) [of fs] by fastforce
qed

text \<open>A step on one component, seen from the whole state\<close>

lemma zoom_run:
  assumes "tx_zoom get upd m (fs, s) = (r, fs', s')"
  obtains a where "m (fs, get s) = (r, fs', a)" "s' = upd (\<lambda>_. a) s"
  using assms by (cases "m (fs, get s)") (auto simp: tx_zoom_def)

lemma attempt_run:
  assumes "tx_attempt m (fs, s) = (Inr r, fs', s')"
  shows "m (fs, s) = (r, fs', s')"
  using assms by (cases "m (fs, s)"; cases "fst (m (fs, s))") (auto simp: tx_attempt_def split: go_error.splits)

lemma attempt_run_panic:
  assumes "tx_attempt m (fs, s) = (Inl e, fs', s')"
  shows "m (fs, s) = (Inl e, fs', s') \<and> is_panic e"
  using assms by (cases "m (fs, s)"; cases "fst (m (fs, s))") (auto simp: tx_attempt_def split: go_error.splits)

end
