(* ===== verification/Runtime_Facts.thy ===== *)
theory Runtime_Facts
  imports Runtime_Xray Tx_Logic
begin

text \<open>
  The runtime's correctness: the nodes of an accepted configuration are built without a panic;
  replacing the core keeps the runtime's invariant, and a failing replacement keeps the
  configuration and the users; access samples are never lost; credentials reach the core
  exactly when they are valid and not expired. The locale runtime_contract is the Go
  interface Runtime as the control client relies on it.
\<close>

section \<open>Nodes of accepted configurations\<close>

lemma sound_deref: "p \<noteq> None \<Longrightarrow> sound (deref p)" "xs \<noteq> [] \<Longrightarrow> sound (first_of xs)"
  by (auto simp: deref_def first_of_def neq_Nil_conv intro: sound_rules)

lemma sound_wrap [sound_rules]: "sound m \<Longrightarrow> sound (tx_wrap label m)"
  unfolding tx_wrap_def by (intro sound_rules) (auto split: sum.splits intro!: sound_rules)

lemma normalize_no_panic: "normalizeSS2022Key m s = Inl e \<Longrightarrow> \<not> is_panic e"
  by (auto simp: normalizeSS2022Key_def Let_def split: if_splits option.splits)

lemma payload_present:
  assumes "payloads ib = [ib_Protocol ib]"
  shows "ib_Protocol ib = ProtocolVLESS \<Longrightarrow> ib_VLESS ib \<noteq> None"
    "ib_Protocol ib = ProtocolSS2022 \<Longrightarrow> ib_SS2022 ib \<noteq> None"
    "ib_Protocol ib = ProtocolTUIC \<Longrightarrow> ib_TUIC ib \<noteq> None"
    "ib_Protocol ib = ProtocolHysteria2 \<Longrightarrow> ib_Hysteria2 ib \<noteq> None"
  using assms by (auto simp: payloads_def protocol_consts split: if_splits)

lemma sound_protocol_fields:
  assumes "ib_Protocol ib = [] \<or> payloads ib = [ib_Protocol ib]"
  shows "sound (protocol_fields env ib)"
proof (cases "ib_Protocol ib = []")
  case True
  then show ?thesis
    by (auto simp: protocol_fields_def Let_def ProtocolVLESS_def ProtocolVMess_def ProtocolTrojan_def ProtocolSS2022_def
        ProtocolTUIC_def ProtocolHysteria2_def intro!: sound_rules)
next
  case False
  with assms have p: "payloads ib = [ib_Protocol ib]" by simp
  show ?thesis unfolding protocol_fields_def Let_def
    by (auto intro!: sound_rules sound_deref payload_present [OF p] dest: normalize_no_panic simp del: not_None_eq)
qed

lemma sound_security_fields:
  assumes "config_well_formed c"
  shows "sound (security_fields env c ib p)"
proof -
  have t: "sound (tls_fields env t p')" if "tls_admissible t" for t p'
  proof -
    have "tls_ServerNames t \<noteq> []" using that by (auto simp: tls_admissible_def names_admissible_def)
    then show ?thesis unfolding tls_fields_def by (intro sound_rules sound_deref)
  qed
  have r: "sound (reality_fields env r p')" if "reality_admissible r" for r p'
  proof -
    have "rl_ServerNames r \<noteq> []" "rl_ShortIDs r \<noteq> []" using that by (auto simp: reality_admissible_def names_admissible_def)
    then show ?thesis unfolding reality_fields_def by (auto split: prod.splits intro!: sound_rules sound_deref)
  qed
  have "sound (security_fields env c ib p)" if s: "securityProfile (dc_Security c) (ib_SecurityProfileID ib) = Some prof" for prof
  proof -
    from s have "prof \<in> set (dc_Security c)" unfolding securityProfile_def by (metis find_Some_iff nth_mem)
    with assms have "profile_admissible prof" by (simp add: config_well_formed_def)
    then consider (tls) x where "sp_Type prof = SecurityTLS" "sp_TLS prof = Some x" "tls_admissible x"
      | (reality) x where "sp_Type prof = SecurityReality" "sp_Reality prof = Some x" "reality_admissible x"
      by (auto simp: profile_admissible_def)
    then show ?thesis
      by cases (use s t r in \<open>simp_all add: security_fields_def Let_def SecurityTLS_def SecurityReality_def deref_def sound_rules\<close>)
  qed
  then show ?thesis
    by (cases "securityProfile (dc_Security c) (ib_SecurityProfileID ib)") (auto simp: security_fields_def intro!: sound_rules)
qed

lemma sound_node:
  assumes "config_well_formed c" and "ib_Protocol ib = [] \<or> payloads ib = [ib_Protocol ib]"
  shows "sound (panelNodeForInbound env c ib)"
  unfolding panelNodeForInbound_def using assms
  by (intro sound_rules sound_protocol_fields sound_security_fields)

lemma well_formed_payloads: "config_well_formed c \<Longrightarrow> ib \<in> set (dc_Inbounds c) \<Longrightarrow> payloads ib = [ib_Protocol ib]"
  by (simp add: config_well_formed_def inbound_admissible_def)

lemma sound_buildNodes: "config_well_formed c \<Longrightarrow> sound (buildNodes env c)"
proof -
  assume c: "config_well_formed c"
  have "set ibs \<subseteq> set (dc_Inbounds c) \<Longrightarrow> sound (build_nodes env c ibs)" for ibs
    by (induction ibs) (auto intro!: sound_rules sound_node [OF c] simp: well_formed_payloads [OF c])
  then show ?thesis by (simp add: buildNodes_def)
qed

lemma find_inbound_payloads:
  assumes "config_well_formed c"
  shows "ib_Protocol (findInbound c k) = [] \<or> payloads (findInbound c k) = [ib_Protocol (findInbound c k)]"
proof (cases "find (\<lambda>ib. ib_ID ib = k) (dc_Inbounds c)")
  case None
  then show ?thesis by (simp add: findInbound_def)
next
  case (Some ib)
  then have "ib \<in> set (dc_Inbounds c)" by (metis find_Some_iff nth_mem)
  with Some well_formed_payloads [OF assms] show ?thesis by (simp add: findInbound_def)
qed

section \<open>Credentials\<close>

lemma enabled_inboundD:
  "enabled_inbound c k = Some ib \<Longrightarrow> ib \<in> set (dc_Inbounds c) \<and> ib_Enabled ib \<and> ib_ID ib = k"
  unfolding enabled_inbound_def by (drule map_of_SomeD) auto

lemma enabled_inbound_None: "enabled_inbound c k = None \<longleftrightarrow> k \<notin> ib_ID ` set (filter ib_Enabled (dc_Inbounds c))"
  unfolding enabled_inbound_def map_of_eq_None_iff by (simp add: image_comp comp_def)

definition users_available :: "DesiredConfig \<Rightarrow> UserCredential list \<Rightarrow> bool" where
  "users_available c us \<longleftrightarrow> (\<forall>u \<in> set us. enabled_inbound c (uc_InboundID u) \<noteq> None)"

lemma usersAvailableInConfig_available: "users_available c (usersAvailableInConfig c us)"
  by (auto simp: users_available_def usersAvailableInConfig_def enabled_inbound_None)

lemma validateRuntimeCredential_no_panic:
  "payloads ib = [ib_Protocol ib] \<Longrightarrow> validateRuntimeCredential ok ib v = Inl e \<Longrightarrow> \<not> is_panic e"
  using payload_present(2) [of ib]
  by (auto simp: validateRuntimeCredential_def split: if_splits option.splits sum.splits)

lemma group_panel_users_no_panic:
  "config_well_formed c \<Longrightarrow> group_panel_users ok now c us g = Inl e \<Longrightarrow> \<not> is_panic e"
proof (induction us arbitrary: g)
  case Nil
  then show ?case by simp
next
  case (Cons u us)
  show ?case
  proof (cases "enabled_inbound c (uc_InboundID u)")
    case None
    with Cons.prems(2) show ?thesis by auto
  next
    case (Some ib)
    with enabled_inboundD [OF Some] well_formed_payloads [OF Cons.prems(1)] have p: "payloads ib = [ib_Protocol ib]" by blast
    from Cons Some validateRuntimeCredential_no_panic [OF p] show ?thesis
      by (auto split: if_splits sum.splits go_error.splits)
  qed
qed

lemma panelUsersByInbound_available: "panelUsersByInbound ok now c us = Inr g \<Longrightarrow> users_available c us"
proof -
  have "group_panel_users ok now c us g0 = Inr g \<Longrightarrow> users_available c us" for g0
    by (induction us arbitrary: g0) (auto simp: users_available_def split: option.splits if_splits sum.splits go_error.splits)
  then show "panelUsersByInbound ok now c us = Inr g \<Longrightarrow> users_available c us" by (simp add: panelUsersByInbound_def)
qed

text \<open>The validators report errors only.\<close>

lemma leaf_validators_no_panic:
  "validate_names ns = Some e \<Longrightarrow> \<not> is_panic e" "validateServerNames ns = Some e \<Longrightarrow> \<not> is_panic e"
  "validatePortRange s = Some e \<Longrightarrow> \<not> is_panic e" "validateStreamTransport t = Some e \<Longrightarrow> \<not> is_panic e"
  "validate_short_ids seen xs = Some e \<Longrightarrow> \<not> is_panic e"
proof -
  show n: "validate_names ns = Some e \<Longrightarrow> \<not> is_panic e" for ns e
    by (induction ns rule: validate_names.induct) (auto simp: Let_def split: if_splits)
  show "validateServerNames ns = Some e \<Longrightarrow> \<not> is_panic e"
    using n by (auto simp: validateServerNames_def split: if_splits)
  show "validatePortRange s = Some e \<Longrightarrow> \<not> is_panic e"
    by (auto simp: validatePortRange_def split: if_splits option.splits list.splits)
  show "validateStreamTransport t = Some e \<Longrightarrow> \<not> is_panic e"
    by (auto simp: validateStreamTransport_def split: if_splits)
  show "validate_short_ids seen xs = Some e \<Longrightarrow> \<not> is_panic e"
    by (induction seen xs rule: validate_short_ids.induct) (auto simp: Let_def split: if_splits)
qed

lemma profile_validators_no_panic:
  "validateReality r = Some e \<Longrightarrow> \<not> is_panic e" "validateSecurityProfile p = Some e \<Longrightarrow> \<not> is_panic e"
proof -
  show r: "validateReality r = Some e \<Longrightarrow> \<not> is_panic e" for r e
    using leaf_validators_no_panic
    by (auto simp: validateReality_def Let_def split: if_splits option.splits prod.splits)
  show "validateSecurityProfile p = Some e \<Longrightarrow> \<not> is_panic e"
    using leaf_validators_no_panic r
    by (auto simp: validateSecurityProfile_def Let_def split: if_splits option.splits)
qed

lemma inbound_validator_no_panic: "validateInbound ib p ok = Some e \<Longrightarrow> \<not> is_panic e"
  using leaf_validators_no_panic
  by (auto simp: validateInbound_def validateVLESS_def validateVMess_def validateTrojan_def validateSS2022_def
      validateTUIC_def validateHysteria2_def Let_def split: if_splits option.splits)

lemma validator_no_panic: "ValidateDesiredConfig c = Some e \<Longrightarrow> \<not> is_panic e"
proof -
  have p: "validate_profiles m ps = Inl e \<Longrightarrow> \<not> is_panic e" for m ps e
    using profile_validators_no_panic by (induction m ps rule: validate_profiles.induct) (auto split: if_splits option.splits)
  have i: "validate_inbounds prof ports ids ibs = Some e \<Longrightarrow> \<not> is_panic e" for prof ports ids ibs e
    using inbound_validator_no_panic
    by (induction prof ports ids ibs rule: validate_inbounds.induct) (auto simp: Let_def split: if_splits option.splits)
  show "ValidateDesiredConfig c = Some e \<Longrightarrow> \<not> is_panic e"
    using p i by (auto simp: ValidateDesiredConfig_def split: if_splits sum.splits option.splits)
qed

section \<open>Steps that leave the runtime's struct alone\<close>

text \<open>The core's operations report errors; they do not panic.\<close>

definition core_sound :: "'core CoreOps \<Rightarrow> bool" where
  "core_sound ops \<longleftrightarrow>
     (\<forall>i t e. xc_build ops i t = Inl e \<longrightarrow> \<not> is_panic e) \<and> (\<forall>e. xc_start ops = Inl e \<longrightarrow> \<not> is_panic e) \<and>
     (\<forall>t i c e. xc_add_node ops t i c = Inl e \<longrightarrow> \<not> is_panic e) \<and>
     (\<forall>t us i c e. xc_add_users ops t us i c = Inl e \<longrightarrow> \<not> is_panic e) \<and>
     (\<forall>us t i c e. fst (xc_del_users ops us t i c) = Some e \<longrightarrow> \<not> is_panic e) \<and>
     (\<forall>c e. fst (xc_close ops c) = Some e \<longrightarrow> \<not> is_panic e)"

definition quiet :: "('core, 'x) rt \<Rightarrow> bool" where
  "quiet m \<longleftrightarrow> (\<forall>P. triple (\<lambda>w. P (rw_runtime w)) m (\<lambda>_ w. P (rw_runtime w)) (\<lambda>e w. \<not> is_panic e \<and> P (rw_runtime w)))"

named_theorems quiet_rules \<open>steps that leave the runtime's struct alone\<close>

lemma quietD: "quiet m \<Longrightarrow> triple (\<lambda>w. P (rw_runtime w)) m (\<lambda>_ w. P (rw_runtime w)) (\<lambda>e w. \<not> is_panic e \<and> P (rw_runtime w))"
  unfolding quiet_def by blast

lemma quiet_basic [quiet_rules]:
  "quiet (tx_return x)" "(\<And>e. r = Inl e \<Longrightarrow> \<not> is_panic e) \<Longrightarrow> quiet (tx_lift r)"
  "(\<And>e. r = Inl e \<Longrightarrow> \<not> is_panic e) \<Longrightarrow> quiet (call_core r)"
  unfolding quiet_def call_core_def
  by (auto intro!: triple_rules simp: bind_result_Inr_iff) (auto simp: bind_result_def split: sum.splits)

lemma quiet_bind [quiet_rules]:
  assumes "quiet m" and "\<And>x. quiet (k x)"
  shows "quiet (tx_bind m k)"
  unfolding quiet_def by (intro allI, rule triple_bind, rule quietD [OF assms(2)], rule quietD [OF assms(1)])

lemma quiet_attempt [quiet_rules]: "quiet m \<Longrightarrow> quiet (tx_attempt m)"
  unfolding quiet_def by (intro allI triple_attempt) (auto elim!: allE intro: triple_weaken)

lemma quiet_iter [quiet_rules]: "(\<And>x. x \<in> set xs \<Longrightarrow> quiet (f x)) \<Longrightarrow> quiet (tx_iter f xs)"
  by (induction xs) (auto intro!: quiet_rules)

lemma quiet_wrap [quiet_rules]: "quiet m \<Longrightarrow> quiet (tx_wrap label m)"
  unfolding tx_wrap_def by (intro quiet_rules) (auto split: sum.splits intro!: quiet_rules)

lemma quiet_files [quiet_rules]: "sound m \<Longrightarrow> quiet (on_files m)"
  unfolding quiet_def sound_def
proof
  fix P assume "triple (\<lambda>_. True) m (\<lambda>_ _. True) (\<lambda>e _. \<not> is_panic e)"
  from triple_zoom [OF this, of rw_files rw_files_update "\<lambda>w. P (rw_runtime w)"]
  show "triple (\<lambda>w. P (rw_runtime w)) (on_files m) (\<lambda>_ w. P (rw_runtime w)) (\<lambda>e w. \<not> is_panic e \<and> P (rw_runtime w))"
    by (rule triple_weaken) simp_all
qed

lemma quiet_core_close [quiet_rules]: "quiet (core_close env core)"
  unfolding core_close_def by (intro quiet_rules) simp_all

lemma quiet_give_up [quiet_rules]:
  "\<not> is_panic e \<Longrightarrow> quiet (give_up env core e)"
  unfolding give_up_def by (intro quiet_rules) simp

lemma quiet_or_give_up [quiet_rules]:
  assumes "quiet m"
  shows "quiet (or_give_up env core m)"
proof -
  have "triple (\<lambda>w. P (rw_runtime w)) (or_give_up env core m) (\<lambda>_ w. P (rw_runtime w))
      (\<lambda>e w. \<not> is_panic e \<and> P (rw_runtime w))" for P
    unfolding or_give_up_def
  proof (rule triple_bind)
    show "triple (\<lambda>w. P (rw_runtime w)) (tx_attempt m)
        (\<lambda>r w. (\<forall>e. r = Inl e \<longrightarrow> \<not> is_panic e) \<and> P (rw_runtime w)) (\<lambda>e w. \<not> is_panic e \<and> P (rw_runtime w))"
      by (rule triple_attempt, rule triple_weaken [OF quietD [OF assms, of P]]) auto
    show "triple (\<lambda>w. (\<forall>e. r = Inl e \<longrightarrow> \<not> is_panic e) \<and> P (rw_runtime w))
        (case r of Inl e \<Rightarrow> give_up env core e | Inr x \<Rightarrow> tx_return x) (\<lambda>_ w. P (rw_runtime w))
        (\<lambda>e w. \<not> is_panic e \<and> P (rw_runtime w))" for r
      by (rule triple_fact(1)) (auto split: sum.splits intro!: quietD quiet_rules)
  qed
  then show ?thesis unfolding quiet_def by blast
qed

lemma quiet_add_nodes [quiet_rules]:
  "core_sound (re_core env) \<Longrightarrow> quiet (add_nodes env g nodes core)"
  by (induction env g nodes core rule: add_nodes.induct)
     (auto intro!: quiet_rules simp: core_sound_def)

lemma quiet_add_users [quiet_rules]:
  "core_sound (re_core env) \<Longrightarrow> quiet (add_users env g nodes core)"
  by (induction env g nodes core rule: add_users.induct)
     (auto intro!: quiet_rules simp: core_sound_def Let_def)

lemma quiet_startCore [quiet_rules]:
  assumes "core_sound (re_core env)" and "config_well_formed c"
  shows "quiet (startCore env nodes c us)"
  unfolding startCore_def panelUsersByInbound_def
  by (intro quiet_rules)
     (use assms in \<open>auto simp: core_sound_def dest: group_panel_users_no_panic\<close>)

section \<open>Replacing the core\<close>

definition rt_inv :: "'core XrayRuntime \<Rightarrow> bool" where
  "rt_inv r \<longleftrightarrow>
     (case xr_config r of
        None \<Rightarrow> xr_active r = None \<and> xr_users r = []
      | Some c \<Rightarrow> config_well_formed c \<and> users_available c (xr_users r))"

text \<open>What a failing operation keeps: the configuration, the users and the collected access samples\<close>

definition rt_kept :: "'core XrayRuntime \<Rightarrow> 'core XrayRuntime \<Rightarrow> bool" where
  "rt_kept r0 r \<longleftrightarrow> xr_config r = xr_config r0 \<and> xr_users r = xr_users r0 \<and>
     prefix (xr_pendingAccess r0) (xr_pendingAccess r) \<and> (xr_config r0 = None \<longrightarrow> xr_active r = None)"

lemma rt_kept_inv: "rt_inv r0 \<Longrightarrow> rt_kept r0 r \<Longrightarrow> rt_inv r"
  by (auto simp: rt_inv_def rt_kept_def split: option.splits)

lemma rt_kept_refl: "rt_inv r \<Longrightarrow> rt_kept r r"
  by (auto simp: rt_inv_def rt_kept_def split: option.splits)

lemma triple_bind_get:
  "triple P (k v) Q E \<Longrightarrow> (\<And>s. P s \<Longrightarrow> g s = v) \<Longrightarrow> triple P (tx_bind (tx_get g) k) Q E"
  unfolding triple_def tx_bind_def tx_get_def by auto

lemma triple_bind_quiet:
  assumes "\<And>x. triple (\<lambda>w. P (rw_runtime w)) (k x) Q E" and "quiet m"
    and "\<And>e w. \<not> is_panic e \<Longrightarrow> P (rw_runtime w) \<Longrightarrow> E e w"
  shows "triple (\<lambda>w. P (rw_runtime w)) (tx_bind m k) Q E"
proof (rule triple_bind)
  show "triple (\<lambda>w. P (rw_runtime w)) m (\<lambda>_ w. P (rw_runtime w)) E"
    by (rule triple_weaken [OF quietD [OF assms(2), of P]]) (use assms(3) in auto)
qed (rule assms(1))

lemma triple_close_active:
  assumes "core_sound (re_core env)" and "\<And>r xs a. P r \<Longrightarrow> P (r\<lparr>xr_pendingAccess := xr_pendingAccess r @ xs, xr_active := Some a\<rparr>)"
  shows "triple (\<lambda>w. P (rw_runtime w)) (close_active env core)
    (\<lambda>err w. (\<forall>e. err = Some e \<longrightarrow> \<not> is_panic e) \<and> P (rw_runtime w)) E"
  unfolding close_active_def
proof (rule triple_bind)
  have close_ok: "fst (xc_close (re_core env) core) = Some e \<Longrightarrow> \<not> is_panic e" for e
    using assms(1) by (simp add: core_sound_def)
  let ?R = "\<lambda>res w. (\<forall>e. fst res = Some e \<longrightarrow> \<not> is_panic e) \<and> P (rw_runtime w)"
  show "triple (\<lambda>w. P (rw_runtime w)) (core_close env core) ?R E"
    unfolding core_close_def
  proof (rule triple_bind)
    show "triple (\<lambda>w. P (rw_runtime w)) (tx_attempt (call_core (Inr (xc_close (re_core env) core))))
        (\<lambda>r w. (case r of Inl e \<Rightarrow> \<not> is_panic e | Inr x \<Rightarrow> x = xc_close (re_core env) core) \<and> P (rw_runtime w))
        E"
      unfolding call_core_def by (intro triple_rules) auto
    show "triple (\<lambda>w. (case r of Inl e \<Rightarrow> \<not> is_panic e | Inr x \<Rightarrow> x = xc_close (re_core env) core) \<and> P (rw_runtime w))
        (tx_return (case r of Inl e \<Rightarrow> (Some e, core) | Inr shut \<Rightarrow> shut)) ?R E" for r
      by (rule triple_return) (use close_ok in \<open>auto split: sum.splits\<close>)
  qed
  show "triple (?R res) ((\<lambda>(closeErr, shut).
      tx_bind (set_runtime (\<lambda>r. r\<lparr>xr_pendingAccess := xr_pendingAccess r @ accessSamplesToItems (fst (xc_access (re_core env) shut)),
        xr_active := Some (snd (xc_access (re_core env) shut))\<rparr>)) (\<lambda>_. tx_return closeErr)) res)
      (\<lambda>err w. (\<forall>e. err = Some e \<longrightarrow> \<not> is_panic e) \<and> P (rw_runtime w)) E" for res
    unfolding case_prod_beta
    by (rule triple_bind [where R = "\<lambda>_. ?R res"]; rule triple_return triple_modify) (auto intro!: assms(2))
qed

lemma triple_restore_core:
  assumes "core_sound (re_core env)" and "config_well_formed c" and "\<And>r a. P r \<Longrightarrow> P (r\<lparr>xr_active := a\<rparr>)"
  shows "triple (\<lambda>w. P (rw_runtime w)) (restore_core env nodes c us) (\<lambda>_ w. P (rw_runtime w))
    (\<lambda>e w. \<not> is_panic e \<and> P (rw_runtime w))"
  unfolding restore_core_def
  by (rule triple_bind_quiet, rule triple_bind [where R = "\<lambda>_ w. P (rw_runtime w)"])
     (auto intro!: triple_rules assms quiet_rules)

lemma triple_restore_previous:
  assumes "core_sound (re_core env)" and "\<And>pc. prior = Some pc \<Longrightarrow> config_well_formed pc"
    and "\<And>r a. prior \<noteq> None \<Longrightarrow> P r \<Longrightarrow> P (r\<lparr>xr_active := a\<rparr>)"
  shows "triple (\<lambda>w. P (rw_runtime w)) (restore_previous env prior us) (\<lambda>_ w. P (rw_runtime w))
    (\<lambda>e w. \<not> is_panic e \<and> P (rw_runtime w))"
proof (cases prior)
  case None
  then show ?thesis by (auto simp: restore_previous_def intro: triple_return)
next
  case (Some pc)
  with assms(2) have wf: "config_well_formed pc" by simp
  have again: "triple (\<lambda>w. P (rw_runtime w)) (tx_bind (restore_core env nodes pc us) (\<lambda>_. tx_return ())) (\<lambda>_ w. P (rw_runtime w))
      (\<lambda>e w. \<not> is_panic e \<and> P (rw_runtime w))" for nodes
    by (rule triple_bind [OF _ triple_restore_core [OF assms(1) wf, of P]])
       (use assms(3) Some in \<open>auto intro: triple_return\<close>)
  show ?thesis unfolding restore_previous_def Some option.case
    by (rule triple_bind_quiet)
       (auto split: sum.splits intro!: again triple_return quiet_rules sound_buildNodes wf)
qed

abbreviation kept_error :: "'core XrayRuntime \<Rightarrow> go_error \<Rightarrow> 'core RuntimeWorld \<Rightarrow> bool" where
  "kept_error r0 e w \<equiv> \<not> is_panic e \<and> rt_kept r0 (rw_runtime w)"

lemma rt_inv_active: "rt_inv r \<Longrightarrow> xr_active r = Some a \<Longrightarrow> \<exists>c. xr_config r = Some c \<and> config_well_formed c"
  by (auto simp: rt_inv_def split: option.splits)

lemma rt_kept_active: "rt_kept r0 r \<Longrightarrow> rt_kept r0 (r\<lparr>xr_active := None\<rparr>)"
  "rt_kept r0 r \<Longrightarrow> xr_config r0 \<noteq> None \<Longrightarrow> rt_kept r0 (r\<lparr>xr_active := a\<rparr>)"
  "rt_kept r0 r \<Longrightarrow> xr_config r0 \<noteq> None \<Longrightarrow>
     rt_kept r0 (r\<lparr>xr_pendingAccess := xr_pendingAccess r @ xs, xr_active := a\<rparr>)"
  by (auto simp: rt_kept_def)

lemma triple_close_if_active:
  assumes "core_sound (re_core env)" and "rt_inv r0"
  shows "triple (\<lambda>w. rw_runtime w = r0)
    (case xr_active r0 of None \<Rightarrow> tx_return None | Some previous \<Rightarrow> close_active env previous)
    (\<lambda>err w. (\<forall>e. err = Some e \<longrightarrow> \<not> is_panic e) \<and> rt_kept r0 (rw_runtime w)) (kept_error r0)"
proof (cases "xr_active r0")
  case None
  have "triple (\<lambda>w. rw_runtime w = r0) (tx_return None)
      (\<lambda>err w. (\<forall>e. err = Some e \<longrightarrow> \<not> is_panic e) \<and> rt_kept r0 (rw_runtime w)) (kept_error r0)"
    by (rule triple_return) (simp add: rt_kept_refl [OF assms(2)])
  with None show ?thesis by simp
next
  case (Some a)
  with rt_inv_active [OF assms(2)] have "xr_config r0 \<noteq> None" by auto
  then have "triple (\<lambda>w. rt_kept r0 (rw_runtime w)) (close_active env a)
      (\<lambda>err w. (\<forall>e. err = Some e \<longrightarrow> \<not> is_panic e) \<and> rt_kept r0 (rw_runtime w)) (kept_error r0)"
    by (intro triple_close_active assms(1) rt_kept_active(3)) auto
  then have "triple (\<lambda>w. rw_runtime w = r0) (close_active env a)
      (\<lambda>err w. (\<forall>e. err = Some e \<longrightarrow> \<not> is_panic e) \<and> rt_kept r0 (rw_runtime w)) (kept_error r0)"
    by (rule triple_pre) (simp add: rt_kept_refl [OF assms(2)])
  with Some show ?thesis by simp
qed

text \<open>The outcomes of an attempt to start a core\<close>

lemma triple_bind_start:
  assumes "core_sound (re_core env)" and "config_well_formed c"
    and "\<And>core. triple (\<lambda>w. P (rw_runtime w)) (k (Inr core)) Q E"
    and "\<And>e. \<not> is_panic e \<Longrightarrow> triple (\<lambda>w. P (rw_runtime w)) (k (Inl e)) Q E"
    and "\<And>e w. \<not> is_panic e \<Longrightarrow> P (rw_runtime w) \<Longrightarrow> E e w"
  shows "triple (\<lambda>w. P (rw_runtime w)) (tx_bind (tx_attempt (startCore env nodes c us)) k) Q E"
proof (rule triple_bind)
  show "triple (\<lambda>w. P (rw_runtime w)) (tx_attempt (startCore env nodes c us))
      (\<lambda>r w. (\<forall>e. r = Inl e \<longrightarrow> \<not> is_panic e) \<and> P (rw_runtime w)) E"
    by (rule triple_attempt, rule triple_weaken [OF quietD [OF quiet_startCore [OF assms(1,2)], of P]])
       (use assms(5) in auto)
  show "triple (\<lambda>w. (\<forall>e. r = Inl e \<longrightarrow> \<not> is_panic e) \<and> P (rw_runtime w)) (k r) Q E" for r
    by (rule triple_fact(1), cases r) (use assms(3,4) in auto)
qed

text \<open>After an error that may be absent\<close>

lemma triple_after_error:
  assumes "triple (\<lambda>w. P (rw_runtime w)) m Q E" and "\<And>e w. \<not> is_panic e \<Longrightarrow> P (rw_runtime w) \<Longrightarrow> E e w"
  shows "triple (\<lambda>w. (\<forall>e. err = Some e \<longrightarrow> \<not> is_panic e) \<and> P (rw_runtime w))
    (case err of Some e \<Rightarrow> tx_lift (Inl e) | None \<Rightarrow> m) Q E"
proof (cases err)
  case None
  with assms(1) show ?thesis by (simp add: triple_pre)
next
  case (Some e)
  have "triple (\<lambda>w. \<not> is_panic e \<and> P (rw_runtime w)) (tx_lift (Inl e)) Q E"
    by (rule triple_lift) (use assms(2) in auto)
  with Some show ?thesis by simp
qed

definition config_installed :: "DesiredConfig \<Rightarrow> 'core XrayRuntime \<Rightarrow> 'core XrayRuntime \<Rightarrow> bool" where
  "config_installed desired r0 r \<longleftrightarrow> xr_config r = Some desired \<and> config_well_formed desired \<and>
     xr_users r = usersAvailableInConfig desired (xr_users r0) \<and>
     xr_active r \<noteq> None \<and> prefix (xr_pendingAccess r0) (xr_pendingAccess r)"

lemma triple_install_config:
  assumes "core_sound (re_core env)" and "config_well_formed desired" and "rt_inv r0"
  shows "triple (\<lambda>w. rt_kept r0 (rw_runtime w))
    (install_config env nodes desired (usersAvailableInConfig desired (xr_users r0)) (xr_config r0) (xr_users r0))
    (\<lambda>_ w. config_installed desired r0 (rw_runtime w)) (kept_error r0)"
proof -
  let ?K = "\<lambda>w. rt_kept r0 (rw_runtime w)"
  have restore: "triple ?K (tx_bind (restore_previous env (xr_config r0) (xr_users r0)) (\<lambda>_. tx_lift (Inl e))) Q (kept_error r0)"
    if "\<not> is_panic e" for e Q
  proof (rule triple_bind [OF _ triple_restore_previous [OF assms(1)]])
    show "config_well_formed pc" if "xr_config r0 = Some pc" for pc using that assms(3) by (simp add: rt_inv_def)
  qed (use that in \<open>auto intro!: triple_rules rt_kept_active(2)\<close>)
  have started: "triple ?K (set_runtime (\<lambda>r. r\<lparr>xr_active := Some core, xr_config := Some desired,
      xr_users := usersAvailableInConfig desired (xr_users r0)\<rparr>)) (\<lambda>_ w. config_installed desired r0 (rw_runtime w)) (kept_error r0)" for core
    by (rule triple_modify) (simp add: rt_kept_def config_installed_def assms(2))
  show ?thesis unfolding install_config_def
  proof (rule triple_bind)
    show "triple ?K (set_runtime (\<lambda>r. r\<lparr>xr_active := None\<rparr>)) (\<lambda>_. ?K) (kept_error r0)"
      by (rule triple_modify) (simp add: rt_kept_active(1))
  qed (rule triple_bind_start [OF assms(1,2)], use restore started in simp_all)
qed

lemma triple_swap_core:
  assumes "core_sound (re_core env)" and "config_well_formed desired" and "rt_inv r0"
  shows "triple (\<lambda>w. rw_runtime w = r0) (swap_core env nodes desired)
    (\<lambda>_ w. config_installed desired r0 (rw_runtime w)) (kept_error r0)"
  unfolding swap_core_def
  by (rule triple_bind_get [where v = r0], rule triple_bind [OF _ triple_close_if_active [OF assms(1,3)]],
      rule triple_after_error [OF triple_install_config [OF assms]]) auto

lemma triple_ApplyConfig:
  assumes "core_sound (re_core env)" and "rt_inv r0"
  shows "triple (\<lambda>w. rw_runtime w = r0) (ApplyConfig env desired)
    (\<lambda>_ w. config_installed desired r0 (rw_runtime w)) (kept_error r0)"
proof (cases "ValidateDesiredConfig desired")
  case (Some e)
  have "triple (\<lambda>w. rw_runtime w = r0) (tx_lift (Inl e)) Q (kept_error r0)" for Q
    by (rule triple_lift) (use validator_no_panic [OF Some] rt_kept_refl [OF assms(2)] in simp_all)
  with Some show ?thesis by (simp add: ApplyConfig_def)
next
  case None
  then have wf: "config_well_formed desired" by (simp add: ValidateDesiredConfig_iff)
  have b: "quiet (tx_iter (\<lambda>(tag, info). tx_wrap (''validate '' @ tag) (call_core (xc_build (re_core env) info tag))) nodes)" for nodes
    by (rule quiet_iter) (use assms(1) in \<open>auto intro!: quiet_rules simp: core_sound_def\<close>)
  have n: "quiet (on_files (buildNodes env desired))" by (intro quiet_rules sound_buildNodes wf)
  have k: "\<not> is_panic e \<Longrightarrow> rw_runtime w = r0 \<Longrightarrow> kept_error r0 e w" for e w by (simp add: rt_kept_refl [OF assms(2)])
  show ?thesis unfolding ApplyConfig_def None option.case
    by (rule triple_bind_quiet [OF triple_bind_quiet [OF triple_swap_core [OF assms(1) wf assms(2)] b k] n k])
qed

text \<open>Users\<close>

definition users_installed :: "UserCredential list \<Rightarrow> 'core XrayRuntime \<Rightarrow> 'core XrayRuntime \<Rightarrow> bool" where
  "users_installed users r0 r \<longleftrightarrow> xr_config r = xr_config r0 \<and> xr_users r = users \<and>
     (\<forall>c. xr_config r0 = Some c \<longrightarrow> users_available c users) \<and> (users \<noteq> [] \<longrightarrow> xr_active r \<noteq> None) \<and>
     (xr_active r0 \<noteq> None \<and> xr_config r0 \<noteq> None \<longrightarrow> xr_active r \<noteq> None) \<and>
     (xr_config r0 = None \<longrightarrow> xr_active r = None \<and> users = []) \<and> prefix (xr_pendingAccess r0) (xr_pendingAccess r)"

lemma triple_install_users:
  assumes "core_sound (re_core env)" and "rt_inv r0" and "xr_config r0 = Some c" and "users_available c users"
  shows "triple (\<lambda>w. rt_kept r0 (rw_runtime w)) (install_users env nodes c users (xr_users r0))
    (\<lambda>_ w. users_installed users r0 (rw_runtime w)) (kept_error r0)"
proof -
  have wf: "config_well_formed c" using assms(2,3) by (simp add: rt_inv_def)
  have k: "triple (\<lambda>w. rt_kept r0 (rw_runtime w)) (restore_core env nodes c us) (\<lambda>_ w. rt_kept r0 (rw_runtime w)) (kept_error r0)" for us
    by (rule triple_restore_core [OF assms(1) wf]) (simp add: rt_kept_active(2) assms(3))
  show ?thesis unfolding install_users_def
  proof (rule triple_bind_start [OF assms(1) wf])
    show "triple (\<lambda>w. rt_kept r0 (rw_runtime w)) (case Inl e of
       Inl e \<Rightarrow>
         tx_bind (restore_core env nodes c (xr_users r0)) (\<lambda>restored.
         case restored of
           Inl _ \<Rightarrow> tx_lift (Inl (Wrapped ''apply users'' e))
         | Inr _ \<Rightarrow> tx_lift (Inl e))
     | Inr candidate \<Rightarrow> set_runtime (\<lambda>r. r\<lparr>xr_active := Some candidate, xr_users := users\<rparr>))
       (\<lambda>_ w. users_installed users r0 (rw_runtime w)) (kept_error r0)" if "\<not> is_panic e" for e
      unfolding sum.case
      by (rule triple_bind [OF _ k]) (use that in \<open>auto split: sum.splits intro!: triple_lift\<close>)
  qed (use assms in \<open>auto simp: users_installed_def rt_kept_def intro!: triple_modify\<close>)
qed

lemma triple_swap_users:
  assumes "core_sound (re_core env)" and "rt_inv r0" and "xr_config r0 = Some c" and "users_available c users"
  shows "triple (\<lambda>w. rw_runtime w = r0) (swap_users env a c nodes users)
    (\<lambda>_ w. users_installed users r0 (rw_runtime w)) (kept_error r0)"
proof -
  let ?K = "\<lambda>w. rt_kept r0 (rw_runtime w)" and ?ok = "\<lambda>err. \<forall>e. err = Some e \<longrightarrow> \<not> is_panic e"
  have wf: "config_well_formed c" using assms(2,3) by (simp add: rt_inv_def)
  have close: "triple (\<lambda>w. rw_runtime w = r0) (close_active env a) (\<lambda>err w. ?ok err \<and> ?K w) (kept_error r0)"
    by (rule triple_pre, rule triple_close_active [OF assms(1)])
       (simp_all add: rt_kept_active(3) assms(3) rt_kept_refl [OF assms(2)])
  have restore: "triple ?K (tx_bind (restore_core env nodes c us) (\<lambda>_. tx_lift (Inl e))) Q (kept_error r0)" if "\<not> is_panic e" for us e Q
    by (rule triple_bind [OF _ triple_restore_core [OF assms(1) wf]])
       (use that assms(3) in \<open>auto intro!: triple_lift rt_kept_active(2)\<close>)
  have rest: "triple (\<lambda>w. ?ok err \<and> ?K w) (case err of
       Some e \<Rightarrow> tx_bind (restore_core env nodes c (xr_users r0)) (\<lambda>_. tx_lift (Inl e))
     | None \<Rightarrow> install_users env nodes c users (xr_users r0)) (\<lambda>_ w. users_installed users r0 (rw_runtime w)) (kept_error r0)" for err
    by (rule triple_fact(1), cases err) (simp_all add: restore triple_install_users [OF assms])
  have nil: "triple (\<lambda>w. ?ok err \<and> ?K w) (set_runtime (\<lambda>r. r\<lparr>xr_active := None\<rparr>)) (\<lambda>_ w. ?ok err \<and> ?K w) (kept_error r0)" for err
    by (rule triple_modify) (simp add: rt_kept_active(1))
  show ?thesis unfolding swap_users_def
    by (rule triple_bind_get [where v = "xr_users r0"], rule triple_bind [OF _ close], rule triple_bind [OF rest nil]) simp
qed

lemma triple_ApplyUsers:
  assumes "core_sound (re_core env)" and "rt_inv r0"
  shows "triple (\<lambda>w. rw_runtime w = r0) (ApplyUsers env users)
    (\<lambda>_ w. users_installed users r0 (rw_runtime w)) (kept_error r0)"
proof (cases "\<exists>a c. xr_active r0 = Some a \<and> xr_config r0 = Some c")
  case True
  then obtain a c where r0: "xr_active r0 = Some a" "xr_config r0 = Some c" by blast
  have wf: "config_well_formed c" using assms(2) r0(2) by (simp add: rt_inv_def)
  have k: "\<not> is_panic e \<Longrightarrow> rw_runtime w = r0 \<Longrightarrow> kept_error r0 e w" for e w by (simp add: rt_kept_refl [OF assms(2)])
  have n: "quiet (on_files (buildNodes env c))" by (intro quiet_rules sound_buildNodes wf)
  let ?p = "panelUsersByInbound (re_uuid_ok env) (re_now env) c users"
  have swap: "triple (\<lambda>w. users_available c users \<and> rw_runtime w = r0)
      (tx_bind (on_files (buildNodes env c)) (\<lambda>nodes. swap_users env a c nodes users))
      (\<lambda>_ w. users_installed users r0 (rw_runtime w)) (kept_error r0)"
    by (rule triple_fact(1), rule triple_bind_quiet [OF triple_swap_users [OF assms r0(2)] n k])
  have check: "triple (\<lambda>w. rw_runtime w = r0) (tx_lift ?p) (\<lambda>_ w. users_available c users \<and> rw_runtime w = r0) (kept_error r0)"
    by (rule triple_lift)
       (use rt_kept_refl [OF assms(2)] panelUsersByInbound_available group_panel_users_no_panic [OF wf] in
         \<open>simp_all add: panelUsersByInbound_def\<close>)
  show ?thesis unfolding ApplyUsers_def
    by (rule triple_bind_get [where v = "(Some a, Some c)"]) (simp_all add: r0 triple_bind [OF swap check])
next
  case False
  have k: "rt_kept r0 r0" by (rule rt_kept_refl [OF assms(2)])
  have nil: "triple (\<lambda>w. rw_runtime w = r0) (set_runtime (\<lambda>r. r\<lparr>xr_users := []\<rparr>))
      (\<lambda>_ w. users_installed [] r0 (rw_runtime w)) (kept_error r0)"
    by (rule triple_modify)
       (use assms(2) in \<open>auto simp: users_installed_def users_available_def rt_inv_def split: option.splits\<close>)
  have err: "triple (\<lambda>w. rw_runtime w = r0) (tx_lift (Inl (Msg m))) Q (kept_error r0)" for m Q
    by (rule triple_lift) (use k in auto)
  show ?thesis unfolding ApplyUsers_def
    by (rule triple_bind_get [where v = "(xr_active r0, xr_config r0)"])
       (use False nil err in \<open>auto split: option.splits\<close>)
qed

section \<open>Working with the running core\<close>

text \<open>Only the core itself changed.\<close>

definition only_core :: "'core XrayRuntime \<Rightarrow> 'core XrayRuntime \<Rightarrow> bool" where
  "only_core r0 r \<longleftrightarrow> xr_config r = xr_config r0 \<and> xr_users r = xr_users r0 \<and> xr_pendingAccess r = xr_pendingAccess r0 \<and>
     (xr_active r = None \<longleftrightarrow> xr_active r0 = None)"

abbreviation core_error :: "'core XrayRuntime \<Rightarrow> go_error \<Rightarrow> 'core RuntimeWorld \<Rightarrow> bool" where
  "core_error r0 e w \<equiv> \<not> is_panic e \<and> only_core r0 (rw_runtime w)"

lemma only_core_refl [simp]: "only_core r r"
  by (simp add: only_core_def)

lemma only_core_kept: "rt_inv r0 \<Longrightarrow> only_core r0 r \<Longrightarrow> rt_kept r0 r"
  by (auto simp: rt_inv_def only_core_def rt_kept_def split: option.splits)

lemma triple_deref_active:
  fixes r0 :: "'core XrayRuntime"
  assumes "xr_active r0 \<noteq> None" and "\<And>core. triple (\<lambda>w. only_core r0 (rw_runtime w)) (k core) Q (core_error r0)"
  shows "triple (\<lambda>w. only_core r0 (rw_runtime w))
    (tx_bind (the_runtime xr_active) (\<lambda>active. tx_bind (deref active) k)) Q (core_error r0)"
proof (rule triple_at)
  fix w0 :: "'core RuntimeWorld" assume o: "only_core r0 (rw_runtime w0)"
  with assms(1) obtain a where a: "xr_active (rw_runtime w0) = Some a" by (auto simp: only_core_def)
  show "triple (\<lambda>w. w = w0) (tx_bind (the_runtime xr_active) (\<lambda>active. tx_bind (deref active) k)) Q (core_error r0)"
    by (rule triple_bind_get [where v = "Some a"]) (use a o assms(2) in \<open>auto simp: deref_def intro: triple_pre\<close>)
qed

lemma triple_core_del_users:
  assumes "core_sound (re_core env)" and "xr_active r0 \<noteq> None"
  shows "triple (\<lambda>w. only_core r0 (rw_runtime w)) (core_del_users env us tag info)
    (\<lambda>err w. (\<forall>e. err = Some e \<longrightarrow> \<not> is_panic e) \<and> only_core r0 (rw_runtime w)) (core_error r0)"
  unfolding core_del_users_def
proof (rule triple_deref_active [OF assms(2)], rule triple_bind)
  fix core
  let ?R = "\<lambda>r w. (case r of Inl e \<Rightarrow> \<not> is_panic e | Inr x \<Rightarrow> x = xc_del_users (re_core env) us tag info core) \<and>
      only_core r0 (rw_runtime w)"
  have del_ok: "fst (xc_del_users (re_core env) us tag info core) = Some e \<Longrightarrow> \<not> is_panic e" for e
    using assms(1) by (simp add: core_sound_def)
  show "triple (\<lambda>w. only_core r0 (rw_runtime w)) (tx_attempt (call_core (Inr (xc_del_users (re_core env) us tag info core)))) ?R (core_error r0)"
    unfolding call_core_def by (intro triple_rules) auto
  show "triple (?R r) (case r of Inl e \<Rightarrow> tx_return (Some e)
      | Inr (err, core') \<Rightarrow> tx_bind (set_runtime (\<lambda>x. x\<lparr>xr_active := Some core'\<rparr>)) (\<lambda>_. tx_return err))
      (\<lambda>err w. (\<forall>e. err = Some e \<longrightarrow> \<not> is_panic e) \<and> only_core r0 (rw_runtime w)) (core_error r0)" for r
  proof (cases r)
    case (Inl e)
    then show ?thesis by (auto intro: triple_return)
  next
    case (Inr x)
    show ?thesis unfolding Inr sum.case case_prod_beta
      by (rule triple_bind [where R = "\<lambda>_. ?R (Inr x)"]; rule triple_return triple_modify)
         (use assms(2) del_ok in \<open>auto simp: only_core_def\<close>)
  qed
qed

lemma triple_disconnect_groups:
  assumes "core_sound (re_core env)" and "xr_active r0 \<noteq> None" and "config_well_formed c"
  shows "\<forall>e. first = Some e \<longrightarrow> \<not> is_panic e \<Longrightarrow> triple (\<lambda>w. only_core r0 (rw_runtime w)) (disconnect_groups env c g ks first)
    (\<lambda>err w. (\<forall>e. err = Some e \<longrightarrow> \<not> is_panic e) \<and> only_core r0 (rw_runtime w)) (core_error r0)"
proof (induction ks arbitrary: first)
  case Nil
  then show ?case by (auto intro: triple_return)
next
  case (Cons k ks)
  note node = quietD [OF quiet_files [OF sound_node [OF assms(3) find_inbound_payloads [OF assms(3)]]], of "only_core r0" env]
  let ?ok = "\<lambda>err. \<forall>e. err = Some e \<longrightarrow> \<not> is_panic e"
  let ?post = "\<lambda>err w. ?ok err \<and> only_core r0 (rw_runtime w)"
  have del: "triple (\<lambda>w. only_core r0 (rw_runtime w)) (tx_bind (core_del_users env (group_get g k) (inboundTag k) info) (\<lambda>err.
      disconnect_groups env c g ks (case err of
        Some e \<Rightarrow> if first = None then Some (Wrapped (''disconnect users on inbound '' @ format_int k) e) else first
      | None \<Rightarrow> first))) ?post (core_error r0)" for info
    by (rule triple_bind [OF _ triple_core_del_users [OF assms(1,2)]], rule triple_fact(1), rule Cons.IH)
       (use Cons.prems in \<open>auto split: option.splits\<close>)
  have attempt: "triple (\<lambda>w. only_core r0 (rw_runtime w)) (tx_attempt (on_files (panelNodeForInbound env c (findInbound c k))))
      (\<lambda>r w. (\<forall>e. r = Inl e \<longrightarrow> \<not> is_panic e) \<and> only_core r0 (rw_runtime w)) (core_error r0)"
    by (rule triple_attempt, rule triple_weaken [OF node]) auto
  have step: "triple (\<lambda>w. only_core r0 (rw_runtime w))
      (tx_bind (tx_attempt (on_files (panelNodeForInbound env c (findInbound c k)))) (\<lambda>node.
           case node of
             Inl e \<Rightarrow> disconnect_groups env c g ks (if first = None then Some e else first)
           | Inr info \<Rightarrow>
               tx_bind (core_del_users env (group_get g k) (inboundTag k) info) (\<lambda>err.
               disconnect_groups env c g ks
                 (case err of
                    Some e \<Rightarrow> if first = None then Some (Wrapped (''disconnect users on inbound '' @ format_int k) e) else first
                  | None \<Rightarrow> first)))) ?post (core_error r0)"
  proof (rule triple_bind [OF _ attempt], rule triple_fact(1))
    fix r :: "go_error + NodeInfo" assume r: "\<forall>e. r = Inl e \<longrightarrow> \<not> is_panic e"
    show "triple (\<lambda>w. only_core r0 (rw_runtime w)) (case r of
             Inl e \<Rightarrow> disconnect_groups env c g ks (if first = None then Some e else first)
           | Inr info \<Rightarrow>
               tx_bind (core_del_users env (group_get g k) (inboundTag k) info) (\<lambda>err.
               disconnect_groups env c g ks
                 (case err of
                    Some e \<Rightarrow> if first = None then Some (Wrapped (''disconnect users on inbound '' @ format_int k) e) else first
                  | None \<Rightarrow> first))) ?post (core_error r0)"
    proof (cases r)
      case (Inl e)
      have "triple (\<lambda>w. only_core r0 (rw_runtime w)) (disconnect_groups env c g ks (if first = None then Some e else first)) ?post (core_error r0)"
        by (rule Cons.IH) (use Inl r Cons.prems in simp)
      with Inl show ?thesis by (simp only: sum.case)
    next
      case (Inr info)
      show ?thesis unfolding Inr sum.case by (rule del)
    qed
  qed
  show ?case using step Cons.IH [OF Cons.prems] by simp
qed

lemma triple_disconnectUsersLocked:
  assumes "core_sound (re_core env)" and "rt_inv r0" and "xr_active r0 \<noteq> None"
  shows "triple (\<lambda>w. rw_runtime w = r0) (disconnectUsersLocked env stale) (\<lambda>_ w. only_core r0 (rw_runtime w)) (core_error r0)"
proof -
  from assms(3) obtain a where "xr_active r0 = Some a" by auto
  from rt_inv_active [OF assms(2) this] obtain c where c: "xr_config r0 = Some c" "config_well_formed c" by (elim exE conjE)
  let ?g = "removal_groups stale"
  have g: "triple (\<lambda>w. rw_runtime w = r0) (if ?g = [] then tx_return None
       else tx_bind (deref (Some c)) (\<lambda>config. disconnect_groups env config ?g (re_order env (map fst ?g)) None))
     (\<lambda>err w. (\<forall>e. err = Some e \<longrightarrow> \<not> is_panic e) \<and> only_core r0 (rw_runtime w)) (core_error r0)"
  proof (rule triple_pre [where P' = "\<lambda>w. only_core r0 (rw_runtime w)"])
    have r: "triple (\<lambda>w. only_core r0 (rw_runtime w)) (tx_return None)
        (\<lambda>err w. (\<forall>e. err = Some e \<longrightarrow> \<not> is_panic e) \<and> only_core r0 (rw_runtime w)) (core_error r0)"
      by (rule triple_return) simp
    show "triple (\<lambda>w. only_core r0 (rw_runtime w)) (if ?g = [] then tx_return None
       else tx_bind (deref (Some c)) (\<lambda>config. disconnect_groups env config ?g (re_order env (map fst ?g)) None))
     (\<lambda>err w. (\<forall>e. err = Some e \<longrightarrow> \<not> is_panic e) \<and> only_core r0 (rw_runtime w)) (core_error r0)"
      using triple_disconnect_groups [OF assms(1,3) c(2), of None ?g "re_order env (map fst ?g)"] r
      by (simp add: deref_def)
  qed simp
  have fin: "triple (\<lambda>w. (\<forall>e. err = Some e \<longrightarrow> \<not> is_panic e) \<and> only_core r0 (rw_runtime w))
      (case err of Some e \<Rightarrow> tx_lift (Inl e) | None \<Rightarrow> tx_return ()) (\<lambda>_ w. only_core r0 (rw_runtime w)) (core_error r0)" for err
    by (rule triple_after_error) (auto intro: triple_return)
  show ?thesis
  proof (cases "stale = []")
    case True
    then show ?thesis by (auto simp: disconnectUsersLocked_def intro: triple_return)
  next
    case False
    have "triple (\<lambda>w. rw_runtime w = r0) (tx_bind (the_runtime xr_config) (\<lambda>cfg.
        tx_bind (if ?g = [] then tx_return None
                 else tx_bind (deref cfg) (\<lambda>config. disconnect_groups env config ?g (re_order env (map fst ?g)) None)) (\<lambda>firstErr.
        case firstErr of Some e \<Rightarrow> tx_lift (Inl e) | None \<Rightarrow> tx_return ())))
      (\<lambda>_ w. only_core r0 (rw_runtime w)) (core_error r0)"
      by (rule triple_bind_get [where v = "Some c"], rule triple_bind [OF fin g]) (simp add: c)
    with False show ?thesis by (simp add: disconnectUsersLocked_def Let_def)
  qed
qed

lemma triple_stay: "triple (\<lambda>w. rw_runtime w = r0) (tx_return x) (\<lambda>_ w. only_core r0 (rw_runtime w)) (core_error r0)"
  by (rule triple_return) simp

lemma triple_Disconnect:
  assumes "core_sound (re_core env)" and "rt_inv r0"
  shows "triple (\<lambda>w. rw_runtime w = r0) (DisconnectUsers env us) (\<lambda>_ w. only_core r0 (rw_runtime w)) (core_error r0)"
    and "triple (\<lambda>w. rw_runtime w = r0) (DisconnectSubscribers env ids) (\<lambda>_ w. only_core r0 (rw_runtime w)) (core_error r0)"
  unfolding DisconnectUsers_def DisconnectSubscribers_def
  by (rule triple_bind_get [where v = r0]; simp add: triple_stay triple_disconnectUsersLocked [OF assms])+

lemma triple_core_traffic:
  assumes "xr_active r0 \<noteq> None"
  shows "triple (\<lambda>w. only_core r0 (rw_runtime w)) (core_traffic env tag) (\<lambda>_ w. only_core r0 (rw_runtime w)) (core_error r0)"
  unfolding core_traffic_def
proof (rule triple_deref_active [OF assms], rule triple_bind)
  let ?K = "\<lambda>w. only_core r0 (rw_runtime w)"
  show "triple ?K (call_core (Inr (xc_traffic (re_core env) tag core))) (\<lambda>_. ?K) (core_error r0)" for core
    by (rule quietD, rule quiet_basic(3)) simp
  show "triple ?K ((\<lambda>(samples, core'). tx_bind (set_runtime (\<lambda>r. r\<lparr>xr_active := Some core'\<rparr>)) (\<lambda>_. tx_return samples)) x)
      (\<lambda>_. ?K) (core_error r0)" for x
    unfolding case_prod_beta
    by (rule triple_bind [where R = "\<lambda>_. ?K"]; rule triple_return triple_modify) (use assms in \<open>auto simp: only_core_def\<close>)
qed

lemma triple_collect_inbounds:
  assumes "xr_active r0 \<noteq> None"
  shows "triple (\<lambda>w. only_core r0 (rw_runtime w)) (collect_inbounds env us ibs) (\<lambda>_ w. only_core r0 (rw_runtime w)) (core_error r0)"
proof (induction ibs)
  case Nil
  show ?case by (simp add: triple_return)
next
  case (Cons ib ibs)
  have "triple (\<lambda>w. only_core r0 (rw_runtime w)) (tx_bind (core_traffic env t) (\<lambda>samples.
      tx_bind (collect_inbounds env us ibs) (\<lambda>rest. tx_return (f samples rest)))) (\<lambda>_ w. only_core r0 (rw_runtime w)) (core_error r0)" for t f
    by (rule triple_bind [OF triple_bind [OF triple_return Cons] triple_core_traffic [OF assms]])
  from Cons this [where f1 = "\<lambda>samples rest. traffic_deltas us (ib_ID ib) samples @ rest"] show ?case by simp
qed

lemma triple_CollectTraffic:
  "triple (\<lambda>w. rw_runtime w = r0) (CollectTraffic env) (\<lambda>_ w. only_core r0 (rw_runtime w)) (core_error r0)"
proof -
  have "triple (\<lambda>w. rw_runtime w = r0) (collect_inbounds env us ibs) (\<lambda>_ w. only_core r0 (rw_runtime w)) (core_error r0)"
    if "xr_active r0 \<noteq> None" for us ibs
    by (rule triple_pre [OF triple_collect_inbounds [OF that]]) simp
  then show ?thesis unfolding CollectTraffic_def
    by (intro triple_bind_get [where v = r0]) (auto simp: triple_stay split: option.splits)
qed

lemma triple_CloseRuntime:
  assumes "core_sound (re_core env)" and "rt_inv r0"
  shows "triple (\<lambda>w. rw_runtime w = r0) (CloseRuntime env)
    (\<lambda>_ w. rt_kept r0 (rw_runtime w) \<and> xr_active (rw_runtime w) = None)
    (\<lambda>e w. kept_error r0 e w \<and> xr_active (rw_runtime w) = None)"
  unfolding CloseRuntime_def
proof (rule triple_bind_get [where v = "xr_active r0"])
  let ?Q = "\<lambda>_ w. rt_kept r0 (rw_runtime w) \<and> xr_active (rw_runtime w) = None"
    and ?E = "\<lambda>e w. kept_error r0 e w \<and> xr_active (rw_runtime w) = None"
  have off: "triple (\<lambda>w. (\<forall>e. err = Some e \<longrightarrow> \<not> is_panic e) \<and> rt_kept r0 (rw_runtime w))
      (tx_bind (set_runtime (\<lambda>r. r\<lparr>xr_active := None\<rparr>)) (\<lambda>_. case err of Some e \<Rightarrow> tx_lift (Inl e) | None \<Rightarrow> tx_return ())) ?Q ?E" for err
  proof (rule triple_bind)
    show "triple (\<lambda>w. (\<forall>e. err = Some e \<longrightarrow> \<not> is_panic e) \<and> rt_kept r0 (rw_runtime w)) (set_runtime (\<lambda>r. r\<lparr>xr_active := None\<rparr>))
        (\<lambda>_ w. (\<forall>e. err = Some e \<longrightarrow> \<not> is_panic e) \<and> ?Q () w) ?E"
      by (rule triple_modify) (simp add: rt_kept_active(1))
    show "triple (\<lambda>w. (\<forall>e. err = Some e \<longrightarrow> \<not> is_panic e) \<and> ?Q () w) (case err of Some e \<Rightarrow> tx_lift (Inl e) | None \<Rightarrow> tx_return ()) ?Q ?E"
      by (cases err) (auto intro!: triple_rules)
  qed
  show "triple (\<lambda>w. rw_runtime w = r0) (case xr_active r0 of None \<Rightarrow> tx_return ()
     | Some core \<Rightarrow> tx_bind (close_active env core) (\<lambda>err.
         tx_bind (set_runtime (\<lambda>r. r\<lparr>xr_active := None\<rparr>)) (\<lambda>_. case err of Some e \<Rightarrow> tx_lift (Inl e) | None \<Rightarrow> tx_return ()))) ?Q ?E"
  proof (cases "xr_active r0")
    case None
    have "triple (\<lambda>w. rw_runtime w = r0) (tx_return ()) ?Q ?E"
      by (rule triple_return) (simp add: None rt_kept_refl [OF assms(2)])
    with None show ?thesis by simp
  next
    case (Some a)
    have close: "triple (\<lambda>w. rw_runtime w = r0) (close_active env a)
        (\<lambda>err w. (\<forall>e. err = Some e \<longrightarrow> \<not> is_panic e) \<and> rt_kept r0 (rw_runtime w)) ?E"
    proof (rule triple_pre [OF triple_close_active [OF assms(1), where P = "rt_kept r0"]])
      show "rt_kept r0 (r\<lparr>xr_pendingAccess := xr_pendingAccess r @ xs, xr_active := Some b\<rparr>)" if "rt_kept r0 r" for r xs b
        using that rt_inv_active [OF assms(2) Some] by (auto intro: rt_kept_active(3))
    qed (simp add: rt_kept_refl [OF assms(2)])
    from triple_bind [OF off close] Some show ?thesis by simp
  qed
qed simp

end
