(* ===== verification/Runtime_Contract.thy ===== *)
theory Runtime_Contract
  imports Runtime_Facts
begin

text \<open>
  The Go interface Runtime as its clients rely on it, a locale interpreted on the Xray runtime,
  the runtime's operations as one labelled transition system, and the properties of the
  runtime.
\<close>

section \<open>The interface\<close>

text \<open>Replacing the users: the explicit disconnect may fail, the snapshot is applied all the same.\<close>

definition replace_users ::
  "(UserCredential list \<Rightarrow> ('w, unit) tx) \<Rightarrow> (UserCredential list \<Rightarrow> ('w, unit) tx) \<Rightarrow> UserCredential list \<Rightarrow> ('w, unit) tx" where
  "replace_users disconnect apply_all us = tx_bind (tx_attempt (disconnect us)) (\<lambda>_. apply_all us)"

fun replace_all ::
  "(UserCredential list \<Rightarrow> ('w, unit) tx) \<Rightarrow> (UserCredential list \<Rightarrow> ('w, unit) tx) \<Rightarrow> UserCredential list list \<Rightarrow> ('w, bool list) tx" where
  "replace_all disconnect apply_all [] = tx_return []"
| "replace_all disconnect apply_all (us # rest) =
     tx_bind (tx_attempt (replace_users disconnect apply_all us)) (\<lambda>r.
     tx_bind (replace_all disconnect apply_all rest) (\<lambda>oks. tx_return ((\<exists>u. r = Inr u) # oks)))"

definition last_accepted :: "UserCredential list \<Rightarrow> (UserCredential list \<times> bool) list \<Rightarrow> UserCredential list" where
  "last_accepted us0 attempts = fold (\<lambda>(us, ok) cur. if ok then us else cur) attempts us0"

locale runtime_contract =
  fixes inv :: "'w \<Rightarrow> bool"
    and config_of :: "'w \<Rightarrow> DesiredConfig option"
    and users_of :: "'w \<Rightarrow> UserCredential list"
    and apply_config :: "DesiredConfig \<Rightarrow> ('w, unit) tx"
    and apply_users :: "UserCredential list \<Rightarrow> ('w, unit) tx"
    and disconnect_users :: "UserCredential list \<Rightarrow> ('w, unit) tx"
  assumes apply_config_law:
    "triple (\<lambda>w. inv w \<and> config_of w = c \<and> users_of w = us) (apply_config d)
       (\<lambda>_ w. inv w \<and> config_of w = Some d \<and> users_of w = usersAvailableInConfig d us)
       (\<lambda>e w. \<not> is_panic e \<and> inv w \<and> config_of w = c \<and> users_of w = us)"
    and apply_users_law:
    "triple (\<lambda>w. inv w \<and> config_of w = c \<and> users_of w = us) (apply_users us')
       (\<lambda>_ w. inv w \<and> config_of w = c \<and> users_of w = us')
       (\<lambda>e w. \<not> is_panic e \<and> inv w \<and> config_of w = c \<and> users_of w = us)"
    and disconnect_users_law:
    "triple (\<lambda>w. inv w \<and> config_of w = c \<and> users_of w = us) (disconnect_users us')
       (\<lambda>_ w. inv w \<and> config_of w = c \<and> users_of w = us)
       (\<lambda>e w. \<not> is_panic e \<and> inv w \<and> config_of w = c \<and> users_of w = us)"
begin

lemma replace_users_law:
  "triple (\<lambda>w. inv w \<and> config_of w = c \<and> users_of w = us) (replace_users disconnect_users apply_users us')
     (\<lambda>_ w. inv w \<and> config_of w = c \<and> users_of w = us')
     (\<lambda>e w. \<not> is_panic e \<and> inv w \<and> config_of w = c \<and> users_of w = us)"
  unfolding replace_users_def
  by (rule triple_bind [OF apply_users_law], rule triple_attempt, rule triple_weaken [OF disconnect_users_law [of c us us']]) auto

text \<open>Any sequence of replacements leaves the users of the last one that succeeded.\<close>

lemma replace_all_law:
  "triple (\<lambda>w. inv w \<and> config_of w = c \<and> users_of w = us) (replace_all disconnect_users apply_users snaps)
     (\<lambda>oks w. inv w \<and> config_of w = c \<and> length oks = length snaps \<and> users_of w = last_accepted us (zip snaps oks))
     (\<lambda>e w. \<not> is_panic e)"
proof (induction snaps arbitrary: us)
  case Nil
  show ?case by (auto simp: last_accepted_def intro!: triple_return)
next
  case (Cons s snaps)
  have once: "triple (\<lambda>w. inv w \<and> config_of w = c \<and> users_of w = us) (tx_attempt (replace_users disconnect_users apply_users s))
      (\<lambda>r w. inv w \<and> config_of w = c \<and> users_of w = (if \<exists>u. r = Inr u then s else us)) (\<lambda>e w. \<not> is_panic e)"
    by (rule triple_attempt, rule triple_weaken [OF replace_users_law [of c us s]]) auto
  have rest: "triple (\<lambda>w. inv w \<and> config_of w = c \<and> users_of w = cur)
      (tx_bind (replace_all disconnect_users apply_users snaps) (\<lambda>oks. tx_return (b # oks)))
      (\<lambda>oks w. inv w \<and> config_of w = c \<and> length oks = length (s # snaps) \<and> users_of w = last_accepted us (zip (s # snaps) oks))
      (\<lambda>e w. \<not> is_panic e)" if "cur = (if b then s else us)" for cur b
    by (rule triple_bind [OF _ Cons.IH [of cur]], rule triple_return) (use that in \<open>auto simp: last_accepted_def\<close>)
  show ?case unfolding replace_all.simps by (rule triple_bind [OF rest once]) simp
qed

end

lemma rt_inv_installed: "config_installed d r0 r \<Longrightarrow> rt_inv r"
  by (auto simp: config_installed_def rt_inv_def usersAvailableInConfig_available)

lemma rt_inv_users_installed: "rt_inv r0 \<Longrightarrow> users_installed us r0 r \<Longrightarrow> rt_inv r"
  by (auto simp: users_installed_def rt_inv_def split: option.splits)

lemma rt_inv_only_core: "rt_inv r0 \<Longrightarrow> only_core r0 r \<Longrightarrow> rt_inv r"
  by (auto simp: only_core_def rt_inv_def split: option.splits)

text \<open>A triple per starting state gives one for all states that satisfy a condition.\<close>

lemma triple_runtime_at:
  fixes m :: "('core, 'x) rt"
  assumes "\<And>r0. P r0 \<Longrightarrow> triple (\<lambda>w. rw_runtime w = r0) m (Q r0) (E r0)"
    and "\<And>r0 x w. P r0 \<Longrightarrow> Q r0 x w \<Longrightarrow> Q' x w" and "\<And>r0 e w. P r0 \<Longrightarrow> E r0 e w \<Longrightarrow> E' e w"
  shows "triple (\<lambda>w. P (rw_runtime w)) m Q' E'"
proof (rule triple_at)
  fix w0 :: "'core RuntimeWorld" assume p: "P (rw_runtime w0)"
  show "triple (\<lambda>w. w = w0) m Q' E'"
    by (rule triple_weaken [OF assms(1) [OF p]]) (use p assms(2,3) in blast)+
qed

interpretation xray: runtime_contract
  "\<lambda>w. core_sound (re_core env) \<and> rt_inv (rw_runtime w)" "\<lambda>w. xr_config (rw_runtime w)" "\<lambda>w. xr_users (rw_runtime w)"
  "ApplyConfig env" "ApplyUsers env" "DisconnectUsers env" for env :: "'core RuntimeEnv"
proof
  fix c us us' d
  let ?P = "\<lambda>r. (core_sound (re_core env) \<and> rt_inv r) \<and> xr_config r = c \<and> xr_users r = us"
  show "triple (\<lambda>w. ?P (rw_runtime w)) (ApplyConfig env d)
     (\<lambda>_ w. (core_sound (re_core env) \<and> rt_inv (rw_runtime w)) \<and> xr_config (rw_runtime w) = Some d \<and>
        xr_users (rw_runtime w) = usersAvailableInConfig d us)
     (\<lambda>e w. \<not> is_panic e \<and> ?P (rw_runtime w))"
    by (rule triple_runtime_at, rule triple_ApplyConfig)
       (auto simp: rt_inv_installed, auto simp: config_installed_def rt_kept_def intro: rt_kept_inv)
  show "triple (\<lambda>w. ?P (rw_runtime w)) (ApplyUsers env us')
     (\<lambda>_ w. (core_sound (re_core env) \<and> rt_inv (rw_runtime w)) \<and> xr_config (rw_runtime w) = c \<and> xr_users (rw_runtime w) = us')
     (\<lambda>e w. \<not> is_panic e \<and> ?P (rw_runtime w))"
    by (rule triple_runtime_at, rule triple_ApplyUsers)
       (auto intro: rt_inv_users_installed rt_kept_inv, auto simp: users_installed_def rt_kept_def)
  show "triple (\<lambda>w. ?P (rw_runtime w)) (DisconnectUsers env us') (\<lambda>_ w. ?P (rw_runtime w)) (\<lambda>e w. \<not> is_panic e \<and> ?P (rw_runtime w))"
    by (rule triple_runtime_at, rule triple_Disconnect(1))
       (auto intro: rt_inv_only_core, auto simp: only_core_def)
qed

section \<open>The operations as a transition system\<close>

datatype RuntimeCall =
    CallApplyConfig DesiredConfig
  | CallApplyUsers "UserCredential list"
  | CallDisconnectUsers "UserCredential list"
  | CallDisconnectSubscribers "int list"
  | CallCollectTraffic
  | CallCollectAccess
  | CallRequeueAccess "AccessItem list"
  | CallCollectOnline
  | CallStatus
  | CallClose

definition drop_value :: "('s, 'x) tx \<Rightarrow> ('s, unit) tx" where
  "drop_value m = tx_bind m (\<lambda>_. tx_return ())"

fun run_call :: "'core RuntimeEnv \<Rightarrow> RuntimeCall \<Rightarrow> ('core, unit) rt" where
  "run_call env (CallApplyConfig d) = ApplyConfig env d"
| "run_call env (CallApplyUsers us) = ApplyUsers env us"
| "run_call env (CallDisconnectUsers us) = DisconnectUsers env us"
| "run_call env (CallDisconnectSubscribers ids) = DisconnectSubscribers env ids"
| "run_call env CallCollectTraffic = drop_value (CollectTraffic env)"
| "run_call env CallCollectAccess = drop_value (CollectAccess env)"
| "run_call env (CallRequeueAccess items) = RequeueAccess items"
| "run_call env CallCollectOnline = drop_value (CollectOnline env)"
| "run_call env CallStatus = drop_value RuntimeStatus"
| "run_call env CallClose = CloseRuntime env"

text \<open>A panic ends the process, so a run goes on only after calls that returned.\<close>

inductive runtime_run :: "'core RuntimeEnv \<Rightarrow> 'core RuntimeWorld \<Rightarrow> RuntimeCall list \<Rightarrow> 'core RuntimeWorld \<Rightarrow> bool"
  for env w0 where
  start: "runtime_run env w0 [] w0"
| call: "runtime_run env w0 cs w \<Longrightarrow> calm fs \<Longrightarrow> run_call env c (fs, w) = (r, fs', w') \<Longrightarrow>
    (\<And>p. r \<noteq> Inl (ErrPanic p)) \<Longrightarrow> runtime_run env w0 (cs @ [c]) w'"

inductive_cases runtime_run_snocE: "runtime_run env w0 (cs @ [c]) w"

definition requeue_overflow :: "RuntimeCall \<Rightarrow> 'core XrayRuntime \<Rightarrow> bool" where
  "requeue_overflow c r \<longleftrightarrow> (\<exists>items. c = CallRequeueAccess items \<and> items \<noteq> [] \<and> length (xr_pendingAccess r) > 20000)"

lemma triple_drop_value: "triple P m (\<lambda>_. Q) E \<Longrightarrow> triple P (drop_value m) (\<lambda>_. Q) E"
  unfolding drop_value_def by (rule triple_bind [where R = "\<lambda>_. Q"]) (auto intro: triple_return)

lemma triple_RequeueAccess:
  "triple (\<lambda>w. rt_inv (rw_runtime w)) (RequeueAccess items) (\<lambda>_ w. rt_inv (rw_runtime w))
     (\<lambda>e w. rt_inv (rw_runtime w) \<and> items \<noteq> [] \<and> length (xr_pendingAccess (rw_runtime w)) > 20000)"
proof (rule tripleI)
  fix fs s r fs' s'
  assume "calm fs" "rt_inv (rw_runtime s)" "RequeueAccess items (fs, s) = (r, fs', s')"
  then show "calm fs' \<and> (case r of Inr x \<Rightarrow> rt_inv (rw_runtime s')
      | Inl e \<Rightarrow> rt_inv (rw_runtime s') \<and> items \<noteq> [] \<and> length (xr_pendingAccess (rw_runtime s')) > 20000)"
    by (auto simp: RequeueAccess_def tx_bind_def tx_get_def tx_return_def tx_lift_def tx_modify_def slice_from_def rt_inv_def
        split: if_splits option.splits)
qed

lemma triple_memory_calls:
  "triple (\<lambda>w. rt_inv (rw_runtime w)) (CollectAccess env) (\<lambda>_ w. rt_inv (rw_runtime w)) E"
  "triple (\<lambda>w. rt_inv (rw_runtime w)) (CollectOnline env) (\<lambda>_ w. rt_inv (rw_runtime w)) E"
  "triple (\<lambda>w. rt_inv (rw_runtime w)) RuntimeStatus (\<lambda>_ w. rt_inv (rw_runtime w)) E"
  unfolding CollectAccess_def CollectOnline_def RuntimeStatus_def
  by (rule tripleI; auto simp: tx_bind_def tx_get_def tx_return_def tx_modify_def rt_inv_def split: option.splits)+

lemma triple_run_call:
  assumes "core_sound (re_core env)"
  shows "triple (\<lambda>w. rt_inv (rw_runtime w)) (run_call env c) (\<lambda>_ w. rt_inv (rw_runtime w))
    (\<lambda>e w. rt_inv (rw_runtime w) \<and> (is_panic e \<longrightarrow> requeue_overflow c (rw_runtime w)))"
proof -
  let ?I = "\<lambda>w. rt_inv (rw_runtime w)" and ?E = "\<lambda>e w. rt_inv (rw_runtime w) \<and> (is_panic e \<longrightarrow> requeue_overflow c (rw_runtime w))"
  have "triple ?I (ApplyConfig env d) (\<lambda>_. ?I) ?E" for d
    by (rule triple_runtime_at, rule triple_ApplyConfig [OF assms]) (auto intro: rt_inv_installed rt_kept_inv)
  moreover have "triple ?I (ApplyUsers env us) (\<lambda>_. ?I) ?E" for us
    by (rule triple_runtime_at, rule triple_ApplyUsers [OF assms]) (auto intro: rt_inv_users_installed rt_kept_inv)
  moreover have "triple ?I (DisconnectUsers env us) (\<lambda>_. ?I) ?E" for us
    by (rule triple_runtime_at, rule triple_Disconnect(1) [OF assms]) (auto intro: rt_inv_only_core)
  moreover have "triple ?I (DisconnectSubscribers env ids) (\<lambda>_. ?I) ?E" for ids
    by (rule triple_runtime_at, rule triple_Disconnect(2) [OF assms]) (auto intro: rt_inv_only_core)
  moreover have "triple ?I (drop_value (CollectTraffic env)) (\<lambda>_. ?I) ?E"
    by (rule triple_drop_value, rule triple_runtime_at [where P = rt_inv], rule triple_CollectTraffic) (auto intro: rt_inv_only_core)
  moreover have "triple ?I (drop_value (CollectAccess env)) (\<lambda>_. ?I) ?E" "triple ?I (drop_value (CollectOnline env)) (\<lambda>_. ?I) ?E"
    "triple ?I (drop_value RuntimeStatus) (\<lambda>_. ?I) ?E"
    by (intro triple_drop_value triple_memory_calls)+
  moreover have "triple ?I (CloseRuntime env) (\<lambda>_. ?I) ?E"
    by (rule triple_runtime_at, rule triple_CloseRuntime [OF assms]) (auto intro: rt_kept_inv)
  moreover have "triple ?I (RequeueAccess items) (\<lambda>_. ?I) ?E" if "c = CallRequeueAccess items" for items
    by (rule triple_weaken [OF triple_RequeueAccess]) (use that in \<open>auto simp: requeue_overflow_def\<close>)
  ultimately show ?thesis by (cases c) simp_all
qed

lemma runtime_run_inv:
  assumes "runtime_run env w0 cs w" and "core_sound (re_core env)" and "rt_inv (rw_runtime w0)"
  shows "rt_inv (rw_runtime w)"
  using assms
proof (induction rule: runtime_run.induct)
  case start
  then show ?case by simp
next
  case (call cs w fs c r fs' w')
  with tripleD [OF triple_run_call [OF call.prems(1)] call.hyps(2) _ call.hyps(3)] show ?case
    by (auto split: sum.splits)
qed

section \<open>A concrete core\<close>

text \<open>A core that remembers the users added per node and reports no traffic\<close>

definition example_core_ops :: "(string \<times> UserInfo list) list CoreOps" where
  "example_core_ops =
     \<lparr>xc_build = (\<lambda>_ _. Inr ()), xc_start = Inr [], xc_add_node = (\<lambda>tag _ core. Inr (core @ [(tag, [])])),
      xc_add_limiter = (\<lambda>_ _ _ core. core), xc_add_users = (\<lambda>tag us _ core. Inr (core @ [(tag, us)])),
      xc_del_users = (\<lambda>us tag _ core. (None, core)), xc_close = (\<lambda>core. (None, [])),
      xc_traffic = (\<lambda>_ core. ([], core)), xc_access = (\<lambda>core. ([], core)), xc_online = (\<lambda>_ _. [])\<rparr>"

definition example_env :: "(string \<times> UserInfo list) list RuntimeEnv" where
  "example_env = \<lparr>re_core = example_core_ops, re_crypto = plain_crypto, re_secrets = example_store,
     re_tmp = (\<lambda>p. if has_prefix p ''/'' then ''/etc/iepl-agent/secrets/.secret-1'' else ''/run/iepl-agent/secrets/.secret-1''),
     re_uuid_ok = (\<lambda>v. length v = 36), re_now = 100, re_order = (\<lambda>ks. ks)\<rparr>"

definition example_vmess :: Inbound where
  "example_vmess = \<lparr>ib_ID = 5, ib_Name = ''v'', ib_Protocol = ''vmess'', ib_Listen = ''0.0.0.0'', ib_Port = 80,
     ib_Network = ''tcp'', ib_Enabled = True,
     ib_Transport = \<lparr>tr_Type = ''tcp'', tr_Path = [], tr_Host = [], tr_ServiceName = []\<rparr>,
     ib_SecurityProfileID = 0, ib_TrafficMultiplierMilli = 1000, ib_VLESS = None, ib_VMess = Some VMessConfig,
     ib_Trojan = None, ib_SS2022 = None, ib_TUIC = None, ib_Hysteria2 = None\<rparr>"

definition example_vmess_config :: DesiredConfig where
  "example_vmess_config = \<lparr>dc_SchemaVersion = 1, dc_Version = 7, dc_GeneratedAt = 1, dc_AgentNodeID = 3,
     dc_Inbounds = [example_vmess], dc_Security = [],
     dc_Routing = \<lparr>rc_DNSProfile = [], rc_BlockProfile = [], rc_OutboundProfile = []\<rparr>\<rparr>"

definition example_user :: UserCredential where
  "example_user = \<lparr>uc_SubscriberID = 11, uc_InboundID = 5, uc_Kind = ''uuid'',
     uc_Value = ''6ba7b810-9dad-11d1-80b4-00c04fd430c8'', uc_ExpiresAt = 0, uc_SpeedLimitBPS = 1000000,
     uc_DeviceLimit = 2, uc_QuotaGeneration = 4\<rparr>"

definition example_world :: "(string \<times> UserInfo list) list RuntimeWorld" where
  "example_world = \<lparr>rw_files = [], rw_runtime = NewXray\<rparr>"

lemma example_core_sound: "core_sound (re_core example_env)"
  by (simp add: core_sound_def example_env_def example_core_ops_def)

lemma rt_inv_new [simp]: "rt_inv NewXray"
  by (simp add: rt_inv_def NewXray_def)

lemma example_vmess_accepted: "ValidateDesiredConfig example_vmess_config = None"
proof -
  have "listen_ok (trim_space ''0.0.0.0'')" by code_simp
  then show ?thesis unfolding ValidateDesiredConfig_iff
    by (simp add: config_well_formed_def example_vmess_config_def example_vmess_def profile_of_def SchemaVersion_def
        inbound_admissible_def payloads_def protocol_consts stream_admissible_def)
qed

definition example_running :: "(string \<times> UserInfo list) list RuntimeWorld" where
  "example_running = \<lparr>rw_files = [], rw_runtime = \<lparr>xr_active = Some [(''inbound-5'', [])],
     xr_config = Some example_vmess_config, xr_users = [], xr_pendingAccess = []\<rparr>\<rparr>"

lemma example_tag: "inboundTag 5 = ''inbound-5''" "tag_inbound ''inbound-5'' = 5"
  by code_simp+

lemma example_build:
  "buildNodes example_env example_vmess_config ([], s) =
     (Inr [(''inbound-5'', \<lparr>ni_Id = 5, ni_Type = ''vmess'', ni_PushInterval = 60, ni_PullInterval = 315360000,
        ni_Protocol = (base_protocol example_vmess)\<lparr>pp_Type := ''vmess''\<rparr>\<rparr>)], [], s)"
  by (simp add: buildNodes_def example_vmess_config_def panelNodeForInbound_def protocol_fields_def security_fields_def
      example_vmess_def protocol_consts tx_bind_def base_protocol_def example_tag zero_protocol_def)

lemma example_calls:
  "xc_build (re_core example_env) i tag = Inr ()" "xc_start (re_core example_env) = Inr []"
  "xc_add_node (re_core example_env) tag i core = Inr (core @ [(tag, [])])" "xc_add_limiter (re_core example_env) tag us ty core = core"
  "xc_add_users (re_core example_env) tag us i core = Inr (core @ [(tag, us)])" "xc_close (re_core example_env) core = (None, [])"
  "xc_access (re_core example_env) core = ([], core)"
  by (simp_all add: example_env_def example_core_ops_def)

lemmas runtime_run_simps = tx_bind_def tx_zoom_def tx_wrap_def tx_attempt_def call_core_def swap_core_def install_config_def
  tx_get_def tx_modify_def startCore_def or_give_up_def example_calls group_get_def

lemma example_apply_config_files:
  "ApplyConfig example_env example_vmess_config ([], example_world\<lparr>rw_files := s\<rparr>) = (Inr (), [], example_running\<lparr>rw_files := s\<rparr>)"
  by (simp add: ApplyConfig_def example_vmess_accepted example_build example_world_def runtime_run_simps NewXray_def
      panelUsersByInbound_def usersAvailableInConfig_def example_running_def)

lemma example_apply_config: "ApplyConfig example_env example_vmess_config ([], example_world) = (Inr (), [], example_running)"
  using example_apply_config_files [of "[]"] by (simp add: example_world_def example_running_def)

lemma example_user_groups:
  "panelUsersByInbound (re_uuid_ok example_env) (re_now example_env) example_vmess_config [example_user] =
     Inr [(5, [panel_user example_user])]"
  "panelUsersByInbound (re_uuid_ok example_env) (re_now example_env) example_vmess_config [] = Inr []"
proof -
  have u: "re_uuid_ok example_env = (\<lambda>v. length v = 36)" "re_now example_env = 100" by (simp_all add: example_env_def)
  have t: "trim_space ''6ba7b810-9dad-11d1-80b4-00c04fd430c8'' = ''6ba7b810-9dad-11d1-80b4-00c04fd430c8''" by code_simp
  have e: "enabled_inbound example_vmess_config 5 = Some example_vmess"
    by (simp add: enabled_inbound_def example_vmess_config_def example_vmess_def)
  have v: "validateRuntimeCredential (\<lambda>v. length v = 36) example_vmess (uc_Value example_user) = Inr ()"
    by (simp add: validateRuntimeCredential_def example_vmess_def protocol_consts example_user_def t)
  show "panelUsersByInbound (re_uuid_ok example_env) (re_now example_env) example_vmess_config [example_user] = Inr [(5, [panel_user example_user])]"
    using e v unfolding u by (simp add: panelUsersByInbound_def example_user_def user_skipped_def group_add_def)
  show "panelUsersByInbound (re_uuid_ok example_env) (re_now example_env) example_vmess_config [] = Inr []"
    by (simp add: panelUsersByInbound_def)
qed

lemma example_apply_users:
  "us \<in> {[], [example_user]} \<Longrightarrow> \<exists>w. ApplyUsers example_env us ([], example_running\<lparr>rw_files := s\<rparr>) = (Inr (), [], w) \<and> rw_files w = s \<and> xr_users (rw_runtime w) = us"
  using example_build [of s]
  by (auto simp: ApplyUsers_def example_running_def runtime_run_simps example_user_groups swap_users_def close_active_def
      core_close_def install_users_def accessSamplesToItems_def example_tag Let_def)

lemma example_running_files: "example_running\<lparr>rw_files := []\<rparr> = example_running" "example_world\<lparr>rw_files := []\<rparr> = example_world"
  by (simp_all add: example_running_def example_world_def)

section \<open>Users by inbound\<close>

lemma map_of_group: "map_of (map (\<lambda>(k', vs). (k', if k' = k then vs @ [v] else vs)) g) k'' =
    (case map_of g k'' of None \<Rightarrow> None | Some vs \<Rightarrow> Some (if k'' = k then vs @ [v] else vs))"
  by (induction g) auto

lemma group_get_add: "group_get (group_add k v g) k' = (if k' = k then group_get g k @ [v] else group_get g k')"
proof (cases "k \<in> fst ` set g")
  case True
  then have "map_of g k \<noteq> None" by (simp add: map_of_eq_None_iff)
  with True show ?thesis by (auto simp: group_add_def group_get_def map_of_group split: option.splits)
next
  case False
  then have "map_of g k = None" by (simp add: map_of_eq_None_iff)
  with False show ?thesis by (auto simp: group_add_def group_get_def map_add_def split: option.splits)
qed

lemma group_get_fold: "group_get (fold (\<lambda>u. group_add (key u) (val u)) us g) k = group_get g k @ map val (filter (\<lambda>u. key u = k) us)"
  by (induction us arbitrary: g) (auto simp: group_get_add)

text \<open>When the credentials of a snapshot are usable with a configuration\<close>

definition credentials_ok :: "(string \<Rightarrow> bool) \<Rightarrow> int \<Rightarrow> DesiredConfig \<Rightarrow> UserCredential list \<Rightarrow> bool" where
  "credentials_ok ok now c us \<longleftrightarrow>
     (\<forall>u \<in> set us. \<exists>ib. enabled_inbound c (uc_InboundID u) = Some ib \<and>
        (user_skipped now u \<or> validateRuntimeCredential ok ib (uc_Value u) = Inr ()))"

lemma group_panel_users_iff:
  "group_panel_users ok now c us g = Inr g' \<longleftrightarrow> credentials_ok ok now c us \<and>
     g' = fold (\<lambda>u. group_add (uc_InboundID u) (panel_user u)) (filter (\<lambda>u. \<not> user_skipped now u) us) g"
proof (induction us arbitrary: g)
  case Nil
  then show ?case by (auto simp: credentials_ok_def)
next
  case (Cons u us)
  show ?case
  proof (cases "enabled_inbound c (uc_InboundID u)")
    case None
    then show ?thesis by (auto simp: credentials_ok_def)
  next
    case (Some ib)
    with Cons.IH show ?thesis
      by (cases "validateRuntimeCredential ok ib (uc_Value u)")
         (auto simp: credentials_ok_def split: go_error.splits)
  qed
qed

lemma userKey_inject: "userKey u = userKey v \<longleftrightarrow> uc_InboundID u = uc_InboundID v \<and> uc_SubscriberID u = uc_SubscriberID v"
proof
  have n: "CHR ''/'' \<notin> set (format_int i)" for i
    using format_int_chars [of "CHR ''/''" i] by (auto simp: is_digit_char_def byte_of_def)
  have t: "takeWhile (\<lambda>c. c \<noteq> CHR ''/'') (format_int i @ CHR ''/'' # s) = format_int i" for i s
    using n [of i] by (subst takeWhile_append2) auto
  assume "userKey u = userKey v"
  then have e: "format_int (uc_InboundID u) @ CHR ''/'' # format_int (uc_SubscriberID u) =
      format_int (uc_InboundID v) @ CHR ''/'' # format_int (uc_SubscriberID v)" by (simp add: userKey_def)
  from arg_cong [OF e, of "takeWhile (\<lambda>c. c \<noteq> CHR ''/'')"] have "uc_InboundID u = uc_InboundID v" by (simp add: t)
  with e show "uc_InboundID u = uc_InboundID v \<and> uc_SubscriberID u = uc_SubscriberID v" by simp
qed (simp add: userKey_def)

text \<open>The last entry for a key wins, as in a Go map filled by a loop.\<close>

lemma map_of_rev_unique:
  assumes "distinct (map f xs)" and "x \<in> set xs"
  shows "map_of (rev (map (\<lambda>x. (f x, g x)) xs)) (f x) = Some (g x)"
proof -
  have "distinct (map fst (rev (map (\<lambda>x. (f x, g x)) xs)))" using assms(1) by (simp add: rev_map [symmetric] comp_def)
  then show ?thesis using assms(2) by (intro map_of_is_SomeI) auto
qed

definition unchanged_in :: "UserCredential list \<Rightarrow> UserCredential \<Rightarrow> bool" where
  "unchanged_in us u \<longleftrightarrow> (\<exists>v \<in> set us. uc_InboundID v = uc_InboundID u \<and> uc_SubscriberID v = uc_SubscriberID u \<and> sameRuntimeCredential u v)"

lemma unchanged_in_key: "unchanged_in us u \<longleftrightarrow> (\<exists>v \<in> set us. userKey v = userKey u \<and> sameRuntimeCredential u v)"
  by (simp add: unchanged_in_def userKey_inject)

lemma stale_users_eq:
  assumes "distinct (map userKey nextUsers)"
  shows "stale_users users nextUsers = filter (\<lambda>u. \<not> unchanged_in nextUsers u) users"
proof -
  let ?m = "map_of (rev (map (\<lambda>u. (userKey u, u)) nextUsers))"
  have "(case ?m (userKey u) of None \<Rightarrow> True | Some v \<Rightarrow> \<not> sameRuntimeCredential u v) \<longleftrightarrow> \<not> unchanged_in nextUsers u" for u
  proof (cases "\<exists>v \<in> set nextUsers. userKey v = userKey u")
    case True
    then obtain v where v: "v \<in> set nextUsers" "userKey v = userKey u" by blast
    with map_of_rev_unique [OF assms v(1), of "\<lambda>u. u"] have m: "?m (userKey u) = Some v" by simp
    have "w = v" if "w \<in> set nextUsers" "userKey w = userKey u" for w
      using assms v that by (auto simp: distinct_map inj_on_def)
    then have "unchanged_in nextUsers u \<longleftrightarrow> sameRuntimeCredential u v" using v unfolding unchanged_in_key by blast
    with m show ?thesis by simp
  next
    case False
    then have "?m (userKey u) = None" by (auto simp: map_of_eq_None_iff)
    moreover from False have "\<not> unchanged_in nextUsers u" unfolding unchanged_in_key by blast
    ultimately show ?thesis by simp
  qed
  then show ?thesis by (simp add: stale_users_def Let_def)
qed

section \<open>Properties\<close>


lemma example_runtime_run: "runtime_run example_env example_world [CallApplyConfig example_vmess_config] example_running"
proof -
  have "runtime_run example_env example_world ([] @ [CallApplyConfig example_vmess_config]) example_running"
    by (rule runtime_run.call [OF runtime_run.start, where fs = "[]" and r = "Inr ()" and fs' = "[]"])
       (simp_all add: example_apply_config)
  then show ?thesis by simp
qed






text \<open>
  C33. The users that reach the core: panelUsersByInbound succeeds exactly when every user names
  an enabled inbound and every user that is not skipped carries a credential valid for its
  protocol, and then each inbound gets, in order, exactly its users that have a positive id and
  a credential and have not expired, with the rounded-up speed limit.
\<close>

theorem panel_users_exact:
  "(\<exists>g. panelUsersByInbound ok now c us = Inr g) = credentials_ok ok now c us \<and>
   (\<forall>g k. panelUsersByInbound ok now c us = Inr g \<longrightarrow>
      group_get g k = map panel_user (filter (\<lambda>u. uc_InboundID u = k \<and> \<not> user_skipped now u) us))"
proof (intro conjI allI impI)
  show "(\<exists>g. panelUsersByInbound ok now c us = Inr g) = credentials_ok ok now c us"
    by (simp add: panelUsersByInbound_def group_panel_users_iff)
  fix g k assume "panelUsersByInbound ok now c us = Inr g"
  then have "g = fold (\<lambda>u. group_add (uc_InboundID u) (panel_user u)) (filter (\<lambda>u. \<not> user_skipped now u) us) []"
    by (simp add: panelUsersByInbound_def group_panel_users_iff)
  then show "group_get g k = map panel_user (filter (\<lambda>u. uc_InboundID u = k \<and> \<not> user_skipped now u) us)"
    by (simp add: group_get_fold [of uc_InboundID panel_user]) (simp add: group_get_def conj_commute)
qed

definition example_expired :: UserCredential where
  "example_expired = example_user\<lparr>uc_SubscriberID := 12, uc_ExpiresAt := 50\<rparr>"

theorem panel_users_exact_witness:
  "\<exists>g. panelUsersByInbound (\<lambda>v. length v = 36) 100 example_vmess_config [example_user, example_expired] = Inr g \<and>
     group_get g 5 = [panel_user example_user]"
proof -
  have "credentials_ok (\<lambda>v. length v = 36) 100 example_vmess_config [example_user, example_expired]"
    by (simp add: credentials_ok_def enabled_inbound_def example_vmess_config_def example_vmess_def example_user_def
        example_expired_def user_skipped_def validateRuntimeCredential_def protocol_consts)
  then obtain g where g: "panelUsersByInbound (\<lambda>v. length v = 36) 100 example_vmess_config [example_user, example_expired] = Inr g"
    using panel_users_exact [of "\<lambda>v. length v = 36" 100 example_vmess_config "[example_user, example_expired]"] by blast
  have "filter (\<lambda>u. uc_InboundID u = 5 \<and> \<not> user_skipped 100 u) [example_user, example_expired] = [example_user]"
    by (simp add: example_user_def example_expired_def user_skipped_def)
  with panel_users_exact [of "\<lambda>v. length v = 36" 100 example_vmess_config "[example_user, example_expired]",
      THEN conjunct2, rule_format, OF g, of 5] g show ?thesis by simp
qed



text \<open>
  C35. Returning access items that could not be stored: with at most 20000 items pending, the
  newest of the returned items are kept, as many as fit into 20000, so the queue stays bounded
  and nothing pending is lost; with more items pending the slice expression panics.
\<close>

theorem requeue_access_bounded:
  "(length (xr_pendingAccess (rw_runtime w)) \<le> 20000 \<longrightarrow>
      (\<exists>w' kept. RequeueAccess items (fs, w) = (Inr (), fs, w') \<and> suffix kept items \<and>
         xr_pendingAccess (rw_runtime w') = xr_pendingAccess (rw_runtime w) @ kept \<and>
         length kept = min (length items) (20000 - length (xr_pendingAccess (rw_runtime w))))) \<and>
   (length (xr_pendingAccess (rw_runtime w)) > 20000 \<and> items \<noteq> [] \<longrightarrow>
      (\<exists>p. RequeueAccess items (fs, w) = (Inl (ErrPanic p), fs, w)))"
proof (intro conjI impI)
  let ?p = "length (xr_pendingAccess (rw_runtime w))"
  assume p: "?p \<le> 20000"
  show "\<exists>w' kept. RequeueAccess items (fs, w) = (Inr (), fs, w') \<and> suffix kept items \<and>
         xr_pendingAccess (rw_runtime w') = xr_pendingAccess (rw_runtime w) @ kept \<and>
         length kept = min (length items) (20000 - ?p)"
  proof (cases "?p + length items > 20000")
    case False
    then show ?thesis
      by (auto simp: RequeueAccess_def tx_bind_def tx_get_def tx_return_def tx_modify_def min_def)
  next
    case True
    then have n: "nat (int (length items) - (20000 - int ?p)) = ?p + length items - 20000" by simp
    have "slice_from (int (length items) - (20000 - int ?p)) items = Inr (drop (?p + length items - 20000) items)"
      using True p by (simp add: slice_from_def n)
    with True p show ?thesis
      by (auto simp: RequeueAccess_def tx_bind_def tx_get_def tx_lift_def tx_return_def tx_modify_def suffix_drop min_def)
  qed
next
  assume "length (xr_pendingAccess (rw_runtime w)) > 20000 \<and> items \<noteq> []"
  then show "\<exists>p. RequeueAccess items (fs, w) = (Inl (ErrPanic p), fs, w)"
    by (simp add: RequeueAccess_def tx_bind_def tx_get_def tx_lift_def slice_from_def)
qed

definition example_access :: AccessItem where
  "example_access = \<lparr>ai_SessionKey = ''s'', ai_SubscriberID = 1, ai_InboundID = 5, ai_Host = ''h'', ai_Network = ''tcp'',
     ai_Protocol = ''tls'', ai_DestinationPort = 443, ai_StartedAt = 1, ai_LastSeenAt = 2, ai_EndedAt = None,
     ai_UploadBytes = 1, ai_DownloadBytes = 1, ai_ConnectionCount = 1, ai_Active = True\<rparr>"

definition example_pending :: "nat \<Rightarrow> unit RuntimeWorld" where
  "example_pending n = \<lparr>rw_files = [], rw_runtime = \<lparr>xr_active = None, xr_config = None, xr_users = [],
     xr_pendingAccess = replicate n example_access\<rparr>\<rparr>"

theorem requeue_access_bounded_witness:
  "(\<exists>w'. RequeueAccess [example_access] ([], example_pending 19999) = (Inr (), [], w') \<and>
      length (xr_pendingAccess (rw_runtime w')) = 20000) \<and>
   (\<exists>p. RequeueAccess [example_access] ([], example_pending 20001) = (Inl (ErrPanic p), [], example_pending 20001))"
proof
  have l: "length (xr_pendingAccess (rw_runtime (example_pending n))) = n" for n by (simp add: example_pending_def)
  from requeue_access_bounded [THEN conjunct1, rule_format, of "example_pending 19999" "[example_access]" "[]"]
  obtain w' kept where "RequeueAccess [example_access] ([], example_pending 19999) = (Inr (), [], w')"
    "xr_pendingAccess (rw_runtime w') = xr_pendingAccess (rw_runtime (example_pending 19999)) @ kept"
    "length kept = min (length [example_access]) (20000 - length (xr_pendingAccess (rw_runtime (example_pending 19999))))"
    unfolding l by auto
  then show "\<exists>w'. RequeueAccess [example_access] ([], example_pending 19999) = (Inr (), [], w') \<and>
      length (xr_pendingAccess (rw_runtime w')) = 20000" by (simp add: l)
  show "\<exists>p. RequeueAccess [example_access] ([], example_pending 20001) = (Inl (ErrPanic p), [], example_pending 20001)"
    using requeue_access_bounded [THEN conjunct2, rule_format, of "example_pending 20001" "[example_access]" "[]"] l by simp
qed

text \<open>
  The speed limit in Mbit/s: for limits below 2^61 bytes per second it is the least number
  of megabits that is not below the limit, so a user is never slowed below what was granted and
  gets less than one megabit more; a positive limit never becomes 0, which means no limit. From
  2^61 on the product wraps, and 2^61 itself gives 0.
\<close>

lemma speed_limit_rounds_up:
  "(\<forall>bps. 0 < bps \<and> bps < 2 ^ 61 \<longrightarrow>
      int (bps * 8) \<le> speed_mbps bps * 1000000 \<and> speed_mbps bps * 1000000 < int (bps * 8) + 1000000 \<and> 0 < speed_mbps bps) \<and>
   speed_mbps (2 ^ 61) = 0"
proof (intro conjI allI impI)
  fix bps :: nat assume b: "0 < bps \<and> bps < 2 ^ 61"
  have m: "bps * 8 mod 2 ^ 64 = bps * 8" using b by simp
  let ?q = "(bps * 8 + 999999) div 1000000"
  have q: "speed_mbps bps = int ?q" using b by (simp only: speed_mbps_def m) simp
  have d: "?q * 1000000 \<le> bps * 8 + 999999" "bps * 8 + 999999 < ?q * 1000000 + 1000000" by linarith+
  show "int (bps * 8) \<le> speed_mbps bps * 1000000" "speed_mbps bps * 1000000 < int (bps * 8) + 1000000"
    unfolding q using d by linarith+
  show "0 < speed_mbps bps" unfolding q using d b by linarith
next
  show "speed_mbps (2 ^ 61) = 0" by (simp add: speed_mbps_def)
qed

lemma speed_limit_rounds_up_witness: "0 < (125001::nat) \<and> speed_mbps 125001 = 2 \<and> 0 < speed_mbps 125001"
  using speed_limit_rounds_up [THEN conjunct1, rule_format, of 125001] by (simp add: speed_mbps_def)

end
