(* ===== verification/Wal_Log.thy ===== *)
theory Wal_Log
  imports State_Store
begin

text \<open>
  The two contracts the traffic and the access log share. A log keeps rows with a sequence
  number drawn from a counter; draining adds the next row (and may drop old ones), an
  acknowledgement removes the row it names. \<open>wal_log\<close> proves, from the laws of the two steps,
  that no sequence number is used twice, that every pending row was drained and not yet
  acknowledged, and that no row is acknowledged twice. A ledger moves byte counts between an
  accumulator and the log; \<open>byte_ledger\<close> proves that nothing is lost or counted twice.
\<close>

section \<open>Runs of a log\<close>

datatype wal_event = Drained WalRow | Acknowledged WalRow

inductive wal_run ::
  "('db \<Rightarrow> WalRow \<Rightarrow> 'db \<Rightarrow> bool) \<Rightarrow> ('db \<Rightarrow> WalRow \<Rightarrow> 'db \<Rightarrow> bool) \<Rightarrow> ('db \<Rightarrow> 'db \<Rightarrow> bool) \<Rightarrow>
   'db \<Rightarrow> wal_event list \<Rightarrow> 'db \<Rightarrow> bool"
  for drain ack other db0 where
  start: "wal_run drain ack other db0 [] db0"
| drained: "wal_run drain ack other db0 es db \<Longrightarrow> drain db r db' \<Longrightarrow> wal_run drain ack other db0 (es @ [Drained r]) db'"
| acknowledged: "wal_run drain ack other db0 es db \<Longrightarrow> ack db r db' \<Longrightarrow>
    wal_run drain ack other db0 (es @ [Acknowledged r]) db'"
| other: "wal_run drain ack other db0 es db \<Longrightarrow> other db db' \<Longrightarrow> wal_run drain ack other db0 es db'"

fun drained_rows :: "wal_event list \<Rightarrow> WalRow list" where
  "drained_rows [] = []"
| "drained_rows (Drained r # es) = r # drained_rows es"
| "drained_rows (Acknowledged r # es) = drained_rows es"

fun acknowledged_rows :: "wal_event list \<Rightarrow> WalRow list" where
  "acknowledged_rows [] = []"
| "acknowledged_rows (Drained r # es) = acknowledged_rows es"
| "acknowledged_rows (Acknowledged r # es) = r # acknowledged_rows es"

lemma rows_append [simp]:
  "drained_rows (es @ fs) = drained_rows es @ drained_rows fs"
  "acknowledged_rows (es @ fs) = acknowledged_rows es @ acknowledged_rows fs"
  by (induction es rule: drained_rows.induct) simp_all

locale wal_log =
  fixes inv :: "'db \<Rightarrow> bool"
    and rows :: "'db \<Rightarrow> WalRow list"
    and counter :: "'db \<Rightarrow> nat"
    and drain :: "'db \<Rightarrow> WalRow \<Rightarrow> 'db \<Rightarrow> bool"
    and ack :: "'db \<Rightarrow> WalRow \<Rightarrow> 'db \<Rightarrow> bool"
    and other :: "'db \<Rightarrow> 'db \<Rightarrow> bool"
  assumes drain_law: "inv db \<Longrightarrow> drain db r db' \<Longrightarrow> inv db' \<and> wr_sequence r = Suc (counter db) \<and> counter db' = Suc (counter db) \<and>
      set (rows db') \<subseteq> insert r (set (rows db))"
    and ack_law: "inv db \<Longrightarrow> ack db r db' \<Longrightarrow> inv db' \<and> counter db' = counter db \<and> r \<in> set (rows db) \<and>
      (\<forall>x \<in> set (rows db'). x \<in> set (rows db) \<and> x \<noteq> r)"
    and other_law: "inv db \<Longrightarrow> other db db' \<Longrightarrow> inv db' \<and> counter db' = counter db \<and> rows db' = rows db"
begin

lemma run_counter:
  "wal_run drain ack other db0 es db \<Longrightarrow> inv db0 \<Longrightarrow> inv db \<and> counter db0 \<le> counter db"
  by (induction rule: wal_run.induct) (auto dest: drain_law ack_law other_law)

lemma run_drained_sequences:
  "wal_run drain ack other db0 es db \<Longrightarrow> inv db0 \<Longrightarrow>
     map wr_sequence (drained_rows es) = [Suc (counter db0)..<Suc (counter db)]"
proof (induction rule: wal_run.induct)
  case (drained es db r db')
  from run_counter [OF drained(1,4)] have "inv db" "counter db0 \<le> counter db" by auto
  with drained drain_law [OF _ drained(2)] show ?case by simp
next
  case (acknowledged es db r db')
  then show ?case using run_counter [OF acknowledged(1,4)] ack_law [OF _ acknowledged(2)] by simp
next
  case (other es db db')
  then show ?case using run_counter [OF other(1,4)] other_law [OF _ other(2)] by simp
qed simp

lemma run_invariant:
  assumes "wal_run drain ack other db0 es db" and "inv db0" and "rows db0 = []"
  shows "set (rows db) \<subseteq> set (drained_rows es) - set (acknowledged_rows es) \<and>
    set (acknowledged_rows es) \<subseteq> set (drained_rows es) \<and> distinct (acknowledged_rows es)"
  using assms
proof (induction rule: wal_run.induct)
  case (drained es db r db')
  then have i: "inv db" using run_counter by blast
  have fresh: "r \<notin> set (drained_rows es)"
  proof
    assume "r \<in> set (drained_rows es)"
    then have "wr_sequence r \<in> set (map wr_sequence (drained_rows es))" by simp
    then show False
      using run_drained_sequences [OF drained.hyps(1) drained.prems(1)] drain_law [OF i drained.hyps(2)] by auto
  qed
  then show ?case using drained drain_law [OF i drained.hyps(2)] by auto
next
  case (acknowledged es db r db')
  then have "inv db" using run_counter by blast
  with acknowledged show ?case using ack_law [OF _ acknowledged.hyps(2)] by auto
next
  case (other es db db')
  then have "inv db" using run_counter by blast
  with other show ?case using other_law [OF _ other.hyps(2)] by auto
qed simp

lemma exactly_once:
  assumes "wal_run drain ack other db0 es db" and "inv db0" and "rows db0 = []"
  shows "map wr_sequence (drained_rows es) = [Suc (counter db0)..<Suc (counter db)] \<and>
    distinct (acknowledged_rows es) \<and>
    set (acknowledged_rows es) \<subseteq> set (drained_rows es) \<and>
    set (rows db) \<subseteq> set (drained_rows es) - set (acknowledged_rows es)"
  using run_invariant [OF assms] run_drained_sequences [OF assms(1,2)] by blast

end

section \<open>Ledgers\<close>

inductive ledger_run ::
  "('db \<Rightarrow> ('k \<Rightarrow> nat) \<Rightarrow> 'db \<Rightarrow> bool) \<Rightarrow> ('db \<Rightarrow> 'db \<Rightarrow> bool) \<Rightarrow> ('db \<Rightarrow> ('k \<Rightarrow> nat) \<Rightarrow> 'db \<Rightarrow> bool) \<Rightarrow>
   'db \<Rightarrow> ('k \<Rightarrow> nat) \<Rightarrow> ('k \<Rightarrow> nat) \<Rightarrow> 'db \<Rightarrow> bool"
  for add move ack db0 where
  start: "ledger_run add move ack db0 (\<lambda>k. 0) (\<lambda>k. 0) db0"
| added: "ledger_run add move ack db0 i a db \<Longrightarrow> add db d db' \<Longrightarrow> ledger_run add move ack db0 (\<lambda>k. i k + d k) a db'"
| moved: "ledger_run add move ack db0 i a db \<Longrightarrow> move db db' \<Longrightarrow> ledger_run add move ack db0 i a db'"
| confirmed: "ledger_run add move ack db0 i a db \<Longrightarrow> ack db d db' \<Longrightarrow> ledger_run add move ack db0 i (\<lambda>k. a k + d k) db'"

locale byte_ledger =
  fixes inv :: "'db \<Rightarrow> bool"
    and accumulated :: "'db \<Rightarrow> 'k \<Rightarrow> nat"
    and logged :: "'db \<Rightarrow> 'k \<Rightarrow> nat"
    and add :: "'db \<Rightarrow> ('k \<Rightarrow> nat) \<Rightarrow> 'db \<Rightarrow> bool"
    and move :: "'db \<Rightarrow> 'db \<Rightarrow> bool"
    and ack :: "'db \<Rightarrow> ('k \<Rightarrow> nat) \<Rightarrow> 'db \<Rightarrow> bool"
  assumes add_law: "inv db \<Longrightarrow> add db d db' \<Longrightarrow> inv db' \<and> logged db' k = logged db k \<and>
      accumulated db' k = accumulated db k + d k"
    and move_law: "inv db \<Longrightarrow> move db db' \<Longrightarrow> inv db' \<and>
      accumulated db' k + logged db' k = accumulated db k + logged db k"
    and ack_law: "inv db \<Longrightarrow> ack db d db' \<Longrightarrow> inv db' \<and> accumulated db' k = accumulated db k \<and>
      logged db k = logged db' k + d k"
begin

lemma run_conserves:
  assumes "ledger_run add move ack db0 i a db" and "inv db0"
  shows "inv db \<and> (\<forall>k. accumulated db0 k + logged db0 k + i k = accumulated db k + logged db k + a k)"
  using assms
proof (induction rule: ledger_run.induct)
  case (added i a db d db')
  then show ?case using add_law [OF _ added.hyps(2)] by (metis (no_types, lifting) add.commute add.left_commute)
next
  case (moved i a db db')
  then show ?case using move_law [OF _ moved.hyps(2)] by metis
next
  case (confirmed i a db d db')
  then have "inv db" by simp
  note law = ack_law [OF this confirmed.hyps(2)]
  show ?case
  proof (intro conjI allI)
    show "inv db'" using law by blast
    fix k
    from confirmed have "accumulated db0 k + logged db0 k + i k = accumulated db k + logged db k + a k" by blast
    with law [of k] show "accumulated db0 k + logged db0 k + i k = accumulated db' k + logged db' k + (a k + d k)"
      by simp
  qed
qed simp

end

end
