(* ===== verification/Example_Codec.thy ===== *)
theory Example_Codec
  imports Secret_Envelope State_Store
begin

text \<open>
  A concrete instance of the encoder arguments of the store, total on traffic and access batches and with
  an inverse, so that the laws the store's properties assume of json.Marshal and json.Unmarshal
  are seen to hold of an actual pair of functions. A value is written as its list of fields,
  each field with its length in unary in front.
\<close>

fun enc_strs :: "string list \<Rightarrow> string" where
  "enc_strs [] = []"
| "enc_strs (s # ss) = replicate (length s) (CHR ''1'') @ CHR ''0'' # s @ enc_strs ss"

fun dec_strs :: "nat \<Rightarrow> string \<Rightarrow> string list" where
  "dec_strs 0 s = []"
| "dec_strs (Suc n) s =
     (if s = [] then []
      else let k = length (takeWhile (\<lambda>c. c = CHR ''1'') s)
           in take k (drop (Suc k) s) # dec_strs n (drop (k + Suc k) s))"

lemma dec_enc_strs: "length (enc_strs ss) \<le> n \<Longrightarrow> dec_strs n (enc_strs ss) = ss"
proof (induction ss arbitrary: n)
  case Nil
  then show ?case by (cases n) simp_all
next
  case (Cons s ss)
  from Cons.prems obtain m where n: "n = Suc m" by (cases n) simp_all
  have "length (enc_strs ss) \<le> m" using Cons.prems n by simp
  from Cons.IH [OF this] n show ?case by (simp add: takeWhile_replicate_stop Let_def)
qed

definition int_of_text :: "string \<Rightarrow> int" where
  "int_of_text s =
     (if has_prefix s ''-'' then - int (the (parse_digits (drop 1 s))) else int (the (parse_digits s)))"

lemma int_of_text_format [simp]: "int_of_text (format_int i) = i"
proof -
  have "has_prefix (''-'' @ s) ''-''" for s by (simp add: has_prefix_def)
  then show ?thesis by (simp add: int_of_text_def format_int_def format_uint_no_sign)
qed

definition nat_of_text :: "string \<Rightarrow> nat" where
  "nat_of_text s = the (parse_digits s)"

lemma nat_of_text_format [simp]: "nat_of_text (format_uint n) = n"
  by (simp add: nat_of_text_def)

definition item_fields :: "TrafficItem \<Rightarrow> string list" where
  "item_fields i = [format_int (ti_SubscriberID i), format_int (ti_InboundID i), format_uint (ti_QuotaGeneration i),
     format_uint (ti_UploadBytes i), format_uint (ti_DownloadBytes i)]"

fun items_of_fields :: "string list \<Rightarrow> TrafficItem list" where
  "items_of_fields (a # b # c # d # e # rest) =
     \<lparr>ti_SubscriberID = int_of_text a, ti_InboundID = int_of_text b, ti_QuotaGeneration = nat_of_text c,
      ti_UploadBytes = nat_of_text d, ti_DownloadBytes = nat_of_text e\<rparr> # items_of_fields rest"
| "items_of_fields _ = []"

lemma items_of_fields_inverse: "items_of_fields (concat (map item_fields items)) = items"
  by (induction items) (simp_all add: item_fields_def)

definition batch_fields :: "TrafficBatch \<Rightarrow> string list" where
  "batch_fields b = [tb_BootID b, format_uint (tb_Sequence b), format_uint (tb_ConfigVersion b),
     format_int (tb_IntervalStartedAt b), format_int (tb_IntervalEndedAt b), tb_PayloadSHA256 b]
     @ concat (map item_fields (tb_Items b))"

fun batch_of_fields :: "string list \<Rightarrow> TrafficBatch result" where
  "batch_of_fields (a # b # c # d # e # f # rest) =
     Inr \<lparr>tb_BootID = a, tb_Sequence = nat_of_text b, tb_ConfigVersion = nat_of_text c,
          tb_IntervalStartedAt = int_of_text d, tb_IntervalEndedAt = int_of_text e, tb_PayloadSHA256 = f,
          tb_Items = items_of_fields rest\<rparr>"
| "batch_of_fields _ = Inl (Msg ''unexpected end of input'')"

definition access_item_fields :: "AccessItem \<Rightarrow> string list" where
  "access_item_fields i = [ai_SessionKey i, format_int (ai_SubscriberID i), format_int (ai_InboundID i), ai_Host i,
     ai_Network i, ai_Protocol i, format_uint (ai_DestinationPort i), format_int (ai_StartedAt i),
     format_int (ai_LastSeenAt i), (case ai_EndedAt i of None \<Rightarrow> [] | Some e \<Rightarrow> format_int e),
     format_uint (ai_UploadBytes i), format_uint (ai_DownloadBytes i), format_uint (ai_ConnectionCount i),
     (if ai_Active i then ''1'' else [])]"

fun access_items_of_fields :: "string list \<Rightarrow> AccessItem list" where
  "access_items_of_fields (a # b # c # d # e # f # g # h # i # j # k # l # m # n # rest) =
     \<lparr>ai_SessionKey = a, ai_SubscriberID = int_of_text b, ai_InboundID = int_of_text c, ai_Host = d, ai_Network = e,
      ai_Protocol = f, ai_DestinationPort = nat_of_text g, ai_StartedAt = int_of_text h, ai_LastSeenAt = int_of_text i,
      ai_EndedAt = (if j = [] then None else Some (int_of_text j)), ai_UploadBytes = nat_of_text k,
      ai_DownloadBytes = nat_of_text l, ai_ConnectionCount = nat_of_text m, ai_Active = (n \<noteq> [])\<rparr>
     # access_items_of_fields rest"
| "access_items_of_fields _ = []"

lemma format_int_not_Nil [simp]: "format_int i \<noteq> []"
  by (simp add: format_int_def)

lemma access_items_of_fields_inverse: "access_items_of_fields (concat (map access_item_fields items)) = items"
  by (induction items) (auto simp: access_item_fields_def split: option.splits)

definition access_batch_fields :: "AccessBatch \<Rightarrow> string list" where
  "access_batch_fields b = [ab_BootID b, format_uint (ab_Sequence b), format_uint (ab_ConfigVersion b),
     format_int (ab_IntervalStartedAt b), format_int (ab_IntervalEndedAt b), ab_PayloadSHA256 b]
     @ concat (map access_item_fields (ab_Items b))"

fun access_batch_of_fields :: "string list \<Rightarrow> AccessBatch result" where
  "access_batch_of_fields (a # b # c # d # e # f # rest) =
     Inr \<lparr>ab_BootID = a, ab_Sequence = nat_of_text b, ab_ConfigVersion = nat_of_text c,
          ab_IntervalStartedAt = int_of_text d, ab_IntervalEndedAt = int_of_text e, ab_PayloadSHA256 = f,
          ab_Items = access_items_of_fields rest\<rparr>"
| "access_batch_of_fields _ = Inl (Msg ''unexpected end of input'')"

lemma access_batch_of_fields_inverse: "access_batch_of_fields (access_batch_fields b) = Inr b"
  by (simp add: access_batch_fields_def access_items_of_fields_inverse)

definition example_codecs :: Codecs where
  "example_codecs =
     \<lparr>cd_crypto = plain_crypto,
      cd_config_marshal = single_marshal
        \<lparr>sg_KeyID = ''k1'', sg_SHA256 = ''ab'', sg_Signature = [], sg_Config = example_config\<rparr> ''{}'',
      cd_config_unmarshal = (\<lambda>raw. Inr \<lparr>sg_KeyID = ''k1'', sg_SHA256 = ''ab'', sg_Signature = [], sg_Config = example_config\<rparr>),
      cd_traffic_marshal = (\<lambda>b. Inr (enc_strs (batch_fields b))),
      cd_traffic_unmarshal = (\<lambda>raw. batch_of_fields (dec_strs (length raw) raw)),
      cd_access_marshal = (\<lambda>b. Inr (enc_strs (access_batch_fields b))),
      cd_access_unmarshal = (\<lambda>raw. access_batch_of_fields (dec_strs (length raw) raw))\<rparr>"

lemma batch_of_fields_inverse: "batch_of_fields (batch_fields b) = Inr b"
  by (simp add: batch_fields_def items_of_fields_inverse)

lemma example_codecs_inverse: "codecs_inverse example_codecs"
  by (auto simp: codecs_inverse_def example_codecs_def single_marshal_def dec_enc_strs batch_of_fields_inverse
      access_batch_of_fields_inverse
      split: if_splits)

end
