(* ===== verification/Traffic_Log.thy ===== *)
theory Traffic_Log
  imports Wal_Log Example_Codec
begin

text \<open>
  The traffic half of the durable store as a ledger and as a log: what AddTrafficWindow,
  DrainTraffic and AcknowledgeTraffic do to the accumulator and the write-ahead log, the
  interpretations of the two contracts of Wal_Log on these operations, and the properties.
\<close>

section \<open>Bytes\<close>

datatype direction = Upload | Download

type_synonym traffic_key = "(int \<times> int \<times> nat) \<times> direction"

fun row_bytes :: "direction \<Rightarrow> TrafficRow \<Rightarrow> nat" where
  "row_bytes Upload r = tw_upload_bytes r"
| "row_bytes Download r = tw_download_bytes r"

fun item_bytes :: "direction \<Rightarrow> TrafficItem \<Rightarrow> nat" where
  "item_bytes Upload i = ti_UploadBytes i"
| "item_bytes Download i = ti_DownloadBytes i"

fun delta_bytes :: "direction \<Rightarrow> TrafficDelta \<Rightarrow> nat" where
  "delta_bytes Upload d = td_UploadBytes d"
| "delta_bytes Download d = td_DownloadBytes d"

definition keyed_sum :: "('a \<Rightarrow> 'k) \<Rightarrow> ('d \<Rightarrow> 'a \<Rightarrow> nat) \<Rightarrow> 'a list \<Rightarrow> 'k \<times> 'd \<Rightarrow> nat" where
  "keyed_sum key f xs kd = sum_list (map (\<lambda>x. if key x = fst kd then f (snd kd) x else 0) xs)"

lemma keyed_sum_simps [simp]:
  "keyed_sum key f [] kd = 0"
  "keyed_sum key f (x # xs) kd = (if key x = fst kd then f (snd kd) x else 0) + keyed_sum key f xs kd"
  "keyed_sum key f (xs @ ys) kd = keyed_sum key f xs kd + keyed_sum key f ys kd"
  by (simp_all add: keyed_sum_def)

lemma keyed_sum_mset: "mset xs = mset ys \<Longrightarrow> keyed_sum key f xs = keyed_sum key f ys"
proof -
  have "sum_list (map g zs) = sum_mset (image_mset g (mset zs))" for g :: "'a \<Rightarrow> nat" and zs
    by (simp flip: sum_mset_sum_list)
  then show "mset xs = mset ys \<Longrightarrow> ?thesis" by (simp add: keyed_sum_def fun_eq_iff)
qed

lemma keyed_sum_list_all2:
  "list_all2 (\<lambda>x y. key x = key' y \<and> (\<forall>d. f d x = f' d y)) xs ys \<Longrightarrow> keyed_sum key f xs kd = keyed_sum key' f' ys kd"
  by (induction rule: list_all2_induct) auto

definition wal_items :: "Codecs \<Rightarrow> WalRow \<Rightarrow> TrafficItem list" where
  "wal_items E r = (case cd_traffic_unmarshal E (wr_payload_json r) of Inl _ \<Rightarrow> [] | Inr b \<Rightarrow> tb_Items b)"

definition accumulated_bytes :: "Db \<Rightarrow> traffic_key \<Rightarrow> nat" where
  "accumulated_bytes db = keyed_sum traffic_row_key row_bytes (db_traffic_accumulator db)"

definition logged_bytes :: "Codecs \<Rightarrow> Db \<Rightarrow> traffic_key \<Rightarrow> nat" where
  "logged_bytes E db = keyed_sum traffic_item_key item_bytes (concat (map (wal_items E) (db_traffic_wal db)))"

section \<open>The accumulator\<close>

lemma traffic_row_key_merge [simp]: "traffic_row_key (merge_traffic_row x r) = traffic_row_key r"
  by (simp add: traffic_row_key_def merge_traffic_row_def)

lemma upsert_traffic_keys:
  "distinct (map traffic_row_key rows) \<Longrightarrow> distinct (map traffic_row_key (upsert_traffic row rows))"
proof -
  have "map traffic_row_key (map (\<lambda>r. if traffic_row_key r = k then merge_traffic_row row r else r) rows)
      = map traffic_row_key rows" for k by simp
  then show "distinct (map traffic_row_key rows) \<Longrightarrow> ?thesis"
    unfolding upsert_traffic_def by (simp only: split: if_split) auto
qed

lemma merge_row_bytes [simp]: "row_bytes d (merge_traffic_row x r) = row_bytes d r + row_bytes d x"
  by (cases d) (simp_all add: merge_traffic_row_def)

lemma keyed_sum_merge_absent:
  "traffic_row_key row \<notin> traffic_row_key ` set rows \<Longrightarrow>
   map (\<lambda>r. if traffic_row_key r = traffic_row_key row then merge_traffic_row row r else r) rows = rows"
  by (induction rows) auto

lemma keyed_sum_merge:
  "distinct (map traffic_row_key rows) \<Longrightarrow> traffic_row_key row \<in> traffic_row_key ` set rows \<Longrightarrow>
   keyed_sum traffic_row_key row_bytes
     (map (\<lambda>r. if traffic_row_key r = traffic_row_key row then merge_traffic_row row r else r) rows) kd
   = keyed_sum traffic_row_key row_bytes rows kd + (if traffic_row_key row = fst kd then row_bytes (snd kd) row else 0)"
proof (induction rows)
  case (Cons r rows)
  show ?case
  proof (cases "traffic_row_key r = traffic_row_key row")
    case True
    with Cons.prems have "traffic_row_key row \<notin> traffic_row_key ` set rows" by auto
    from keyed_sum_merge_absent [OF this] True show ?thesis by auto
  next
    case False
    with Cons show ?thesis by auto
  qed
qed simp

lemma upsert_traffic_sum:
  "distinct (map traffic_row_key rows) \<Longrightarrow>
   keyed_sum traffic_row_key row_bytes (upsert_traffic row rows) kd
   = keyed_sum traffic_row_key row_bytes rows kd + (if traffic_row_key row = fst kd then row_bytes (snd kd) row else 0)"
  using keyed_sum_merge [of rows row kd] by (auto simp: upsert_traffic_def)

definition valid_delta :: "TrafficDelta \<Rightarrow> bool" where
  "valid_delta d \<longleftrightarrow> 0 < td_SubscriberID d \<and> 0 < td_InboundID d \<and> td_QuotaGeneration d \<le> max_int64 \<and>
     td_UploadBytes d \<le> max_int64 \<and> td_DownloadBytes d \<le> max_int64"

definition add_deltas :: "int \<Rightarrow> int \<Rightarrow> TrafficDelta list \<Rightarrow> TrafficRow list \<Rightarrow> TrafficRow list" where
  "add_deltas st en ds rows = fold (\<lambda>d. upsert_traffic (delta_row st en d)) ds rows"

lemma tx_ok_add_delta:
  "tx_ok (add_delta st en d) db u db' \<Longrightarrow> valid_delta d \<and>
     db' = db\<lparr>db_traffic_accumulator := upsert_traffic (delta_row st en d) (db_traffic_accumulator db)\<rparr>"
  by (auto simp: add_delta_def valid_delta_def store_simps elim!: tx_elims split: if_splits)

lemma tx_ok_add_deltas:
  "tx_ok (tx_iter (add_delta st en) ds) db u db' \<Longrightarrow> list_all valid_delta ds \<and>
     db' = db\<lparr>db_traffic_accumulator := add_deltas st en ds (db_traffic_accumulator db)\<rparr>"
proof (induction ds arbitrary: db)
  case Nil
  then show ?case by (simp add: store_simps add_deltas_def)
next
  case (Cons d ds)
  then obtain w db1 where s: "tx_ok (add_delta st en d) db w db1" and r: "tx_ok (tx_iter (add_delta st en) ds) db1 u db'"
    by (auto elim: tx_elims)
  from tx_ok_add_delta [OF s] Cons.IH [OF r] show ?case by (simp add: add_deltas_def)
qed

lemma AddTrafficWindow_ok:
  "tx_ok (AddTrafficWindow ds st en) db u db' \<Longrightarrow> list_all valid_delta ds \<and> st < en \<and>
     db' = db\<lparr>db_traffic_accumulator := add_deltas st en ds (db_traffic_accumulator db)\<rparr>"
  by (auto simp: AddTrafficWindow_def store_simps add_deltas_def split: if_splits dest!: tx_ok_transactD tx_ok_add_deltas)

lemma add_deltas_keys: "distinct (map traffic_row_key rows) \<Longrightarrow> distinct (map traffic_row_key (add_deltas st en ds rows))"
  by (induction ds arbitrary: rows) (simp_all add: add_deltas_def upsert_traffic_keys)

lemma delta_row_key [simp]: "traffic_row_key (delta_row st en d) = delta_key d"
  by (simp add: traffic_row_key_def delta_row_def delta_key_def)

lemma delta_row_bytes [simp]: "row_bytes k (delta_row st en d) = delta_bytes k d"
  by (cases k) (simp_all add: delta_row_def)

lemma add_deltas_sum:
  "distinct (map traffic_row_key rows) \<Longrightarrow>
   keyed_sum traffic_row_key row_bytes (add_deltas st en ds rows) kd
   = keyed_sum traffic_row_key row_bytes rows kd + keyed_sum delta_key delta_bytes ds kd"
proof (induction ds arbitrary: rows)
  case Nil
  then show ?case by (simp add: add_deltas_def)
next
  case (Cons d ds)
  have "add_deltas st en (d # ds) rows = add_deltas st en ds (upsert_traffic (delta_row st en d) rows)"
    by (simp add: add_deltas_def)
  with Cons.IH [OF upsert_traffic_keys [OF Cons.prems]] upsert_traffic_sum [OF Cons.prems]
  show ?case by simp
qed

section \<open>The log\<close>

definition seq_ok :: "string \<Rightarrow> Db \<Rightarrow> bool" where
  "seq_ok k db \<longleftrightarrow> (\<exists>n \<le> max_int64. db_meta db k = Some (format_uint n))"

definition seq_counter :: "string \<Rightarrow> Db \<Rightarrow> nat" where
  "seq_counter k db = nat (cast_integer (meta_text db k))"

lemma seq_okE:
  assumes "seq_ok k db"
  obtains n where "n \<le> max_int64" "db_meta db k = Some (format_uint n)" "seq_counter k db = n"
  using assms by (auto simp: seq_ok_def seq_counter_def meta_text_def)

lemma next_sequence_iff:
  "seq_ok k db \<Longrightarrow> next_sequence k db = Inr n \<longleftrightarrow> n = Suc (seq_counter k db) \<and> n \<le> max_int64"
  by (erule seq_okE) (auto simp: next_sequence_def scan_uint_def)

lemma seq_ok_upd: "n \<le> max_int64 \<Longrightarrow> db_meta db' = m(k \<mapsto> format_uint n) \<Longrightarrow> seq_ok k db' \<and> seq_counter k db' = n"
  by (auto simp: seq_ok_def seq_counter_def meta_text_def)

lemma scan_all_InrD: "scan_all f rs = Inr xs \<Longrightarrow> list_all2 (\<lambda>r x. f r = Inr x) rs xs"
  by (induction rs arbitrary: xs) (auto simp: bind_result_Inr_iff)

lemma scan_uint_nat: "scan_uint (int m) = Inr n \<longleftrightarrow> n = m \<and> m \<le> max_int64"
  by (auto simp: scan_uint_def)

lemma scan_traffic_row_Inr:
  "scan_traffic_row r = Inr i \<Longrightarrow> traffic_row_key r = traffic_item_key i \<and> row_bytes d r = item_bytes d i"
  by (cases d) (auto simp: scan_traffic_row_def bind_result_Inr_iff scan_uint_nat traffic_row_key_def traffic_item_key_def)

lemma scan_traffic_rows:
  "scan_all scan_traffic_row rs = Inr items \<Longrightarrow>
   list_all2 (\<lambda>x y. traffic_row_key x = traffic_item_key y \<and> (\<forall>d. row_bytes d x = item_bytes d y)) rs items"
  by (induction rs arbitrary: items) (auto simp: bind_result_Inr_iff dest: scan_traffic_row_Inr)

lemma scan_traffic_keys:
  "scan_all scan_traffic_row rs = Inr items \<Longrightarrow> map traffic_item_key items = map traffic_row_key rs"
  by (induction rs arbitrary: items) (auto simp: bind_result_Inr_iff dest: scan_traffic_row_Inr)

lemma scan_all_Nil: "scan_all f rs = Inr [] \<longleftrightarrow> rs = []"
  by (cases rs) (auto simp: bind_result_def split: sum.splits)

definition drained_db :: "Db \<Rightarrow> WalRow \<Rightarrow> Db" where
  "drained_db db row = db\<lparr>db_traffic_wal := db_traffic_wal db @ [row],
     db_meta := (db_meta db)(''traffic_sequence'' \<mapsto> format_uint (wr_sequence row)),
     db_traffic_accumulator := []\<rparr>"

definition batch_row :: "TrafficBatch \<Rightarrow> string \<Rightarrow> int \<Rightarrow> WalRow" where
  "batch_row b raw now = \<lparr>wr_boot_id = tb_BootID b, wr_sequence = tb_Sequence b,
     wr_payload_sha256 = tb_PayloadSHA256 b, wr_payload_json = raw, wr_created_at = now\<rparr>"

lemma next_sequence_meta: "next_sequence k db = Inr n \<Longrightarrow> db_meta db k \<noteq> None"
  by (auto simp: next_sequence_def split: option.splits)

definition accumulator_interval :: "int \<Rightarrow> Db \<Rightarrow> int \<times> int" where
  "accumulator_interval now db = close_interval now
     (rows_interval (map (\<lambda>r. (tw_interval_started_at r, tw_updated_at r))
        (sort_key traffic_row_key (db_traffic_accumulator db))))"

lemma TrafficPayloadSHA256_ignores_hash:
  "TrafficPayloadSHA256 cr mar (b\<lparr>tb_PayloadSHA256 := h\<rparr>) = TrafficPayloadSHA256 cr mar b"
  by (simp add: TrafficPayloadSHA256_def canonical_traffic_batch_def)

lemma store_traffic_batch_ok:
  "tx_ok (store_traffic_batch E now b0) db b db' \<Longrightarrow> db_meta db ''traffic_sequence'' \<noteq> None \<Longrightarrow>
     b = b0\<lparr>tb_PayloadSHA256 := tb_PayloadSHA256 b\<rparr> \<and>
     TrafficPayloadSHA256 (cd_crypto E) (cd_traffic_marshal E) b = Inr (tb_PayloadSHA256 b) \<and>
     (tb_BootID b, tb_Sequence b) \<notin> wal_key ` set (db_traffic_wal db) \<and>
     (\<exists>raw. cd_traffic_marshal E b = Inr raw \<and> db' = drained_db db (batch_row b raw now))"
  by (auto elim!: tx_ok_bindE simp: store_traffic_batch_def store_simps bind_result_Inr_iff insert_wal_def
      TrafficPayloadSHA256_ignores_hash wal_key_def batch_row_def drained_db_def split: if_splits)

lemma DrainTraffic_Some:
  assumes "tx_ok (DrainTraffic E now boot cv) db (Some b) db'"
  shows "next_sequence ''traffic_sequence'' db = Inr (tb_Sequence b) \<and>
    b = traffic_batch_of boot (tb_Sequence b) cv (accumulator_interval now db) (tb_Items b)
          \<lparr>tb_PayloadSHA256 := tb_PayloadSHA256 b\<rparr> \<and>
    scan_all scan_traffic_row (sort_key traffic_row_key (db_traffic_accumulator db)) = Inr (tb_Items b) \<and>
    tb_Items b \<noteq> [] \<and>
    TrafficPayloadSHA256 (cd_crypto E) (cd_traffic_marshal E) b = Inr (tb_PayloadSHA256 b) \<and>
    (tb_BootID b, tb_Sequence b) \<notin> wal_key ` set (db_traffic_wal db) \<and>
    (\<exists>raw. cd_traffic_marshal E b = Inr raw \<and> db' = drained_db db (batch_row b raw now))"
proof -
  from assms obtain items n where
    1: "scan_all scan_traffic_row (sort_key traffic_row_key (db_traffic_accumulator db)) = Inr items" "items \<noteq> []"
    and 2: "next_sequence ''traffic_sequence'' db = Inr n"
    and 3: "tx_ok (store_traffic_batch E now (traffic_batch_of boot n cv (accumulator_interval now db) items)) db b db'"
    unfolding DrainTraffic_def accumulator_interval_def
    by (auto elim!: tx_ok_bindE dest!: tx_ok_transactD simp: store_simps bind_result_Inr_iff split: if_splits)
  note s = store_traffic_batch_ok [OF 3 next_sequence_meta [OF 2]]
  then have "tb_Sequence b = n" "tb_Items b = items"
    by (metis (no_types, lifting) TrafficBatch.select_convs(2,7) TrafficBatch.surjective TrafficBatch.update_convs(6) traffic_batch_of_def)+
  with 1 2 s show ?thesis by auto
qed

lemma DrainTraffic_None:
  "tx_ok (DrainTraffic E now boot cv) db None db' \<Longrightarrow> db' = db \<and> db_traffic_accumulator db = []"
  unfolding DrainTraffic_def
  by (auto elim!: tx_ok_bindE dest!: tx_ok_transactD simp: store_simps Let_def scan_all_Nil split: if_splits)
     (metis mset_sort mset_zero_iff)

lemma AcknowledgeTraffic_okE:
  assumes "tx_ok (AcknowledgeTraffic boot sq hash) db u db'"
  obtains r where "filter (wal_matches boot sq hash) (db_traffic_wal db) = [r]"
    "db' = db\<lparr>db_traffic_wal := filter (\<lambda>r. \<not> wal_matches boot sq hash r) (db_traffic_wal db)\<rparr>"
  using assms that
  by (auto simp: AcknowledgeTraffic_def store_simps length_Suc_conv elim!: tx_elims split: if_splits)

section \<open>Invariant and steps\<close>

definition traffic_row_ok :: "Codecs \<Rightarrow> WalRow \<Rightarrow> bool" where
  "traffic_row_ok E r \<longleftrightarrow>
     (\<exists>b. cd_traffic_marshal E b = Inr (wr_payload_json r) \<and> r = batch_row b (wr_payload_json r) (wr_created_at r) \<and>
          TrafficPayloadSHA256 (cd_crypto E) (cd_traffic_marshal E) b = Inr (tb_PayloadSHA256 b))"

definition traffic_inv :: "Codecs \<Rightarrow> Db \<Rightarrow> bool" where
  "traffic_inv E db \<longleftrightarrow> codecs_inverse E \<and> seq_ok ''traffic_sequence'' db \<and>
     distinct (map traffic_row_key (db_traffic_accumulator db)) \<and>
     distinct (map wal_key (db_traffic_wal db)) \<and>
     (\<forall>r \<in> set (db_traffic_wal db). wr_sequence r \<le> seq_counter ''traffic_sequence'' db \<and> traffic_row_ok E r)"

definition traffic_frame :: "Db \<Rightarrow> Db \<Rightarrow> bool" where
  "traffic_frame db db' \<longleftrightarrow>
     db_traffic_accumulator db' = db_traffic_accumulator db \<and> db_traffic_wal db' = db_traffic_wal db \<and>
     db_meta db' ''traffic_sequence'' = db_meta db ''traffic_sequence''"

definition traffic_add :: "Db \<Rightarrow> (traffic_key \<Rightarrow> nat) \<Rightarrow> Db \<Rightarrow> bool" where
  "traffic_add db d db' \<longleftrightarrow>
     (\<exists>ds st en. tx_ok (AddTrafficWindow ds st en) db () db' \<and> d = keyed_sum delta_key delta_bytes ds)"

definition traffic_drain :: "Codecs \<Rightarrow> Db \<Rightarrow> WalRow \<Rightarrow> Db \<Rightarrow> bool" where
  "traffic_drain E db r db' \<longleftrightarrow>
     (\<exists>now boot cv b raw. tx_ok (DrainTraffic E now boot cv) db (Some b) db' \<and>
        cd_traffic_marshal E b = Inr raw \<and> r = batch_row b raw now)"

definition traffic_ack_row :: "Db \<Rightarrow> WalRow \<Rightarrow> Db \<Rightarrow> bool" where
  "traffic_ack_row db r db' \<longleftrightarrow> r \<in> set (db_traffic_wal db) \<and>
     tx_ok (AcknowledgeTraffic (wr_boot_id r) (wr_sequence r) (wr_payload_sha256 r)) db () db'"

definition traffic_move :: "Codecs \<Rightarrow> Db \<Rightarrow> Db \<Rightarrow> bool" where
  "traffic_move E db db' \<longleftrightarrow> (\<exists>r. traffic_drain E db r db') \<or> traffic_frame db db'"

definition traffic_other :: "Db \<Rightarrow> Db \<Rightarrow> bool" where
  "traffic_other db db' \<longleftrightarrow> (\<exists>d. traffic_add db d db') \<or> traffic_frame db db'"

definition traffic_ack :: "Codecs \<Rightarrow> Db \<Rightarrow> (traffic_key \<Rightarrow> nat) \<Rightarrow> Db \<Rightarrow> bool" where
  "traffic_ack E db d db' \<longleftrightarrow>
     (\<exists>r. traffic_ack_row db r db' \<and> d = keyed_sum traffic_item_key item_bytes (wal_items E r))"

lemma seq_frame: "db_meta db' k = db_meta db k \<Longrightarrow> seq_ok k db' = seq_ok k db \<and> seq_counter k db' = seq_counter k db"
  by (simp add: seq_ok_def seq_counter_def meta_text_def)

lemma traffic_inv_frame:
  assumes "traffic_inv E db" and "traffic_frame db db'"
  shows "traffic_inv E db'"
  using assms seq_frame [of db' "''traffic_sequence''" db] by (simp add: traffic_inv_def traffic_frame_def)

lemma traffic_add_props:
  assumes "traffic_inv E db" and "traffic_add db d db'"
  shows "traffic_inv E db'" and "db_traffic_wal db' = db_traffic_wal db"
    and "seq_counter ''traffic_sequence'' db' = seq_counter ''traffic_sequence'' db"
    and "accumulated_bytes db' k = accumulated_bytes db k + d k"
proof -
  from assms(2) obtain ds st en where d: "d = keyed_sum delta_key delta_bytes ds"
    and db': "db' = db\<lparr>db_traffic_accumulator := add_deltas st en ds (db_traffic_accumulator db)\<rparr>"
    by (auto simp: traffic_add_def dest: AddTrafficWindow_ok)
  have k: "distinct (map traffic_row_key (db_traffic_accumulator db))" using assms(1) by (simp add: traffic_inv_def)
  have m: "db_meta db' ''traffic_sequence'' = db_meta db ''traffic_sequence''" by (simp add: db')
  show "traffic_inv E db'" "seq_counter ''traffic_sequence'' db' = seq_counter ''traffic_sequence'' db"
    using assms(1) seq_frame [OF m] add_deltas_keys [OF k, of st en ds] by (simp_all add: traffic_inv_def db')
  show "db_traffic_wal db' = db_traffic_wal db" by (simp add: db')
  show "accumulated_bytes db' k = accumulated_bytes db k + d k"
    using add_deltas_sum [OF k] by (simp add: accumulated_bytes_def db' d)
qed

lemma traffic_drain_props:
  assumes "traffic_inv E db" and "traffic_drain E db r db'"
  shows "traffic_inv E db'" and "db_traffic_wal db' = db_traffic_wal db @ [r]"
    and "wr_sequence r = Suc (seq_counter ''traffic_sequence'' db)"
    and "seq_counter ''traffic_sequence'' db' = Suc (seq_counter ''traffic_sequence'' db)"
    and "db_traffic_accumulator db' = []"
    and "keyed_sum traffic_item_key item_bytes (wal_items E r) k = accumulated_bytes db k"
proof -
  from assms(2) obtain now boot cv b raw where ok: "tx_ok (DrainTraffic E now boot cv) db (Some b) db'"
    and raw: "cd_traffic_marshal E b = Inr raw" and r: "r = batch_row b raw now"
    by (auto simp: traffic_drain_def)
  note D = DrainTraffic_Some [OF ok]
  have db': "db' = drained_db db r" using D raw r by auto
  from assms(1) have s: "seq_ok ''traffic_sequence'' db" and inv: "codecs_inverse E" by (simp_all add: traffic_inv_def)
  from D next_sequence_iff [OF s] have n: "tb_Sequence b = Suc (seq_counter ''traffic_sequence'' db)" "tb_Sequence b \<le> max_int64"
    by auto
  have sq: "seq_ok ''traffic_sequence'' db'" "seq_counter ''traffic_sequence'' db' = tb_Sequence b"
    using seq_ok_upd [OF n(2), of db' "db_meta db" "''traffic_sequence''"] by (simp_all add: db' drained_db_def r batch_row_def)
  show "db_traffic_wal db' = db_traffic_wal db @ [r]" "db_traffic_accumulator db' = []"
    by (simp_all add: db' drained_db_def)
  show "wr_sequence r = Suc (seq_counter ''traffic_sequence'' db)"
    "seq_counter ''traffic_sequence'' db' = Suc (seq_counter ''traffic_sequence'' db)"
    using n sq by (simp_all add: r batch_row_def)
  have "traffic_row_ok E r" using raw D by (auto simp: traffic_row_ok_def r batch_row_def)
  moreover have "wal_key r \<notin> wal_key ` set (db_traffic_wal db)"
    using D by (simp add: r batch_row_def wal_key_def)
  ultimately show "traffic_inv E db'"
    using assms(1) sq n by (auto simp: traffic_inv_def db' drained_db_def r batch_row_def)
  have "wal_items E r = tb_Items b" using inv raw by (simp add: wal_items_def r batch_row_def codecs_inverse_def)
  moreover have "list_all2 (\<lambda>x y. traffic_row_key x = traffic_item_key y \<and> (\<forall>d. row_bytes d x = item_bytes d y))
      (sort_key traffic_row_key (db_traffic_accumulator db)) (tb_Items b)"
    using D by (simp add: scan_traffic_rows)
  ultimately show "keyed_sum traffic_item_key item_bytes (wal_items E r) k = accumulated_bytes db k"
    by (simp add: accumulated_bytes_def keyed_sum_list_all2 [symmetric] keyed_sum_mset [OF mset_sort])
qed

lemma traffic_ack_props:
  assumes "traffic_inv E db" and "traffic_ack_row db r db'"
  shows "traffic_inv E db'" and "mset (db_traffic_wal db) = add_mset r (mset (db_traffic_wal db'))"
    and "r \<notin> set (db_traffic_wal db')"
    and "seq_counter ''traffic_sequence'' db' = seq_counter ''traffic_sequence'' db"
    and "db_traffic_accumulator db' = db_traffic_accumulator db"
proof -
  let ?m = "wal_matches (wr_boot_id r) (wr_sequence r) (wr_payload_sha256 r)"
  from assms(2) obtain x where r: "r \<in> set (db_traffic_wal db)" and x: "filter ?m (db_traffic_wal db) = [x]"
    and db': "db' = db\<lparr>db_traffic_wal := filter (\<lambda>y. \<not> ?m y) (db_traffic_wal db)\<rparr>"
    by (auto simp: traffic_ack_row_def elim: AcknowledgeTraffic_okE)
  have "?m r" by (simp add: wal_matches_def)
  with r have "r \<in> set (filter ?m (db_traffic_wal db))" by simp
  with x have "x = r" by simp
  have "mset (db_traffic_wal db) = mset (filter ?m (db_traffic_wal db)) + mset (filter (\<lambda>y. \<not> ?m y) (db_traffic_wal db))"
    by (simp add: multiset_partition)
  with x \<open>x = r\<close> show "mset (db_traffic_wal db) = add_mset r (mset (db_traffic_wal db'))" by (simp add: db')
  show "r \<notin> set (db_traffic_wal db')" using \<open>?m r\<close> by (simp add: db')
  have m: "db_meta db' ''traffic_sequence'' = db_meta db ''traffic_sequence''" by (simp add: db')
  then show "seq_counter ''traffic_sequence'' db' = seq_counter ''traffic_sequence'' db" using seq_frame by blast
  show "db_traffic_accumulator db' = db_traffic_accumulator db" by (simp add: db')
  show "traffic_inv E db'" using assms(1) seq_frame [OF m] by (auto simp: traffic_inv_def db' distinct_map_filter)
qed

interpretation traffic_log: wal_log "traffic_inv E" db_traffic_wal "seq_counter ''traffic_sequence''"
  "traffic_drain E" traffic_ack_row traffic_other for E
proof
  fix db r db'
  assume i: "traffic_inv E db"
  { assume "traffic_drain E db r db'"
    from traffic_drain_props [OF i this]
    show "traffic_inv E db' \<and> wr_sequence r = Suc (seq_counter ''traffic_sequence'' db) \<and>
      seq_counter ''traffic_sequence'' db' = Suc (seq_counter ''traffic_sequence'' db) \<and>
      set (db_traffic_wal db') \<subseteq> insert r (set (db_traffic_wal db))" by auto }
  { assume a: "traffic_ack_row db r db'"
    note p = traffic_ack_props [OF i a]
    from p(2) have "set (db_traffic_wal db) = insert r (set (db_traffic_wal db'))"
      by (metis set_mset_add_mset_insert set_mset_mset)
    with p show "traffic_inv E db' \<and> seq_counter ''traffic_sequence'' db' = seq_counter ''traffic_sequence'' db \<and>
      r \<in> set (db_traffic_wal db) \<and> (\<forall>x\<in>set (db_traffic_wal db'). x \<in> set (db_traffic_wal db) \<and> x \<noteq> r)" by auto }
  { assume "traffic_other db db'"
    then consider d where "traffic_add db d db'" | "traffic_frame db db'" by (auto simp: traffic_other_def)
    then show "traffic_inv E db' \<and> seq_counter ''traffic_sequence'' db' = seq_counter ''traffic_sequence'' db \<and>
      db_traffic_wal db' = db_traffic_wal db"
    proof cases
      case 1
      from traffic_add_props [OF i 1] show ?thesis by simp
    next
      case 2
      then have "seq_counter ''traffic_sequence'' db' = seq_counter ''traffic_sequence'' db"
        using seq_frame unfolding traffic_frame_def by blast
      with traffic_inv_frame [OF i 2] 2 show ?thesis unfolding traffic_frame_def by blast
    qed }
qed

lemma keyed_sum_concat:
  "keyed_sum key f (concat (map g rs)) kd = sum_mset (image_mset (\<lambda>r. keyed_sum key f (g r) kd) (mset rs))"
  by (induction rs) simp_all

lemma logged_bytes_mset: "mset (db_traffic_wal db) = add_mset r (mset (db_traffic_wal db')) \<Longrightarrow>
    logged_bytes E db k = logged_bytes E db' k + keyed_sum traffic_item_key item_bytes (wal_items E r) k"
  by (simp add: logged_bytes_def keyed_sum_concat)

interpretation traffic_ledger: byte_ledger "traffic_inv E" accumulated_bytes "logged_bytes E"
  traffic_add "traffic_move E" "traffic_ack E" for E
proof
  fix db d db' k
  assume i: "traffic_inv E db"
  { assume "traffic_add db d db'"
    from traffic_add_props [OF i this] show "traffic_inv E db' \<and> logged_bytes E db' k = logged_bytes E db k \<and>
      accumulated_bytes db' k = accumulated_bytes db k + d k" by (simp add: logged_bytes_def) }
  { assume "traffic_move E db db'"
    then consider r where "traffic_drain E db r db'" | "traffic_frame db db'" by (auto simp: traffic_move_def)
    then show "traffic_inv E db' \<and>
      accumulated_bytes db' k + logged_bytes E db' k = accumulated_bytes db k + logged_bytes E db k"
    proof cases
      case 1
      from traffic_drain_props [OF i 1] show ?thesis by (simp add: logged_bytes_def accumulated_bytes_def)
    next
      case 2
      with traffic_inv_frame [OF i 2] show ?thesis
        by (simp add: logged_bytes_def accumulated_bytes_def traffic_frame_def)
    qed }
  { assume "traffic_ack E db d db'"
    then obtain r where a: "traffic_ack_row db r db'" and d: "d = keyed_sum traffic_item_key item_bytes (wal_items E r)"
      by (auto simp: traffic_ack_def)
    from traffic_ack_props [OF i a] show "traffic_inv E db' \<and> accumulated_bytes db' k = accumulated_bytes db k \<and>
      logged_bytes E db k = logged_bytes E db' k + d k" by (simp add: accumulated_bytes_def d logged_bytes_mset) }
qed

section \<open>Progress\<close>

definition fresh_db :: Db where
  "fresh_db = empty_db\<lparr>db_meta := [''schema_version'' \<mapsto> ''1'', ''traffic_sequence'' \<mapsto> ''0'', ''access_sequence'' \<mapsto> ''0'',
     ''applied_config_version'' \<mapsto> ''0'', ''applied_config_hash'' \<mapsto> [], ''applied_user_revision'' \<mapsto> ''0'']\<rparr>"

lemma migrate_fresh: "migrate ([], empty_db) = (Inr (), [], fresh_db)"
  by (simp add: migrate_def schema_defaults_def tx_bind_def meta_init_def empty_db_def fresh_db_def)

lemma format_zero: "''0'' = format_uint 0"
  by code_simp

lemma fresh_db_seq: "seq_ok ''traffic_sequence'' fresh_db \<and> seq_counter ''traffic_sequence'' fresh_db = 0"
  by (rule seq_ok_upd [of 0 _ "db_meta fresh_db"])
     (auto simp: max_int64_def fresh_db_def fun_upd_def format_zero [symmetric])

lemma traffic_inv_fresh: "codecs_inverse E \<Longrightarrow> traffic_inv E fresh_db"
  using fresh_db_seq by (simp add: traffic_inv_def fresh_db_def empty_db_def)

definition row_fits :: "TrafficRow \<Rightarrow> bool" where
  "row_fits r \<longleftrightarrow> tw_upload_bytes r \<le> max_int64 \<and> tw_download_bytes r \<le> max_int64"

definition traffic_marshal_total :: "Codecs \<Rightarrow> bool" where
  "traffic_marshal_total E \<longleftrightarrow> (\<forall>b. \<exists>raw. cd_traffic_marshal E b = Inr raw)"

lemma scan_all_fits: "list_all row_fits rs \<Longrightarrow> \<exists>items. scan_all scan_traffic_row rs = Inr items"
  by (induction rs) (auto simp: scan_traffic_row_def row_fits_def scan_uint_nat [THEN iffD2])

lemma store_traffic_batch_run:
  assumes "traffic_marshal_total E" and "(tb_BootID b0, tb_Sequence b0) \<notin> wal_key ` set (db_traffic_wal db)"
    and "db_meta db ''traffic_sequence'' \<noteq> None"
  shows "\<exists>hash raw. store_traffic_batch E now b0 ([], db) =
    (Inr (b0\<lparr>tb_PayloadSHA256 := hash\<rparr>), [], drained_db db (batch_row (b0\<lparr>tb_PayloadSHA256 := hash\<rparr>) raw now))"
proof -
  obtain raw0 where 0: "cd_traffic_marshal E (canonical_traffic_batch b0) = Inr raw0"
    using assms(1) unfolding traffic_marshal_total_def by blast
  let ?h = "hex_digest (cd_crypto E) raw0"
  obtain raw where 1: "cd_traffic_marshal E (b0\<lparr>tb_PayloadSHA256 := ?h\<rparr>) = Inr raw"
    using assms(1) unfolding traffic_marshal_total_def by blast
  from assms(2,3) 0 1 have "store_traffic_batch E now b0 ([], db) =
      (Inr (b0\<lparr>tb_PayloadSHA256 := ?h\<rparr>), [], drained_db db (batch_row (b0\<lparr>tb_PayloadSHA256 := ?h\<rparr>) raw now))"
    by (auto simp: store_traffic_batch_def tx_bind_def TrafficPayloadSHA256_def insert_wal_def wal_key_def
        meta_update_def drained_db_def batch_row_def)
  then show ?thesis by blast
qed

lemma drain_runs:
  assumes "traffic_inv E db" and "seq_counter ''traffic_sequence'' db < max_int64"
    and "db_traffic_accumulator db \<noteq> []" and "list_all row_fits (db_traffic_accumulator db)"
    and "traffic_marshal_total E"
  shows "\<exists>b db'. DrainTraffic E now boot cv ([], db) = (Inr (Some b), [], db')"
proof -
  let ?rows = "sort_key traffic_row_key (db_traffic_accumulator db)" and ?n = "Suc (seq_counter ''traffic_sequence'' db)"
  from scan_all_fits [of ?rows] assms(4) obtain items where i: "scan_all scan_traffic_row ?rows = Inr items"
    by (auto simp: list.pred_set)
  with assms(3) have "items \<noteq> []" by (metis mset_sort mset_zero_iff scan_all_Nil)
  have s: "seq_ok ''traffic_sequence'' db" using assms(1) by (simp add: traffic_inv_def)
  then have n: "next_sequence ''traffic_sequence'' db = Inr ?n" using assms(2) by (simp add: next_sequence_iff)
  let ?b0 = "traffic_batch_of boot ?n cv (close_interval now (rows_interval (map (\<lambda>r. (tw_interval_started_at r, tw_updated_at r)) ?rows))) items"
  have "(tb_BootID ?b0, tb_Sequence ?b0) \<notin> wal_key ` set (db_traffic_wal db)"
    using assms(1) by (auto simp: traffic_inv_def traffic_batch_of_def wal_key_def)
  from store_traffic_batch_run [OF assms(5) this next_sequence_meta [OF n], of now]
  obtain hash raw where "store_traffic_batch E now ?b0 ([], db) =
      (Inr (?b0\<lparr>tb_PayloadSHA256 := hash\<rparr>), [], drained_db db (batch_row (?b0\<lparr>tb_PayloadSHA256 := hash\<rparr>) raw now))"
    by blast
  with i n \<open>items \<noteq> []\<close> show ?thesis
    unfolding DrainTraffic_def
    by (intro exI, intro transact_no_faults(1)) (simp add: tx_bind_def)
qed

section \<open>Properties\<close>


definition example_delta :: TrafficDelta where
  "example_delta = \<lparr>td_SubscriberID = 5, td_InboundID = 2, td_QuotaGeneration = 1, td_UploadBytes = 100, td_DownloadBytes = 900\<rparr>"

definition example_added_db :: Db where
  "example_added_db = fresh_db\<lparr>db_traffic_accumulator := [delta_row 1 2 example_delta]\<rparr>"

lemma example_add: "traffic_add fresh_db (keyed_sum delta_key delta_bytes [example_delta]) example_added_db"
proof -
  have "AddTrafficWindow [example_delta] 1 2 ([], fresh_db) = (Inr (), [], example_added_db)"
    unfolding AddTrafficWindow_def
    by (simp add: transact_def add_delta_def tx_bind_def sql_uint_def max_int64_def example_delta_def fresh_db_def
        empty_db_def example_added_db_def upsert_traffic_def)
  then show ?thesis by (auto simp: traffic_add_def intro: tx_okI)
qed

lemma example_codecs_total: "traffic_marshal_total example_codecs"
  by (simp add: traffic_marshal_total_def example_codecs_def)

lemma example_added_facts:
  "traffic_inv example_codecs example_added_db" "seq_counter ''traffic_sequence'' example_added_db < max_int64"
  "db_traffic_accumulator example_added_db \<noteq> []" "list_all row_fits (db_traffic_accumulator example_added_db)"
  using traffic_add_props [OF traffic_inv_fresh [OF example_codecs_inverse] example_add] fresh_db_seq
  by (auto simp: max_int64_def example_added_db_def row_fits_def delta_row_def example_delta_def)

lemma example_drain: "\<exists>r db'. traffic_drain example_codecs example_added_db r db'"
proof -
  from drain_runs [OF example_added_facts example_codecs_total] obtain b db'
    where "DrainTraffic example_codecs 3 ''boot'' 1 ([], example_added_db) = (Inr (Some b), [], db')" by blast
  then have ok: "tx_ok (DrainTraffic example_codecs 3 ''boot'' 1) example_added_db (Some b) db'" by (rule tx_okI)
  from DrainTraffic_Some [OF this] obtain raw where "cd_traffic_marshal example_codecs b = Inr raw" by blast
  with ok show ?thesis unfolding traffic_drain_def by blast
qed


text \<open>
  C14. The traffic log delivers each batch at most once and never forgets one that is not
  acknowledged by accident: from a fresh database the drained batches carry the sequence numbers
  1, 2, 3, ... without gaps, an acknowledgement removes only the batch it names, no batch is
  acknowledged twice, and every pending batch was drained and is not acknowledged.
\<close>

theorem traffic_log_exactly_once:
  assumes "codecs_inverse E" and "wal_run (traffic_drain E) traffic_ack_row traffic_other fresh_db es db"
  shows "map wr_sequence (drained_rows es) = [1..<Suc (seq_counter ''traffic_sequence'' db)] \<and>
    distinct (acknowledged_rows es) \<and> set (acknowledged_rows es) \<subseteq> set (drained_rows es) \<and>
    set (db_traffic_wal db) \<subseteq> set (drained_rows es) - set (acknowledged_rows es)"
proof -
  have "db_traffic_wal fresh_db = []" by (simp add: fresh_db_def empty_db_def)
  from traffic_log.exactly_once [OF assms(2) traffic_inv_fresh [OF assms(1)] this] fresh_db_seq
  show ?thesis by (simp del: upt_Suc)
qed

theorem traffic_log_exactly_once_witness:
  "\<exists>r db. wal_run (traffic_drain example_codecs) traffic_ack_row traffic_other fresh_db [Drained r] db \<and>
     wr_sequence r = 1"
proof -
  obtain r db' where d: "traffic_drain example_codecs example_added_db r db'" using example_drain by blast
  have "traffic_other fresh_db example_added_db" using example_add by (auto simp: traffic_other_def)
  then have "wal_run (traffic_drain example_codecs) traffic_ack_row traffic_other fresh_db [] example_added_db"
    by (blast intro: wal_run.other wal_run.start)
  from wal_run.drained [OF this d]
  have run: "wal_run (traffic_drain example_codecs) traffic_ack_row traffic_other fresh_db [Drained r] db'" by simp
  from traffic_log_exactly_once [OF example_codecs_inverse run] have "[wr_sequence r] = [1..<Suc (seq_counter ''traffic_sequence'' db')]"
    by simp
  then have "wr_sequence r = 1" by (cases "seq_counter ''traffic_sequence'' db'") (auto split: if_splits)
  with run show ?thesis by blast
qed

text \<open>
  C21. A drain makes progress: when the counters fit in an int64, the sequence is not exhausted
  and no statement fails, DrainTraffic returns a batch with the next sequence number whose items
  are the accumulator's rows, one per row in key order, with their byte counts, the payload
  digest matches the batch, the accumulator is empty afterwards and the batch is appended to the
  log.
\<close>

theorem drain_moves_accumulator_to_log:
  assumes "traffic_inv E db" and "seq_counter ''traffic_sequence'' db < max_int64"
    and "db_traffic_accumulator db \<noteq> []" and "list_all row_fits (db_traffic_accumulator db)"
    and "traffic_marshal_total E"
  shows "\<exists>b db' r. DrainTraffic E now boot cv ([], db) = (Inr (Some b), [], db') \<and>
    tb_Sequence b = Suc (seq_counter ''traffic_sequence'' db) \<and>
    map traffic_item_key (tb_Items b) = map traffic_row_key (sort_key traffic_row_key (db_traffic_accumulator db)) \<and>
    (\<forall>k. keyed_sum traffic_item_key item_bytes (tb_Items b) k = accumulated_bytes db k) \<and>
    TrafficPayloadSHA256 (cd_crypto E) (cd_traffic_marshal E) b = Inr (tb_PayloadSHA256 b) \<and>
    db_traffic_accumulator db' = [] \<and> db_traffic_wal db' = db_traffic_wal db @ [r] \<and>
    cd_traffic_unmarshal E (wr_payload_json r) = Inr b"
proof -
  from drain_runs [OF assms] obtain b db' where run: "DrainTraffic E now boot cv ([], db) = (Inr (Some b), [], db')" by blast
  then have ok: "tx_ok (DrainTraffic E now boot cv) db (Some b) db'" by (rule tx_okI)
  note D = DrainTraffic_Some [OF ok]
  then obtain raw where raw: "cd_traffic_marshal E b = Inr raw" by blast
  let ?r = "batch_row b raw now"
  have d: "traffic_drain E db ?r db'" using ok raw unfolding traffic_drain_def by blast
  note P = traffic_drain_props [OF assms(1) d]
  have dec: "cd_traffic_unmarshal E (wr_payload_json ?r) = Inr b"
    using raw assms(1) by (simp add: traffic_inv_def codecs_inverse_def batch_row_def)
  have keys: "map traffic_item_key (tb_Items b) = map traffic_row_key (sort_key traffic_row_key (db_traffic_accumulator db))"
    using D by (blast intro: scan_traffic_keys)
  have "keyed_sum traffic_item_key item_bytes (tb_Items b) k = accumulated_bytes db k" for k
    using P(6) dec by (simp add: wal_items_def)
  with run P keys D dec show ?thesis
    by (intro exI [of _ b] exI [of _ db'] exI [of _ ?r]) (simp add: batch_row_def)
qed

theorem drain_moves_accumulator_to_log_witness:
  "\<exists>b db'. DrainTraffic example_codecs 3 ''boot'' 1 ([], example_added_db) = (Inr (Some b), [], db') \<and>
     tb_Sequence b = 1 \<and> map traffic_item_key (tb_Items b) = [(5, 2, 1)] \<and> db_traffic_accumulator db' = []"
proof -
  have "seq_counter ''traffic_sequence'' example_added_db = 0"
    using traffic_add_props(3) [OF traffic_inv_fresh [OF example_codecs_inverse] example_add] fresh_db_seq by simp
  moreover have "map traffic_row_key (sort_key traffic_row_key (db_traffic_accumulator example_added_db)) = [(5, 2, 1)]"
    by (simp add: example_added_db_def delta_key_def example_delta_def)
  ultimately show ?thesis
    using drain_moves_accumulator_to_log [OF example_added_facts example_codecs_total, of 3 "''boot''" 1] by auto
qed

text \<open>
  C22. Acknowledging a pending batch by its boot id, sequence and digest succeeds, removes that
  batch and nothing else; the same acknowledgement sent again, or one with a wrong digest,
  returns an error and changes nothing.
\<close>

lemma filter_wal_matches:
  assumes "distinct (map wal_key rows)" and "r \<in> set rows"
  shows "filter (wal_matches (wr_boot_id r) (wr_sequence r) (wr_payload_sha256 r)) rows = [r]"
    and "filter (\<lambda>y. \<not> wal_matches (wr_boot_id r) (wr_sequence r) (wr_payload_sha256 r) y) rows = remove1 r rows"
proof -
  have "wal_matches (wr_boot_id r) (wr_sequence r) (wr_payload_sha256 r) y \<longleftrightarrow> y = r" if "y \<in> set rows" for y
    using assms that by (auto simp: wal_matches_def wal_key_def distinct_map dest!: inj_onD [of _ _ y r])
  then have 1: "filter (wal_matches (wr_boot_id r) (wr_sequence r) (wr_payload_sha256 r)) rows = filter (\<lambda>y. y = r) rows"
    and 2: "filter (\<lambda>y. \<not> wal_matches (wr_boot_id r) (wr_sequence r) (wr_payload_sha256 r) y) rows = filter (\<lambda>y. y \<noteq> r) rows"
    by (auto intro: filter_cong)
  have d: "distinct rows" using assms(1) by (simp add: distinct_map)
  show "filter (wal_matches (wr_boot_id r) (wr_sequence r) (wr_payload_sha256 r)) rows = [r]"
    unfolding 1 using d assms(2) by (induction rows) (auto simp: filter_empty_conv)
  show "filter (\<lambda>y. \<not> wal_matches (wr_boot_id r) (wr_sequence r) (wr_payload_sha256 r) y) rows = remove1 r rows"
    unfolding 2 using d by (simp add: distinct_remove1_removeAll removeAll_filter_not_eq eq_commute)
qed

theorem acknowledgement_removes_exactly_one:
  assumes "traffic_inv E db" and "r \<in> set (db_traffic_wal db)"
  defines "db' \<equiv> db\<lparr>db_traffic_wal := remove1 r (db_traffic_wal db)\<rparr>"
  shows "AcknowledgeTraffic (wr_boot_id r) (wr_sequence r) (wr_payload_sha256 r) ([], db) = (Inr (), [], db') \<and>
    (\<exists>e. AcknowledgeTraffic (wr_boot_id r) (wr_sequence r) (wr_payload_sha256 r) ([], db') = (Inl e, [], db')) \<and>
    (\<forall>h. h \<noteq> wr_payload_sha256 r \<longrightarrow>
       (\<exists>e. AcknowledgeTraffic (wr_boot_id r) (wr_sequence r) h ([], db) = (Inl e, [], db)))"
proof -
  let ?m = "wal_matches (wr_boot_id r) (wr_sequence r)"
  from assms(1) have d: "distinct (map wal_key (db_traffic_wal db))"
    and b: "wr_sequence r \<le> seq_counter ''traffic_sequence'' db" and s: "seq_ok ''traffic_sequence'' db"
    using assms(2) by (auto simp: traffic_inv_def)
  from s b have q: "wr_sequence r \<le> max_int64" by (auto elim!: seq_okE)
  note f = filter_wal_matches [OF d assms(2)]
  have "filter (?m (wr_payload_sha256 r)) (remove1 r (db_traffic_wal db)) = []"
    unfolding f(2) [symmetric] by (simp add: filter_empty_conv)
  moreover have "filter (\<lambda>y. \<not> ?m (wr_payload_sha256 r) y) (remove1 r (db_traffic_wal db)) = remove1 r (db_traffic_wal db)"
    unfolding f(2) [symmetric] by simp
  moreover have "filter (?m h) (db_traffic_wal db) = [] \<and> filter (\<lambda>y. \<not> ?m h y) (db_traffic_wal db) = db_traffic_wal db"
    if h: "h \<noteq> wr_payload_sha256 r" for h
  proof -
    have "\<not> ?m h y" if "y \<in> set (db_traffic_wal db)" for y
      using d assms(2) that h by (auto simp: wal_matches_def wal_key_def distinct_map dest!: inj_onD [of _ _ y r])
    then show ?thesis by (simp add: filter_empty_conv filter_id_conv)
  qed
  ultimately show ?thesis using q f by (simp add: AcknowledgeTraffic_def tx_bind_def sql_uint_def db'_def)
qed

theorem acknowledgement_removes_exactly_one_witness:
  "\<exists>db r. r \<in> set (db_traffic_wal db) \<and>
     AcknowledgeTraffic (wr_boot_id r) (wr_sequence r) (wr_payload_sha256 r) ([], db)
       = (Inr (), [], db\<lparr>db_traffic_wal := []\<rparr>)"
proof -
  obtain r db' where d: "traffic_drain example_codecs example_added_db r db'" using example_drain by blast
  note p = traffic_drain_props [OF example_added_facts(1) d]
  from p(2) have w: "db_traffic_wal db' = [r]" by (simp add: example_added_db_def fresh_db_def empty_db_def)
  with acknowledgement_removes_exactly_one [OF p(1), of r] show ?thesis by (intro exI [of _ db'] exI [of _ r]) simp
qed


definition half_full_delta :: TrafficDelta where
  "half_full_delta = example_delta\<lparr>td_UploadBytes := 2 ^ 62\<rparr>"


end
