(* ===== verification/Access_Store.thy ===== *)
theory Access_Store
  imports Traffic_Log
begin

text \<open>
  The access half of the durable store: internal/state/access.go. A row of access_accumulator
  has the fields of an access item. Sums saturate at the largest int64, the log is bounded in
  batches and bytes, and the contract of Wal_Log is interpreted on it.
\<close>

section \<open>Operations\<close>

definition maxAccessBatchItems :: nat where "maxAccessBatchItems = 1000"
definition maxAccessWALBatches :: nat where "maxAccessWALBatches = 1440"
definition maxAccessWALBytes :: nat where "maxAccessWALBytes = 64 * 2 ^ 20"

definition accessSessionKeyPattern :: "string \<Rightarrow> bool" where
  "accessSessionKeyPattern s \<longleftrightarrow>
     length s = 64 \<and> list_all (\<lambda>c. is_digit_char c \<or> (97 \<le> byte_of c \<and> byte_of c \<le> 102)) s"

definition accessProtocolPattern :: "string \<Rightarrow> bool" where
  "accessProtocolPattern s \<longleftrightarrow>
     (case s of [] \<Rightarrow> False
      | c # t \<Rightarrow> (is_lower_char c \<or> is_digit_char c) \<and> length t \<le> 31 \<and>
          list_all (\<lambda>x. is_lower_char x \<or> is_digit_char x \<or> x \<in> set ''+._-'') t)"

definition max_int32 :: nat where "max_int32 = 2147483647"

definition validateLocalAccessItem :: "AccessItem \<Rightarrow> go_error option" where
  "validateLocalAccessItem item =
     (if \<not> accessSessionKeyPattern (ai_SessionKey item) \<or> ai_SubscriberID item \<le> 0 \<or> ai_InboundID item \<le> 0
      then Some (Msg ''access item identity is invalid'')
      else if ai_Host item \<noteq> trim_space (ai_Host item) \<or> ai_Host item = [] \<or> length (ai_Host item) > 253
      then Some (Msg ''access item host is invalid'')
      else if ai_Network item \<noteq> ''tcp'' \<and> ai_Network item \<noteq> ''udp''
      then Some (Msg ''access item network is invalid'')
      else if \<not> accessProtocolPattern (ai_Protocol item) \<or> ai_DestinationPort item = 0
      then Some (Msg ''access item destination is invalid'')
      else if ai_StartedAt item = 0 \<or> ai_LastSeenAt item < ai_StartedAt item
      then Some (Msg ''access item time range is invalid'')
      else if ai_Active item \<and> ai_EndedAt item \<noteq> None \<or> \<not> ai_Active item \<and> ai_EndedAt item = None
      then Some (Msg ''access item active state is inconsistent'')
      else if (case ai_EndedAt item of None \<Rightarrow> False
               | Some e \<Rightarrow> e < ai_StartedAt item \<or> e > ai_LastSeenAt item + second)
      then Some (Msg ''access item end time is invalid'')
      else if ai_UploadBytes item > max_int64 \<or> ai_DownloadBytes item > max_int64 \<or> ai_ConnectionCount item > max_int32
      then Some (Msg ''access item counters exceed local SQLite limits'')
      else None)"

definition saturating_sum :: "nat \<Rightarrow> nat \<Rightarrow> nat" where
  "saturating_sum old new = (if old > max_int64 - new then max_int64 else old + new)"

definition merge_access_row :: "AccessItem \<Rightarrow> AccessItem \<Rightarrow> AccessItem" where
  "merge_access_row excluded r =
     r\<lparr>ai_SubscriberID := ai_SubscriberID excluded, ai_InboundID := ai_InboundID excluded,
       ai_Host := ai_Host excluded, ai_Network := ai_Network excluded, ai_Protocol := ai_Protocol excluded,
       ai_DestinationPort := ai_DestinationPort excluded,
       ai_StartedAt := text_min (ai_StartedAt r) (ai_StartedAt excluded),
       ai_LastSeenAt := text_max (ai_LastSeenAt r) (ai_LastSeenAt excluded),
       ai_EndedAt := (if ai_Active excluded then None
         else case ai_EndedAt excluded of None \<Rightarrow> None
              | Some e \<Rightarrow> Some (text_max (case ai_EndedAt r of None \<Rightarrow> e | Some x \<Rightarrow> x) e)),
       ai_UploadBytes := saturating_sum (ai_UploadBytes r) (ai_UploadBytes excluded),
       ai_DownloadBytes := saturating_sum (ai_DownloadBytes r) (ai_DownloadBytes excluded),
       ai_ConnectionCount := min max_int32 (ai_ConnectionCount r + ai_ConnectionCount excluded),
       ai_Active := ai_Active excluded\<rparr>"

definition upsert_access :: "AccessItem \<Rightarrow> AccessItem list \<Rightarrow> AccessItem list" where
  "upsert_access item rows =
     (if ai_SessionKey item \<in> ai_SessionKey ` set rows
      then map (\<lambda>r. if ai_SessionKey r = ai_SessionKey item then merge_access_row item r else r) rows
      else rows @ [item])"

definition add_access_item :: "AccessItem \<Rightarrow> (Db, unit) tx" where
  "add_access_item item =
     (case validateLocalAccessItem item of
        Some e \<Rightarrow> tx_lift (Inl e)
      | None \<Rightarrow> stmt (\<lambda>db. Inr ((), db\<lparr>db_access_accumulator := upsert_access item (db_access_accumulator db)\<rparr>)))"

definition AddAccess :: "AccessItem list \<Rightarrow> (Db, unit) tx" where
  "AddAccess items =
     (if items = [] then tx_return ()
      else if length items > 20000
      then tx_lift (Inl (Msg ''access accumulator input exceeds the in-memory group limit''))
      else transact (tx_bind (stmt (\<lambda>db. Inr ((), db))) (\<lambda>_. tx_iter add_access_item items)))"

definition scan_access_row :: "AccessItem \<Rightarrow> AccessItem result" where
  "scan_access_row r =
     bind_result (scan_uint (int (ai_UploadBytes r))) (\<lambda>up.
     bind_result (scan_uint (int (ai_DownloadBytes r))) (\<lambda>down.
       Inr (r\<lparr>ai_UploadBytes := up, ai_DownloadBytes := down\<rparr>)))"

text \<open>The rowids a DELETE selects name single rows, so each removes one occurrence.\<close>

definition remove_rows :: "WalRow list \<Rightarrow> WalRow list \<Rightarrow> WalRow list" where
  "remove_rows victims rows = fold remove1 victims rows"

fun prune_bytes :: "nat \<Rightarrow> nat \<Rightarrow> int \<Rightarrow> (Db, unit) tx" where
  "prune_bytes maxBytes 0 bytes = tx_return ()"
| "prune_bytes maxBytes (Suc batches) bytes =
     (if bytes > int maxBytes then
        tx_bind (stmt (\<lambda>db. case order_wal (db_access_wal db) of [] \<Rightarrow> Inl ErrNoRows | r # _ \<Rightarrow> Inr (r, db))) (\<lambda>row.
        tx_bind (stmt (\<lambda>db. Inr ((), db\<lparr>db_access_wal := remove1 row (db_access_wal db)\<rparr>))) (\<lambda>_.
        prune_bytes maxBytes batches (bytes - int (length (wr_payload_json row)))))
      else tx_return ())"

definition pruneAccessWALTx :: "nat \<Rightarrow> nat \<Rightarrow> (Db, unit) tx" where
  "pruneAccessWALTx maxBatches maxBytes =
     (if maxBatches = 0 \<or> maxBytes = 0 then tx_lift (Inl (Msg ''access WAL limits are invalid''))
      else tx_bind (stmt (\<lambda>db. Inr (wal_stats (db_access_wal db), db))) (\<lambda>(batches, bytes).
        if batches > maxBatches then
          tx_bind (stmt (\<lambda>db. Inr ((), db\<lparr>db_access_wal :=
            remove_rows (take (batches - maxBatches) (order_wal (db_access_wal db))) (db_access_wal db)\<rparr>))) (\<lambda>_.
          tx_bind (stmt (\<lambda>db. Inr (snd (wal_stats (db_access_wal db)), db))) (\<lambda>bytes'.
          prune_bytes maxBytes maxBatches (int bytes')))
        else prune_bytes maxBytes batches (int bytes)))"

definition access_batch_of :: "string \<Rightarrow> nat \<Rightarrow> nat \<Rightarrow> int \<times> int \<Rightarrow> AccessItem list \<Rightarrow> AccessBatch" where
  "access_batch_of bootID sequence configVersion interval items =
     \<lparr>ab_BootID = bootID, ab_Sequence = sequence, ab_ConfigVersion = configVersion,
      ab_IntervalStartedAt = fst interval, ab_IntervalEndedAt = snd interval,
      ab_PayloadSHA256 = [], ab_Items = items\<rparr>"

definition first_access_rows :: "AccessItem list \<Rightarrow> AccessItem list" where
  "first_access_rows rows = take maxAccessBatchItems (sort_key ai_SessionKey rows)"

definition delete_first_access :: "AccessItem list \<Rightarrow> AccessItem list" where
  "delete_first_access rows =
     filter (\<lambda>r. ai_SessionKey r \<notin> ai_SessionKey ` set (first_access_rows rows)) rows"

text \<open>The writing half of DrainAccess, from the payload digest to the deletion\<close>

definition store_access_batch :: "Codecs \<Rightarrow> int \<Rightarrow> AccessBatch \<Rightarrow> (Db, AccessBatch) tx" where
  "store_access_batch E createdAt batch0 =
     tx_bind (tx_lift (AccessPayloadSHA256 (cd_crypto E) (cd_access_marshal E) batch0)) (\<lambda>hash.
     tx_bind (tx_lift (cd_access_marshal E (batch0\<lparr>ab_PayloadSHA256 := hash\<rparr>))) (\<lambda>raw.
     tx_bind (stmt (\<lambda>db. bind_result
         (insert_wal \<lparr>wr_boot_id = ab_BootID batch0, wr_sequence = ab_Sequence batch0, wr_payload_sha256 = hash,
            wr_payload_json = raw, wr_created_at = createdAt\<rparr> (db_access_wal db))
         (\<lambda>wal. Inr ((), db\<lparr>db_access_wal := wal\<rparr>)))) (\<lambda>_.
     tx_bind (stmt (meta_update ''access_sequence'' (format_uint (ab_Sequence batch0)))) (\<lambda>_.
     tx_bind (stmt (\<lambda>db. Inr ((), db\<lparr>db_access_accumulator := delete_first_access (db_access_accumulator db)\<rparr>))) (\<lambda>_.
     tx_return (batch0\<lparr>ab_PayloadSHA256 := hash\<rparr>))))))"

definition DrainAccess :: "Codecs \<Rightarrow> int \<Rightarrow> string \<Rightarrow> nat \<Rightarrow> (Db, AccessBatch option) tx" where
  "DrainAccess E now bootID configVersion = transact
     (tx_bind (stmt (\<lambda>db. Inr (first_access_rows (db_access_accumulator db), db))) (\<lambda>rows.
      tx_bind (tx_lift (scan_all scan_access_row rows)) (\<lambda>items.
      if items = [] then tx_return None
      else
        tx_bind (stmt (\<lambda>db. bind_result (next_sequence ''access_sequence'' db) (\<lambda>s. Inr (s, db)))) (\<lambda>sequence.
        tx_bind (store_access_batch E now (access_batch_of bootID sequence configVersion
            (close_interval now (rows_interval (map (\<lambda>r. (ai_StartedAt r, ai_LastSeenAt r)) items))) items)) (\<lambda>batch.
        tx_bind (pruneAccessWALTx maxAccessWALBatches maxAccessWALBytes) (\<lambda>_.
        tx_return (Some batch)))))))"

definition PendingAccess :: "Codecs \<Rightarrow> int \<Rightarrow> (Db, AccessBatch list) tx" where
  "PendingAccess E limit =
     tx_bind (stmt (\<lambda>db. Inr (take (pending_limit limit) (order_wal (db_access_wal db)), db))) (\<lambda>rows.
       tx_lift (scan_all (\<lambda>r. cd_access_unmarshal E (wr_payload_json r)) rows))"

definition AcknowledgeAccess :: "string \<Rightarrow> nat \<Rightarrow> string \<Rightarrow> (Db, unit) tx" where
  "AcknowledgeAccess bootID sequence hash =
     tx_bind (tx_lift (sql_uint sequence)) (\<lambda>_.
     tx_bind (stmt (\<lambda>db. Inr (length (filter (wal_matches bootID sequence hash) (db_access_wal db)),
         db\<lparr>db_access_wal := filter (\<lambda>r. \<not> wal_matches bootID sequence hash r) (db_access_wal db)\<rparr>))) (\<lambda>affected.
     if affected \<noteq> 1 then tx_lift (Inl (Msg ''access acknowledgement does not match pending WAL''))
     else tx_return ()))"

definition PendingAccessStats :: "(Db, nat \<times> nat) tx" where
  "PendingAccessStats = stmt (\<lambda>db. Inr (wal_stats (db_access_wal db), db))"

section \<open>The accumulator\<close>

definition access_row_ok :: "AccessItem \<Rightarrow> bool" where
  "access_row_ok r \<longleftrightarrow> accessSessionKeyPattern (ai_SessionKey r) \<and> 0 < ai_SubscriberID r \<and> 0 < ai_InboundID r \<and>
     ai_UploadBytes r \<le> max_int64 \<and> ai_DownloadBytes r \<le> max_int64 \<and> ai_ConnectionCount r \<le> max_int32 \<and>
     (ai_Active r \<longleftrightarrow> ai_EndedAt r = None)"

lemma valid_item_row_ok: "validateLocalAccessItem item = None \<Longrightarrow> access_row_ok item"
  by (auto simp: validateLocalAccessItem_def access_row_ok_def split: if_splits)

lemma saturating_sum_eq: "b \<le> max_int64 \<Longrightarrow> saturating_sum a b = min max_int64 (a + b)"
  by (auto simp: saturating_sum_def)

lemma merge_access_row_ok: "access_row_ok item \<Longrightarrow> access_row_ok r \<Longrightarrow> access_row_ok (merge_access_row item r)"
  by (auto simp: access_row_ok_def merge_access_row_def saturating_sum_eq split: option.splits)

lemma merge_access_key [simp]: "ai_SessionKey (merge_access_row item r) = ai_SessionKey r"
  by (simp add: merge_access_row_def)

lemma upsert_access_keys:
  "distinct (map ai_SessionKey rows) \<Longrightarrow> distinct (map ai_SessionKey (upsert_access item rows))"
proof -
  have "map ai_SessionKey (map (\<lambda>r. if ai_SessionKey r = k then merge_access_row item r else r) rows)
      = map ai_SessionKey rows" for k by simp
  then show "distinct (map ai_SessionKey rows) \<Longrightarrow> ?thesis"
    unfolding upsert_access_def by (simp only: split: if_split) auto
qed

lemma upsert_access_ok:
  "access_row_ok item \<Longrightarrow> list_all access_row_ok rows \<Longrightarrow> list_all access_row_ok (upsert_access item rows)"
  by (auto simp: upsert_access_def list.pred_set merge_access_row_ok)

lemma tx_ok_add_access_items:
  "tx_ok (tx_iter add_access_item items) db u db' \<Longrightarrow>
     list_all (\<lambda>i. validateLocalAccessItem i = None) items \<and>
     db' = db\<lparr>db_access_accumulator := fold upsert_access items (db_access_accumulator db)\<rparr>"
proof (induction items arbitrary: db)
  case Nil
  then show ?case by (simp add: store_simps)
next
  case (Cons i items)
  then obtain w d where s: "tx_ok (add_access_item i) db w d" and r: "tx_ok (tx_iter add_access_item items) d u db'"
    by (auto elim: tx_elims)
  from s have "validateLocalAccessItem i = None"
    "d = db\<lparr>db_access_accumulator := upsert_access i (db_access_accumulator db)\<rparr>"
    by (auto simp: add_access_item_def store_simps split: option.splits)
  with Cons.IH [OF r] show ?case by simp
qed

lemma AddAccess_ok:
  "tx_ok (AddAccess items) db u db' \<Longrightarrow>
     list_all (\<lambda>i. validateLocalAccessItem i = None) items \<and>
     db' = db\<lparr>db_access_accumulator := fold upsert_access items (db_access_accumulator db)\<rparr>"
  by (auto simp: AddAccess_def store_simps split: if_splits elim!: tx_ok_bindE dest!: tx_ok_transactD tx_ok_add_access_items)

lemma fold_upsert_access:
  "list_all (\<lambda>i. validateLocalAccessItem i = None) items \<Longrightarrow> distinct (map ai_SessionKey rows) \<Longrightarrow>
   list_all access_row_ok rows \<Longrightarrow>
   distinct (map ai_SessionKey (fold upsert_access items rows)) \<and> list_all access_row_ok (fold upsert_access items rows)"
  by (induction items arbitrary: rows) (simp_all add: upsert_access_keys upsert_access_ok valid_item_row_ok)

section \<open>Pruning\<close>

lemma mset_order_wal [simp]: "mset (order_wal rows) = mset rows"
  by (simp add: order_wal_def)

lemma length_order_wal [simp]: "length (order_wal rows) = length rows"
  by (simp add: order_wal_def)

lemma wal_stats_mset: "mset xs = mset ys \<Longrightarrow> wal_stats xs = wal_stats ys"
  by (metis mset_map size_mset sum_mset_sum_list wal_stats_def)

lemma order_wal_drop:
  assumes "distinct (map wr_sequence rows)" and "mset rows' = mset (drop k (order_wal rows))"
  shows "order_wal rows' = drop k (order_wal rows)"
proof -
  let ?f = "\<lambda>r. (text_key (wr_created_at r), wr_sequence r)"
  have d: "distinct (map wr_sequence (order_wal rows))"
    using assms(1) by (simp add: order_wal_def)
  have "distinct (map ?f (drop k (order_wal rows)))"
    using d unfolding drop_map [symmetric] by (auto simp: distinct_map drop_map inj_on_def dest: in_set_dropD)
  from distinct_keys_sort_eq [OF assms(2) [symmetric] this]
  have "order_wal rows' = sort_key ?f (drop k (order_wal rows))" by (simp add: order_wal_def)
  also have "\<dots> = drop k (order_wal rows)"
    by (rule sort_key_id_if_sorted) (simp add: order_wal_def flip: drop_map)
  finally show ?thesis .
qed


definition wal_bytes :: "WalRow list \<Rightarrow> nat" where
  "wal_bytes rows = snd (wal_stats rows)"

lemma wal_bytes_mset: "mset xs = mset ys \<Longrightarrow> wal_bytes xs = wal_bytes ys"
  unfolding wal_bytes_def by (drule wal_stats_mset) simp

lemma wal_bytes_Cons [simp]: "wal_bytes (r # rs) = length (wr_payload_json r) + wal_bytes rs"
  by (simp add: wal_bytes_def wal_stats_def)

lemma wal_bytes_Nil [simp]: "wal_bytes [] = 0"
  by (simp add: wal_bytes_def wal_stats_def)

lemma prune_bytes_ok:
  "tx_ok (prune_bytes M n bytes) db u db' \<Longrightarrow> length (db_access_wal db) = n \<Longrightarrow>
   bytes = int (wal_bytes (db_access_wal db)) \<Longrightarrow> distinct (map wr_sequence (db_access_wal db)) \<Longrightarrow>
   \<exists>k rows. db' = db\<lparr>db_access_wal := rows\<rparr> \<and> mset rows = mset (drop k (order_wal (db_access_wal db))) \<and>
     wal_bytes rows \<le> M \<and> (\<forall>j < k. M < wal_bytes (drop j (order_wal (db_access_wal db))))"
proof (induction n arbitrary: bytes db)
  case 0
  then show ?case by (intro exI [of _ 0] exI [of _ "db_access_wal db"]) (simp add: store_simps)
next
  case (Suc n)
  let ?W = "db_access_wal db"
  show ?case
  proof (cases "bytes > int M")
    case False
    with Suc.prems show ?thesis by (intro exI [of _ 0] exI [of _ ?W]) (simp add: store_simps)
  next
    case True
    with Suc.prems(1) obtain row rest where o: "order_wal ?W = row # rest"
      and t: "tx_ok (prune_bytes M n (bytes - int (length (wr_payload_json row)))) (db\<lparr>db_access_wal := remove1 row ?W\<rparr>) u db'"
      by (auto elim!: tx_ok_bindE simp: store_simps split: list.splits)
    have m: "mset ?W = add_mset row (mset rest)" using o by (metis mset.simps(2) mset_order_wal)
    then have m1: "mset (remove1 row ?W) = mset (drop 1 (order_wal ?W))" by (simp add: o)
    have o1: "order_wal (remove1 row ?W) = drop 1 (order_wal ?W)" by (rule order_wal_drop [OF Suc.prems(4) m1])
    have "wal_bytes ?W = length (wr_payload_json row) + wal_bytes rest"
      using wal_bytes_mset [of ?W "row # rest"] m by simp
    moreover have "wal_bytes (remove1 row ?W) = wal_bytes rest" using wal_bytes_mset [OF m1] o by simp
    moreover have "length (remove1 row ?W) = n" using mset_eq_length [OF m1] Suc.prems(2) by simp
    ultimately obtain k rows where r: "db' = db\<lparr>db_access_wal := remove1 row ?W\<rparr>\<lparr>db_access_wal := rows\<rparr>"
      "mset rows = mset (drop k (order_wal (remove1 row ?W)))" "wal_bytes rows \<le> M"
      "\<forall>j < k. M < wal_bytes (drop j (order_wal (remove1 row ?W)))"
      using Suc.IH [OF t] Suc.prems(3,4) by (auto simp: distinct_map distinct_remove1 inj_on_def dest: notin_set_remove1)
    have "M < wal_bytes (drop j (order_wal ?W))" if "j < Suc k" for j
    proof (cases j)
      case 0
      with True Suc.prems(3) wal_bytes_mset [OF mset_order_wal, of ?W] show ?thesis by simp
    next
      case (Suc i)
      with that r(4) o1 show ?thesis by simp
    qed
    with r o1 show ?thesis by (intro exI [of _ "Suc k"] exI [of _ rows]) simp
  qed
qed

lemma mset_remove_prefix: "mset (remove_rows (take e xs) ys) = mset (drop e xs)" if "mset ys = mset xs"
proof -
  have "mset (fold remove1 vs ys) = mset ys - mset vs" for vs ys :: "WalRow list"
    by (induction vs arbitrary: ys) (simp_all add: mset_remove1)
  moreover have "mset xs = mset (take e xs) + mset (drop e xs)" by (metis append_take_drop_id mset_append)
  ultimately show ?thesis using that by (simp add: remove_rows_def)
qed

lemma pruneAccessWALTx_ok:
  assumes "tx_ok (pruneAccessWALTx B M) db u db'" and "distinct (map wr_sequence (db_access_wal db))"
  shows "\<exists>k rows. db' = db\<lparr>db_access_wal := rows\<rparr> \<and> order_wal rows = drop k (order_wal (db_access_wal db)) \<and>
    length rows \<le> B \<and> wal_bytes rows \<le> M \<and>
    (\<forall>j < k. B < length (db_access_wal db) - j \<or> M < wal_bytes (drop j (order_wal (db_access_wal db))))"
proof -
  let ?W = "db_access_wal db" and ?e = "length (db_access_wal db) - B"
  define V where "V = (if B < length ?W then remove_rows (take ?e (order_wal ?W)) ?W else ?W)"
  have mV: "mset V = mset (drop ?e (order_wal ?W))"
    using mset_remove_prefix [of ?W "order_wal ?W" ?e] by (simp add: V_def)
  have oV: "order_wal V = drop ?e (order_wal ?W)" by (rule order_wal_drop [OF assms(2) mV])
  have lV: "length V = min (length ?W) B"
    using mset_eq_length [OF mV] by (simp add: min_def)
  have dV: "distinct (map wr_sequence V)"
  proof -
    have "mset (map wr_sequence V) = mset (map wr_sequence (drop ?e (order_wal ?W)))" using mV by (metis mset_map)
    moreover have "distinct (map wr_sequence (drop ?e (order_wal ?W)))"
      using assms(2) by (simp add: order_wal_def flip: drop_map)
    ultimately show ?thesis by (metis mset_eq_imp_distinct_iff)
  qed
  have "tx_ok (prune_bytes M (length V) (int (wal_bytes V))) (db\<lparr>db_access_wal := V\<rparr>) u db'"
    using assms(1) lV by (auto elim!: tx_ok_bindE simp: pruneAccessWALTx_def store_simps wal_stats_def wal_bytes_def V_def
        split: if_splits)
  from prune_bytes_ok [OF this] dV obtain k rows where
    r: "db' = db\<lparr>db_access_wal := rows\<rparr>" "mset rows = mset (drop k (order_wal V))" "wal_bytes rows \<le> M"
      "\<forall>j < k. M < wal_bytes (drop j (order_wal V))"
    by auto
  have "order_wal rows = drop k (order_wal V)" by (rule order_wal_drop [OF dV r(2)])
  moreover have "length rows \<le> B" using mset_eq_length [OF r(2)] lV by simp
  moreover have "B < length ?W - j \<or> M < wal_bytes (drop j (order_wal ?W))" if "j < k + ?e" for j
  proof (cases "j < ?e")
    case False
    with that r(4) [rule_format, of "j - ?e"] show ?thesis by (simp add: oV)
  qed auto
  ultimately show ?thesis using r oV by (intro exI [of _ "k + ?e"] exI [of _ rows]) simp
qed

section \<open>The log\<close>

definition access_row :: "AccessBatch \<Rightarrow> string \<Rightarrow> int \<Rightarrow> WalRow" where
  "access_row b raw now = \<lparr>wr_boot_id = ab_BootID b, wr_sequence = ab_Sequence b,
     wr_payload_sha256 = ab_PayloadSHA256 b, wr_payload_json = raw, wr_created_at = now\<rparr>"

definition access_drained_db :: "Db \<Rightarrow> WalRow \<Rightarrow> Db" where
  "access_drained_db db row = db\<lparr>db_access_wal := db_access_wal db @ [row],
     db_meta := (db_meta db)(''access_sequence'' \<mapsto> format_uint (wr_sequence row)),
     db_access_accumulator := delete_first_access (db_access_accumulator db)\<rparr>"

lemma AccessPayloadSHA256_ignores_hash:
  "AccessPayloadSHA256 cr mar (b\<lparr>ab_PayloadSHA256 := h\<rparr>) = AccessPayloadSHA256 cr mar b"
  by (simp add: AccessPayloadSHA256_def canonical_access_batch_def)

lemma store_access_batch_ok:
  "tx_ok (store_access_batch E now b0) db b db' \<Longrightarrow> db_meta db ''access_sequence'' \<noteq> None \<Longrightarrow>
     b = b0\<lparr>ab_PayloadSHA256 := ab_PayloadSHA256 b\<rparr> \<and>
     AccessPayloadSHA256 (cd_crypto E) (cd_access_marshal E) b = Inr (ab_PayloadSHA256 b) \<and>
     (\<exists>raw. cd_access_marshal E b = Inr raw \<and> db' = access_drained_db db (access_row b raw now))"
  by (auto elim!: tx_ok_bindE simp: store_access_batch_def store_simps bind_result_Inr_iff insert_wal_def
      AccessPayloadSHA256_ignores_hash access_row_def access_drained_db_def split: if_splits)

lemma scan_access_row_Inr: "scan_access_row r = Inr i \<longleftrightarrow> i = r \<and> ai_UploadBytes r \<le> max_int64 \<and> ai_DownloadBytes r \<le> max_int64"
  by (auto simp: scan_access_row_def bind_result_Inr_iff scan_uint_nat)

lemma scan_access_rows:
  "scan_all scan_access_row rs = Inr items \<longleftrightarrow>
     items = rs \<and> list_all (\<lambda>r. ai_UploadBytes r \<le> max_int64 \<and> ai_DownloadBytes r \<le> max_int64) rs"
  by (induction rs arbitrary: items) (auto simp: bind_result_Inr_iff scan_access_row_Inr)

lemma DrainAccess_Some:
  assumes "tx_ok (DrainAccess E now boot cv) db (Some b) db'"
  shows "next_sequence ''access_sequence'' db = Inr (ab_Sequence b) \<and> ab_BootID b = boot \<and> ab_ConfigVersion b = cv \<and>
    ab_Items b = first_access_rows (db_access_accumulator db) \<and>
    AccessPayloadSHA256 (cd_crypto E) (cd_access_marshal E) b = Inr (ab_PayloadSHA256 b) \<and>
    (\<exists>raw. cd_access_marshal E b = Inr raw \<and>
       tx_ok (pruneAccessWALTx maxAccessWALBatches maxAccessWALBytes) (access_drained_db db (access_row b raw now)) () db')"
proof -
  let ?items = "first_access_rows (db_access_accumulator db)"
  let ?iv = "close_interval now (rows_interval (map (\<lambda>r. (ai_StartedAt r, ai_LastSeenAt r)) ?items))"
  from assms obtain n d where 2: "next_sequence ''access_sequence'' db = Inr n"
    and 3: "tx_ok (store_access_batch E now (access_batch_of boot n cv ?iv ?items)) db b d"
    and 4: "tx_ok (pruneAccessWALTx maxAccessWALBatches maxAccessWALBytes) d () db'"
    unfolding DrainAccess_def
    by (auto elim!: tx_ok_bindE dest!: tx_ok_transactD simp: store_simps bind_result_Inr_iff scan_access_rows split: if_splits)
  note s = store_access_batch_ok [OF 3 next_sequence_meta [OF 2]]
  then have e: "b = access_batch_of boot n cv ?iv ?items\<lparr>ab_PayloadSHA256 := ab_PayloadSHA256 b\<rparr>" by blast
  have "ab_Sequence b = n" "ab_Items b = ?items" "ab_BootID b = boot" "ab_ConfigVersion b = cv"
    by (subst e, simp add: access_batch_of_def)+
  with 2 4 s show ?thesis by auto
qed

definition access_wal_ok :: "Codecs \<Rightarrow> WalRow \<Rightarrow> bool" where
  "access_wal_ok E r \<longleftrightarrow>
     (\<exists>b. cd_access_marshal E b = Inr (wr_payload_json r) \<and> r = access_row b (wr_payload_json r) (wr_created_at r) \<and>
          AccessPayloadSHA256 (cd_crypto E) (cd_access_marshal E) b = Inr (ab_PayloadSHA256 b))"

definition access_inv :: "Codecs \<Rightarrow> Db \<Rightarrow> bool" where
  "access_inv E db \<longleftrightarrow> codecs_inverse E \<and> seq_ok ''access_sequence'' db \<and>
     distinct (map ai_SessionKey (db_access_accumulator db)) \<and> list_all access_row_ok (db_access_accumulator db) \<and>
     distinct (map wr_sequence (db_access_wal db)) \<and>
     (\<forall>r \<in> set (db_access_wal db). wr_sequence r \<le> seq_counter ''access_sequence'' db \<and> access_wal_ok E r)"

definition access_frame :: "Db \<Rightarrow> Db \<Rightarrow> bool" where
  "access_frame db db' \<longleftrightarrow>
     db_access_accumulator db' = db_access_accumulator db \<and> db_access_wal db' = db_access_wal db \<and>
     db_meta db' ''access_sequence'' = db_meta db ''access_sequence''"

definition access_drain :: "Codecs \<Rightarrow> Db \<Rightarrow> WalRow \<Rightarrow> Db \<Rightarrow> bool" where
  "access_drain E db r db' \<longleftrightarrow>
     (\<exists>now boot cv b raw. tx_ok (DrainAccess E now boot cv) db (Some b) db' \<and>
        cd_access_marshal E b = Inr raw \<and> r = access_row b raw now)"

definition access_ack_row :: "Db \<Rightarrow> WalRow \<Rightarrow> Db \<Rightarrow> bool" where
  "access_ack_row db r db' \<longleftrightarrow> r \<in> set (db_access_wal db) \<and>
     tx_ok (AcknowledgeAccess (wr_boot_id r) (wr_sequence r) (wr_payload_sha256 r)) db () db'"

definition access_other :: "Db \<Rightarrow> Db \<Rightarrow> bool" where
  "access_other db db' \<longleftrightarrow> (\<exists>items. tx_ok (AddAccess items) db () db') \<or> access_frame db db'"

lemma access_inv_frame:
  assumes "access_inv E db" and "access_frame db db'"
  shows "access_inv E db'" and "seq_counter ''access_sequence'' db' = seq_counter ''access_sequence'' db"
  using assms seq_frame [of db' "''access_sequence''" db] by (simp_all add: access_inv_def access_frame_def)

lemma access_add_inv:
  assumes "access_inv E db" and "tx_ok (AddAccess items) db u db'"
  shows "access_inv E db'" and "seq_counter ''access_sequence'' db' = seq_counter ''access_sequence'' db"
    and "db_access_wal db' = db_access_wal db"
proof -
  note a = AddAccess_ok [OF assms(2)]
  then have m: "db_meta db' ''access_sequence'' = db_meta db ''access_sequence''" by simp
  from a assms(1) fold_upsert_access [of items "db_access_accumulator db"] seq_frame [OF m]
  show "access_inv E db'" "seq_counter ''access_sequence'' db' = seq_counter ''access_sequence'' db"
    "db_access_wal db' = db_access_wal db"
    by (simp_all add: access_inv_def)
qed

lemma access_drain_props:
  assumes "access_inv E db" and "access_drain E db r db'"
  shows "wr_sequence r = Suc (seq_counter ''access_sequence'' db)"
    and "seq_counter ''access_sequence'' db' = Suc (seq_counter ''access_sequence'' db)"
    and "access_inv E db'"
    and "db_access_accumulator db' = delete_first_access (db_access_accumulator db)"
    and "\<exists>k. order_wal (db_access_wal db') = drop k (order_wal (db_access_wal db @ [r])) \<and>
      length (db_access_wal db') \<le> maxAccessWALBatches \<and> wal_bytes (db_access_wal db') \<le> maxAccessWALBytes \<and>
      (\<forall>j < k. maxAccessWALBatches < length (db_access_wal db @ [r]) - j \<or>
         maxAccessWALBytes < wal_bytes (drop j (order_wal (db_access_wal db @ [r]))))"
proof -
  from assms(2) obtain now boot cv b raw where ok: "tx_ok (DrainAccess E now boot cv) db (Some b) db'"
    and raw: "cd_access_marshal E b = Inr raw" and r: "r = access_row b raw now"
    by (auto simp: access_drain_def)
  note D = DrainAccess_Some [OF ok]
  from D raw r have p: "tx_ok (pruneAccessWALTx maxAccessWALBatches maxAccessWALBytes) (access_drained_db db r) () db'" by auto
  from assms(1) have s: "seq_ok ''access_sequence'' db" by (simp add: access_inv_def)
  from D next_sequence_iff [OF s] have n: "wr_sequence r = Suc (seq_counter ''access_sequence'' db)" "wr_sequence r \<le> max_int64"
    by (auto simp: r access_row_def)
  have dist: "distinct (map wr_sequence (db_access_wal (access_drained_db db r)))"
    using assms(1) n by (force simp: access_inv_def access_drained_db_def)
  from pruneAccessWALTx_ok [OF p dist] obtain k rows where
    k: "db' = access_drained_db db r\<lparr>db_access_wal := rows\<rparr>" "order_wal rows = drop k (order_wal (db_access_wal db @ [r]))"
      "length rows \<le> maxAccessWALBatches" "wal_bytes rows \<le> maxAccessWALBytes"
      "\<forall>j < k. maxAccessWALBatches < length (db_access_wal db @ [r]) - j \<or>
         maxAccessWALBytes < wal_bytes (drop j (order_wal (db_access_wal db @ [r])))"
    by (auto simp: access_drained_db_def)
  show "wr_sequence r = Suc (seq_counter ''access_sequence'' db)" by (rule n(1))
  have sq: "seq_ok ''access_sequence'' db'" "seq_counter ''access_sequence'' db' = wr_sequence r"
    using seq_ok_upd [OF n(2), of db' "db_meta db" "''access_sequence''"] by (simp_all add: k(1) access_drained_db_def)
  then show "seq_counter ''access_sequence'' db' = Suc (seq_counter ''access_sequence'' db)" by (simp add: n)
  show "db_access_accumulator db' = delete_first_access (db_access_accumulator db)" by (simp add: k(1) access_drained_db_def)
  show "\<exists>k. order_wal (db_access_wal db') = drop k (order_wal (db_access_wal db @ [r])) \<and>
      length (db_access_wal db') \<le> maxAccessWALBatches \<and> wal_bytes (db_access_wal db') \<le> maxAccessWALBytes \<and>
      (\<forall>j < k. maxAccessWALBatches < length (db_access_wal db @ [r]) - j \<or>
         maxAccessWALBytes < wal_bytes (drop j (order_wal (db_access_wal db @ [r]))))"
    using k by (intro exI [of _ k]) (simp add: k(1))
  have m: "mset rows = mset (drop k (order_wal (db_access_wal db @ [r])))" using k(2) by (metis mset_order_wal)
  have set: "set rows \<subseteq> insert r (set (db_access_wal db))"
  proof -
    have "set rows = set (drop k (order_wal (db_access_wal db @ [r])))" using m by (rule mset_eq_setD)
    also have "\<dots> \<subseteq> set (order_wal (db_access_wal db @ [r]))" by (rule set_drop_subset)
    finally show ?thesis by (simp add: order_wal_def)
  qed
  have "distinct (map wr_sequence rows)"
  proof -
    have "mset (map wr_sequence rows) = mset (map wr_sequence (drop k (order_wal (db_access_wal db @ [r]))))"
      using m by (metis mset_map)
    moreover have "distinct (map wr_sequence (drop k (order_wal (db_access_wal db @ [r]))))"
      using dist by (simp add: order_wal_def access_drained_db_def flip: drop_map)
    ultimately show ?thesis by (metis mset_eq_imp_distinct_iff)
  qed
  moreover have "access_wal_ok E r" using raw D by (auto simp: access_wal_ok_def r access_row_def)
  moreover have "distinct (map ai_SessionKey (delete_first_access (db_access_accumulator db)))"
    "list_all access_row_ok (delete_first_access (db_access_accumulator db))"
    using assms(1) by (auto simp: access_inv_def delete_first_access_def distinct_map_filter list.pred_set)
  ultimately show "access_inv E db'"
    using assms(1) sq n(1) set by (fastforce simp: access_inv_def k(1) access_drained_db_def)
qed

lemma AcknowledgeAccess_okE:
  assumes "tx_ok (AcknowledgeAccess boot sq hash) db u db'"
  shows "db' = db\<lparr>db_access_wal := filter (\<lambda>r. \<not> wal_matches boot sq hash r) (db_access_wal db)\<rparr>"
  using assms
  by (auto simp: AcknowledgeAccess_def store_simps elim!: tx_elims split: if_splits)

lemma access_ack_props:
  assumes "access_inv E db" and "access_ack_row db r db'"
  shows "access_inv E db' \<and> seq_counter ''access_sequence'' db' = seq_counter ''access_sequence'' db \<and>
    r \<in> set (db_access_wal db) \<and> (\<forall>x \<in> set (db_access_wal db'). x \<in> set (db_access_wal db) \<and> x \<noteq> r)"
proof -
  from assms(2) have r: "r \<in> set (db_access_wal db)"
    and db': "db' = db\<lparr>db_access_wal := filter (\<lambda>x. \<not> wal_matches (wr_boot_id r) (wr_sequence r) (wr_payload_sha256 r) x) (db_access_wal db)\<rparr>"
    by (auto simp: access_ack_row_def dest: AcknowledgeAccess_okE)
  have m: "db_meta db' ''access_sequence'' = db_meta db ''access_sequence''" by (simp add: db')
  show ?thesis using assms(1) r seq_frame [OF m]
    by (auto simp: access_inv_def db' distinct_map_filter wal_matches_def)
qed

interpretation access_log: wal_log "access_inv E" db_access_wal "seq_counter ''access_sequence''"
  "access_drain E" access_ack_row access_other for E
proof
  fix db r db'
  assume i: "access_inv E db"
  { assume d: "access_drain E db r db'"
    note p = access_drain_props [OF i d]
    from p(5) obtain k where "order_wal (db_access_wal db') = drop k (order_wal (db_access_wal db @ [r]))" by blast
    then have "set (order_wal (db_access_wal db')) \<subseteq> set (order_wal (db_access_wal db @ [r]))"
      by (metis set_drop_subset)
    then have "set (db_access_wal db') \<subseteq> insert r (set (db_access_wal db))" by (simp add: order_wal_def)
    with p show "access_inv E db' \<and> wr_sequence r = Suc (seq_counter ''access_sequence'' db) \<and>
      seq_counter ''access_sequence'' db' = Suc (seq_counter ''access_sequence'' db) \<and>
      set (db_access_wal db') \<subseteq> insert r (set (db_access_wal db))" by blast }
  { assume "access_ack_row db r db'"
    from access_ack_props [OF i this]
    show "access_inv E db' \<and> seq_counter ''access_sequence'' db' = seq_counter ''access_sequence'' db \<and>
      r \<in> set (db_access_wal db) \<and> (\<forall>x\<in>set (db_access_wal db'). x \<in> set (db_access_wal db) \<and> x \<noteq> r)" . }
  { assume "access_other db db'"
    then consider items where "tx_ok (AddAccess items) db () db'" | "access_frame db db'"
      by (auto simp: access_other_def)
    then show "access_inv E db' \<and> seq_counter ''access_sequence'' db' = seq_counter ''access_sequence'' db \<and>
      db_access_wal db' = db_access_wal db"
    proof cases
      case 1
      from access_add_inv [OF i 1] show ?thesis by simp
    next
      case 2
      with access_inv_frame [OF i 2] show ?thesis unfolding access_frame_def by blast
    qed }
qed

section \<open>Progress\<close>

definition access_marshal_total :: "Codecs \<Rightarrow> bool" where
  "access_marshal_total E \<longleftrightarrow> (\<forall>b. \<exists>raw. cd_access_marshal E b = Inr raw)"

lemma prune_bytes_run: "length (db_access_wal db) = n \<Longrightarrow> \<exists>db'. prune_bytes M n bytes ([], db) = (Inr (), [], db')"
proof (induction n arbitrary: bytes db)
  case (Suc n)
  then obtain row rest where o: "order_wal (db_access_wal db) = row # rest"
    by (metis length_Suc_conv length_order_wal)
  then have "row \<in> set (db_access_wal db)" by (metis list.set_intros(1) mset_order_wal mset_eq_setD)
  then have "length (remove1 row (db_access_wal db)) = n" using Suc.prems by (simp add: length_remove1)
  with Suc.IH [of "db\<lparr>db_access_wal := remove1 row (db_access_wal db)\<rparr>" "bytes - int (length (wr_payload_json row))"]
  show ?case by (auto simp: tx_bind_def o)
qed simp

lemma prune_run: "0 < B \<Longrightarrow> 0 < M \<Longrightarrow> \<exists>db'. pruneAccessWALTx B M ([], db) = (Inr (), [], db')"
proof -
  assume "0 < B" "0 < M"
  let ?W = "db_access_wal db" and ?V = "remove_rows (take (length (db_access_wal db) - B) (order_wal (db_access_wal db))) (db_access_wal db)"
  show ?thesis
  proof (cases "B < length ?W")
    case True
    have "length ?V = B" using True mset_eq_length [OF mset_remove_prefix [of ?W "order_wal ?W" "length ?W - B"]] by simp
    with prune_bytes_run [of "db\<lparr>db_access_wal := ?V\<rparr>" B M] True \<open>0 < B\<close> \<open>0 < M\<close> show ?thesis
      by (auto simp: pruneAccessWALTx_def tx_bind_def wal_stats_def)
  next
    case False
    with prune_bytes_run [of db "length ?W" M] \<open>0 < B\<close> \<open>0 < M\<close> show ?thesis
      by (auto simp: pruneAccessWALTx_def tx_bind_def wal_stats_def)
  qed
qed

lemma store_access_batch_run:
  assumes "access_marshal_total E" and "ab_Sequence b0 \<notin> wr_sequence ` set (db_access_wal db)"
    and "db_meta db ''access_sequence'' \<noteq> None"
  shows "\<exists>hash raw. store_access_batch E now b0 ([], db) =
    (Inr (b0\<lparr>ab_PayloadSHA256 := hash\<rparr>), [], access_drained_db db (access_row (b0\<lparr>ab_PayloadSHA256 := hash\<rparr>) raw now))"
proof -
  obtain raw0 where 0: "cd_access_marshal E (canonical_access_batch b0) = Inr raw0"
    using assms(1) unfolding access_marshal_total_def by blast
  let ?h = "hex_digest (cd_crypto E) raw0"
  obtain raw where 1: "cd_access_marshal E (b0\<lparr>ab_PayloadSHA256 := ?h\<rparr>) = Inr raw"
    using assms(1) unfolding access_marshal_total_def by blast
  from assms(2,3) 0 1 have "store_access_batch E now b0 ([], db) =
      (Inr (b0\<lparr>ab_PayloadSHA256 := ?h\<rparr>), [], access_drained_db db (access_row (b0\<lparr>ab_PayloadSHA256 := ?h\<rparr>) raw now))"
    by (auto simp: store_access_batch_def tx_bind_def AccessPayloadSHA256_def insert_wal_def wal_key_def
        meta_update_def access_drained_db_def access_row_def)
  then show ?thesis by blast
qed

lemma first_access_rows_fit:
  "list_all access_row_ok rows \<Longrightarrow> scan_all scan_access_row (first_access_rows rows) = Inr (first_access_rows rows)"
  by (auto simp: scan_access_rows first_access_rows_def list.pred_set access_row_ok_def dest!: in_set_takeD)

lemma access_drain_runs:
  assumes "access_inv E db" and "seq_counter ''access_sequence'' db < max_int64"
    and "db_access_accumulator db \<noteq> []" and "access_marshal_total E"
  shows "\<exists>b db'. DrainAccess E now boot cv ([], db) = (Inr (Some b), [], db')"
proof -
  let ?items = "first_access_rows (db_access_accumulator db)" and ?n = "Suc (seq_counter ''access_sequence'' db)"
  have i: "scan_all scan_access_row ?items = Inr ?items" using assms(1) by (simp add: access_inv_def first_access_rows_fit)
  have "sort_key ai_SessionKey (db_access_accumulator db) \<noteq> []" using assms(3) by (metis mset_sort mset_zero_iff)
  then have ne: "?items \<noteq> []" by (simp add: first_access_rows_def maxAccessBatchItems_def)
  have "seq_ok ''access_sequence'' db" using assms(1) by (simp add: access_inv_def)
  then have n: "next_sequence ''access_sequence'' db = Inr ?n" using assms(2) by (simp add: next_sequence_iff)
  let ?b0 = "access_batch_of boot ?n cv (close_interval now (rows_interval (map (\<lambda>r. (ai_StartedAt r, ai_LastSeenAt r)) ?items))) ?items"
  have "ab_Sequence ?b0 \<notin> wr_sequence ` set (db_access_wal db)"
    using assms(1) by (force simp: access_inv_def access_batch_of_def)
  from store_access_batch_run [OF assms(4) this next_sequence_meta [OF n], of now]
  obtain hash raw where s: "store_access_batch E now ?b0 ([], db) =
      (Inr (?b0\<lparr>ab_PayloadSHA256 := hash\<rparr>), [], access_drained_db db (access_row (?b0\<lparr>ab_PayloadSHA256 := hash\<rparr>) raw now))"
    by blast
  have pos: "0 < maxAccessWALBatches" "0 < maxAccessWALBytes"
    by (simp_all add: maxAccessWALBatches_def maxAccessWALBytes_def)
  obtain db' where "pruneAccessWALTx maxAccessWALBatches maxAccessWALBytes
      ([], access_drained_db db (access_row (?b0\<lparr>ab_PayloadSHA256 := hash\<rparr>) raw now)) = (Inr (), [], db')"
    using prune_run [OF pos] by blast
  with i n ne s show ?thesis
    unfolding DrainAccess_def
    by (intro exI, intro transact_no_faults(1)) (simp add: tx_bind_def)
qed

section \<open>Session counters\<close>

definition session_bytes :: "(AccessItem \<Rightarrow> nat) \<Rightarrow> string \<Rightarrow> AccessItem list \<Rightarrow> nat" where
  "session_bytes f k rows = (case find (\<lambda>r. ai_SessionKey r = k) rows of None \<Rightarrow> 0 | Some r \<Rightarrow> f r)"

definition added_bytes :: "(AccessItem \<Rightarrow> nat) \<Rightarrow> string \<Rightarrow> AccessItem list \<Rightarrow> nat" where
  "added_bytes f k items = sum_list (map (\<lambda>i. if ai_SessionKey i = k then f i else 0) items)"

lemma session_bytes_simps:
  "session_bytes f k [] = 0"
  "session_bytes f k (r # rows) = (if ai_SessionKey r = k then f r else session_bytes f k rows)"
  by (simp_all add: session_bytes_def)

lemma session_bytes_map_merge:
  "session_bytes f k (map (\<lambda>r. if ai_SessionKey r = ai_SessionKey item then merge_access_row item r else r) rows)
   = (if k = ai_SessionKey item then session_bytes (\<lambda>r. f (merge_access_row item r)) k rows else session_bytes f k rows)"
  by (induction rows) (auto simp: session_bytes_simps)

lemma session_bytes_absent: "k \<notin> ai_SessionKey ` set rows \<Longrightarrow> session_bytes f k rows = 0"
  by (induction rows) (auto simp: session_bytes_simps)

lemma session_bytes_snoc:
  "session_bytes f k (rows @ [item]) =
     (if k \<in> ai_SessionKey ` set rows then session_bytes f k rows else if ai_SessionKey item = k then f item else 0)"
  by (induction rows) (auto simp: session_bytes_simps)

lemma session_bytes_saturate:
  "(\<And>r. f (merge_access_row item r) = saturating_sum (f r) (f item)) \<Longrightarrow> f item \<le> max_int64 \<Longrightarrow>
   session_bytes f k (upsert_access item rows) =
     (if k = ai_SessionKey item then min max_int64 (session_bytes f k rows + f item) else session_bytes f k rows)"
proof -
  assume m: "\<And>r. f (merge_access_row item r) = saturating_sum (f r) (f item)" and le: "f item \<le> max_int64"
  show ?thesis
  proof (cases "ai_SessionKey item \<in> ai_SessionKey ` set rows")
    case True
    have g: "session_bytes (\<lambda>r. saturating_sum (f r) (f item)) k rows = saturating_sum (session_bytes f k rows) (f item)"
      if "k \<in> ai_SessionKey ` set rows" using that by (induction rows) (auto simp: session_bytes_simps)
    with True show ?thesis
      by (auto simp: upsert_access_def session_bytes_map_merge m saturating_sum_eq [OF le])
  next
    case False
    then show ?thesis using le by (auto simp: upsert_access_def session_bytes_snoc session_bytes_absent)
  qed
qed

lemma fold_upsert_saturates:
  assumes "\<And>item r. f (merge_access_row item r) = saturating_sum (f r) (f item)"
    and "list_all (\<lambda>i. f i \<le> max_int64) items" and "session_bytes f k rows \<le> max_int64"
  shows "session_bytes f k (fold upsert_access items rows) = min max_int64 (session_bytes f k rows + added_bytes f k items)"
  using assms(2,3)
proof (induction items arbitrary: rows)
  case Nil
  then show ?case by (simp add: added_bytes_def)
next
  case (Cons i items)
  have le: "f i \<le> max_int64" using Cons.prems by simp
  have "session_bytes f k (upsert_access i rows) =
      (if k = ai_SessionKey i then min max_int64 (session_bytes f k rows + f i) else session_bytes f k rows)"
    by (rule session_bytes_saturate [of f i, OF assms(1) le])
  moreover have "session_bytes f k (upsert_access i rows) \<le> max_int64" using calculation Cons.prems by auto
  moreover have "added_bytes f k (i # items) = (if k = ai_SessionKey i then f i else 0) + added_bytes f k items"
    by (auto simp: added_bytes_def)
  ultimately show ?case using Cons.IH [of "upsert_access i rows"] Cons.prems(1) by auto
qed

section \<open>Properties\<close>

text \<open>
  C16. The access log is bounded: after every drain that returns a batch, whatever faults occur,
  the log holds at most 1440 batches and 64 MiB of payload; in the order in which batches are
  sent the remaining ones are the most recent, and no batch is dropped that would have fitted
  within both bounds.
\<close>

theorem access_log_bounded:
  assumes "access_inv E db" and "DrainAccess E now boot cv (fs, db) = (Inr (Some b), fs', db')"
  shows "\<exists>r k. wr_sequence r = ab_Sequence b \<and>
    order_wal (db_access_wal db') = drop k (order_wal (db_access_wal db @ [r])) \<and>
    length (db_access_wal db') \<le> 1440 \<and> wal_bytes (db_access_wal db') \<le> 67108864 \<and>
    (\<forall>j < k. 1440 < length (db_access_wal db @ [r]) - j \<or>
       67108864 < wal_bytes (drop j (order_wal (db_access_wal db @ [r]))))"
proof -
  from assms(2) have ok: "tx_ok (DrainAccess E now boot cv) db (Some b) db'" by (rule tx_okI)
  from DrainAccess_Some [OF this] obtain raw where "cd_access_marshal E b = Inr raw" by blast
  with ok have d: "access_drain E db (access_row b raw now) db'" unfolding access_drain_def by blast
  from access_drain_props(5) [OF assms(1) d] show ?thesis
    by (intro exI [of _ "access_row b raw now"]) (simp add: access_row_def maxAccessWALBatches_def maxAccessWALBytes_def)
qed

text \<open>
  C24. The access log, too, numbers its batches 1, 2, 3, ... without gaps and has each
  acknowledged at most once; a pending batch was drained and is not acknowledged.
\<close>

lemma fresh_access_seq: "seq_ok ''access_sequence'' fresh_db \<and> seq_counter ''access_sequence'' fresh_db = 0"
  by (rule seq_ok_upd [of 0 _ "db_meta fresh_db"])
     (auto simp: max_int64_def fresh_db_def fun_upd_def format_zero [symmetric])

lemma access_inv_fresh: "codecs_inverse E \<Longrightarrow> access_inv E fresh_db"
  using fresh_access_seq by (simp add: access_inv_def fresh_db_def empty_db_def)

theorem access_log_exactly_once:
  assumes "codecs_inverse E" and "wal_run (access_drain E) access_ack_row access_other fresh_db es db"
  shows "map wr_sequence (drained_rows es) = [1..<Suc (seq_counter ''access_sequence'' db)] \<and>
    distinct (acknowledged_rows es) \<and> set (acknowledged_rows es) \<subseteq> set (drained_rows es) \<and>
    set (db_access_wal db) \<subseteq> set (drained_rows es) - set (acknowledged_rows es)"
proof -
  have "db_access_wal fresh_db = []" by (simp add: fresh_db_def empty_db_def)
  from access_log.exactly_once [OF assms(2) access_inv_fresh [OF assms(1)] this] fresh_access_seq
  show ?thesis by (simp del: upt_Suc)
qed

text \<open>
  C26. AddAccess saturates instead of overflowing: after it succeeds, the bytes stored for a
  session are the old ones plus those of all the session's items, capped at the largest int64,
  in both directions.
\<close>

theorem access_bytes_saturate:
  assumes "AddAccess items (fs, db) = (Inr u, fs', db')" and "access_inv E db"
  shows "session_bytes ai_UploadBytes k (db_access_accumulator db') =
      min max_int64 (session_bytes ai_UploadBytes k (db_access_accumulator db) + added_bytes ai_UploadBytes k items) \<and>
    session_bytes ai_DownloadBytes k (db_access_accumulator db') =
      min max_int64 (session_bytes ai_DownloadBytes k (db_access_accumulator db) + added_bytes ai_DownloadBytes k items)"
proof -
  have a: "list_all (\<lambda>i. validateLocalAccessItem i = None) items"
    "db_access_accumulator db' = fold upsert_access items (db_access_accumulator db)"
    using AddAccess_ok [OF tx_okI, of items fs db u fs' db'] assms(1) by simp_all
  from a(1) have v: "list_all access_row_ok items" by (auto simp: list.pred_set valid_item_row_ok)
  then have le: "list_all (\<lambda>i. ai_UploadBytes i \<le> max_int64) items" "list_all (\<lambda>i. ai_DownloadBytes i \<le> max_int64) items"
    by (auto simp: list.pred_set access_row_ok_def)
  have old: "session_bytes f k rows \<le> max_int64" if "list_all access_row_ok rows" "\<And>r. access_row_ok r \<Longrightarrow> f r \<le> max_int64" for f rows
    using that by (induction rows) (auto simp: session_bytes_simps)
  have rows: "list_all access_row_ok (db_access_accumulator db)" using assms(2) by (simp add: access_inv_def)
  have up: "session_bytes ai_UploadBytes k (db_access_accumulator db) \<le> max_int64"
    "session_bytes ai_DownloadBytes k (db_access_accumulator db) \<le> max_int64"
    by (rule old [OF rows], simp add: access_row_ok_def)+
  from fold_upsert_saturates [OF _ le(1) up(1)] fold_upsert_saturates [OF _ le(2) up(2)] show ?thesis
    by (simp add: a(2) merge_access_row_def)
qed

text \<open>
  C25. The access log never blocks: in every state the store can reach, a drain without faults
  returns a batch with the accumulator's first thousand sessions in key order, removes exactly
  these from the accumulator, and the batch carries its own payload digest.
\<close>

lemma delete_first_access_length:
  assumes "distinct (map ai_SessionKey rows)"
  shows "mset (first_access_rows rows) + mset (delete_first_access rows) = mset rows"
proof -
  let ?s = "sort_key ai_SessionKey rows"
  have d: "distinct (map ai_SessionKey ?s)" using assms by simp
  have part: "mset (filter (\<lambda>r. ai_SessionKey r \<notin> ai_SessionKey ` set (take n xs)) xs) = mset (drop n xs)"
    if "distinct (map ai_SessionKey xs)" for n and xs :: "AccessItem list"
    using that
  proof (induction xs arbitrary: n)
    case (Cons x xs)
    show ?case
    proof (cases n)
      case (Suc m)
      have "filter (\<lambda>r. ai_SessionKey r \<noteq> ai_SessionKey x \<and> ai_SessionKey r \<notin> ai_SessionKey ` set (take m xs)) xs
          = filter (\<lambda>r. ai_SessionKey r \<notin> ai_SessionKey ` set (take m xs)) xs"
        using Cons.prems by (intro filter_cong refl) (metis distinct.simps(2) image_eqI list.set_map list.simps(9))
      with Suc Cons show ?thesis by simp
    qed simp
  qed simp
  have "mset (delete_first_access rows) = mset (filter (\<lambda>r. ai_SessionKey r \<notin> ai_SessionKey ` set (first_access_rows rows)) ?s)"
    by (simp add: delete_first_access_def)
  also have "\<dots> = mset (drop maxAccessBatchItems ?s)"
    unfolding first_access_rows_def by (rule part [OF d])
  finally show ?thesis
    by (metis append_take_drop_id first_access_rows_def mset_append mset_sort)
qed

theorem access_drain_progress:
  assumes "access_inv E db" and "seq_counter ''access_sequence'' db < max_int64"
    and "db_access_accumulator db \<noteq> []" and "access_marshal_total E"
  shows "\<exists>b db'. DrainAccess E now boot cv ([], db) = (Inr (Some b), [], db') \<and>
    ab_Items b = take 1000 (sort_key ai_SessionKey (db_access_accumulator db)) \<and>
    mset (ab_Items b) + mset (db_access_accumulator db') = mset (db_access_accumulator db) \<and>
    AccessPayloadSHA256 (cd_crypto E) (cd_access_marshal E) b = Inr (ab_PayloadSHA256 b)"
proof -
  from access_drain_runs [OF assms] obtain b db' where run: "DrainAccess E now boot cv ([], db) = (Inr (Some b), [], db')" by blast
  then have ok: "tx_ok (DrainAccess E now boot cv) db (Some b) db'" by (rule tx_okI)
  note D = DrainAccess_Some [OF ok]
  then obtain raw where "cd_access_marshal E b = Inr raw" by blast
  with ok have d: "access_drain E db (access_row b raw now) db'" unfolding access_drain_def by blast
  have "distinct (map ai_SessionKey (db_access_accumulator db))" using assms(1) by (simp add: access_inv_def)
  from delete_first_access_length [OF this] access_drain_props(4) [OF assms(1) d] D run show ?thesis
    by (intro exI [of _ b] exI [of _ db']) (simp add: first_access_rows_def maxAccessBatchItems_def)
qed

definition example_access_item :: AccessItem where
  "example_access_item = \<lparr>ai_SessionKey = replicate 64 CHR ''a'', ai_SubscriberID = 5, ai_InboundID = 2,
     ai_Host = ''example.com'', ai_Network = ''tcp'', ai_Protocol = ''tls'', ai_DestinationPort = 443,
     ai_StartedAt = 10, ai_LastSeenAt = 20, ai_EndedAt = None, ai_UploadBytes = 100, ai_DownloadBytes = 900,
     ai_ConnectionCount = 1, ai_Active = True\<rparr>"

definition example_access_db :: Db where
  "example_access_db = fresh_db\<lparr>db_access_accumulator := [example_access_item]\<rparr>"

lemma example_access_valid: "validateLocalAccessItem example_access_item = None"
proof -
  have "trim_space ''example.com'' = ''example.com''" by code_simp
  moreover have "accessSessionKeyPattern (replicate 64 CHR ''a'')" "accessProtocolPattern ''tls''"
    by (auto simp: accessSessionKeyPattern_def accessProtocolPattern_def is_lower_char_def is_digit_char_def byte_of_def
        list.pred_set)
  ultimately show ?thesis
    by (simp add: validateLocalAccessItem_def example_access_item_def max_int64_def max_int32_def)
qed

lemma example_access_add: "AddAccess [example_access_item] ([], fresh_db) = (Inr (), [], example_access_db)"
  unfolding AddAccess_def
  by (simp add: transact_def tx_bind_def add_access_item_def example_access_valid upsert_access_def fresh_db_def
      empty_db_def example_access_db_def)

lemma example_access_facts:
  "access_inv example_codecs example_access_db" "seq_counter ''access_sequence'' example_access_db < max_int64"
  "db_access_accumulator example_access_db \<noteq> []" "access_marshal_total example_codecs"
proof -
  note i = access_add_inv [OF access_inv_fresh [OF example_codecs_inverse] tx_okI, OF example_access_add]
  show "access_inv example_codecs example_access_db" by (rule i)
  show "seq_counter ''access_sequence'' example_access_db < max_int64" using i(2) fresh_access_seq by (simp add: max_int64_def)
  show "db_access_accumulator example_access_db \<noteq> []" by (simp add: example_access_db_def)
  show "access_marshal_total example_codecs" by (simp add: access_marshal_total_def example_codecs_def)
qed

theorem access_drain_progress_witness:
  "\<exists>b db'. DrainAccess example_codecs 30 ''boot'' 1 ([], example_access_db) = (Inr (Some b), [], db') \<and>
     ab_Items b = [example_access_item] \<and> db_access_accumulator db' = []"
  using access_drain_progress [OF example_access_facts, of 30 "''boot''" 1]
  by (auto simp: example_access_db_def)

theorem access_log_bounded_witness:
  "\<exists>b db'. DrainAccess example_codecs 30 ''boot'' 1 ([], example_access_db) = (Inr (Some b), [], db') \<and>
     length (db_access_wal db') \<le> 1440"
proof -
  from access_drain_runs [OF example_access_facts] obtain b db'
    where run: "DrainAccess example_codecs 30 ''boot'' 1 ([], example_access_db) = (Inr (Some b), [], db')" by blast
  from access_log_bounded [OF example_access_facts(1) run] run show ?thesis by blast
qed

theorem access_log_exactly_once_witness:
  "\<exists>r db. wal_run (access_drain example_codecs) access_ack_row access_other fresh_db [Drained r] db \<and>
     set (db_access_wal db) \<subseteq> {r}"
proof -
  from access_drain_runs [OF example_access_facts] obtain b db'
    where "DrainAccess example_codecs 30 ''boot'' 1 ([], example_access_db) = (Inr (Some b), [], db')" by blast
  then have ok: "tx_ok (DrainAccess example_codecs 30 ''boot'' 1) example_access_db (Some b) db'" by (rule tx_okI)
  from DrainAccess_Some [OF this] obtain raw where "cd_access_marshal example_codecs b = Inr raw" by blast
  with ok have d: "access_drain example_codecs example_access_db (access_row b raw 30) db'" unfolding access_drain_def by blast
  have "access_other fresh_db example_access_db"
    using tx_okI [where m = "AddAccess [example_access_item]", OF example_access_add] unfolding access_other_def by blast
  then have "wal_run (access_drain example_codecs) access_ack_row access_other fresh_db [] example_access_db"
    by (blast intro: wal_run.other wal_run.start)
  from wal_run.drained [OF this d]
  have run: "wal_run (access_drain example_codecs) access_ack_row access_other fresh_db [Drained (access_row b raw 30)] db'" by simp
  from access_log_exactly_once [OF example_codecs_inverse run] run show ?thesis by auto
qed

theorem access_bytes_saturate_witness:
  "AddAccess [example_access_item] ([], fresh_db) = (Inr (), [], example_access_db) \<and>
   session_bytes ai_UploadBytes (replicate 64 CHR ''a'') (db_access_accumulator example_access_db) = 100"
proof -
  have "added_bytes ai_UploadBytes (replicate 64 CHR ''a'') [example_access_item] = 100"
    "session_bytes ai_UploadBytes (replicate 64 CHR ''a'') (db_access_accumulator fresh_db) = 0"
    by (simp_all add: added_bytes_def session_bytes_def example_access_item_def fresh_db_def empty_db_def)
  with access_bytes_saturate [OF example_access_add access_inv_fresh [OF example_codecs_inverse], of "replicate 64 CHR ''a''"]
    example_access_add
  show ?thesis by (simp add: max_int64_def)
qed

end
