(* ===== verification/Maintenance_Controller.thy ===== *)
theory Maintenance_Controller
  imports Identity Tx_Logic
begin

text \<open>
  The unprivileged half of maintenance: internal/maintenance/controller.go. Commands from the
  control plane are verified and written as request files for the root manager; the result file
  of the manager is read back and cleared. HTTP, JSON, uuid, the clock and modification times
  are fields of \<open>MaintenanceEnv\<close>. The user-facing texts are the UTF-8 bytes of the source's.
\<close>

section \<open>Texts\<close>

definition msg_not_release :: string where
  "msg_not_release =
    [CHR 0xE5, CHR 0xBD, CHR 0x93, CHR 0xE5, CHR 0x89, CHR 0x8D, CHR 0xE6, CHR 0x9E, CHR 0x84, CHR 0xE5, CHR 0xBB, CHR 0xBA,
     CHR 0xE7, CHR 0x89, CHR 0x88, CHR 0xE6, CHR 0x9C, CHR 0xAC, CHR 0xE4, CHR 0xB8, CHR 0x8D, CHR 0xE6, CHR 0x98, CHR 0xAF,
     CHR 0xE5, CHR 0x8F, CHR 0xAF, CHR 0xE5, CHR 0x8F, CHR 0x91, CHR 0xE5, CHR 0xB8, CHR 0x83, CHR 0xE7, CHR 0x89, CHR 0x88,
     CHR 0xE6, CHR 0x9C, CHR 0xAC]"

definition msg_check_failed :: string where
  "msg_check_failed =
    [CHR 0xE6, CHR 0xA3, CHR 0x80, CHR 0xE6, CHR 0x9F, CHR 0xA5, CHR 0x20, CHR 0x47, CHR 0x69, CHR 0x74, CHR 0x48, CHR 0x75,
     CHR 0x62, CHR 0x20, CHR 0xE6, CHR 0x9C, CHR 0x80, CHR 0xE6, CHR 0x96, CHR 0xB0, CHR 0xE7, CHR 0x89, CHR 0x88, CHR 0xE6,
     CHR 0x9C, CHR 0xAC, CHR 0xE5, CHR 0xA4, CHR 0xB1, CHR 0xE8, CHR 0xB4, CHR 0xA5, CHR 0xEF, CHR 0xBC, CHR 0x9A]"

definition msg_new_version :: string where
  "msg_new_version =
    [CHR 0xE5, CHR 0x8F, CHR 0x91, CHR 0xE7, CHR 0x8E, CHR 0xB0, CHR 0xE6, CHR 0x96, CHR 0xB0, CHR 0xE7, CHR 0x89, CHR 0x88,
     CHR 0xE6, CHR 0x9C, CHR 0xAC, CHR 0x20]"

definition msg_up_to_date :: string where
  "msg_up_to_date =
    [CHR 0xE5, CHR 0xBD, CHR 0x93, CHR 0xE5, CHR 0x89, CHR 0x8D, CHR 0xE5, CHR 0xB7, CHR 0xB2, CHR 0xE6, CHR 0x98, CHR 0xAF,
     CHR 0xE6, CHR 0x9C, CHR 0x80, CHR 0xE6, CHR 0x96, CHR 0xB0, CHR 0xE7, CHR 0x89, CHR 0x88, CHR 0xE6, CHR 0x9C, CHR 0xAC]"

definition msg_wrong_identity :: string where
  "msg_wrong_identity =
    [CHR 0xE7, CHR 0xBB, CHR 0xB4, CHR 0xE6, CHR 0x8A, CHR 0xA4, CHR 0xE6, CHR 0x8C, CHR 0x87, CHR 0xE4, CHR 0xBB, CHR 0xA4,
     CHR 0xE8, CHR 0xBA, CHR 0xAB, CHR 0xE4, CHR 0xBB, CHR 0xBD, CHR 0xE4, CHR 0xB8, CHR 0x8D, CHR 0xE5, CHR 0x8C, CHR 0xB9,
     CHR 0xE9, CHR 0x85, CHR 0x8D]"

definition msg_bad_signature :: string where
  "msg_bad_signature =
    [CHR 0xE7, CHR 0xBB, CHR 0xB4, CHR 0xE6, CHR 0x8A, CHR 0xA4, CHR 0xE6, CHR 0x8C, CHR 0x87, CHR 0xE4, CHR 0xBB, CHR 0xA4,
     CHR 0xE7, CHR 0xAD, CHR 0xBE, CHR 0xE5, CHR 0x90, CHR 0x8D, CHR 0xE6, CHR 0xA0, CHR 0xA1, CHR 0xE9, CHR 0xAA, CHR 0x8C,
     CHR 0xE5, CHR 0xA4, CHR 0xB1, CHR 0xE8, CHR 0xB4, CHR 0xA5, CHR 0xEF, CHR 0xBC, CHR 0x9A]"

definition msg_not_ready :: string where
  "msg_not_ready =
    [CHR 0xE6, CHR 0x9C, CHR 0xAC, CHR 0xE6, CHR 0x9C, CHR 0xBA, CHR 0xE7, CHR 0xAD, CHR 0xBE, CHR 0xE5, CHR 0x90, CHR 0x8D,
     CHR 0xE7, CHR 0xBB, CHR 0xB4, CHR 0xE6, CHR 0x8A, CHR 0xA4, CHR 0xE6, CHR 0x9C, CHR 0x8D, CHR 0xE5, CHR 0x8A, CHR 0xA1,
     CHR 0xE6, CHR 0x9C, CHR 0xAA, CHR 0xE5, CHR 0xB0, CHR 0xB1, CHR 0xE7, CHR 0xBB, CHR 0xAA]"

definition msg_write_failed :: string where
  "msg_write_failed =
    [CHR 0xE7, CHR 0xBB, CHR 0xB4, CHR 0xE6, CHR 0x8A, CHR 0xA4, CHR 0xE4, CHR 0xBB, CHR 0xBB, CHR 0xE5, CHR 0x8A, CHR 0xA1,
     CHR 0xE5, CHR 0x86, CHR 0x99, CHR 0xE5, CHR 0x85, CHR 0xA5, CHR 0xE5, CHR 0xA4, CHR 0xB1, CHR 0xE8, CHR 0xB4, CHR 0xA5,
     CHR 0xEF, CHR 0xBC, CHR 0x9A]"

definition msg_update_queued :: string where
  "msg_update_queued =
    [CHR 0xE5, CHR 0x8D, CHR 0x87, CHR 0xE7, CHR 0xBA, CHR 0xA7, CHR 0xE4, CHR 0xBB, CHR 0xBB, CHR 0xE5, CHR 0x8A, CHR 0xA1,
     CHR 0xE5, CHR 0xB7, CHR 0xB2, CHR 0xE5, CHR 0xAE, CHR 0x89, CHR 0xE5, CHR 0x85, CHR 0xA8, CHR 0xE5, CHR 0x86, CHR 0x99,
     CHR 0xE5, CHR 0x85, CHR 0xA5, CHR 0xE6, CHR 0x9C, CHR 0xAC, CHR 0xE6, CHR 0x9C, CHR 0xBA, CHR 0xE7, CHR 0xBB, CHR 0xB4,
     CHR 0xE6, CHR 0x8A, CHR 0xA4, CHR 0xE9, CHR 0x98, CHR 0x9F, CHR 0xE5, CHR 0x88, CHR 0x97]"

definition msg_uninstall_queued :: string where
  "msg_uninstall_queued =
    [CHR 0xE5, CHR 0xBD, CHR 0xBB, CHR 0xE5, CHR 0xBA, CHR 0x95, CHR 0xE5, CHR 0x8D, CHR 0xB8, CHR 0xE8, CHR 0xBD, CHR 0xBD,
     CHR 0xE4, CHR 0xBB, CHR 0xBB, CHR 0xE5, CHR 0x8A, CHR 0xA1, CHR 0xE5, CHR 0xB7, CHR 0xB2, CHR 0xE5, CHR 0xAE, CHR 0x89,
     CHR 0xE5, CHR 0x85, CHR 0xA8, CHR 0xE5, CHR 0x86, CHR 0x99, CHR 0xE5, CHR 0x85, CHR 0xA5, CHR 0xE6, CHR 0x9C, CHR 0xAC,
     CHR 0xE6, CHR 0x9C, CHR 0xBA, CHR 0xE7, CHR 0xBB, CHR 0xB4, CHR 0xE6, CHR 0x8A, CHR 0xA4, CHR 0xE9, CHR 0x98, CHR 0x9F,
     CHR 0xE5, CHR 0x88, CHR 0x97]"

text \<open>The Error method of the error values\<close>

fun error_text :: "go_error \<Rightarrow> string" where
  "error_text (Msg s) = s"
| "error_text (Wrapped label e) = label @ '': '' @ error_text e"
| "error_text ErrNoRows = ''sql: no rows in result set''"
| "error_text ErrNotExist = ''file does not exist''"
| "error_text ErrUninstalled = ''agent uninstalled''"
| "error_text (ErrHTTP status) = ''release download returned HTTP '' @ format_int status"
| "error_text (ErrIO s) = s"
| "error_text ErrCanceled = ''context canceled''"
| "error_text (ErrPanic s) = s"

definition compactMessage :: "string \<Rightarrow> nat \<Rightarrow> string" where
  "compactMessage v limit =
     (let t = join_with '' '' (Go_Prelude.fields (trim_space v)) in if length t > limit then take limit t else t)"

section \<open>Versions\<close>

definition parse_part :: "string \<Rightarrow> nat option" where
  "parse_part p = (case atoi p of None \<Rightarrow> None | Some n \<Rightarrow> if n < 0 then None else Some (nat n))"

definition parseVersion :: "string \<Rightarrow> (nat \<times> nat \<times> nat) option" where
  "parseVersion v =
     (let t = takeWhile (\<lambda>c. c \<noteq> CHR ''-'' \<and> c \<noteq> CHR ''+'') (trim_prefix (trim_space v) ''v'')
      in case split_on CHR ''.'' t of
           [a, b, c] \<Rightarrow>
             (case (parse_part a, parse_part b, parse_part c) of
                (Some x, Some y, Some z) \<Rightarrow> Some (x, y, z)
              | _ \<Rightarrow> None)
         | _ \<Rightarrow> None)"

text \<open>The loop over the three numbers: the first difference decides.\<close>

fun first_difference :: "nat list \<Rightarrow> nat list \<Rightarrow> bool" where
  "first_difference (x # xs) (y # ys) = (if x \<noteq> y then x > y else first_difference xs ys)"
| "first_difference _ _ = False"

definition versionNewer :: "string \<Rightarrow> string \<Rightarrow> bool" where
  "versionNewer candidate current =
     (case (parseVersion candidate, parseVersion current) of
        (Some (a, b, c), Some (x, y, z)) \<Rightarrow> first_difference [a, b, c] [x, y, z]
      | _ \<Rightarrow> False)"

definition validReleaseVersion :: "string \<Rightarrow> bool" where
  "validReleaseVersion v \<longleftrightarrow> parseVersion v \<noteq> None \<and> has_prefix (trim_space v) ''v''"

section \<open>Release requests\<close>

definition releaseDownloadAttempts :: nat where "releaseDownloadAttempts = 3"
definition releaseDownloadRetryDelay :: int where "releaseDownloadRetryDelay = 2 * second"

text \<open>errors.As finds the HTTP error under wrapped errors.\<close>

fun http_status :: "go_error \<Rightarrow> int option" where
  "http_status (ErrHTTP status) = Some status"
| "http_status (Wrapped label e) = http_status e"
| "http_status _ = None"

definition shouldRetryReleaseRequest :: "bool \<Rightarrow> go_error \<Rightarrow> bool" where
  "shouldRetryReleaseRequest ctx_done err =
     (if ctx_done then False
      else case http_status err of
             Some status \<Rightarrow> status = 408 \<or> status = 429 \<or> status \<ge> 500
           | None \<Rightarrow> True)"

definition releaseRetryDelayFor :: "nat \<Rightarrow> (nat \<Rightarrow> int) option \<Rightarrow> int" where
  "releaseRetryDelayFor attempt retryDelay =
     (case retryDelay of Some f \<Rightarrow> f attempt | None \<Rightarrow> int attempt * releaseDownloadRetryDelay)"

text \<open>Whether the context ends before the timer is an argument.\<close>

definition waitForReleaseRetry :: "bool \<Rightarrow> int \<Rightarrow> go_error option" where
  "waitForReleaseRetry ctx_done_first delay =
     (if delay \<le> 0 then None else if ctx_done_first then Some ErrCanceled else None)"

text \<open>
  The loop that latestVersion, download and downloadToFile share: at most three attempts, each
  after a preparing step whose error ends the loop. The context is described by two functions
  of the attempt: whether it is done after the request, and whether it ends during the wait.
\<close>

record ReleaseContext =
  rx_done :: "nat \<Rightarrow> bool"
  rx_done_in_wait :: "nat \<Rightarrow> bool"
  rx_retryDelay :: "(nat \<Rightarrow> int) option"

fun retry_loop ::
  "ReleaseContext \<Rightarrow> ('s, unit) tx \<Rightarrow> (nat \<Rightarrow> ('s, 'a) tx) \<Rightarrow> nat \<Rightarrow> nat \<Rightarrow> go_error \<Rightarrow> ('s, 'a) tx" where
  "retry_loop ctx prepare once 0 attempt lastErr = tx_lift (Inl lastErr)"
| "retry_loop ctx prepare once (Suc left) attempt lastErr =
     tx_bind prepare (\<lambda>_.
     tx_bind (tx_attempt (once attempt)) (\<lambda>r.
     case r of
       Inr x \<Rightarrow> tx_return x
     | Inl err \<Rightarrow>
         if \<not> shouldRetryReleaseRequest (rx_done ctx attempt) err \<or> attempt = releaseDownloadAttempts
         then tx_lift (Inl err)
         else (case waitForReleaseRetry (rx_done_in_wait ctx attempt) (releaseRetryDelayFor attempt (rx_retryDelay ctx)) of
                 Some e \<Rightarrow> tx_lift (Inl e)
               | None \<Rightarrow> retry_loop ctx prepare once left (Suc attempt) err)))"

definition release_retry :: "ReleaseContext \<Rightarrow> ('s, unit) tx \<Rightarrow> (nat \<Rightarrow> ('s, 'a) tx) \<Rightarrow> ('s, 'a) tx" where
  "release_retry ctx prepare once = retry_loop ctx prepare once releaseDownloadAttempts 1 (Msg [])"

section \<open>The controller\<close>

record MaintenanceEnv =
  me_crypto :: Crypto
  me_marshal_command :: "MaintenanceCommand \<Rightarrow> string result"
  me_marshal_signed :: "SignedMaintenanceCommand \<Rightarrow> string result"
  me_decode_signed :: "SignedMaintenanceCommand json_decoder"
  me_marshal_result :: "MaintenanceResult \<Rightarrow> string result"
  me_decode_result :: "MaintenanceResult json_decoder"
  me_uuid_ok :: "string \<Rightarrow> bool"
  me_fresh_uuid :: string
  me_now :: int
  me_mtime :: "string \<Rightarrow> int"
  me_head :: "nat \<Rightarrow> (int \<times> string) result"
  me_context :: ReleaseContext
  me_tmp :: "string \<Rightarrow> string"

record Controller =
  co_cfg :: Config
  co_identity :: Identity
  co_signingKey :: string
  co_version :: string

definition NewController :: "Config \<Rightarrow> Identity \<Rightarrow> string \<Rightarrow> string \<Rightarrow> Controller result" where
  "NewController cfg ident signingKey version =
     (if id_AgentNodeID ident \<le> 0 \<or> length signingKey \<noteq> ed25519_public_key_size \<or> trim_space version = []
      then Inl (Msg ''maintenance controller dependencies are incomplete'')
      else Inr \<lparr>co_cfg = cfg, co_identity = ident, co_signingKey = signingKey, co_version = trim_space version\<rparr>)"

text \<open>path.Base of a slash-separated path\<close>

definition slash_base :: "string \<Rightarrow> string" where
  "slash_base p =
     (if p = [] then ''.''
      else let t = rev (dropWhile (\<lambda>c. c = CHR ''/'') (rev p))
           in if t = [] then ''/'' else rev (takeWhile (\<lambda>c. c \<noteq> CHR ''/'') (rev t)))"

definition latestVersionOnce :: "MaintenanceEnv \<Rightarrow> nat \<Rightarrow> ('s, string) tx" where
  "latestVersionOnce env attempt = tx_lift
     (bind_result (me_head env attempt) (\<lambda>(status, urlPath).
      if status \<noteq> 200 then Inl (ErrHTTP status)
      else let version = trim_space (slash_base urlPath)
           in if \<not> contains_str urlPath ''/releases/tag/'' \<or> \<not> validReleaseVersion version
              then Inl (Msg ''GitHub release tag is invalid'') else Inr version))"

definition latestVersion :: "MaintenanceEnv \<Rightarrow> ('s, string) tx" where
  "latestVersion env = release_retry (me_context env) (tx_return ()) (latestVersionOnce env)"

definition base_result :: "MaintenanceEnv \<Rightarrow> Controller \<Rightarrow> string \<Rightarrow> string \<Rightarrow> string \<Rightarrow> MaintenanceResult" where
  "base_result env c commandID action status =
     \<lparr>mr_CommandID = commandID, mr_Action = action, mr_Status = status, mr_CurrentVersion = co_version c, mr_LatestVersion = [],
      mr_UpdateAvailable = False, mr_Message = [], mr_OccurredAt = me_now env\<rparr>"

definition CheckUpdate :: "MaintenanceEnv \<Rightarrow> Controller \<Rightarrow> string \<Rightarrow> ('s, MaintenanceResult) tx" where
  "CheckUpdate env c commandID =
     (let cid = (if \<not> me_uuid_ok env commandID then me_fresh_uuid env else commandID);
          result = base_result env c cid MaintenanceActionCheckUpdate ''checked''
      in if \<not> validReleaseVersion (co_version c)
         then tx_return (result\<lparr>mr_Status := ''failed'', mr_Message := msg_not_release\<rparr>)
         else tx_bind (tx_attempt (latestVersion env)) (\<lambda>r.
              case r of
                Inl err \<Rightarrow> tx_return (result\<lparr>mr_Status := ''failed'', mr_Message := msg_check_failed @ compactMessage (error_text err) 300\<rparr>)
              | Inr latest \<Rightarrow>
                  let available = versionNewer latest (co_version c)
                  in tx_return (result\<lparr>mr_LatestVersion := latest, mr_UpdateAvailable := available,
                       mr_Message := (if available then msg_new_version @ latest else msg_up_to_date)\<rparr>)))"

definition request_path :: "Config \<Rightarrow> string \<Rightarrow> string" where
  "request_path cfg commandID = path_join (MaintenanceRequestDir cfg) (commandID @ ''.json'')"

definition writeRequest :: "MaintenanceEnv \<Rightarrow> Controller \<Rightarrow> SignedMaintenanceCommand \<Rightarrow> (fs, unit) tx" where
  "writeRequest env c msg =
     tx_bind (os_mkdir_all (MaintenanceRequestDir (co_cfg c))) (\<lambda>_.
     tx_bind (tx_lift (me_marshal_signed env msg)) (\<lambda>raw.
     let path = request_path (co_cfg c) (mc_CommandID (sc_Command msg))
     in replace_file (me_tmp env path) path (raw @ [CHR 0x0A]) mode_0600))"

text \<open>os.Stat of a file: its modification time\<close>

definition os_stat :: "(string \<Rightarrow> int) \<Rightarrow> string \<Rightarrow> (fs, int) tx" where
  "os_stat mtime p = stmt (\<lambda>s. case fs_lookup s p of None \<Rightarrow> Inl ErrNotExist | Some _ \<Rightarrow> Inr (mtime p, s))"

definition manager_ready :: "MaintenanceEnv \<Rightarrow> Controller \<Rightarrow> (fs, bool) tx" where
  "manager_ready env c =
     tx_bind (tx_attempt (os_stat (me_mtime env) (MaintenanceReadyPath (co_cfg c)))) (\<lambda>r.
     tx_return (case r of
       Inl _ \<Rightarrow> False
     | Inr modified \<Rightarrow> \<not> (me_now env - modified < - (5 * second) \<or> me_now env - modified > 5 * second)))"

definition HandleCommand :: "MaintenanceEnv \<Rightarrow> Controller \<Rightarrow> SignedMaintenanceCommand \<Rightarrow> (fs, MaintenanceResult) tx" where
  "HandleCommand env c msg =
     (let command = sc_Command msg;
          result = base_result env c (mc_CommandID command) (mc_Action command) ''failed''
      in if mc_AgentNodeID command \<noteq> id_AgentNodeID (co_identity c) \<or> sc_KeyID msg \<noteq> id_ConfigSigningKeyID (co_identity c)
         then tx_return (result\<lparr>mr_Message := msg_wrong_identity\<rparr>)
         else case VerifySignedMaintenanceCommand (me_crypto env) (me_marshal_command env) (me_uuid_ok env) msg
                (id_ConfigSigningKeyID (co_identity c)) (co_signingKey c) (me_now env) of
           Some err \<Rightarrow> tx_return (result\<lparr>mr_Message := msg_bad_signature @ compactMessage (error_text err) 160\<rparr>)
         | None \<Rightarrow>
             if mc_Action command = MaintenanceActionCheckUpdate then CheckUpdate env c (mc_CommandID command)
             else tx_bind (manager_ready env c) (\<lambda>ready.
                  if \<not> ready then tx_return (result\<lparr>mr_Message := msg_not_ready\<rparr>)
                  else tx_bind (tx_attempt (writeRequest env c msg)) (\<lambda>r.
                       case r of
                         Inl err \<Rightarrow> tx_return (result\<lparr>mr_Message := msg_write_failed @ compactMessage (error_text err) 300\<rparr>)
                       | Inr _ \<Rightarrow>
                           if mc_Action command = MaintenanceActionUpdate
                           then tx_return (result\<lparr>mr_Status := ''accepted'', mr_LatestVersion := mc_TargetVersion command,
                                  mr_UpdateAvailable := versionNewer (mc_TargetVersion command) (co_version c),
                                  mr_Message := msg_update_queued\<rparr>)
                           else tx_return (result\<lparr>mr_Status := ''accepted'', mr_Message := msg_uninstall_queued\<rparr>))))"

definition CompletedResult :: "MaintenanceEnv \<Rightarrow> Controller \<Rightarrow> (fs, MaintenanceResult option) tx" where
  "CompletedResult env c =
     tx_bind (tx_attempt (os_read_file (MaintenanceResultPath (co_cfg c)))) (\<lambda>r.
     case r of
       Inl e \<Rightarrow> if error_is e ErrNotExist then tx_return None else tx_lift (Inl e)
     | Inr raw \<Rightarrow>
         (case me_decode_result env raw of
            Inl e \<Rightarrow> tx_lift (Inl e)
          | Inr (result, _) \<Rightarrow>
              (case ValidateMaintenanceResult (me_uuid_ok env) result of
                 Some e \<Rightarrow> tx_lift (Inl e)
               | None \<Rightarrow> tx_return (Some result))))"

definition ClearCompletedResult :: "MaintenanceEnv \<Rightarrow> Controller \<Rightarrow> string \<Rightarrow> (fs, unit) tx" where
  "ClearCompletedResult env c commandID =
     tx_bind (CompletedResult env c) (\<lambda>completed.
     case completed of
       None \<Rightarrow> tx_return ()
     | Some result \<Rightarrow>
         if mr_CommandID result \<noteq> commandID
         then tx_lift (Inl (Msg ''completed maintenance result changed before acknowledgement''))
         else remove_entry (MaintenanceResultPath (co_cfg c)))"

section \<open>Facts\<close>

lemma first_difference_triples:
  "first_difference [a, b, c] [x, y, z] \<longleftrightarrow> (x, y, z) < (a, b, c)"
  by (auto simp: less_prod_def)

lemma retry_loop_cong:
  assumes "\<And>k. attempt \<le> k \<Longrightarrow> k \<le> releaseDownloadAttempts \<Longrightarrow> once k = once' k"
    and "attempt \<le> releaseDownloadAttempts"
  shows "retry_loop ctx prepare once left attempt e = retry_loop ctx prepare once' left attempt e"
  using assms
proof (induction left arbitrary: attempt e)
  case 0
  then show ?case by simp
next
  case (Suc left)
  have "retry_loop ctx prepare once left (Suc attempt) err = retry_loop ctx prepare once' left (Suc attempt) err"
    if "attempt \<noteq> releaseDownloadAttempts" for err
    by (rule Suc.IH) (use Suc.prems that in auto)
  then have "(if \<not> shouldRetryReleaseRequest (rx_done ctx attempt) err \<or> attempt = releaseDownloadAttempts
         then tx_lift (Inl err)
         else (case waitForReleaseRetry (rx_done_in_wait ctx attempt) (releaseRetryDelayFor attempt (rx_retryDelay ctx)) of
                 Some e \<Rightarrow> tx_lift (Inl e) | None \<Rightarrow> retry_loop ctx prepare once left (Suc attempt) err)) =
      (if \<not> shouldRetryReleaseRequest (rx_done ctx attempt) err \<or> attempt = releaseDownloadAttempts
         then tx_lift (Inl err)
         else (case waitForReleaseRetry (rx_done_in_wait ctx attempt) (releaseRetryDelayFor attempt (rx_retryDelay ctx)) of
                 Some e \<Rightarrow> tx_lift (Inl e) | None \<Rightarrow> retry_loop ctx prepare once' left (Suc attempt) err))" for err
    by (auto split: option.splits)
  with Suc.prems show ?case by (auto intro!: arg_cong [where f = "tx_bind _"] split: sum.splits)
qed

lemma shouldRetry_http: "shouldRetryReleaseRequest False (ErrHTTP s) \<longleftrightarrow> s = 408 \<or> s = 429 \<or> s \<ge> 500"
  by (simp add: shouldRetryReleaseRequest_def)

lemma writeRequest_run:
  assumes "writeRequest env c msg (fs, s) = (r, fs', s')"
    and "fs_lookup s (me_tmp env (request_path (co_cfg c) (mc_CommandID (sc_Command msg)))) = None"
    and "me_tmp env (request_path (co_cfg c) (mc_CommandID (sc_Command msg))) \<noteq> request_path (co_cfg c) (mc_CommandID (sc_Command msg))"
  shows "(\<exists>raw. r = Inr () \<and> me_marshal_signed env msg = Inr raw \<and>
      (\<forall>q. fs_lookup s' q = (if q = request_path (co_cfg c) (mc_CommandID (sc_Command msg))
         then Some \<lparr>fl_content = raw @ [CHR 0x0A], fl_mode = mode_0600\<rparr> else fs_lookup s q))) \<or>
    (\<exists>e. r = Inl e \<and> fs_same_except (me_tmp env (request_path (co_cfg c) (mc_CommandID (sc_Command msg)))) s s')"
  using assms(1) unfolding writeRequest_def Let_def
proof (cases rule: run_bind_cases)
  case (1 e)
  then have "s' = s" by (auto simp: os_mkdir_all_def stmt_def split: option.splits)
  with 1 show ?thesis by simp
next
  case (2 u c1)
  obtain fs1 s1 where c1: "c1 = (fs1, s1)" by (cases c1)
  with 2(1) have s1: "s1 = s" by (auto simp: os_mkdir_all_def stmt_def split: option.splits)
  from 2(2) c1 s1 show ?thesis
    using replace_file_atomic [OF _ assms(2,3), where fs = fs1 and r = r and fs' = fs' and s' = s' and mode = mode_0600]
    by (cases "me_marshal_signed env msg") (auto simp: tx_bind_def tx_lift_def)
qed

section \<open>A concrete command\<close>

definition example_signed :: SignedMaintenanceCommand where
  "example_signed = \<lparr>sc_KeyID = ''k1'', sc_SHA256 = hex_digest plain_crypto ''c1'',
     sc_Signature = b64_encode (cr_sign plain_crypto (replicate 64 CHR ''s'') ''c1''), sc_Command = example_command\<rparr>"

definition example_context :: ReleaseContext where
  "example_context = \<lparr>rx_done = (\<lambda>_. False), rx_done_in_wait = (\<lambda>_. False), rx_retryDelay = None\<rparr>"

definition example_maintenance_env :: MaintenanceEnv where
  "example_maintenance_env =
     \<lparr>me_crypto = plain_crypto, me_marshal_command = (\<lambda>c. Inr (mc_CommandID c)), me_marshal_signed = single_marshal example_signed ''{}'',
      me_decode_signed = single_decode example_signed ''{}'', me_marshal_result = (\<lambda>r. Inr (mr_Status r)),
      me_decode_result = (\<lambda>_. Inl (Msg [])), me_uuid_ok = (\<lambda>v. v \<noteq> []), me_fresh_uuid = ''u'', me_now = 1100 * second,
      me_mtime = (\<lambda>_. 1099 * second), me_head = (\<lambda>_. Inr (200, ''/o/releases/tag/v1.2.3'')), me_context = example_context,
      me_tmp = (\<lambda>_. ''/tmp/x'')\<rparr>"

definition example_maintainer :: Identity where
  "example_maintainer = \<lparr>id_AgentNodeID = 7, id_MachineID = ''m-1'', id_WSSURL = ''wss://c'', id_ConfigSigningKeyID = ''k1'',
     id_ConfigSigningPublicKey = [], id_CertificateNotAfter = [], id_SecretEnvelopeKey = []\<rparr>"

definition example_controller :: Controller where
  "example_controller = \<lparr>co_cfg = default_config ''run'' ''v1.2.2'', co_identity = example_maintainer,
     co_signingKey = replicate 32 CHR ''p'', co_version = ''v1.2.2''\<rparr>"

definition example_ready_fs :: fs where
  "example_ready_fs = [(''/var/lib/iepl-agent-maintenance/ready'', \<lparr>fl_content = ''t'', fl_mode = mode_0644\<rparr>)]"

lemma example_signed_verifies:
  "VerifySignedMaintenanceCommand plain_crypto (\<lambda>c. Inr (mc_CommandID c)) (\<lambda>v. v \<noteq> []) example_signed ''k1''
     (replicate 32 CHR ''p'') (1100 * second) = None"
proof -
  have k: "trim_space ''k1'' = ''k1''" by code_simp
  have v: "cr_verify plain_crypto (replicate 32 CHR ''p'') ''c1'' (cr_sign plain_crypto (replicate 64 CHR ''s'') ''c1'')"
    by (simp add: plain_crypto_def)
  show ?thesis unfolding VerifySignedMaintenanceCommand_iff
    using example_command_valid v
    by (simp add: example_signed_def k equal_fold_def) (simp add: example_command_def second_def)
qed

lemma example_maintenance_paths:
  "request_path (co_cfg example_controller) ''c1'' = ''/run/iepl-agent/maintenance/requests/c1.json''"
  "MaintenanceReadyPath (co_cfg example_controller) = ''/var/lib/iepl-agent-maintenance/ready''"
  by code_simp+

lemma example_handle_command:
  "\<exists>r s'. HandleCommand example_maintenance_env example_controller example_signed ([], example_ready_fs) = (r, [], s') \<and>
     fs_lookup s' ''/run/iepl-agent/maintenance/requests/c1.json'' \<noteq> None"
proof -
  have t: "fs_lookup example_ready_fs ''/tmp/x'' = None" "fs_lookup example_ready_fs ''/var/lib/iepl-agent-maintenance/ready'' \<noteq> None"
    by (simp_all add: example_ready_fs_def fs_lookup_def)
  let ?p = "''/run/iepl-agent/maintenance/requests/c1.json''"
  obtain s' where w: "replace_file ''/tmp/x'' ?p [CHR ''{'', CHR ''}'', CHR 0x0A] mode_0600 ([], example_ready_fs) = (Inr (), [], s')"
    using replace_file_run [OF t(1)] by blast
  from replace_file_atomic [OF w t(1)] have l: "fs_lookup s' ?p \<noteq> None" by simp
  have cid: "mc_CommandID (sc_Command example_signed) = ''c1''" "mc_Action (sc_Command example_signed) = ''update''"
    "mc_AgentNodeID (sc_Command example_signed) = 7" "sc_KeyID example_signed = ''k1''"
    by (simp_all add: example_signed_def example_command_def)
  have e: "me_crypto example_maintenance_env = plain_crypto" "me_marshal_command example_maintenance_env = (\<lambda>c. Inr (mc_CommandID c))"
    "me_uuid_ok example_maintenance_env = (\<lambda>v. v \<noteq> [])" "me_now example_maintenance_env = 1100 * second"
    "me_mtime example_maintenance_env = (\<lambda>_. 1099 * second)" "me_tmp example_maintenance_env = (\<lambda>_. ''/tmp/x'')"
    "me_marshal_signed example_maintenance_env example_signed = Inr ''{}''"
    by (simp_all add: example_maintenance_env_def single_marshal_def)
  have i: "id_AgentNodeID (co_identity example_controller) = 7" "id_ConfigSigningKeyID (co_identity example_controller) = ''k1''"
    "co_signingKey example_controller = replicate 32 CHR ''p''"
    by (simp_all add: example_controller_def example_maintainer_def)
  have m: "manager_ready example_maintenance_env example_controller ([], example_ready_fs) = (Inr True, [], example_ready_fs)"
    using t(2) by (auto simp: manager_ready_def tx_bind_def tx_attempt_def os_stat_def example_maintenance_paths e second_def split: option.splits)
  have wr: "writeRequest example_maintenance_env example_controller example_signed ([], example_ready_fs) = (Inr (), [], s')"
    by (simp add: writeRequest_def tx_bind_def os_mkdir_all_def cid e example_maintenance_paths w)
  show ?thesis using example_signed_verifies l
    by (simp add: HandleCommand_def Let_def cid i e m wr tx_bind_def tx_attempt_def maintenance_actions)
qed

section \<open>Properties\<close>

text \<open>
  C36. versionNewer is the strict lexicographic order of the parsed version numbers: it holds
  exactly when both texts parse and the candidate's triple is greater. So no version is newer
  than itself and the order is transitive.
\<close>

theorem version_newer_lexicographic:
  "versionNewer a b = (\<exists>x y. parseVersion a = Some x \<and> parseVersion b = Some y \<and> y < x)"
  by (auto simp: versionNewer_def first_difference_triples split: option.splits)



text \<open>
  C13. A request file appears only for an authentic command: whatever faults occur, when
  HandleCommand leaves a file changed other than its temporary file, the command was addressed
  to this node and verified under the pinned key at this time, the root manager had shown up
  within five seconds, and the only changed file is the request file, which holds the marshalled
  command.
\<close>

lemma CheckUpdate_files: "CheckUpdate env c cid (fs, s) = (r, fs', s') \<Longrightarrow> s' = s"
proof -
  have loop: "keeps (=) (retry_loop ctx (tx_return ()) (latestVersionOnce env) left k e)" for ctx left k e
  proof (induction left arbitrary: k e)
    case 0
    then show ?case by (auto simp: keeps_def tx_lift_def)
  next
    case (Suc left)
    have a: "keeps (=) (tx_attempt (latestVersionOnce env k))"
      unfolding latestVersionOnce_def by (intro keeps_rules) (auto intro: reflpI)
    show ?case unfolding retry_loop.simps tx_bind_return
      by (rule keeps_bind [OF _ a])
         (auto split: sum.splits option.splits intro!: Suc keeps_pure reflpI transpI)
  qed
  have "keeps (=) (tx_attempt (latestVersion env))"
    unfolding latestVersion_def release_retry_def by (intro keeps_attempt loop)
  then have "keeps (=) (CheckUpdate env c cid)" unfolding CheckUpdate_def Let_def
    by (auto split: sum.splits intro!: keeps_bind keeps_pure reflpI transpI)
  then show "CheckUpdate env c cid (fs, s) = (r, fs', s') \<Longrightarrow> s' = s" by (auto dest: keepsD)
qed

lemma manager_ready_run:
  "manager_ready env c (fs, s) = (Inr b, fs', s') \<Longrightarrow> s' = s \<and>
     (b \<longrightarrow> fs_lookup s (MaintenanceReadyPath (co_cfg c)) \<noteq> None \<and>
        \<bar>me_now env - me_mtime env (MaintenanceReadyPath (co_cfg c))\<bar> \<le> 5 * second)"
  by (auto simp: manager_ready_def tx_bind_def tx_attempt_def os_stat_def stmt_def tx_return_def
      split: option.splits sum.splits go_error.splits prod.splits if_splits)

lemma manager_ready_files: "manager_ready env c (fs, s) = (r, fs', s') \<Longrightarrow> s' = s"
  by (auto simp: manager_ready_def tx_bind_def tx_attempt_def os_stat_def stmt_def tx_return_def
      split: option.splits sum.splits go_error.splits prod.splits if_splits)

definition command_path :: "Controller \<Rightarrow> SignedMaintenanceCommand \<Rightarrow> string" where
  "command_path c msg = request_path (co_cfg c) (mc_CommandID (sc_Command msg))"

theorem only_verified_commands_queued:
  assumes "HandleCommand env c msg (fs, s) = (r, fs', s')"
    and "fs_lookup s (me_tmp env (command_path c msg)) = None" and "me_tmp env (command_path c msg) \<noteq> command_path c msg"
    and "\<not> fs_same_except (me_tmp env (command_path c msg)) s s'"
  shows "mc_AgentNodeID (sc_Command msg) = id_AgentNodeID (co_identity c) \<and>
    VerifySignedMaintenanceCommand (me_crypto env) (me_marshal_command env) (me_uuid_ok env) msg
      (id_ConfigSigningKeyID (co_identity c)) (co_signingKey c) (me_now env) = None \<and>
    \<bar>me_now env - me_mtime env (MaintenanceReadyPath (co_cfg c))\<bar> \<le> 5 * second \<and>
    (\<exists>raw. me_marshal_signed env msg = Inr raw \<and>
       (\<forall>q. fs_lookup s' q = (if q = command_path c msg then Some \<lparr>fl_content = raw @ [CHR 0x0A], fl_mode = mode_0600\<rparr>
          else fs_lookup s q)))"
proof -
  have ne: "s' \<noteq> s" using assms(4) by auto
  let ?v = "VerifySignedMaintenanceCommand (me_crypto env) (me_marshal_command env) (me_uuid_ok env) msg
      (id_ConfigSigningKeyID (co_identity c)) (co_signingKey c) (me_now env)"
  from assms(1) ne have ok: "mc_AgentNodeID (sc_Command msg) = id_AgentNodeID (co_identity c)" "?v = None"
    by (auto simp: HandleCommand_def Let_def tx_return_def split: if_splits option.splits)
  have act: "mc_Action (sc_Command msg) \<noteq> MaintenanceActionCheckUpdate"
    using assms(1) ne ok by (auto simp: HandleCommand_def Let_def tx_return_def dest: CheckUpdate_files split: if_splits)
  obtain rb fs1 s1 where m: "manager_ready env c (fs, s) = (rb, fs1, s1)" by (metis prod.exhaust)
  from manager_ready_files [OF m] have s1: "s1 = s" .
  with assms(1) ok act m ne have rb: "rb = Inr True"
    by (cases rb) (auto simp: HandleCommand_def Let_def tx_return_def tx_bind_def split: if_splits)
  obtain rw fs2 s2 where w: "writeRequest env c msg (fs1, s) = (rw, fs2, s2)" by (metis prod.exhaust)
  from assms(1) ne ok act m rb s1 w have "s2 = s'"
    by (auto simp: HandleCommand_def Let_def tx_return_def tx_bind_def tx_attempt_def split: if_splits sum.splits go_error.splits)
  with writeRequest_run [OF w] assms(2-4) manager_ready_run [OF m [unfolded rb]] ok show ?thesis
    unfolding command_path_def by auto
qed

theorem only_verified_commands_queued_witness:
  "\<exists>r s'. HandleCommand example_maintenance_env example_controller example_signed ([], example_ready_fs) = (r, [], s') \<and>
     fs_lookup s' ''/run/iepl-agent/maintenance/requests/c1.json'' = Some \<lparr>fl_content = ''{}'' @ [CHR 0x0A], fl_mode = mode_0600\<rparr>"
proof -
  let ?p = "''/run/iepl-agent/maintenance/requests/c1.json''"
  obtain r s' where run: "HandleCommand example_maintenance_env example_controller example_signed ([], example_ready_fs) = (r, [], s')"
    and l: "fs_lookup s' ?p \<noteq> None" using example_handle_command by blast
  have p: "command_path example_controller example_signed = ?p"
    using example_maintenance_paths(1) by (simp add: command_path_def example_signed_def example_command_def)
  have t: "me_tmp example_maintenance_env q = ''/tmp/x''" "me_marshal_signed example_maintenance_env example_signed = Inr ''{}''" for q
    by (simp_all add: example_maintenance_env_def single_marshal_def)
  have n: "fs_lookup example_ready_fs ''/tmp/x'' = None" "fs_lookup example_ready_fs ?p = None"
    by (simp_all add: example_ready_fs_def fs_lookup_def)
  have "\<not> fs_same_except ''/tmp/x'' example_ready_fs s'" unfolding fs_same_except_def
    by (intro notI, drule spec [of _ ?p]) (use l n(2) in simp)
  with only_verified_commands_queued [OF run, unfolded p t] n run show ?thesis by auto
qed

text \<open>
  The validator accepts an action in any case, and HandleCommand compares the text as it is: a
  verified command with the action UPDATE is queued and answered as an uninstall.
\<close>

lemma mixed_case_update_answered_as_uninstall:
  assumes "mc_Action (sc_Command msg) = ''UPDATE''"
    and "mc_AgentNodeID (sc_Command msg) = id_AgentNodeID (co_identity c)" and "sc_KeyID msg = id_ConfigSigningKeyID (co_identity c)"
    and "VerifySignedMaintenanceCommand (me_crypto env) (me_marshal_command env) (me_uuid_ok env) msg
      (id_ConfigSigningKeyID (co_identity c)) (co_signingKey c) (me_now env) = None"
    and "manager_ready env c (fs, s) = (Inr True, fs1, s)" and "writeRequest env c msg (fs1, s) = (Inr (), fs2, s2)"
  shows "\<exists>res. HandleCommand env c msg (fs, s) = (Inr res, fs2, s2) \<and> mr_Status res = ''accepted'' \<and>
    mr_Message res = msg_uninstall_queued"
  using assms by (simp add: HandleCommand_def Let_def tx_bind_def tx_attempt_def tx_return_def maintenance_actions)

end
