(* ===== verification/Host_Metrics.thy ===== *)
theory Host_Metrics
  imports Tx_Logic
begin

text \<open>
  internal/hostmetrics/collector.go: the samples of processor, memory, network and uptime that
  go into a heartbeat. The /proc files are read from the file system of theory Files. uint64
  sums wrap at 64 bits. A float64 is a rational number here and conversions to it are exact, so
  the rounding of the processor is left out; the conversion of a float64 above the range of
  uint64 depends on the machine and is an argument.
\<close>

section \<open>State\<close>

record Snapshot =
  sn_SampledAt :: int
  sn_CPUPercent :: rat
  sn_MemoryPercent :: rat
  sn_MemoryUsedBytes :: nat
  sn_MemoryTotalBytes :: nat
  sn_NetworkReceiveBPS :: nat
  sn_NetworkTransmitBPS :: nat
  sn_UptimeSeconds :: nat

record cpuCounters =
  cpu_total :: nat
  cpu_idle :: nat

record networkCounters =
  net_receiveBytes :: nat
  net_transmitBytes :: nat

record Collector =
  cl_previousAt :: int
  cl_previousCPU :: cpuCounters
  cl_previousNetwork :: networkCounters
  cl_hasPrevious :: bool

definition procStatPath :: string where "procStatPath = ''/proc/stat''"
definition procMemInfoPath :: string where "procMemInfoPath = ''/proc/meminfo''"
definition procNetDevPath :: string where "procNetDevPath = ''/proc/net/dev''"
definition procUptimePath :: string where "procUptimePath = ''/proc/uptime''"

definition NewCollector :: Collector where
  "NewCollector = \<lparr>cl_previousAt = 0, cl_previousCPU = \<lparr>cpu_total = 0, cpu_idle = 0\<rparr>,
     cl_previousNetwork = \<lparr>net_receiveBytes = 0, net_transmitBytes = 0\<rparr>, cl_hasPrevious = False\<rparr>"

section \<open>Numbers\<close>

definition u64 :: "nat \<Rightarrow> nat" where "u64 n = n mod 2 ^ 64"

definition max_u64 :: nat where "max_u64 = 2 ^ 64 - 1"

text \<open>math.Round: to the nearest integer, halves away from zero\<close>

definition math_round :: "rat \<Rightarrow> int" where
  "math_round x = (if x < 0 then - \<lfloor>- x + 1 / 2\<rfloor> else \<lfloor>x + 1 / 2\<rfloor>)"

definition clampPercent :: "rat \<Rightarrow> rat" where
  "clampPercent v = (if v < 0 then 0 else if v > 100 then 100 else of_int (math_round (v * 100)) / 100)"

definition ratePerSecond :: "nat \<Rightarrow> rat \<Rightarrow> nat" where
  "ratePerSecond delta elapsed =
     (if elapsed \<le> 0 then 0
      else let rate = of_nat delta / elapsed in
        if rate \<le> 0 then 0 else if rate \<ge> of_nat max_u64 then max_u64 else nat (math_round rate))"

text \<open>time.Time.Sub saturates at the ends of int64; Seconds divides by a billion.\<close>

definition elapsed_seconds :: "int \<Rightarrow> int \<Rightarrow> rat" where
  "elapsed_seconds now previous = of_int (max (- (2 ^ 63)) (min (2 ^ 63 - 1) (now - previous))) / 1000000000"

text \<open>
  strconv.ParseFloat on decimal texts: sign, digits with an optional fraction, an optional
  exponent; a value that rounds to infinity is an error. Hexadecimal texts are left out, and
  the texts for infinities and NaN are refused by the caller.
\<close>

definition parse_mantissa :: "string \<Rightarrow> rat option" where
  "parse_mantissa s =
     (let whole = takeWhile (\<lambda>c. c \<noteq> CHR ''.'') s; frac = drop (length whole + 1) s in
      if (whole = [] \<and> frac = []) \<or> \<not> list_all is_digit_char (whole @ frac) then None
      else Some (of_nat (digits_value whole) + of_nat (digits_value frac) / 10 ^ length frac))"

definition is_exponent_char :: "char \<Rightarrow> bool" where
  "is_exponent_char c \<longleftrightarrow> c = CHR ''e'' \<or> c = CHR ''E''"

definition parse_exponent :: "string \<Rightarrow> rat option" where
  "parse_exponent s =
     (if has_prefix s ''-'' then map_option (\<lambda>n. 1 / 10 ^ n) (parse_digits (drop 1 s))
      else map_option (\<lambda>n. 10 ^ n) (parse_digits (if has_prefix s ''+'' then drop 1 s else s)))"

definition parse_unsigned_float :: "string \<Rightarrow> rat option" where
  "parse_unsigned_float s =
     (let m = takeWhile (\<lambda>c. \<not> is_exponent_char c) s in
      case parse_mantissa m of
        None \<Rightarrow> None
      | Some x \<Rightarrow> if m = s then Some x else map_option (\<lambda>y. x * y) (parse_exponent (drop (length m + 1) s)))"

definition parse_float :: "string \<Rightarrow> rat option" where
  "parse_float s =
     (case parse_unsigned_float (if has_prefix s ''-'' \<or> has_prefix s ''+'' then drop 1 s else s) of
        None \<Rightarrow> None
      | Some x \<Rightarrow> if x \<ge> 2 ^ 1024 - 2 ^ 970 then None else Some (if has_prefix s ''-'' then - x else x))"

section \<open>Lines\<close>

text \<open>
  bufio.Scanner: lines without their end, a carriage return before it dropped too, no empty last
  line; a line of 64 KiB or more ends the scan with an error.
\<close>

definition drop_cr :: "string \<Rightarrow> string" where
  "drop_cr line = (if line \<noteq> [] \<and> last line = CHR 0x0D then butlast line else line)"

definition raw_lines :: "string \<Rightarrow> string list" where
  "raw_lines raw = (let ls = split_on CHR 0x0A raw in if ls \<noteq> [] \<and> last ls = [] then butlast ls else ls)"

definition scan_lines :: "string \<Rightarrow> string list \<times> bool" where
  "scan_lines raw =
     (let ls = takeWhile (\<lambda>l. length l < 64 * 1024) (raw_lines raw)
      in (map drop_cr ls, length ls < length (raw_lines raw)))"

definition err_too_long :: go_error where
  "err_too_long = Msg ''bufio.Scanner: token too long''"

section \<open>Parsers\<close>

fun parse_values :: "string list \<Rightarrow> nat list option" where
  "parse_values [] = Some []"
| "parse_values (f # fs) =
     (case parse_uint64 f of
        None \<Rightarrow> None
      | Some v \<Rightarrow> (case parse_values fs of None \<Rightarrow> None | Some vs \<Rightarrow> Some (v # vs)))"

definition parseCPUCounters :: "string \<Rightarrow> cpuCounters result" where
  "parseCPUCounters raw =
     (let fs = Go_Prelude.fields (takeWhile (\<lambda>c. c \<noteq> CHR 0x0A) raw) in
      if length fs < 5 \<or> hd fs \<noteq> ''cpu'' then Inl (Msg ''cpu counters are invalid'')
      else case parse_values (take 8 (tl fs)) of
             None \<Rightarrow> Inl (Msg ''cpu counters are invalid'')
           | Some vals \<Rightarrow>
               if length vals < 4 then Inl (Msg ''cpu counters are incomplete'')
               else Inr \<lparr>cpu_total = fold (\<lambda>v t. u64 (t + v)) vals 0,
                         cpu_idle = (if length vals > 4 then u64 (vals ! 3 + vals ! 4) else vals ! 3)\<rparr>)"

definition memory_line :: "string \<Rightarrow> (string \<rightharpoonup> nat) \<Rightarrow> (string \<rightharpoonup> nat)" where
  "memory_line line vals =
     (case Go_Prelude.fields line of
        k # v # _ \<Rightarrow> (case parse_uint64 v of None \<Rightarrow> vals | Some n \<Rightarrow> vals(trim_suffix k '':'' \<mapsto> u64 (n * 1024)))
      | _ \<Rightarrow> vals)"

definition map_value :: "(string \<rightharpoonup> nat) \<Rightarrow> string \<Rightarrow> nat" where
  "map_value m k = (case m k of None \<Rightarrow> 0 | Some v \<Rightarrow> v)"

definition available_memory :: "(string \<rightharpoonup> nat) \<Rightarrow> nat" where
  "available_memory vals =
     (let available = map_value vals ''MemAvailable'' in
      if available = 0 then u64 (u64 (map_value vals ''MemFree'' + map_value vals ''Buffers'') + map_value vals ''Cached'')
      else available)"

definition parseMemory :: "string \<Rightarrow> (nat \<times> nat \<times> rat) result" where
  "parseMemory raw =
     (case scan_lines raw of (lines, tooLong) \<Rightarrow>
        let vals = fold memory_line lines Map.empty; total = map_value vals ''MemTotal'' in
        if tooLong then Inl err_too_long
        else if total = 0 then Inl (Msg ''memory total is unavailable'')
        else let used = total - min (available_memory vals) total
             in Inr (used, total, clampPercent (of_nat used * 100 / of_nat total)))"

text \<open>One line of /proc/net/dev: nothing for a header or the loopback interface\<close>

definition network_line :: "string \<Rightarrow> (nat \<times> nat) option result" where
  "network_line line =
     (let before = takeWhile (\<lambda>c. c \<noteq> CHR '':'') line; fs = Go_Prelude.fields (drop (length before + 1) line) in
      if before = line \<or> trim_space before = [] \<or> trim_space before = ''lo'' then Inr None
      else if length fs < 16 then Inl (Msg ''network counters are incomplete'')
      else case (parse_uint64 (fs ! 0), parse_uint64 (fs ! 8)) of
             (Some receive, Some transmit) \<Rightarrow> Inr (Some (receive, transmit))
           | _ \<Rightarrow> Inl (Msg ''network counters are invalid''))"

fun scan_network :: "string list \<Rightarrow> networkCounters \<Rightarrow> nat \<Rightarrow> (networkCounters \<times> nat) result" where
  "scan_network [] res interfaces = Inr (res, interfaces)"
| "scan_network (l # ls) res interfaces =
     (case network_line l of
        Inl e \<Rightarrow> Inl e
      | Inr None \<Rightarrow> scan_network ls res interfaces
      | Inr (Some (receive, transmit)) \<Rightarrow>
          scan_network ls \<lparr>net_receiveBytes = u64 (net_receiveBytes res + receive),
                           net_transmitBytes = u64 (net_transmitBytes res + transmit)\<rparr> (Suc interfaces))"

definition parseNetworkCounters :: "string \<Rightarrow> networkCounters result" where
  "parseNetworkCounters raw =
     (case scan_lines raw of (lines, tooLong) \<Rightarrow>
        case scan_network lines \<lparr>net_receiveBytes = 0, net_transmitBytes = 0\<rparr> 0 of
          Inl e \<Rightarrow> Inl e
        | Inr (res, interfaces) \<Rightarrow>
            if tooLong then Inl err_too_long
            else if interfaces = 0 then Inl (Msg ''no non-loopback network interface found'')
            else Inr res)"

text \<open>uint64(seconds): the whole seconds when they fit, a value of the machine's choice otherwise\<close>

definition to_u64 :: "(rat \<Rightarrow> nat) \<Rightarrow> rat \<Rightarrow> nat" where
  "to_u64 overflow x = (if x < 2 ^ 64 then nat \<lfloor>x\<rfloor> else u64 (overflow x))"

definition parseUptime :: "(rat \<Rightarrow> nat) \<Rightarrow> string \<Rightarrow> nat result" where
  "parseUptime overflow raw =
     (case Go_Prelude.fields raw of
        [] \<Rightarrow> Inl (Msg ''uptime is invalid'')
      | f # _ \<Rightarrow> (case parse_float f of
            None \<Rightarrow> Inl (Msg ''uptime is invalid'')
          | Some seconds \<Rightarrow> if seconds < 0 then Inl (Msg ''uptime is invalid'') else Inr (to_u64 overflow seconds)))"

section \<open>Sampling\<close>

definition cpu_percent :: "cpuCounters \<Rightarrow> cpuCounters \<Rightarrow> rat" where
  "cpu_percent cpu prev =
     (if cpu_total cpu \<ge> cpu_total prev \<and> cpu_idle cpu \<ge> cpu_idle prev then
        let totalDelta = cpu_total cpu - cpu_total prev; idleDelta = cpu_idle cpu - cpu_idle prev in
        if totalDelta > 0 \<and> idleDelta \<le> totalDelta
        then clampPercent (of_nat (totalDelta - idleDelta) * 100 / of_nat totalDelta) else 0
      else 0)"

definition counter_rate :: "nat \<Rightarrow> nat \<Rightarrow> rat \<Rightarrow> nat" where
  "counter_rate value prev elapsed = (if value \<ge> prev then ratePerSecond (value - prev) elapsed else 0)"

definition with_rates :: "Collector \<Rightarrow> int \<Rightarrow> cpuCounters \<Rightarrow> networkCounters \<Rightarrow> Snapshot \<Rightarrow> Snapshot" where
  "with_rates c now cpu network snapshot =
     (let elapsed = elapsed_seconds now (cl_previousAt c) in
      if \<not> cl_hasPrevious c \<or> \<not> elapsed > 0 then snapshot
      else snapshot\<lparr>sn_CPUPercent := cpu_percent cpu (cl_previousCPU c),
        sn_NetworkReceiveBPS := counter_rate (net_receiveBytes network) (net_receiveBytes (cl_previousNetwork c)) elapsed,
        sn_NetworkTransmitBPS := counter_rate (net_transmitBytes network) (net_transmitBytes (cl_previousNetwork c)) elapsed\<rparr>)"

record MetricsWorld =
  hw_files :: fs
  hw_collector :: Collector

definition read_proc :: "string \<Rightarrow> string \<Rightarrow> (MetricsWorld, string) tx" where
  "read_proc label path = tx_zoom hw_files hw_files_update (tx_catch (os_read_file path) (\<lambda>e. tx_lift (Inl (Wrapped label e))))"

definition Sample :: "(rat \<Rightarrow> nat) \<Rightarrow> int \<Rightarrow> (MetricsWorld, Snapshot) tx" where
  "Sample overflow now =
     tx_bind (read_proc ''read cpu counters'' procStatPath) (\<lambda>statRaw.
     tx_bind (read_proc ''read memory counters'' procMemInfoPath) (\<lambda>memRaw.
     tx_bind (read_proc ''read network counters'' procNetDevPath) (\<lambda>netRaw.
     tx_bind (read_proc ''read uptime'' procUptimePath) (\<lambda>uptimeRaw.
     tx_bind (tx_lift (parseCPUCounters statRaw)) (\<lambda>cpu.
     tx_bind (tx_lift (parseMemory memRaw)) (\<lambda>(used, total, percent).
     tx_bind (tx_lift (parseNetworkCounters netRaw)) (\<lambda>network.
     tx_bind (tx_lift (parseUptime overflow uptimeRaw)) (\<lambda>uptimeSeconds.
     tx_bind (tx_get hw_collector) (\<lambda>c.
     let snapshot = with_rates c now cpu network
           \<lparr>sn_SampledAt = now, sn_CPUPercent = 0, sn_MemoryPercent = percent, sn_MemoryUsedBytes = used,
            sn_MemoryTotalBytes = total, sn_NetworkReceiveBPS = 0, sn_NetworkTransmitBPS = 0, sn_UptimeSeconds = uptimeSeconds\<rparr> in
     tx_bind (tx_modify (\<lambda>w. w\<lparr>hw_collector := \<lparr>cl_previousAt = now, cl_previousCPU = cpu, cl_previousNetwork = network,
        cl_hasPrevious = True\<rparr>\<rparr>)) (\<lambda>_.
     tx_return snapshot))))))))))"

section \<open>Bounds\<close>

lemma u64_less [simp]: "u64 n < 18446744073709551616"
  by (simp add: u64_def)

lemma math_round_near:
  assumes "0 \<le> x"
  shows "0 \<le> math_round x" "of_int (math_round x) \<le> x + 1 / 2" "x - 1 / 2 \<le> of_int (math_round x)"
proof -
  have "(0::rat) \<le> x + 1 / 2" using assms by simp
  then show "0 \<le> math_round x" using assms by (simp add: math_round_def)
  show "of_int (math_round x) \<le> x + 1 / 2" using assms by (simp add: math_round_def)
  have "x + 1 / 2 < of_int \<lfloor>x + 1 / 2\<rfloor> + 1" by (rule floor_correct [THEN conjunct2, simplified])
  then show "x - 1 / 2 \<le> of_int (math_round x)" using assms by (simp add: math_round_def)
qed

lemma math_round_le: "0 \<le> x \<Longrightarrow> x \<le> of_int n \<Longrightarrow> math_round x \<le> n"
proof -
  assume "0 \<le> x" "x \<le> of_int n"
  then have "x + 1 / 2 < of_int (n + 1)" by simp
  then have "\<lfloor>x + 1 / 2\<rfloor> < n + 1" by (simp only: floor_less_iff)
  with \<open>0 \<le> x\<close> show ?thesis by (simp add: math_round_def)
qed

text \<open>A percentage is within 0 and 100, and within a half of a hundredth of the value it rounds.\<close>

lemma clampPercent_bounds: "0 \<le> clampPercent v" "clampPercent v \<le> 100"
proof -
  show "0 \<le> clampPercent v" using math_round_near(1) [of "v * 100"] by (auto simp: clampPercent_def)
  have "math_round (v * 100) \<le> 10000" if "0 \<le> v" "v \<le> 100" using that by (intro math_round_le) simp_all
  then have "of_int (math_round (v * 100)) \<le> (10000 :: rat)" if "0 \<le> v" "v \<le> 100"
    using that by (metis of_int_le_iff of_int_numeral)
  then show "clampPercent v \<le> 100" by (auto simp: clampPercent_def)
qed

lemma clampPercent_near:
  assumes "0 \<le> v" and "v \<le> 100"
  shows "\<bar>clampPercent v - v\<bar> \<le> 1 / 200"
proof -
  have m: "of_int (math_round (v * 100)) \<le> v * 100 + 1 / 2" "v * 100 - 1 / 2 \<le> of_int (math_round (v * 100))"
    using math_round_near(2,3) [of "v * 100"] assms by simp_all
  have "clampPercent v = of_int (math_round (v * 100)) / 100" using assms by (simp add: clampPercent_def)
  with m have "clampPercent v - v \<le> 1 / 200" "v - clampPercent v \<le> 1 / 200" by (simp_all add: field_simps)
  then show ?thesis by (intro abs_leI) linarith+
qed

lemma ratePerSecond_le: "ratePerSecond d t \<le> max_u64"
proof -
  have "math_round (of_nat d / t) \<le> int max_u64" if "0 < t" "of_nat d / t < of_nat max_u64"
    using that by (intro math_round_le) (simp_all add: less_imp_le)
  then show ?thesis by (auto simp: ratePerSecond_def Let_def)
qed

lemma memory_values_bounded: "fold memory_line lines m k = Some v \<Longrightarrow> (\<And>k v. m k = Some v \<Longrightarrow> v < 2 ^ 64) \<Longrightarrow> v < 2 ^ 64"
proof (induction lines arbitrary: m)
  case (Cons l lines)
  have "memory_line l m k = Some v \<Longrightarrow> v < 2 ^ 64" for k v
    using Cons.prems(2) by (auto simp: memory_line_def split: list.splits option.splits if_splits)
  with Cons.IH [of "memory_line l m"] Cons.prems(1) show ?case by simp
qed simp

lemma percent_ratio: "0 < n \<Longrightarrow> m \<le> n \<Longrightarrow> (0::rat) \<le> of_nat m * 100 / of_nat n \<and> of_nat m * 100 / of_nat n \<le> (100::rat)"
  by (simp add: divide_simps)

lemma parseMemory_bounds:
  assumes "parseMemory raw = Inr (used, tot, percent)"
  shows "used \<le> tot" "0 < tot" "tot < 2 ^ 64" "0 \<le> percent" "percent \<le> 100" "\<bar>percent - of_nat used * 100 / of_nat tot\<bar> \<le> 1 / 200"
proof -
  obtain lines tooLong where s: "scan_lines raw = (lines, tooLong)" by (cases "scan_lines raw")
  let ?v = "fold memory_line lines Map.empty"
  from assms s have a: "tot = map_value ?v ''MemTotal''" "0 < tot" "used = tot - min (available_memory ?v) tot"
    "percent = clampPercent (of_nat used * 100 / of_nat tot)"
    by (auto simp: parseMemory_def Let_def split: if_splits)
  from a show "0 < tot" "used \<le> tot" by simp_all
  show "tot < 2 ^ 64" using a(1) memory_values_bounded [of lines Map.empty "''MemTotal''"]
    by (auto simp: map_value_def split: option.splits)
  show "0 \<le> percent" "percent \<le> 100" using clampPercent_bounds a(4) by simp_all
  show "\<bar>percent - of_nat used * 100 / of_nat tot\<bar> \<le> 1 / 200"
    unfolding a(4) using percent_ratio [OF \<open>0 < tot\<close> \<open>used \<le> tot\<close>] by (intro clampPercent_near) simp_all
qed

lemma cpu_percent_bounds: "0 \<le> cpu_percent cpu prev" "cpu_percent cpu prev \<le> 100"
  using clampPercent_bounds by (simp_all add: cpu_percent_def Let_def)

lemma counter_rate_le: "counter_rate v p t \<le> max_u64"
  using ratePerSecond_le by (simp add: counter_rate_def)

lemma to_u64_less: "to_u64 ov x < 2 ^ 64"
proof (cases "x < 2 ^ 64")
  case True
  then have "\<lfloor>x\<rfloor> < 18446744073709551616" by (simp add: floor_less_iff)
  then have "nat \<lfloor>x\<rfloor> < 18446744073709551616" by linarith
  with True show ?thesis by (simp add: to_u64_def)
qed (simp add: to_u64_def)

lemma parseUptime_less: "parseUptime ov raw = Inr n \<Longrightarrow> n < 2 ^ 64"
  using to_u64_less by (auto simp: parseUptime_def split: list.splits option.splits if_splits)

definition sample_ok :: "Snapshot \<Rightarrow> bool" where
  "sample_ok s \<longleftrightarrow> 0 \<le> sn_CPUPercent s \<and> sn_CPUPercent s \<le> 100 \<and> 0 \<le> sn_MemoryPercent s \<and> sn_MemoryPercent s \<le> 100 \<and>
     sn_MemoryUsedBytes s \<le> sn_MemoryTotalBytes s \<and> 0 < sn_MemoryTotalBytes s \<and> sn_MemoryTotalBytes s < 2 ^ 64 \<and>
     sn_NetworkReceiveBPS s \<le> max_u64 \<and> sn_NetworkTransmitBPS s \<le> max_u64 \<and> sn_UptimeSeconds s < 2 ^ 64 \<and>
     \<bar>sn_MemoryPercent s - of_nat (sn_MemoryUsedBytes s) * 100 / of_nat (sn_MemoryTotalBytes s)\<bar> \<le> 1 / 200"

lemma with_rates_fields:
  "sn_MemoryPercent (with_rates c now cpu net s) = sn_MemoryPercent s" "sn_MemoryUsedBytes (with_rates c now cpu net s) = sn_MemoryUsedBytes s"
  "sn_MemoryTotalBytes (with_rates c now cpu net s) = sn_MemoryTotalBytes s" "sn_UptimeSeconds (with_rates c now cpu net s) = sn_UptimeSeconds s"
  by (simp_all add: with_rates_def Let_def)

lemma with_rates_bounds:
  assumes "sn_CPUPercent s = 0" and "sn_NetworkReceiveBPS s = 0" and "sn_NetworkTransmitBPS s = 0"
  shows "0 \<le> sn_CPUPercent (with_rates c now cpu net s)" "sn_CPUPercent (with_rates c now cpu net s) \<le> 100"
    "sn_NetworkReceiveBPS (with_rates c now cpu net s) \<le> max_u64" "sn_NetworkTransmitBPS (with_rates c now cpu net s) \<le> max_u64"
  using assms cpu_percent_bounds counter_rate_le by (simp_all add: with_rates_def Let_def)


definition example_proc :: fs where
  "example_proc =
     [(''/proc/stat'', \<lparr>fl_content = ''cpu 1 2 3 4'', fl_mode = mode_0644\<rparr>),
      (''/proc/meminfo'', \<lparr>fl_content = ''MemTotal: 4 kB'', fl_mode = mode_0644\<rparr>),
      (''/proc/net/dev'', \<lparr>fl_content = ''eth0: 1 2 3 4 5 6 7 8 9 0 0 0 0 0 0 0'', fl_mode = mode_0644\<rparr>),
      (''/proc/uptime'', \<lparr>fl_content = ''5 1'', fl_mode = mode_0644\<rparr>)]"

lemma example_proc_parses:
  "\<exists>c. parseCPUCounters ''cpu 1 2 3 4'' = Inr c" "\<exists>m. parseMemory ''MemTotal: 4 kB'' = Inr m"
  "\<exists>n. parseNetworkCounters ''eth0: 1 2 3 4 5 6 7 8 9 0 0 0 0 0 0 0'' = Inr n" "\<exists>u. parseUptime ov ''5 1'' = Inr u"
proof -
  have f: "Go_Prelude.fields ''cpu 1 2 3 4'' = [''cpu'', ''1'', ''2'', ''3'', ''4'']" "Go_Prelude.fields ''MemTotal: 4 kB'' = [''MemTotal:'', ''4'', ''kB'']"
    "Go_Prelude.fields '' 1 2 3 4 5 6 7 8 9 0 0 0 0 0 0 0'' =
      [''1'', ''2'', ''3'', ''4'', ''5'', ''6'', ''7'', ''8'', ''9'', ''0'', ''0'', ''0'', ''0'', ''0'', ''0'', ''0'']"
    "Go_Prelude.fields ''5 1'' = [''5'', ''1'']" "trim_space ''eth0'' = ''eth0''" "trim_suffix ''MemTotal:'' '':'' = ''MemTotal''"
    by code_simp+
  have d: "parse_digits ''1'' = Some 1" "parse_digits ''2'' = Some 2" "parse_digits ''3'' = Some 3" "parse_digits ''4'' = Some 4"
    "parse_digits ''9'' = Some 9" "digits_value ''5'' = 5" "digits_value [] = 0" "is_digit_char CHR ''5''"
    by code_simp+
  show "\<exists>c. parseCPUCounters ''cpu 1 2 3 4'' = Inr c"
    by (simp add: parseCPUCounters_def f d parse_uint64_def Let_def)
  have l: "scan_lines ''MemTotal: 4 kB'' = ([''MemTotal: 4 kB''], False)"
    "scan_lines ''eth0: 1 2 3 4 5 6 7 8 9 0 0 0 0 0 0 0'' = ([''eth0: 1 2 3 4 5 6 7 8 9 0 0 0 0 0 0 0''], False)"
    by (simp_all add: scan_lines_def raw_lines_def drop_cr_def Let_def)
  show "\<exists>m. parseMemory ''MemTotal: 4 kB'' = Inr m"
    by (simp add: parseMemory_def l memory_line_def f d parse_uint64_def Let_def map_value_def u64_def)
  show "\<exists>n. parseNetworkCounters ''eth0: 1 2 3 4 5 6 7 8 9 0 0 0 0 0 0 0'' = Inr n"
    by (simp add: parseNetworkCounters_def l network_line_def f d parse_uint64_def Let_def)
  have "parse_float ''5'' = Some 5"
    by (simp add: parse_float_def parse_unsigned_float_def is_exponent_char_def parse_mantissa_def has_prefix_def d Let_def)
  then show "\<exists>u. parseUptime ov ''5 1'' = Inr u" by (simp add: parseUptime_def f)
qed


end
