(* ===== verification/Control_Client.thy ===== *)
theory Control_Client
  imports Runtime_Contract Access_Store Maintenance_Controller Host_Metrics
begin

text \<open>
  The control session: internal/control/client.go. The state joins the database, the runtime
  with the file system, the metrics collector and the client's own fields; messages sent are
  recorded in order. A handler is one step: the handlers that change the runtime hold
  runtimeSyncMu, the store runs one transaction at a time, and the clock is read once per step.
  The connection is the list of sent messages; a write, like every call to the outside, may fail
  with an arbitrary error. Deadlines, pongs and log lines are left out.
\<close>

section \<open>State\<close>

definition TypeMaintenanceCommand :: string where "TypeMaintenanceCommand = ''maintenance_command''"
definition TypeMaintenanceResult :: string where "TypeMaintenanceResult = ''maintenance_result''"

datatype Payload =
    PHello Hello
  | PHeartbeat Heartbeat
  | PConfigResult ConfigResult
  | PUserResult UserResult
  | PTrafficBatch TrafficBatch
  | PAccessBatch AccessBatch
  | POnlineSnapshot OnlineSnapshot
  | PMaintenanceResult MaintenanceResult

record Client =
  cn_cfg :: Config
  cn_identity :: Identity
  cn_signingKey :: string
  cn_bootID :: string
  cn_maintenance :: Controller

record 'core ClientWorld =
  cw_db :: Db
  cw_runtime :: "'core RuntimeWorld"
  cw_collector :: Collector
  cw_sent :: "(Envelope \<times> Payload) list"
  cw_trafficWindowStartedAt :: int
  cw_lastUpdateCheck :: int
  cw_errCh :: "go_error list"
  cw_secretVersions :: "nat list"
  cw_established :: bool

record 'core ClientEnv =
  ce_codecs :: Codecs
  ce_runtime :: "'core RuntimeEnv"
  ce_maintenance :: MaintenanceEnv
  ce_marshal_config :: "DesiredConfig \<Rightarrow> string result"
  ce_marshal :: "Payload \<Rightarrow> string result"
  ce_decode_envelope :: "Envelope json_decoder"
  ce_decode_hello_ack :: "HelloAck json_decoder"
  ce_decode_config :: "SignedConfig json_decoder"
  ce_decode_sealed :: "SecretEnvelope json_decoder"
  ce_decode_materials :: "SecretMaterial list json_decoder"
  ce_decode_snapshot :: "UserSnapshot json_decoder"
  ce_decode_disconnect :: "UserDisconnect json_decoder"
  ce_decode_traffic_ack :: "TrafficAck json_decoder"
  ce_decode_access_ack :: "AccessAck json_decoder"
  ce_decode_command :: "SignedMaintenanceCommand json_decoder"
  ce_uuid :: "nat \<Rightarrow> string"
  ce_nonce :: "string \<Rightarrow> string result"
  ce_overflow :: "rat \<Rightarrow> nat"
  ce_now :: int

type_synonym ('core, 'x) ct = "('core ClientWorld, 'x) tx"

abbreviation on_db :: "(Db, 'x) tx \<Rightarrow> ('core, 'x) ct" where
  "on_db \<equiv> tx_zoom cw_db cw_db_update"

abbreviation on_runtime :: "('core, 'x) rt \<Rightarrow> ('core, 'x) ct" where
  "on_runtime \<equiv> tx_zoom cw_runtime cw_runtime_update"

abbreviation on_client_files :: "(fs, 'x) tx \<Rightarrow> ('core, 'x) ct" where
  "on_client_files m \<equiv> on_runtime (on_files m)"

definition metrics_of :: "'core ClientWorld \<Rightarrow> MetricsWorld" where
  "metrics_of w = \<lparr>hw_files = rw_files (cw_runtime w), hw_collector = cw_collector w\<rparr>"

definition set_metrics :: "(MetricsWorld \<Rightarrow> MetricsWorld) \<Rightarrow> 'core ClientWorld \<Rightarrow> 'core ClientWorld" where
  "set_metrics f w = w\<lparr>cw_runtime := (cw_runtime w)\<lparr>rw_files := hw_files (f (metrics_of w))\<rparr>,
     cw_collector := hw_collector (f (metrics_of w))\<rparr>"

definition NewClient :: "Config \<Rightarrow> Identity \<Rightarrow> string \<Rightarrow> string \<Rightarrow> Client result" where
  "NewClient cfg ident signingKey bootID =
     (if id_AgentNodeID ident \<le> 0 \<or> length signingKey \<noteq> ed25519_public_key_size
      then Inl (Msg ''control client dependencies are incomplete'')
      else let cfg1 = (if cfg_UpdateCheckInterval cfg < minute then cfg\<lparr>cfg_UpdateCheckInterval := 60 * minute\<rparr> else cfg);
               cfg2 = (if cfg_AccessInterval cfg1 \<le> 0 then cfg1\<lparr>cfg_AccessInterval := minute\<rparr> else cfg1) in
        case NewController cfg2 ident signingKey (cfg_Version cfg2) of
          Inl e \<Rightarrow> Inl e
        | Inr controller \<Rightarrow> Inr \<lparr>cn_cfg = cfg2, cn_identity = ident, cn_signingKey = signingKey, cn_bootID = bootID,
            cn_maintenance = controller\<rparr>)"

section \<open>Reconnecting\<close>

text \<open>Durations are 64-bit integers, and doubling one wraps.\<close>

definition wrap64 :: "int \<Rightarrow> int" where
  "wrap64 x = (x + 2 ^ 63) mod 2 ^ 64 - 2 ^ 63"

definition reconnectSchedule :: "int \<Rightarrow> int \<Rightarrow> int \<Rightarrow> bool \<Rightarrow> int \<times> int" where
  "reconnectSchedule current minimum maximum established =
     (let current = (if established \<or> current < minimum then minimum else current);
          nxt = wrap64 (current * 2);
          nxt = (if current \<ge> maximum \<or> nxt < current \<or> nxt > maximum then maximum else nxt)
      in (current, nxt))"

text \<open>The waits of Run, one for each ended session\<close>

fun reconnect_waits :: "int \<Rightarrow> int \<Rightarrow> int \<Rightarrow> bool list \<Rightarrow> int list" where
  "reconnect_waits delay minimum maximum [] = []"
| "reconnect_waits delay minimum maximum (established # rest) =
     (case reconnectSchedule delay minimum maximum established of
        (wait, nxt) \<Rightarrow> wait # reconnect_waits nxt minimum maximum rest)"

section \<open>Sending\<close>

definition send :: "'core ClientEnv \<Rightarrow> string \<Rightarrow> Payload \<Rightarrow> ('core, unit) ct" where
  "send env messageType payload =
     tx_bind (tx_get (\<lambda>w. length (cw_sent w))) (\<lambda>n.
     tx_bind (tx_lift (NewEnvelope (ce_marshal env) (ce_uuid env n) messageType payload (ce_now env))) (\<lambda>envelope.
     stmt (\<lambda>w. Inr ((), w\<lparr>cw_sent := cw_sent w @ [(envelope, payload)]\<rparr>))))"

definition ping :: "('core, unit) ct" where
  "ping = stmt (\<lambda>w. Inr ((), w))"

definition sendSessionError :: "go_error \<Rightarrow> ('core, unit) ct" where
  "sendSessionError err = tx_modify (\<lambda>w. if length (cw_errCh w) < 4 then w\<lparr>cw_errCh := cw_errCh w @ [err]\<rparr> else w)"

definition sendPendingTraffic :: "'core ClientEnv \<Rightarrow> ('core, unit) ct" where
  "sendPendingTraffic env =
     tx_bind (on_db (PendingTraffic (ce_codecs env) 100)) (\<lambda>pending.
     tx_iter (\<lambda>batch. send env TypeTrafficBatch (PTrafficBatch batch)) pending)"

definition sendPendingAccess :: "'core ClientEnv \<Rightarrow> ('core, unit) ct" where
  "sendPendingAccess env =
     tx_bind (on_db (PendingAccess (ce_codecs env) 100)) (\<lambda>pending.
     tx_iter (\<lambda>batch. send env TypeAccessBatch (PAccessBatch batch)) pending)"

section \<open>Configuration and secrets\<close>

definition send_config_result :: "'core ClientEnv \<Rightarrow> SignedConfig \<Rightarrow> string \<Rightarrow> string \<Rightarrow> string \<Rightarrow> ('core, unit) ct" where
  "send_config_result env msg status errorCode errorMessage =
     send env TypeConfigResult (PConfigResult \<lparr>cf_Version = dc_Version (sg_Config msg), cf_SHA256 = sg_SHA256 msg, cf_Status = status,
       cf_ErrorCode = errorCode, cf_ErrorMessage = errorMessage\<rparr>)"

definition check_config_message :: "'core ClientEnv \<Rightarrow> Client \<Rightarrow> SignedConfig \<Rightarrow> nat list \<Rightarrow> go_error option" where
  "check_config_message env c msg secretVersions =
     (if sg_KeyID msg \<noteq> id_ConfigSigningKeyID (cn_identity c) \<or> dc_AgentNodeID (sg_Config msg) \<noteq> id_AgentNodeID (cn_identity c)
      then Some (Msg ''desired config identity is invalid'')
      else case VerifySignedConfig (re_crypto (ce_runtime env)) (ce_marshal_config env) msg (cn_signingKey c) of
             Some e \<Rightarrow> Some e
           | None \<Rightarrow> if dc_Version (sg_Config msg) \<notin> set secretVersions
                     then Some (Msg ''desired config secret envelope is missing'') else None)"

definition install_desired_config :: "'core ClientEnv \<Rightarrow> SignedConfig \<Rightarrow> ('core, unit) ct" where
  "install_desired_config env msg =
     tx_bind (tx_attempt (on_runtime (ApplyConfig (ce_runtime env) (sg_Config msg)))) (\<lambda>applied.
     case applied of
       Inl err \<Rightarrow>
         tx_bind (tx_attempt (send_config_result env msg ''failed'' ''xray_apply_failed'' ''candidate runtime state was rejected'')) (\<lambda>_.
         tx_lift (Inl err))
     | Inr _ \<Rightarrow> on_db (MarkConfigApplied (ce_now env) (dc_Version (sg_Config msg)) (sg_SHA256 msg)))"

definition applyDesiredConfig :: "'core ClientEnv \<Rightarrow> Client \<Rightarrow> Envelope \<Rightarrow> ('core, unit) ct" where
  "applyDesiredConfig env c envelope =
     tx_bind (tx_lift (DecodePayload (ce_decode_config env) envelope)) (\<lambda>msg.
     tx_bind (tx_get cw_secretVersions) (\<lambda>secretVersions.
     case check_config_message env c msg secretVersions of
       Some e \<Rightarrow> tx_lift (Inl e)
     | None \<Rightarrow>
         tx_bind (on_db (SaveDesiredConfig (ce_codecs env) (ce_now env) msg)) (\<lambda>inserted.
         tx_bind (if inserted then install_desired_config env msg else tx_return ()) (\<lambda>_.
         send_config_result env msg ''succeeded'' [] []))))"

definition put_secret :: "'core ClientEnv \<Rightarrow> string \<Rightarrow> string \<Rightarrow> ('core, unit) ct" where
  "put_secret env ref plaintext =
     on_client_files (Put (re_crypto (ce_runtime env)) (ce_nonce env ref)
       (re_tmp (ce_runtime env) (durablePath (re_crypto (ce_runtime env)) (re_secrets (ce_runtime env)) ref))
       (re_secrets (ce_runtime env)) ref plaintext)"

definition store_material :: "'core ClientEnv \<Rightarrow> SecretMaterial \<Rightarrow> ('core, unit) ct" where
  "store_material env material =
     (case b64_raw_decode (mt_Value material) of
        None \<Rightarrow> tx_lift (Inl (Msg ''secret material is invalid''))
      | Some plaintext \<Rightarrow>
          if plaintext = [] then tx_lift (Inl (Msg ''secret material is invalid''))
          else put_secret env (mt_Ref material) plaintext)"

definition applySecretEnvelope :: "'core ClientEnv \<Rightarrow> Client \<Rightarrow> Envelope \<Rightarrow> ('core, nat) ct" where
  "applySecretEnvelope env c envelope =
     tx_bind (tx_lift (DecodePayload (ce_decode_sealed env) envelope)) (\<lambda>sealed.
     if se_AgentNodeID sealed \<noteq> id_AgentNodeID (cn_identity c)
     then tx_lift (Inl (Msg ''secret envelope agent identity is invalid''))
     else case b64_raw_decode (id_SecretEnvelopeKey (cn_identity c)) of
            None \<Rightarrow> tx_lift (Inl (Msg ''local secret envelope key is invalid''))
          | Some envelopeKey \<Rightarrow>
              if length envelopeKey \<noteq> 32 then tx_lift (Inl (Msg ''local secret envelope key is invalid''))
              else tx_bind (tx_lift (OpenSecretEnvelope (re_crypto (ce_runtime env)) (ce_decode_materials env) envelopeKey sealed)) (\<lambda>materials.
                   tx_bind (tx_iter (store_material env) materials) (\<lambda>_.
                   tx_return (se_ConfigVersion sealed))))"

section \<open>Users\<close>

definition kind_char :: "char \<Rightarrow> bool" where
  "kind_char ch \<longleftrightarrow> is_lower_char ch \<or> is_digit_char ch \<or> ch = CHR ''_'' \<or> ch = CHR ''-''"

definition normalizedCredentialKind :: "string \<Rightarrow> string" where
  "normalizedCredentialKind value =
     (let out = filter kind_char (to_lower (trim_space value)) in if out = [] then ''credential'' else out)"

definition user_secret_ref :: "nat \<Rightarrow> UserCredential \<Rightarrow> string" where
  "user_secret_ref revision user =
     ''user-secret:'' @ normalizedCredentialKind (uc_Kind user) @ ''_'' @ format_int (uc_InboundID user) @ '':'' @
     format_int (uc_SubscriberID user) @ '':'' @ format_uint revision"

fun store_user_secrets :: "'core ClientEnv \<Rightarrow> nat \<Rightarrow> UserCredential list \<Rightarrow> ('core, UserCredential list) ct" where
  "store_user_secrets env revision [] = tx_return []"
| "store_user_secrets env revision (user # users) =
     tx_bind (put_secret env (user_secret_ref revision user) (uc_Value user)) (\<lambda>_.
     tx_bind (store_user_secrets env revision users) (\<lambda>stored.
     tx_return (user\<lparr>uc_Value := user_secret_ref revision user\<rparr> # stored)))"

definition send_user_result :: "'core ClientEnv \<Rightarrow> nat \<Rightarrow> string \<Rightarrow> string \<Rightarrow> string \<Rightarrow> ('core, unit) ct" where
  "send_user_result env revision status errorCode errorMessage =
     send env TypeUserResult (PUserResult \<lparr>ur_Revision = revision, ur_Status = status, ur_ErrorCode = errorCode,
       ur_ErrorMessage = errorMessage\<rparr>)"

definition applyUserSnapshot :: "'core ClientEnv \<Rightarrow> Envelope \<Rightarrow> ('core, unit) ct" where
  "applyUserSnapshot env envelope =
     tx_bind (tx_lift (DecodePayload (ce_decode_snapshot env) envelope)) (\<lambda>snapshot.
     tx_bind (tx_attempt (on_runtime (DisconnectUsers (ce_runtime env) (us_Users snapshot)))) (\<lambda>_.
     tx_bind (tx_attempt (on_runtime (ApplyUsers (ce_runtime env) (us_Users snapshot)))) (\<lambda>applied.
     case applied of
       Inl err \<Rightarrow>
         tx_bind (tx_attempt (send_user_result env (us_Revision snapshot) ''failed'' ''user_apply_failed'' ''runtime rejected user snapshot'')) (\<lambda>_.
         tx_lift (Inl err))
     | Inr _ \<Rightarrow>
         tx_bind (store_user_secrets env (us_Revision snapshot) (us_Users snapshot)) (\<lambda>stored.
         tx_bind (on_db (ReplaceUsers (snapshot\<lparr>us_Users := stored\<rparr>))) (\<lambda>_.
         send_user_result env (us_Revision snapshot) ''succeeded'' [] [])))))"

definition applyUserDisconnect :: "'core ClientEnv \<Rightarrow> Envelope \<Rightarrow> ('core, unit) ct" where
  "applyUserDisconnect env envelope =
     tx_bind (tx_lift (DecodePayload (ce_decode_disconnect env) envelope)) (\<lambda>request.
     tx_bind (tx_attempt (on_runtime (DisconnectSubscribers (ce_runtime env) (ud_SubscriberIDs request)))) (\<lambda>done.
     case done of
       Inl err \<Rightarrow>
         tx_bind (tx_attempt (send_user_result env 0 ''failed'' ''targeted_disconnect_failed'' ''runtime rejected targeted disconnect'')) (\<lambda>_.
         tx_lift (Inl err))
     | Inr _ \<Rightarrow> send_user_result env 0 ''succeeded'' [] []))"

section \<open>Traffic, access and online reports\<close>

definition traffic_window_start :: "Config \<Rightarrow> int \<Rightarrow> int \<Rightarrow> int" where
  "traffic_window_start cfg startedAt endedAt =
     (if startedAt = 0 \<or> \<not> endedAt > startedAt then endedAt - cfg_TrafficInterval cfg else startedAt)"

definition collectAndSendTraffic :: "'core ClientEnv \<Rightarrow> Client \<Rightarrow> ('core, unit) ct" where
  "collectAndSendTraffic env c =
     tx_bind (on_runtime (CollectTraffic (ce_runtime env))) (\<lambda>deltas.
     tx_bind (tx_get cw_trafficWindowStartedAt) (\<lambda>startedAt.
     let endedAt = ce_now env in
     tx_bind (on_db (AddTrafficWindow deltas (traffic_window_start (cn_cfg c) startedAt endedAt) endedAt)) (\<lambda>_.
     tx_bind (tx_modify (\<lambda>w. w\<lparr>cw_trafficWindowStartedAt := endedAt\<rparr>)) (\<lambda>_.
     tx_bind (on_db RuntimeStateQuery) (\<lambda>runtimeState.
     tx_bind (on_db (DrainTraffic (ce_codecs env) (ce_now env) (cn_bootID c) (rs_AppliedConfigVersion runtimeState))) (\<lambda>_.
     sendPendingTraffic env))))))"

definition collectAndSendAccess :: "'core ClientEnv \<Rightarrow> Client \<Rightarrow> ('core, unit) ct" where
  "collectAndSendAccess env c =
     tx_bind (on_runtime (CollectAccess (ce_runtime env))) (\<lambda>items.
     tx_bind (if items = [] then tx_return ()
              else tx_bind (tx_attempt (on_db (AddAccess items))) (\<lambda>added.
                   case added of
                     Inl err \<Rightarrow> tx_bind (on_runtime (RequeueAccess items)) (\<lambda>_. tx_lift (Inl err))
                   | Inr _ \<Rightarrow> tx_return ())) (\<lambda>_.
     tx_bind (on_db RuntimeStateQuery) (\<lambda>runtimeState.
     tx_bind (on_db (DrainAccess (ce_codecs env) (ce_now env) (cn_bootID c) (rs_AppliedConfigVersion runtimeState))) (\<lambda>_.
     sendPendingAccess env))))"

definition collectAndSendOnline :: "'core ClientEnv \<Rightarrow> ('core, unit) ct" where
  "collectAndSendOnline env =
     tx_bind (on_runtime (CollectOnline (ce_runtime env))) (\<lambda>online.
     send env TypeOnlineSnapshot (POnlineSnapshot \<lparr>os_CapturedAt = ce_now env, os_Users = online\<rparr>))"

definition system_metrics :: "Snapshot \<Rightarrow> SystemMetrics" where
  "system_metrics s = \<lparr>sm_SampledAt = sn_SampledAt s, sm_CPUPercent = sn_CPUPercent s, sm_MemoryPercent = sn_MemoryPercent s,
     sm_MemoryUsedBytes = sn_MemoryUsedBytes s, sm_MemoryTotalBytes = sn_MemoryTotalBytes s,
     sm_NetworkReceiveBPS = sn_NetworkReceiveBPS s, sm_NetworkTransmitBPS = sn_NetworkTransmitBPS s,
     sm_UptimeSeconds = sn_UptimeSeconds s\<rparr>"

definition heartbeat :: "'core ClientEnv \<Rightarrow> string \<Rightarrow> ('core, unit) ct" where
  "heartbeat env sessionID =
     tx_bind (on_db RuntimeStateQuery) (\<lambda>stateValue.
     tx_bind (on_db PendingTrafficStats) (\<lambda>(pendingBatches, pendingBytes).
     tx_bind (on_db PendingAccessStats) (\<lambda>(accessBatches, accessBytes).
     tx_bind (on_runtime RuntimeStatus) (\<lambda>runtimeStatus.
     tx_bind (tx_attempt (tx_zoom metrics_of set_metrics (Sample (ce_overflow env) (ce_now env)))) (\<lambda>sample.
     send env TypeHeartbeat (PHeartbeat
       \<lparr>hb_SessionID = sessionID, hb_AppliedConfigVersion = rs_AppliedConfigVersion stateValue,
        hb_AppliedConfigHash = rs_AppliedConfigHash stateValue, hb_AppliedUserRevision = rs_AppliedUserRevision stateValue,
        hb_WALPendingBatches = pendingBatches + accessBatches, hb_WALPendingBytes = pendingBytes + accessBytes,
        hb_XrayRunning = ss_Running runtimeStatus, hb_XrayVersion = ss_Version runtimeStatus,
        hb_SystemMetrics = (case sample of Inl _ \<Rightarrow> None | Inr s \<Rightarrow> Some (system_metrics s))\<rparr>))))))"

section \<open>Maintenance and keepalive\<close>

definition update_check_due :: "int \<Rightarrow> int \<Rightarrow> int \<Rightarrow> bool" where
  "update_check_due interval lastCheck now \<longleftrightarrow> lastCheck = 0 \<or> \<not> now - lastCheck < interval"

definition check_update :: "'core ClientEnv \<Rightarrow> Client \<Rightarrow> ('core, unit) ct" where
  "check_update env c =
     tx_bind (tx_get cw_lastUpdateCheck) (\<lambda>lastCheck.
     if \<not> update_check_due (cfg_UpdateCheckInterval (cn_cfg c)) lastCheck (ce_now env) then tx_return ()
     else tx_bind (tx_modify (\<lambda>w. w\<lparr>cw_lastUpdateCheck := ce_now env\<rparr>)) (\<lambda>_.
          tx_bind (on_client_files (CheckUpdate (ce_maintenance env) (cn_maintenance c) (me_fresh_uuid (ce_maintenance env)))) (\<lambda>result.
          send env TypeMaintenanceResult (PMaintenanceResult result))))"

definition take_result :: "'core ClientEnv \<Rightarrow> Client \<Rightarrow> ('core, unit) ct" where
  "take_result env c =
     tx_bind (tx_attempt (on_client_files (CompletedResult (ce_maintenance env) (cn_maintenance c)))) (\<lambda>r.
     case r of
       Inl _ \<Rightarrow> tx_return ()
     | Inr None \<Rightarrow> tx_return ()
     | Inr (Some result) \<Rightarrow>
         tx_bind (send env TypeMaintenanceResult (PMaintenanceResult result)) (\<lambda>_.
         tx_bind (tx_attempt (on_client_files (ClearCompletedResult (ce_maintenance env) (cn_maintenance c) (mr_CommandID result)))) (\<lambda>_.
         tx_return ())))"

definition keepalive_interval :: "Config \<Rightarrow> int" where
  "keepalive_interval cfg =
     (let interval = (if cfg_HeartbeatInterval cfg > 0 \<and> wrap64 (2 * cfg_HeartbeatInterval cfg) < 20 * second
                      then wrap64 (2 * cfg_HeartbeatInterval cfg) else 20 * second)
      in if interval < 5 * second then 5 * second else interval)"

definition check_poll_interval :: "Config \<Rightarrow> int" where
  "check_poll_interval cfg = min (cfg_UpdateCheckInterval cfg) minute"

text \<open>
  The ticks of the three background loops. An error ends the loop and is queued for the reading
  loop; an error of the access report is only logged. The result says whether the loop goes on.
\<close>

datatype Tick = TickHeartbeat | TickTraffic | TickAccess | TickCheck | TickResult | TickPing

definition or_session_error :: "('core, unit) ct \<Rightarrow> ('core, bool) ct" where
  "or_session_error m =
     tx_bind (tx_attempt m) (\<lambda>r.
     case r of Inl e \<Rightarrow> tx_bind (sendSessionError e) (\<lambda>_. tx_return False) | Inr _ \<Rightarrow> tx_return True)"

fun run_tick :: "'core ClientEnv \<Rightarrow> Client \<Rightarrow> string \<Rightarrow> Tick \<Rightarrow> ('core, bool) ct" where
  "run_tick env c sid TickHeartbeat = or_session_error (heartbeat env sid)"
| "run_tick env c sid TickTraffic = or_session_error (tx_bind (collectAndSendTraffic env c) (\<lambda>_. collectAndSendOnline env))"
| "run_tick env c sid TickAccess = tx_bind (tx_attempt (collectAndSendAccess env c)) (\<lambda>_. tx_return True)"
| "run_tick env c sid TickCheck = or_session_error (check_update env c)"
| "run_tick env c sid TickResult = or_session_error (take_result env c)"
| "run_tick env c sid TickPing = or_session_error ping"

section \<open>The session\<close>

definition hello_ack_ok :: "'core ClientEnv \<Rightarrow> Envelope \<Rightarrow> string result" where
  "hello_ack_ok env envelope =
     (if en_Type envelope \<noteq> TypeHelloAck then Inl (Msg ''control server did not acknowledge hello'')
      else case DecodePayload (ce_decode_hello_ack env) envelope of
             Inl _ \<Rightarrow> Inl (Msg ''control hello acknowledgement is invalid'')
           | Inr ack \<Rightarrow>
               if ha_ProtocolVersion ack \<noteq> ProtocolVersion \<or> ha_SessionID ack = []
               then Inl (Msg ''control hello acknowledgement is invalid'') else Inr (ha_SessionID ack))"

text \<open>From dialling to the start of the reading loop; the acknowledgement read is an argument.\<close>

definition open_session :: "'core ClientEnv \<Rightarrow> Client \<Rightarrow> Envelope result \<Rightarrow> ('core, string) ct" where
  "open_session env c ackEnvelope =
     tx_bind (on_db RuntimeStateQuery) (\<lambda>runtimeState.
     tx_bind (tx_wrap ''dial control WSS'' (stmt (\<lambda>w. Inr ((), w)))) (\<lambda>_.
     tx_bind (send env TypeHello (PHello
       \<lparr>he_ProtocolVersion = ProtocolVersion, he_MachineID = id_MachineID (cn_identity c), he_BootID = cn_bootID c,
        he_AgentVersion = cfg_Version (cn_cfg c), he_AppliedConfigVersion = rs_AppliedConfigVersion runtimeState,
        he_AppliedConfigHash = rs_AppliedConfigHash runtimeState, he_AppliedUserRevision = rs_AppliedUserRevision runtimeState\<rparr>)) (\<lambda>_.
     tx_bind (tx_lift ackEnvelope) (\<lambda>ack.
     tx_bind (tx_lift (hello_ack_ok env ack)) (\<lambda>sessionID.
     tx_bind (sendPendingTraffic env) (\<lambda>_.
     tx_bind (tx_attempt (sendPendingAccess env)) (\<lambda>_.
     tx_bind (tx_modify (\<lambda>w. w\<lparr>cw_errCh := [], cw_secretVersions := [], cw_established := False\<rparr>)) (\<lambda>_.
     tx_return sessionID))))))))"

definition acknowledge_traffic :: "'core ClientEnv \<Rightarrow> Envelope \<Rightarrow> ('core, unit) ct" where
  "acknowledge_traffic env envelope =
     tx_bind (tx_lift (DecodePayload (ce_decode_traffic_ack env) envelope)) (\<lambda>ack.
     if ta_Status ack \<noteq> ''accepted'' \<and> ta_Status ack \<noteq> ''already_accepted''
     then tx_lift (Inl (Msg ''control server rejected a traffic batch''))
     else on_db (AcknowledgeTraffic (ta_BootID ack) (ta_Sequence ack) (ta_PayloadSHA256 ack)))"

definition access_ack_final :: "string list" where
  "access_ack_final = [''accepted'', ''already_accepted'', ''discarded'', ''already_discarded'', ''partially_applied'',
     ''already_partially_applied'']"

definition acknowledge_access :: "'core ClientEnv \<Rightarrow> Envelope \<Rightarrow> ('core, unit) ct" where
  "acknowledge_access env envelope =
     tx_bind (tx_lift (DecodePayload (ce_decode_access_ack env) envelope)) (\<lambda>ack.
     if aa_Status ack \<in> set access_ack_final
     then on_db (AcknowledgeAccess (aa_BootID ack) (aa_Sequence ack) (aa_PayloadSHA256 ack))
     else if aa_Status ack = ''retry_later'' then tx_return ()
     else tx_lift (Inl (Msg ''control server returned an invalid access acknowledgement'')))"

definition run_command_message :: "'core ClientEnv \<Rightarrow> Client \<Rightarrow> Envelope \<Rightarrow> ('core, unit) ct" where
  "run_command_message env c envelope =
     tx_bind (tx_lift (DecodePayload (ce_decode_command env) envelope)) (\<lambda>command.
     tx_bind (on_client_files (HandleCommand (ce_maintenance env) (cn_maintenance c) command)) (\<lambda>result.
     send env TypeMaintenanceResult (PMaintenanceResult result)))"

definition only_warn :: "('core, unit) ct \<Rightarrow> ('core, unit) ct" where
  "only_warn m = tx_bind (tx_attempt m) (\<lambda>_. tx_return ())"

definition dispatch :: "'core ClientEnv \<Rightarrow> Client \<Rightarrow> Envelope \<Rightarrow> ('core, unit) ct" where
  "dispatch env c envelope =
     (if en_Type envelope = TypeSecretBundle then
        tx_bind (applySecretEnvelope env c envelope) (\<lambda>version.
        tx_modify (\<lambda>w. w\<lparr>cw_secretVersions := List.insert version (cw_secretVersions w)\<rparr>))
      else if en_Type envelope = TypeDesiredConfig then only_warn (applyDesiredConfig env c envelope)
      else if en_Type envelope = TypeUserSnapshot then only_warn (applyUserSnapshot env envelope)
      else if en_Type envelope = TypeUserDisconnect then only_warn (applyUserDisconnect env envelope)
      else if en_Type envelope = TypeTrafficAck then acknowledge_traffic env envelope
      else if en_Type envelope = TypeAccessAck then acknowledge_access env envelope
      else if en_Type envelope = TypeHeartbeatAck then tx_modify (\<lambda>w. w\<lparr>cw_established := True\<rparr>)
      else if en_Type envelope = TypeMaintenanceCommand then run_command_message env c envelope
      else if en_Type envelope = TypeError then tx_lift (Inl (Msg ''control server returned an error''))
      else tx_lift (Inl (Msg ''control server sent an unsupported message'')))"

definition take_session_error :: "('core, unit) ct" where
  "take_session_error =
     tx_bind (tx_get cw_errCh) (\<lambda>errs.
     case errs of
       [] \<Rightarrow> tx_return ()
     | e # rest \<Rightarrow> tx_bind (tx_modify (\<lambda>w. w\<lparr>cw_errCh := rest\<rparr>)) (\<lambda>_. tx_lift (Inl e)))"

text \<open>One turn of the reading loop on a received frame; an error ends the session.\<close>

definition receive :: "'core ClientEnv \<Rightarrow> Client \<Rightarrow> bool \<Rightarrow> string \<Rightarrow> ('core, unit) ct" where
  "receive env c isText raw =
     (if \<not> isText then tx_lift (Inl (Msg ''control server sent a non-text frame''))
      else tx_bind (tx_lift (DecodeEnvelope (ce_decode_envelope env) raw)) (\<lambda>envelope.
           tx_bind (dispatch env c envelope) (\<lambda>_. take_session_error)))"

section \<open>Sessions\<close>

text \<open>
  What happens during a session, in the order in which it happens: a frame is read, reading
  fails, or one of the three background loops ticks. A loop that reported an error has returned
  and does not tick again. A script that ends stands for a cancelled context.
\<close>

datatype Event = Frame bool string | ReadFailed go_error | Ticked Tick

datatype Loop = HeartbeatAndTraffic | Maintenance | ControlKeepalive

fun tick_loop :: "Tick \<Rightarrow> Loop" where
  "tick_loop TickHeartbeat = HeartbeatAndTraffic"
| "tick_loop TickTraffic = HeartbeatAndTraffic"
| "tick_loop TickAccess = HeartbeatAndTraffic"
| "tick_loop TickCheck = Maintenance"
| "tick_loop TickResult = Maintenance"
| "tick_loop TickPing = ControlKeepalive"

fun run_events :: "'core ClientEnv \<Rightarrow> Client \<Rightarrow> string \<Rightarrow> Loop list \<Rightarrow> Event list \<Rightarrow> ('core, unit) ct" where
  "run_events env c sid running [] = tx_return ()"
| "run_events env c sid running (Frame isText raw # rest) =
     tx_bind (receive env c isText raw) (\<lambda>_. run_events env c sid running rest)"
| "run_events env c sid running (ReadFailed e # rest) = tx_lift (Inl e)"
| "run_events env c sid running (Ticked t # rest) =
     (if tick_loop t \<notin> set running then run_events env c sid running rest
      else tx_bind (run_tick env c sid t) (\<lambda>goes_on.
           run_events env c sid (if goes_on then running else removeAll (tick_loop t) running) rest))"

record Session =
  ses_Ack :: "Envelope result"
  ses_Events :: "Event list"

definition runSessionWithEstablished :: "'core ClientEnv \<Rightarrow> Client \<Rightarrow> Session \<Rightarrow> ('core, unit) ct" where
  "runSessionWithEstablished env c s =
     tx_bind (open_session env c (ses_Ack s)) (\<lambda>sid.
     run_events env c sid [HeartbeatAndTraffic, Maintenance, ControlKeepalive] (ses_Events s))"

text \<open>Run with the sessions it gets; the value lists the waits between them.\<close>

fun client_sessions :: "'core ClientEnv \<Rightarrow> Client \<Rightarrow> int \<Rightarrow> Session list \<Rightarrow> ('core, int list) ct" where
  "client_sessions env c delay [] = tx_return []"
| "client_sessions env c delay (s # rest) =
     tx_bind (tx_modify (\<lambda>w. w\<lparr>cw_established := False\<rparr>)) (\<lambda>_.
     tx_bind (tx_attempt (runSessionWithEstablished env c s)) (\<lambda>_.
     tx_bind (tx_get cw_established) (\<lambda>established.
     case reconnectSchedule delay (cfg_ReconnectMin (cn_cfg c)) (cfg_ReconnectMax (cn_cfg c)) established of
       (wait, nxt) \<Rightarrow>
         tx_bind (client_sessions env c nxt rest) (\<lambda>waits.
         tx_return (wait # waits)))))"

definition RunClient :: "'core ClientEnv \<Rightarrow> Client \<Rightarrow> Session list \<Rightarrow> ('core, int list) ct" where
  "RunClient env c sessions = client_sessions env c (cfg_ReconnectMin (cn_cfg c)) sessions"

end
