(* ===== verification/Example_Client.thy ===== *)
theory Example_Client
  imports Control_Client
begin

text \<open>
  A concrete client, its environment and a signed configuration for it, with the run of the
  configuration handler on them: the properties of the client and of the agent command are seen
  to hold at these values.
\<close>

definition example_signed_config :: SignedConfig where
  "example_signed_config = \<lparr>sg_KeyID = ''k1'', sg_SHA256 = hex_digest plain_crypto ''c'', sg_Signature = b64_encode ''c'',
     sg_Config = example_vmess_config\<rparr>"

definition example_snapshot :: UserSnapshot where
  "example_snapshot = \<lparr>us_Revision = 2, us_Users = [example_user]\<rparr>"

definition example_agent :: Identity where
  "example_agent = example_identity\<lparr>id_AgentNodeID := 3\<rparr>"

definition example_client_codecs :: Codecs where
  "example_client_codecs = example_codecs\<lparr>cd_config_marshal := single_marshal example_signed_config ''{}'',
     cd_config_unmarshal := (\<lambda>raw. Inr example_signed_config)\<rparr>"

definition example_envelope :: "string \<Rightarrow> Envelope" where
  "example_envelope messageType = \<lparr>en_ID = ''m'', en_ReplyTo = [], en_Type = messageType, en_SentAt = 1, en_Payload = ''{}''\<rparr>"

definition example_hello_ack :: HelloAck where
  "example_hello_ack = \<lparr>ha_ProtocolVersion = 1, ha_SessionID = ''s1'', ha_ServerTime = 1, ha_HeartbeatIntervalSec = 15,
     ha_DesiredConfigVersion = 7, ha_DesiredUserRevision = 2\<rparr>"

definition example_traffic_ack :: TrafficAck where
  "example_traffic_ack = \<lparr>ta_BootID = ''boot'', ta_Sequence = 1, ta_PayloadSHA256 = ''h1'', ta_Status = ''accepted''\<rparr>"

definition example_client_env :: "(string \<times> UserInfo list) list ClientEnv" where
  "example_client_env = \<lparr>ce_codecs = example_client_codecs, ce_runtime = example_env,
     ce_maintenance = example_maintenance_env, ce_marshal_config = (\<lambda>_. Inr ''c''), ce_marshal = (\<lambda>_. Inr ''p''),
     ce_decode_envelope = single_decode (example_envelope TypeTrafficAck) ''{}'',
     ce_decode_hello_ack = single_decode example_hello_ack ''{}'',
     ce_decode_config = single_decode example_signed_config ''{}'', ce_decode_sealed = (\<lambda>_. Inl (Msg ''unused'')),
     ce_decode_materials = (\<lambda>_. Inl (Msg ''unused'')), ce_decode_snapshot = single_decode example_snapshot ''{}'',
     ce_decode_disconnect = (\<lambda>_. Inl (Msg ''unused'')), ce_decode_traffic_ack = single_decode example_traffic_ack ''{}'',
     ce_decode_access_ack = (\<lambda>_. Inl (Msg ''unused'')), ce_decode_command = (\<lambda>_. Inl (Msg ''unused'')),
     ce_uuid = (\<lambda>n. ''id''), ce_nonce = (\<lambda>_. Inr (replicate 12 CHR ''n'')), ce_overflow = (\<lambda>_. 0), ce_now = 100\<rparr>"

definition example_client :: Client where
  "example_client = \<lparr>cn_cfg = example_enroll_config, cn_identity = example_agent, cn_signingKey = replicate 32 CHR ''s'',
     cn_bootID = ''boot'', cn_maintenance = example_controller\<rparr>"

definition example_client_world :: "(string \<times> UserInfo list) list RuntimeWorld \<Rightarrow> (string \<times> UserInfo list) list ClientWorld" where
  "example_client_world rw = \<lparr>cw_db = empty_db\<lparr>db_meta := map_of schema_defaults\<rparr>, cw_runtime = rw, cw_collector = NewCollector,
     cw_sent = [], cw_trafficWindowStartedAt = 0, cw_lastUpdateCheck = 0, cw_errCh = [], cw_secretVersions = [7], cw_established = False\<rparr>"

lemma example_decoded:
  "DecodePayload (ce_decode_config example_client_env) (example_envelope t) = Inr example_signed_config"
  "DecodePayload (ce_decode_snapshot example_client_env) (example_envelope t) = Inr example_snapshot"
  "DecodePayload (ce_decode_hello_ack example_client_env) (example_envelope t) = Inr example_hello_ack"
  "DecodePayload (ce_decode_traffic_ack example_client_env) (example_envelope t) = Inr example_traffic_ack"
  by (simp_all add: DecodePayload_def decodeStrict_def example_client_env_def example_envelope_def single_decode_def json_blank_def)

lemma example_verified: "VerifySignedConfig plain_crypto (\<lambda>_. Inr ''c'') example_signed_config (replicate 32 CHR ''s'') = None"
  unfolding VerifySignedConfig_iff
  by (auto simp: example_signed_config_def plain_crypto_def example_vmess_accepted [unfolded ValidateDesiredConfig_iff]
      simp del: b64_encode.simps)

lemma example_config_checked: "check_config_message example_client_env example_client example_signed_config [7] = None"
  using example_verified
  by (simp add: check_config_message_def example_client_env_def example_client_def example_env_def example_agent_def
      example_identity_def) (simp add: example_signed_config_def example_vmess_config_def)

definition example_saved_db :: Db where
  "example_saved_db = empty_db\<lparr>db_meta := map_of schema_defaults, db_config_revisions := [received_row 100 example_signed_config ''{}'']\<rparr>"

lemma example_meta:
  "map_of schema_defaults ''applied_config_version'' = Some ''0''" "map_of schema_defaults ''applied_config_hash'' = Some []"
  "map_of schema_defaults ''applied_user_revision'' = Some ''0''"
  by (simp_all add: schema_defaults_def)

lemma example_version: "dc_Version (sg_Config example_signed_config) = 7" "dc_Version example_vmess_config = 7"
    "sg_Config example_signed_config = example_vmess_config"
  by (simp_all add: example_signed_config_def example_vmess_config_def)

lemma example_state: "runtime_state_of (empty_db\<lparr>db_meta := map_of schema_defaults\<rparr>) =
    \<lparr>rs_AppliedConfigVersion = 0, rs_AppliedConfigHash = [], rs_AppliedUserRevision = 0\<rparr>"
proof -
  have "format_uint 0 = ''0''" by code_simp
  then have "parse_uint_ignore ''0'' = 0" by (metis parse_uint_ignore_format zero_less_numeral zero_less_power)
  then show ?thesis by (simp add: runtime_state_of_def meta_text_def example_meta)
qed

lemma example_save:
  "SaveDesiredConfig example_client_codecs 100 example_signed_config ([], empty_db\<lparr>db_meta := map_of schema_defaults\<rparr>) = (Inr True, [], example_saved_db)"
proof -
  have m: "cd_config_marshal example_client_codecs example_signed_config = Inr ''{}''"
    by (simp add: example_client_codecs_def single_marshal_def)
  have "sql_uint 7 = Inr ()" by (simp add: sql_uint_def max_int64_def)
  moreover have "db_config_revisions empty_db = []" by (simp add: empty_db_def)
  ultimately show ?thesis
  by (simp add: SaveDesiredConfig_def m transact_def example_version tx_bind_def stmt_def runtimeStateTx_def find_config_def insert_config_def
   example_meta example_state example_saved_db_def received_row_def)
qed

lemma example_mark:
  "\<exists>db. MarkConfigApplied 100 7 (sg_SHA256 example_signed_config) ([], example_saved_db) = (Inr (), [], db)"
proof -
  have "sql_uint 7 = Inr ()" by (simp add: sql_uint_def max_int64_def)
  then show ?thesis
  by (simp add: MarkConfigApplied_def transact_def tx_bind_def stmt_def example_saved_db_def received_row_def example_version
     meta_update_def tx_ignore_def prune_configs_def example_meta)
qed

lemma example_config_run:
  "\<exists>w'. applyDesiredConfig example_client_env example_client (example_envelope t) ([], example_client_world example_world) = (Inr (), [], w')"
proof -
  have e: "ce_codecs example_client_env = example_client_codecs" "ce_now example_client_env = 100" "ce_runtime example_client_env = example_env"
     "ce_marshal example_client_env p = Inr ''p''" "ce_uuid example_client_env n = ''id''" for p n
     by (simp_all add: example_client_env_def)
  from example_mark obtain db where m: "MarkConfigApplied 100 7 (sg_SHA256 example_signed_config) ([], example_saved_db) = (Inr (), [], db)" ..
  show ?thesis
    by (simp add: applyDesiredConfig_def example_decoded tx_bind_def tx_get_def example_client_world_def example_config_checked
     tx_zoom_def example_save e example_version install_desired_config_def tx_attempt_def example_apply_config m send_config_result_def send_def
     NewEnvelope_def TypeConfigResult_def stmt_def)
qed

definition example_session :: Session where
  "example_session = \<lparr>ses_Ack = Inr (example_envelope TypeHelloAck), ses_Events = [Ticked TickPing, Frame True ''{}'']\<rparr>"

definition example_wal_row :: "nat \<Rightarrow> string \<Rightarrow> WalRow" where
  "example_wal_row n hash = \<lparr>wr_boot_id = ''boot'', wr_sequence = n, wr_payload_sha256 = hash,
     wr_payload_json = enc_strs (batch_fields (traffic_batch_of ''boot'' n 7 (1, 2) [])), wr_created_at = 3\<rparr>"

definition example_pending_world :: "(string \<times> UserInfo list) list ClientWorld" where
  "example_pending_world = (example_client_world example_world)\<lparr>cw_db := empty_db\<lparr>db_meta := map_of schema_defaults,
     db_traffic_wal := [example_wal_row 1 ''h1'', example_wal_row 2 ''h2'']\<rparr>\<rparr>"

end
