(* ===== verification/Client_Facts.thy ===== *)
theory Client_Facts
  imports Example_Client
begin

text \<open>
  Correctness of the control client: how long it waits between sessions, that what it reports
  about a configuration or a user snapshot is so, and what a session keeps. The triples of the
  handlers are built from those of the store (atomic transactions) and from the contract of the
  runtime.
\<close>

section \<open>Reconnecting\<close>

lemma wrap64_small: "- (2 ^ 63) \<le> x \<Longrightarrow> x < 2 ^ 63 \<Longrightarrow> wrap64 x = x"
  by (simp add: wrap64_def)

text \<open>With bounds below 2^63 a wrapped product is not larger than what was doubled.\<close>

lemma wrap64_double:
  assumes "0 < x" and "x < 2 ^ 63"
  shows "wrap64 (x * 2) = x * 2 \<or> (2 ^ 62 \<le> x \<and> wrap64 (x * 2) < 0)"
proof (cases "x < 2 ^ 62")
  case True
  with assms show ?thesis by (intro disjI1 wrap64_small) simp_all
next
  case False
  have "x * 2 + 2 ^ 63 = (x * 2 - 2 ^ 63) + 2 ^ 64" by simp
  then have "(x * 2 + 2 ^ 63) mod 2 ^ 64 = (x * 2 - 2 ^ 63) mod 2 ^ 64" by (metis mod_add_self2)
  also have "\<dots> = x * 2 - 2 ^ 63" using False assms by (intro mod_pos_pos_trivial) simp_all
  finally show ?thesis using False assms by (simp add: wrap64_def)
qed

lemma reconnectSchedule_eq:
  assumes "0 < minimum" and "minimum \<le> maximum" and "maximum < 2 ^ 63" and "minimum \<le> current" and "current \<le> maximum"
  shows "reconnectSchedule current minimum maximum established =
    (if established then (minimum, min maximum (minimum * 2)) else (current, min maximum (current * 2)))"
proof -
  have step: "(if x \<ge> maximum \<or> wrap64 (x * 2) < x \<or> wrap64 (x * 2) > maximum then maximum else wrap64 (x * 2)) = min maximum (x * 2)"
    if "minimum \<le> x" "x \<le> maximum" for x
    using wrap64_double [of x] assms that by auto
  show ?thesis using step [of minimum] step [of current] assms
    by (auto simp: reconnectSchedule_def Let_def)
qed

lemma reconnect_waits_failing:
  assumes "0 < minimum" and "minimum \<le> maximum" and "maximum < 2 ^ 63"
  shows "minimum \<le> d \<Longrightarrow> d \<le> maximum \<Longrightarrow>
    reconnect_waits d minimum maximum (replicate n False) = map (\<lambda>i. min maximum (d * 2 ^ i)) [0..<n]"
proof (induction n arbitrary: d)
  case (Suc n)
  have d: "0 \<le> d" using Suc.prems assms by simp
  have e: "min maximum (min maximum (d * 2) * 2 ^ i) = min maximum (d * 2 ^ Suc i)" for i
  proof (cases "d * 2 \<le> maximum")
    case True
    then show ?thesis by (simp add: min_def mult.assoc)
  next
    case False
    have "maximum * 1 \<le> maximum * 2 ^ i" using assms by (intro mult_left_mono) simp_all
    moreover have "d * 2 * 1 \<le> d * 2 * 2 ^ i" using d by (intro mult_left_mono) simp_all
    ultimately show ?thesis using False by (simp add: min_def mult.assoc)
  qed
  have "reconnect_waits d minimum maximum (replicate (Suc n) False) =
      d # map (\<lambda>i. min maximum (min maximum (d * 2) * 2 ^ i)) [0..<n]"
    using reconnectSchedule_eq [OF assms Suc.prems, of False] Suc.IH [of "min maximum (d * 2)"] Suc.prems assms by simp
  also have "\<dots> = map (\<lambda>i. min maximum (d * 2 ^ i)) (0 # map Suc [0..<n])"
    using Suc.prems(2) by (simp add: e)
  also have "0 # map Suc [0..<n] = [0..<Suc n]" by (simp only: map_Suc_upt upt_conv_Cons [OF zero_less_Suc])
  finally show ?case .
qed simp

lemma reconnect_waits_bounded:
  assumes "0 < minimum" and "minimum \<le> maximum" and "maximum < 2 ^ 63"
  shows "minimum \<le> d \<Longrightarrow> d \<le> maximum \<Longrightarrow> t \<in> set (reconnect_waits d minimum maximum es) \<Longrightarrow> minimum \<le> t \<and> t \<le> maximum"
proof (induction es arbitrary: d)
  case (Cons e es)
  define nxt where "nxt = (if e then min maximum (minimum * 2) else min maximum (d * 2))"
  have "t = minimum \<or> t = d \<or> t \<in> set (reconnect_waits nxt minimum maximum es)"
    using Cons.prems(3) reconnectSchedule_eq [OF assms Cons.prems(1,2), of e] by (auto simp: nxt_def split: if_splits)
  moreover have "minimum \<le> nxt" "nxt \<le> maximum" using Cons.prems assms by (auto simp: nxt_def)
  ultimately show ?case using Cons.IH [of nxt] Cons.prems assms by auto
qed simp

text \<open>
  C40. The delays between sessions stay within the configured bounds, whatever sessions were
  established; an established session is followed by the shortest delay; and after n sessions
  in a row that were not, the delays are the minimum doubled each time and cut at the maximum,
  although the 64-bit product may wrap.
\<close>

theorem reconnect_delays:
  assumes "0 < minimum" and "minimum \<le> maximum" and "maximum < 2 ^ 63"
  shows "(\<forall>es t. t \<in> set (reconnect_waits minimum minimum maximum es) \<longrightarrow> minimum \<le> t \<and> t \<le> maximum) \<and>
    (\<forall>d es. hd (reconnect_waits d minimum maximum (True # es)) = minimum) \<and>
    (\<forall>n. reconnect_waits minimum minimum maximum (replicate n False) = map (\<lambda>i. min maximum (minimum * 2 ^ i)) [0..<n])"
proof (intro conjI allI impI)
  fix es t
  assume t: "t \<in> set (reconnect_waits minimum minimum maximum es)"
  show "minimum \<le> t" "t \<le> maximum" using reconnect_waits_bounded [OF assms order_refl assms(2) t] by simp_all
next
  fix d es
  show "hd (reconnect_waits d minimum maximum (True # es)) = minimum" by (simp add: reconnectSchedule_def Let_def)
next
  fix n
  show "reconnect_waits minimum minimum maximum (replicate n False) = map (\<lambda>i. min maximum (minimum * 2 ^ i)) [0..<n]"
    by (rule reconnect_waits_failing [OF assms order_refl assms(2)])
qed

theorem reconnect_delays_witness: "reconnect_waits 1 1 10 (replicate 6 False) = [1, 2, 4, 8, 10, 10]"
proof -
  have "reconnect_waits 1 1 10 (replicate 6 False) = map (\<lambda>i. min 10 (1 * 2 ^ i)) [0..<6]"
    using reconnect_delays [of 1 10] by simp
  also have "\<dots> = [1, 2, 4, 8, 10, 10]" by code_simp
  finally show ?thesis .
qed

section \<open>Triples of the parts\<close>

text \<open>A step on a component, from a known state\<close>

lemma triple_zoom_at:
  assumes "triple (\<lambda>a. a = get s0) m (\<lambda>x a. Q x (upd (\<lambda>_. a) s0)) (\<lambda>e a. E e (upd (\<lambda>_. a) s0))"
  shows "triple (\<lambda>s. s = s0) (tx_zoom get upd m) Q E"
proof (rule tripleI)
  fix fs s r fs' s' assume *: "calm fs" "s = s0" "tx_zoom get upd m (fs, s) = (r, fs', s')"
  from zoom_run [OF *(3)] obtain a where m: "m (fs, get s) = (r, fs', a)" and s': "s' = upd (\<lambda>_. a) s" .
  from tripleD [OF assms *(1) _ m] *(2) s' show "calm fs' \<and> (case r of Inr x \<Rightarrow> Q x s' | Inl e \<Rightarrow> E e s')"
    by (cases r) simp_all
qed

lemma tidy_iter [tidy_rules]: "(\<And>x. tidy (f x)) \<Longrightarrow> tidy (tx_iter f xs)"
  by (induction xs) (auto intro!: tidy_rules)

lemma triple_atomic:
  assumes "atomic m" and "tidy m"
  shows "triple (\<lambda>s. s = db) m (\<lambda>x s. tx_ok m db x s) (\<lambda>e s. s = db)"
proof (rule tripleI)
  fix fs s r fs' s' assume *: "calm fs" "s = db" "m (fs, s) = (r, fs', s')"
  from tidy_calm [OF assms(2) *(3,1)] have "calm fs'" .
  with assms(1) *(2,3) show "calm fs' \<and> (case r of Inr x \<Rightarrow> tx_ok m db x s' | Inl e \<Rightarrow> s' = db)"
    unfolding atomic_def tx_ok_def by (cases r) auto
qed

lemma tidy_store [tidy_rules]:
  "tidy (SaveDesiredConfig E now msg)" "tidy (MarkConfigApplied now v h)" "tidy (ReplaceUsers snap)"
proof -
  have "tidy (insert_user rv u)" for rv u unfolding insert_user_def by (auto intro!: tidy_rules)
  then show "tidy (ReplaceUsers snap)" unfolding ReplaceUsers_def runtimeStateTx_def by (auto intro!: tidy_rules)
  show "tidy (SaveDesiredConfig E now msg)" unfolding SaveDesiredConfig_def runtimeStateTx_def
    by (auto intro!: tidy_rules split: option.splits)
  show "tidy (MarkConfigApplied now v h)" unfolding MarkConfigApplied_def
    by (auto intro!: tidy_rules split: prod.splits)
qed

lemmas triple_store =
  triple_atomic [OF store_operations_atomic(2) tidy_store(1)] triple_atomic [OF store_operations_atomic(3) tidy_store(2)]
  triple_atomic [OF store_operations_atomic(1) tidy_store(3)]

lemma triple_send:
  "triple (\<lambda>w. w = w0) (send env ty p) (\<lambda>_ w. \<exists>e. w = w0\<lparr>cw_sent := cw_sent w0 @ [(e, p)]\<rparr>) (\<lambda>_ w. w = w0)"
proof -
  have "triple (\<lambda>w. w = w0) (tx_bind (tx_lift r) (\<lambda>e. stmt (\<lambda>w. Inr ((), w\<lparr>cw_sent := cw_sent w @ [(e, p)]\<rparr>))))
      (\<lambda>_ w. \<exists>e. w = w0\<lparr>cw_sent := cw_sent w0 @ [(e, p)]\<rparr>) (\<lambda>_ w. w = w0)" for r
    by (rule triple_bind [where R = "\<lambda>_ w. w = w0"]) (auto intro!: triple_stmt triple_lift)
  then show ?thesis unfolding send_def
    by (rule triple_bind [where R = "\<lambda>_ w. w = w0"]) (auto intro: triple_get)
qed

text \<open>A message that is sent, or an error that is ignored, changes nothing else.\<close>

lemma triple_attempt_send:
  assumes "P w0" and "\<And>e. P (w0\<lparr>cw_sent := cw_sent w0 @ [(e, p)]\<rparr>)"
  shows "triple (\<lambda>w. w = w0) (tx_attempt (send env ty p)) (\<lambda>_. P) (\<lambda>_. P)"
  by (rule triple_attempt, rule triple_weaken [OF triple_send [of w0]]) (use assms in auto)

section \<open>Configurations\<close>

definition meta_ready :: "Db \<Rightarrow> bool" where
  "meta_ready db \<longleftrightarrow> db_meta db ''applied_config_version'' \<noteq> None \<and> db_meta db ''applied_config_hash'' \<noteq> None \<and>
     db_meta db ''applied_user_revision'' \<noteq> None"

abbreviation rt_of :: "'core ClientWorld \<Rightarrow> 'core XrayRuntime" where
  "rt_of w \<equiv> rw_runtime (cw_runtime w)"

abbreviation rs_of :: "'core ClientWorld \<Rightarrow> RuntimeState" where
  "rs_of w \<equiv> runtime_state_of (cw_db w)"

definition config_running :: "SignedConfig \<Rightarrow> 'core ClientWorld \<Rightarrow> bool" where
  "config_running msg w \<longleftrightarrow> xr_config (rt_of w) = Some (sg_Config msg) \<and> xr_active (rt_of w) \<noteq> None \<and>
     rs_AppliedConfigVersion (rs_of w) = dc_Version (sg_Config msg) \<and> rs_AppliedConfigHash (rs_of w) = sg_SHA256 msg"

definition config_recorded :: "SignedConfig \<Rightarrow> Db \<Rightarrow> bool" where
  "config_recorded msg db \<longleftrightarrow> (\<exists>row \<in> set (db_config_revisions db). cv_version row = dc_Version (sg_Config msg) \<and>
     cv_sha256 row = sg_SHA256 msg \<and> cv_status row = ''applied'')"

definition runtime_kept :: "'core ClientWorld \<Rightarrow> 'core ClientWorld \<Rightarrow> bool" where
  "runtime_kept w0 w \<longleftrightarrow> xr_config (rt_of w) = xr_config (rt_of w0) \<and> xr_users (rt_of w) = xr_users (rt_of w0)"

lemma runtime_state_of_meta: "db_meta db' = db_meta db \<Longrightarrow> runtime_state_of db' = runtime_state_of db"
  by (simp add: runtime_state_of_def meta_text_def)

lemma tx_ok_SaveDesiredConfig:
  assumes "tx_ok (SaveDesiredConfig E now msg) db b db'"
  shows "db_meta db' = db_meta db" "\<not> b \<Longrightarrow> db' = db \<and> config_recorded msg db"
  using assms by (auto elim!: SaveDesiredConfig_okE simp: config_recorded_def)

lemma tx_ok_MarkConfigApplied:
  assumes "tx_ok (MarkConfigApplied now v h) db u db'" and "meta_ready db"
  shows "rs_AppliedConfigVersion (runtime_state_of db') = v" "rs_AppliedConfigHash (runtime_state_of db') = h" "meta_ready db'"
    "rs_AppliedUserRevision (runtime_state_of db') = rs_AppliedUserRevision (runtime_state_of db)"
proof -
  from assms obtain r where v: "v \<le> max_int64" and d: "db' = marked_db now v h db \<or> prune_configs v (marked_db now v h db) = Inr ((), db')"
    by (auto simp: meta_ready_def elim!: MarkConfigApplied_okE)
  have m: "db_meta db' = (db_meta db)(''applied_config_version'' \<mapsto> format_uint v, ''applied_config_hash'' \<mapsto> h)"
    using d by (auto simp: marked_db_def prune_configs_def)
  have "v < 2 ^ 64" using v by (simp add: max_int64_def)
  with m assms(2) show "rs_AppliedConfigVersion (runtime_state_of db') = v" "rs_AppliedConfigHash (runtime_state_of db') = h" "meta_ready db'"
    "rs_AppliedUserRevision (runtime_state_of db') = rs_AppliedUserRevision (runtime_state_of db)"
    by (simp_all add: runtime_state_of_def meta_text_def meta_ready_def)
qed

text \<open>What the client says about a configuration after a call that started in w0\<close>

definition config_report :: "'core ClientEnv \<Rightarrow> Client \<Rightarrow> Envelope \<Rightarrow> 'core ClientWorld \<Rightarrow> 'core ClientWorld \<Rightarrow> bool" where
  "config_report env c envelope w0 w \<longleftrightarrow>
     (\<exists>en res msg. cw_sent w = cw_sent w0 @ [(en, PConfigResult res)] \<and> DecodePayload (ce_decode_config env) envelope = Inr msg \<and>
        check_config_message env c msg (cw_secretVersions w0) = None \<and>
        cf_Version res = dc_Version (sg_Config msg) \<and> cf_SHA256 res = sg_SHA256 msg \<and>
        (cf_Status res = ''succeeded'' \<and>
           (config_running msg w \<or> config_recorded msg (cw_db w0) \<and> w = w0\<lparr>cw_sent := cw_sent w\<rparr>) \<or>
         cf_Status res = ''failed'' \<and> runtime_kept w0 w \<and> rs_of w = rs_of w0))"

lemma config_reportI:
  assumes "DecodePayload (ce_decode_config env) envelope = Inr msg" and "check_config_message env c msg (cw_secretVersions w0) = None"
    and "cw_sent w = cw_sent w0 @ [(en, PConfigResult \<lparr>cf_Version = dc_Version (sg_Config msg), cf_SHA256 = sg_SHA256 msg,
      cf_Status = status, cf_ErrorCode = ec, cf_ErrorMessage = em\<rparr>)]"
    and "status = ''succeeded'' \<and> (config_running msg w \<or> config_recorded msg (cw_db w0) \<and> w = w0\<lparr>cw_sent := cw_sent w\<rparr>) \<or>
      status = ''failed'' \<and> runtime_kept w0 w \<and> rs_of w = rs_of w0"
  shows "config_report env c envelope w0 w"
  unfolding config_report_def using assms by (intro exI conjI) auto

definition runtime_ready :: "'core ClientEnv \<Rightarrow> 'core ClientWorld \<Rightarrow> bool" where
  "runtime_ready env w \<longleftrightarrow> core_sound (re_core (ce_runtime env)) \<and> rt_inv (rt_of w)"

lemma triple_on_ApplyConfig:
  assumes "runtime_ready env w1"
  shows "triple (\<lambda>w. w = w1) (on_runtime (ApplyConfig (ce_runtime env) d))
    (\<lambda>_ w. \<exists>rt. w = w1\<lparr>cw_runtime := rt\<rparr> \<and> runtime_ready env w \<and> xr_config (rt_of w) = Some d \<and> xr_active (rt_of w) \<noteq> None)
    (\<lambda>e w. \<not> is_panic e \<and> (\<exists>rt. w = w1\<lparr>cw_runtime := rt\<rparr>) \<and> runtime_ready env w \<and> runtime_kept w1 w)"
proof (rule triple_zoom_at, rule triple_weaken [OF triple_ApplyConfig [of "ce_runtime env" "rt_of w1" d]])
  fix x and s :: "'a RuntimeWorld"
  assume "config_installed d (rt_of w1) (rw_runtime s)"
  then show "\<exists>rt. w1\<lparr>cw_runtime := s\<rparr> = w1\<lparr>cw_runtime := rt\<rparr> \<and> runtime_ready env (w1\<lparr>cw_runtime := s\<rparr>) \<and>
      xr_config (rt_of (w1\<lparr>cw_runtime := s\<rparr>)) = Some d \<and> xr_active (rt_of (w1\<lparr>cw_runtime := s\<rparr>)) \<noteq> None"
    using assms rt_inv_installed by (auto simp: runtime_ready_def config_installed_def)
next
  fix e and s :: "'a RuntimeWorld"
  assume "\<not> is_panic e \<and> rt_kept (rt_of w1) (rw_runtime s)"
  then show "\<not> is_panic e \<and> (\<exists>rt. w1\<lparr>cw_runtime := s\<rparr> = w1\<lparr>cw_runtime := rt\<rparr>) \<and> runtime_ready env (w1\<lparr>cw_runtime := s\<rparr>) \<and>
      runtime_kept w1 (w1\<lparr>cw_runtime := s\<rparr>)"
    using assms rt_kept_inv by (auto simp: runtime_ready_def rt_kept_def runtime_kept_def)
qed (use assms in \<open>auto simp: runtime_ready_def\<close>)

definition client_ready :: "'core ClientEnv \<Rightarrow> 'core ClientWorld \<Rightarrow> bool" where
  "client_ready env w \<longleftrightarrow> runtime_ready env w \<and> meta_ready (cw_db w)"

definition failure_sent :: "SignedConfig \<Rightarrow> 'core ClientWorld \<Rightarrow> 'core ClientWorld \<Rightarrow> bool" where
  "failure_sent msg w0 w \<longleftrightarrow> runtime_kept w0 w \<and> rs_of w = rs_of w0 \<and> (\<exists>en. cw_sent w = cw_sent w0 @ [(en, PConfigResult
     \<lparr>cf_Version = dc_Version (sg_Config msg), cf_SHA256 = sg_SHA256 msg, cf_Status = ''failed'',
      cf_ErrorCode = ''xray_apply_failed'', cf_ErrorMessage = ''candidate runtime state was rejected''\<rparr>)])"

lemma triple_install_desired_config:
  assumes "client_ready env w1"
  shows "triple (\<lambda>w. w = w1) (install_desired_config env msg)
    (\<lambda>_ w. cw_sent w = cw_sent w1 \<and> client_ready env w \<and> config_running msg w)
    (\<lambda>e w. (cw_sent w = cw_sent w1 \<or> failure_sent msg w1 w) \<and> client_ready env w)"
proof -
  let ?E = "\<lambda>e w. (cw_sent w = cw_sent w1 \<or> failure_sent msg w1 w) \<and> client_ready env w"
  define A where "A = (\<lambda>r w. case r of
      Inr (_ :: unit) \<Rightarrow> (\<exists>rt. w = w1\<lparr>cw_runtime := rt\<rparr>) \<and> runtime_ready env w \<and> xr_config (rt_of w) = Some (sg_Config msg) \<and> xr_active (rt_of w) \<noteq> None
    | Inl (e :: go_error) \<Rightarrow> (\<exists>rt. w = w1\<lparr>cw_runtime := rt\<rparr>) \<and> runtime_ready env w \<and> runtime_kept w1 w)"
  have a: "triple (\<lambda>w. w = w1) (tx_attempt (on_runtime (ApplyConfig (ce_runtime env) (sg_Config msg)))) A ?E"
    by (rule triple_attempt, rule triple_weaken [OF triple_on_ApplyConfig [of env w1]])
       (use assms in \<open>auto simp: A_def client_ready_def\<close>)
  have failed: "triple (A (Inl err)) (tx_bind (tx_attempt (send_config_result env msg ''failed'' ''xray_apply_failed''
      ''candidate runtime state was rejected'')) (\<lambda>_. tx_lift (Inl err))) Q ?E" for err Q
  proof (rule triple_at)
    fix w2 assume w2: "A (Inl err) w2"
    show "triple (\<lambda>w. w = w2) (tx_bind (tx_attempt (send_config_result env msg ''failed'' ''xray_apply_failed''
      ''candidate runtime state was rejected'')) (\<lambda>_. tx_lift (Inl err))) Q ?E"
      unfolding send_config_result_def
      by (rule triple_bind [where R = "\<lambda>_. ?E ()", OF _ triple_attempt_send])
         (use assms w2 in \<open>auto simp: A_def client_ready_def runtime_ready_def failure_sent_def runtime_kept_def intro: triple_lift\<close>)
  qed
  have marked: "triple (A (Inr x)) (on_db (MarkConfigApplied (ce_now env) (dc_Version (sg_Config msg)) (sg_SHA256 msg)))
      (\<lambda>_ w. cw_sent w = cw_sent w1 \<and> client_ready env w \<and> config_running msg w) ?E" for x
  proof (rule triple_at)
    fix w2 assume w2: "A (Inr x) w2"
    then have m: "meta_ready (cw_db w2)" using assms by (auto simp: A_def client_ready_def)
    show "triple (\<lambda>w. w = w2) (on_db (MarkConfigApplied (ce_now env) (dc_Version (sg_Config msg)) (sg_SHA256 msg)))
      (\<lambda>_ w. cw_sent w = cw_sent w1 \<and> client_ready env w \<and> config_running msg w) ?E"
      by (rule triple_zoom_at, rule triple_weaken [OF triple_store(2)])
         (use w2 m tx_ok_MarkConfigApplied [OF _ m] in \<open>auto simp: A_def client_ready_def runtime_ready_def config_running_def\<close>)
  qed
  show ?thesis unfolding install_desired_config_def
    by (rule triple_bind [OF _ a]) (auto split: sum.splits intro: failed marked)
qed

lemma triple_applyDesiredConfig:
  assumes "client_ready env w0"
  shows "triple (\<lambda>w. w = w0) (applyDesiredConfig env c envelope)
    (\<lambda>_ w. client_ready env w \<and> config_report env c envelope w0 w)
    (\<lambda>e w. client_ready env w \<and> (cw_sent w = cw_sent w0 \<or> config_report env c envelope w0 w) \<and>
       (w = w0 \<or> (\<exists>msg. DecodePayload (ce_decode_config env) envelope = Inr msg \<and> check_config_message env c msg (cw_secretVersions w0) = None)))"
    (is "triple _ _ ?Q ?E")
proof -
  have rest: "triple (\<lambda>w. w = w0) (tx_bind (on_db (SaveDesiredConfig (ce_codecs env) (ce_now env) msg)) (\<lambda>inserted.
         tx_bind (if inserted then install_desired_config env msg else tx_return ()) (\<lambda>_.
         send_config_result env msg ''succeeded'' [] []))) ?Q ?E"
    if ok: "DecodePayload (ce_decode_config env) envelope = Inr msg" "check_config_message env c msg (cw_secretVersions w0) = None" for msg
  proof -
    define S where "S = (\<lambda>b w. (\<exists>db. w = w0\<lparr>cw_db := db\<rparr> \<and> db_meta db = db_meta (cw_db w0)) \<and>
      (\<not> b \<longrightarrow> w = w0 \<and> config_recorded msg (cw_db w0)))"
    have s: "triple (\<lambda>w. w = w0) (on_db (SaveDesiredConfig (ce_codecs env) (ce_now env) msg)) S ?E"
      by (rule triple_zoom_at, rule triple_weaken [OF triple_store(1)])
         (use assms in \<open>auto simp: S_def dest: tx_ok_SaveDesiredConfig\<close>)
    have snd: "triple (\<lambda>w. w = w2) (send_config_result env msg ''succeeded'' [] []) ?Q ?E"
      if w2: "client_ready env w2" "cw_sent w2 = cw_sent w0" "config_running msg w2 \<or> config_recorded msg (cw_db w0) \<and> w2 = w0" for w2
      unfolding send_config_result_def
      by (rule triple_weaken [OF triple_send [of w2]])
         (use w2 ok in \<open>auto simp: client_ready_def runtime_ready_def config_running_def intro!: config_reportI [OF ok]\<close>)
    have t: "triple (S b) (tx_bind (if b then install_desired_config env msg else tx_return ()) (\<lambda>_.
         send_config_result env msg ''succeeded'' [] [])) ?Q ?E" for b
    proof (rule triple_at)
      fix w1 assume w1: "S b w1"
      then have r1: "client_ready env w1" "cw_sent w1 = cw_sent w0" "runtime_kept w0 w1" "rs_of w1 = rs_of w0"
        using assms by (auto simp: S_def client_ready_def runtime_ready_def meta_ready_def runtime_kept_def intro: runtime_state_of_meta)
      show "triple (\<lambda>w. w = w1) (tx_bind (if b then install_desired_config env msg else tx_return ()) (\<lambda>_.
         send_config_result env msg ''succeeded'' [] [])) ?Q ?E"
      proof (cases b)
        case True
        have f: "config_report env c envelope w0 w" if "failure_sent msg w1 w" for w
          using that r1 unfolding failure_sent_def
          by (auto intro!: config_reportI [OF ok] simp: runtime_kept_def)
        have "triple (\<lambda>w. w = w1) (install_desired_config env msg)
            (\<lambda>_ w. client_ready env w \<and> cw_sent w = cw_sent w0 \<and> config_running msg w) ?E"
          by (rule triple_weaken [OF triple_install_desired_config [OF r1(1)]]) (use r1 ok f in auto)
        moreover have "triple (\<lambda>w. client_ready env w \<and> cw_sent w = cw_sent w0 \<and> config_running msg w)
            (send_config_result env msg ''succeeded'' [] []) ?Q ?E"
          by (rule triple_at, rule snd) simp_all
        ultimately have "triple (\<lambda>w. w = w1) (tx_bind (install_desired_config env msg) (\<lambda>_.
            send_config_result env msg ''succeeded'' [] [])) ?Q ?E" by (rule triple_bind [rotated])
        with True show ?thesis by simp
      next
        case False
        with w1 r1 have "triple (\<lambda>w. w = w1) (send_config_result env msg ''succeeded'' [] []) ?Q ?E"
          by (intro snd) (auto simp: S_def)
        with False show ?thesis by simp
      qed
    qed
    show ?thesis by (rule triple_bind [OF t s])
  qed
  have "triple (\<lambda>w. w = w0) (tx_bind (tx_get cw_secretVersions) (\<lambda>secretVersions.
     case check_config_message env c msg secretVersions of
       Some e \<Rightarrow> tx_lift (Inl e)
     | None \<Rightarrow>
         tx_bind (on_db (SaveDesiredConfig (ce_codecs env) (ce_now env) msg)) (\<lambda>inserted.
         tx_bind (if inserted then install_desired_config env msg else tx_return ()) (\<lambda>_.
         send_config_result env msg ''succeeded'' [] [])))) ?Q ?E"
    if "DecodePayload (ce_decode_config env) envelope = Inr msg" for msg
    by (rule triple_bind [where R = "\<lambda>v w. v = cw_secretVersions w0 \<and> w = w0"], rule triple_fact)
       (use rest [OF that] assms in \<open>auto split: option.splits intro: triple_lift triple_get\<close>)
  then show ?thesis unfolding applyDesiredConfig_def
    by (intro triple_bind [where R = "\<lambda>msg w. DecodePayload (ce_decode_config env) envelope = Inr msg \<and> w = w0"] triple_fact)
       (use assms in \<open>auto intro: triple_lift\<close>)
qed

lemma example_client_ready: "client_ready example_client_env (example_client_world example_world)"
  using example_core_sound
  by (simp add: client_ready_def runtime_ready_def meta_ready_def example_client_env_def example_client_world_def example_world_def schema_defaults_def)

text \<open>
  C5. What the client reports about a configuration is so. A handler call sends at most one
  result, and a call that returns without an error sends exactly one, for the version and digest
  of a message that decoded, carries the node's key id, verifies and has its secrets. Succeeded means that the
  runtime runs that configuration and the store records it as applied, or that it was recorded
  as applied before and nothing was done; failed means that the runtime kept its configuration and
  users and the recorded state is the old one. A message that fails a check changes nothing at
  all. This holds whatever call to the outside fails.
\<close>

theorem config_results_truthful:
  assumes "client_ready env w" and "calm fs" and "applyDesiredConfig env c envelope (fs, w) = (r, fs', w')"
  shows "client_ready env w' \<and>
    (cw_sent w' = cw_sent w \<and> r \<noteq> Inr () \<or> config_report env c envelope w w') \<and>
    (w' \<noteq> w \<longrightarrow> (\<exists>msg. DecodePayload (ce_decode_config env) envelope = Inr msg \<and>
       check_config_message env c msg (cw_secretVersions w) = None))"
proof -
  from tripleD [OF triple_applyDesiredConfig [OF assms(1)] assms(2) refl assms(3)]
  show ?thesis by (cases r) (auto simp: config_report_def)
qed

theorem config_results_truthful_witness:
  "\<exists>w'. applyDesiredConfig example_client_env example_client (example_envelope TypeDesiredConfig) ([], example_client_world example_world) = (Inr (), [], w') \<and>
     config_report example_client_env example_client (example_envelope TypeDesiredConfig) (example_client_world example_world) w'"
proof -
  from example_config_run obtain w' where
    r: "applyDesiredConfig example_client_env example_client (example_envelope TypeDesiredConfig) ([], example_client_world example_world) = (Inr (), [], w')" by blast
  from config_results_truthful [OF example_client_ready _ r] r show ?thesis by (auto simp: calm_def)
qed

end
