(* ===== verification/Maintenance_Manager.thy ===== *)
theory Maintenance_Manager
  imports Maintenance_Controller
begin

text \<open>
  The root half of maintenance: internal/maintenance/manager.go. The manager polls the request
  directory, verifies every command again, runs it and leaves a marker and a result file. The
  state is the file system with modification times, the manager's version and the effects on
  the host in order. Commands are run by \<open>mx_exec\<close>, downloads are \<open>mx_get\<close>; every step may also
  fail with an arbitrary error. Requests are regular files here, and a file does not change
  between Lstat and Open; commands leave the files of the model alone; a directory that the
  code looks for with Stat is an entry of the file list.
\<close>

section \<open>State\<close>

datatype Effect =
    EffExec "string list"
  | EffInstall string string     \<comment> \<open>command id and target of a started installation\<close>
  | EffUninstall string          \<comment> \<open>command id of a started removal\<close>
  | EffReplaceProcess "string list"

record ManagerWorld =
  mw_files :: fs
  mw_mtime :: "string \<Rightarrow> int"
  mw_version :: string
  mw_effects :: "Effect list"

record HttpResponse =
  hr_status :: int
  hr_length :: int
  hr_body :: string
  hr_read_error :: "go_error option"

text \<open>The clock of the waiting loop is a function of the iteration.\<close>

record ManagerEnv =
  mx_base :: MaintenanceEnv
  mx_get :: "string \<Rightarrow> nat \<Rightarrow> HttpResponse result"
  mx_exec :: "string list \<Rightarrow> fs \<Rightarrow> string \<times> go_error option"
  mx_goarch :: string
  mx_clock :: "nat \<Rightarrow> int"
  mx_done_in_wait :: "nat \<Rightarrow> bool"
  mx_chown_result :: bool
  mx_format_now :: string

record Manager =
  mg_cfg :: Config
  mg_identity :: Identity
  mg_signingKey :: string

type_synonym 'x mt = "(ManagerWorld, 'x) tx"

abbreviation on_disk :: "(fs, 'x) tx \<Rightarrow> 'x mt" where
  "on_disk \<equiv> tx_zoom mw_files mw_files_update"

definition NewManager :: "Config \<Rightarrow> Identity \<Rightarrow> string \<Rightarrow> string \<Rightarrow> (Manager \<times> string) result" where
  "NewManager cfg ident signingKey version =
     (if id_AgentNodeID ident \<le> 0 \<or> length signingKey \<noteq> ed25519_public_key_size \<or> trim_space version = []
      then Inl (Msg ''maintenance manager dependencies are incomplete'')
      else Inr (\<lparr>mg_cfg = cfg, mg_identity = ident, mg_signingKey = signingKey\<rparr>, trim_space version))"

definition msg_uninstall_failed :: string where
  "msg_uninstall_failed =
    [CHR 0xE5, CHR 0xBD, CHR 0xBB, CHR 0xE5, CHR 0xBA, CHR 0x95, CHR 0xE5, CHR 0x8D, CHR 0xB8, CHR 0xE8, CHR 0xBD, CHR 0xBD,
     CHR 0xE6, CHR 0x89, CHR 0xA7, CHR 0xE8, CHR 0xA1, CHR 0x8C, CHR 0xE5, CHR 0xA4, CHR 0xB1, CHR 0xE8, CHR 0xB4, CHR 0xA5,
     CHR 0xEF, CHR 0xBC, CHR 0x9A]"

definition msg_updated :: string where
  "msg_updated =
    [CHR 0x41, CHR 0x67, CHR 0x65, CHR 0x6E, CHR 0x74, CHR 0x20, CHR 0xE5, CHR 0xB7, CHR 0xB2, CHR 0xE6, CHR 0x9B, CHR 0xB4,
     CHR 0xE6, CHR 0x96, CHR 0xB0, CHR 0xE5, CHR 0xB9, CHR 0xB6, CHR 0xE9, CHR 0x87, CHR 0x8D, CHR 0xE6, CHR 0x96, CHR 0xB0,
     CHR 0xE8, CHR 0xBF, CHR 0x9E, CHR 0xE6, CHR 0x8E, CHR 0xA5]"

definition msg_update_failed :: string where
  "msg_update_failed =
    [CHR 0x41, CHR 0x67, CHR 0x65, CHR 0x6E, CHR 0x74, CHR 0x20, CHR 0xE6, CHR 0x9B, CHR 0xB4, CHR 0xE6, CHR 0x96, CHR 0xB0,
     CHR 0xE5, CHR 0xA4, CHR 0xB1, CHR 0xE8, CHR 0xB4, CHR 0xA5, CHR 0xEF, CHR 0xBC, CHR 0x8C, CHR 0xE5, CHR 0xB7, CHR 0xB2,
     CHR 0xE4, CHR 0xBF, CHR 0x9D, CHR 0xE7, CHR 0x95, CHR 0x99, CHR 0xE5, CHR 0x8E, CHR 0x9F, CHR 0xE7, CHR 0x89, CHR 0x88,
     CHR 0xE6, CHR 0x9C, CHR 0xAC, CHR 0xEF, CHR 0xBC, CHR 0x9A]"

section \<open>Files and commands\<close>

text \<open>os.WriteFile: open with create and truncate, then write; both set the modification time.\<close>

definition os_open_truncate :: "string \<Rightarrow> nat \<Rightarrow> (fs, unit) tx" where
  "os_open_truncate p mode = stmt (\<lambda>s. Inr ((), case fs_lookup s p of
     None \<Rightarrow> fs_set p \<lparr>fl_content = [], fl_mode = mode\<rparr> s | Some f \<Rightarrow> fs_set p (f\<lparr>fl_content := []\<rparr>) s))"

definition os_write_file :: "ManagerEnv \<Rightarrow> string \<Rightarrow> string \<Rightarrow> nat \<Rightarrow> unit mt" where
  "os_write_file env p raw mode =
     tx_bind (on_disk (os_open_truncate p mode)) (\<lambda>_.
     tx_bind (tx_modify (\<lambda>w. w\<lparr>mw_mtime := (mw_mtime w)(p := me_now (mx_base env))\<rparr>)) (\<lambda>_.
     on_disk (os_file_update p (\<lambda>f. f\<lparr>fl_content := raw\<rparr>))))"

text \<open>Whether os.Stat returns a nil error\<close>

definition os_exists :: "string \<Rightarrow> bool mt" where
  "os_exists p =
     tx_bind (tx_attempt (on_disk (os_read_file p))) (\<lambda>r. tx_return (case r of Inl _ \<Rightarrow> False | Inr _ \<Rightarrow> True))"

definition under_path :: "string \<Rightarrow> string \<Rightarrow> bool" where
  "under_path dir p \<longleftrightarrow> p = dir \<or> has_prefix p (dir @ ''/'')"

definition os_remove_all :: "string \<Rightarrow> (fs, unit) tx" where
  "os_remove_all dir = stmt (\<lambda>s. Inr ((), filter (\<lambda>(p, _). \<not> under_path dir p) s))"

definition run_command :: "ManagerEnv \<Rightarrow> string list \<Rightarrow> (string \<times> go_error option) mt" where
  "run_command env args =
     tx_bind (tx_attempt (stmt (\<lambda>w. Inr (mx_exec env args (mw_files w), w\<lparr>mw_effects := mw_effects w @ [EffExec args]\<rparr>)))) (\<lambda>r.
     tx_return (case r of Inl e \<Rightarrow> ([], Some e) | Inr out \<Rightarrow> out))"

fun run_candidates :: "ManagerEnv \<Rightarrow> string list list \<Rightarrow> go_error option \<Rightarrow> (go_error option) mt" where
  "run_candidates env [] lastErr =
     tx_return (case lastErr of None \<Rightarrow> Some (Msg ''service command was not found'') | Some e \<Rightarrow> Some e)"
| "run_candidates env (candidate # rest) lastErr =
     (case candidate of
        [] \<Rightarrow> run_candidates env rest lastErr
      | program # _ \<Rightarrow>
          tx_bind (os_exists program) (\<lambda>found.
          if \<not> found then run_candidates env rest (Some ErrNotExist)
          else tx_bind (run_command env candidate) (\<lambda>(output, err).
               case err of
                 None \<Rightarrow> tx_return None
               | Some e \<Rightarrow> run_candidates env rest
                   (Some (Msg (path_base program @ '': '' @ error_text e @ '': '' @ compactMessage output 300))))))"

definition runFirst :: "ManagerEnv \<Rightarrow> string list list \<Rightarrow> (go_error option) mt" where
  "runFirst env candidates = run_candidates env candidates None"

definition both_bins :: "string \<Rightarrow> string \<Rightarrow> string list \<Rightarrow> string list list" where
  "both_bins a b args = [a # args, b # args]"

definition systemctl :: "ManagerEnv \<Rightarrow> string list \<Rightarrow> (go_error option) mt" where
  "systemctl env args = runFirst env (both_bins ''/bin/systemctl'' ''/usr/bin/systemctl'' args)"

definition rc_service :: "ManagerEnv \<Rightarrow> string list \<Rightarrow> (go_error option) mt" where
  "rc_service env args = runFirst env (both_bins ''/sbin/rc-service'' ''/usr/sbin/rc-service'' args)"

definition restartAgentService :: "ManagerEnv \<Rightarrow> (go_error option) mt" where
  "restartAgentService env =
     tx_bind (os_exists ''/run/systemd/system'') (\<lambda>systemd.
     if systemd then systemctl env [''restart'', ''iepl-agent.service''] else rc_service env [''iepl-agent'', ''restart''])"

definition agentServiceActive :: "ManagerEnv \<Rightarrow> (go_error option) mt" where
  "agentServiceActive env =
     tx_bind (os_exists ''/run/systemd/system'') (\<lambda>systemd.
     if systemd then systemctl env [''is-active'', ''--quiet'', ''iepl-agent.service''] else rc_service env [''iepl-agent'', ''status''])"

text \<open>
  The waiting loop with its iterations counted: None when the count runs out. A sleep of a
  second between two readings of the clock makes 61 iterations enough for a minute.
\<close>

fun wait_loop :: "ManagerEnv \<Rightarrow> string \<Rightarrow> int \<Rightarrow> nat \<Rightarrow> nat \<Rightarrow> (go_error option option) mt" where
  "wait_loop env target deadline i 0 = tx_return None"
| "wait_loop env target deadline i (Suc n) =
     (if \<not> mx_clock env i < deadline then tx_return (Some (Some (Msg ''updated Agent service did not become healthy'')))
      else tx_bind (run_command env [''/opt/iepl-agent/bin/iepl-agent'', ''version'']) (\<lambda>(output, versionErr).
           tx_bind (agentServiceActive env) (\<lambda>activeErr.
           if versionErr = None \<and> trim_space output = target \<and> activeErr = None then tx_return (Some None)
           else if mx_done_in_wait env i then tx_return (Some (Some ErrCanceled))
           else wait_loop env target deadline (Suc i) n)))"

definition agentServiceStartupTimeout :: int where "agentServiceStartupTimeout = 60 * second"

definition waitAgentService :: "ManagerEnv \<Rightarrow> string \<Rightarrow> (go_error option) mt" where
  "waitAgentService env target =
     tx_bind (wait_loop env target (mx_clock env 0 + agentServiceStartupTimeout) 0 61) (\<lambda>r.
     case r of None \<Rightarrow> tx_lift (Inl (ErrPanic ''out of iterations'')) | Some err \<Rightarrow> tx_return err)"

section \<open>Downloads\<close>

definition read_limited :: "nat \<Rightarrow> HttpResponse \<Rightarrow> string result" where
  "read_limited limit resp =
     (if hr_status resp \<noteq> 200 then Inl (ErrHTTP (hr_status resp))
      else if hr_length resp > int limit then Inl (Msg ''release asset exceeds size limit'')
      else if length (hr_body resp) > limit then Inl (Msg ''release asset exceeds size limit'')
      else case hr_read_error resp of Some e \<Rightarrow> Inl e | None \<Rightarrow> Inr (hr_body resp))"

definition downloadOnce :: "ManagerEnv \<Rightarrow> string \<Rightarrow> nat \<Rightarrow> nat \<Rightarrow> string mt" where
  "downloadOnce env source limit attempt = tx_lift (bind_result (mx_get env source attempt) (read_limited limit))"

definition download :: "ManagerEnv \<Rightarrow> string \<Rightarrow> nat \<Rightarrow> string mt" where
  "download env source limit = release_retry (me_context (mx_base env)) (tx_return ()) (downloadOnce env source limit)"

text \<open>What io.Copy has written when it stops, and the error it then reports\<close>

definition copied :: "nat \<Rightarrow> HttpResponse \<Rightarrow> string" where
  "copied limit resp = take (limit + 1) (hr_body resp)"

definition downloadToFileOnce :: "ManagerEnv \<Rightarrow> string \<Rightarrow> string \<Rightarrow> nat \<Rightarrow> nat \<Rightarrow> string mt" where
  "downloadToFileOnce env source destination limit attempt =
     tx_bind (tx_lift (mx_get env source attempt)) (\<lambda>resp.
     if hr_status resp \<noteq> 200 then tx_lift (Inl (ErrHTTP (hr_status resp)))
     else if hr_length resp > int limit then tx_lift (Inl (Msg ''release asset exceeds size limit''))
     else tx_bind (on_disk (os_file_update destination (\<lambda>f. f\<lparr>fl_content := fl_content f @ copied limit resp\<rparr>))) (\<lambda>_.
          if length (hr_body resp) > limit then tx_lift (Inl (Msg ''release asset exceeds size limit''))
          else case hr_read_error resp of
                 Some e \<Rightarrow> tx_lift (Inl e)
               | None \<Rightarrow> tx_return (hex_digest (me_crypto (mx_base env)) (hr_body resp))))"

definition downloadToFile :: "ManagerEnv \<Rightarrow> string \<Rightarrow> string \<Rightarrow> nat \<Rightarrow> string mt" where
  "downloadToFile env source destination limit =
     release_retry (me_context (mx_base env)) (on_disk (os_file_update destination (\<lambda>f. f\<lparr>fl_content := []\<rparr>)))
       (downloadToFileOnce env source destination limit)"

definition checksum_line :: "string \<Rightarrow> string \<Rightarrow> string option" where
  "checksum_line asset line =
     (case Go_Prelude.fields line of
        [digest, name] \<Rightarrow> if trim_prefix name ''*'' = asset \<and> length digest = 64 \<and> hex_decodes digest then Some (to_lower digest) else None
      | _ \<Rightarrow> None)"

fun first_some :: "('a \<Rightarrow> 'b option) \<Rightarrow> 'a list \<Rightarrow> 'b option" where
  "first_some f [] = None"
| "first_some f (x # xs) = (case f x of Some y \<Rightarrow> Some y | None \<Rightarrow> first_some f xs)"

definition checksumForAsset :: "string \<Rightarrow> string \<Rightarrow> string result" where
  "checksumForAsset raw asset =
     (case first_some (checksum_line asset) (split_on CHR 0x0A raw) of
        Some digest \<Rightarrow> Inr digest
      | None \<Rightarrow> Inl (Msg ''release checksum entry is missing''))"

section \<open>Installing a release\<close>

definition ntp_candidates :: "string list list" where
  "ntp_candidates =
     [[''/usr/bin/chronyc'', ''-a'', ''makestep''], [''/usr/sbin/chronyc'', ''-a'', ''makestep''],
      [''/usr/sbin/ntpdate'', ''-u'', ''pool.ntp.org'', ''time.google.com''], [''/sbin/ntpdate'', ''-u'', ''pool.ntp.org'', ''time.google.com''],
      [''/bin/busybox'', ''ntpd'', ''-q'', ''-n'', ''-p'', ''pool.ntp.org''], [''/sbin/busybox'', ''ntpd'', ''-q'', ''-n'', ''-p'', ''pool.ntp.org''],
      [''/usr/bin/timedatectl'', ''set-ntp'', ''true''], [''/bin/timedatectl'', ''set-ntp'', ''true'']]"

fun sync_clock_loop :: "ManagerEnv \<Rightarrow> string list list \<Rightarrow> bool \<Rightarrow> go_error option \<Rightarrow> (go_error option) mt" where
  "sync_clock_loop env [] found lastErr =
     tx_return (if \<not> found then None
       else Some (case lastErr of None \<Rightarrow> Msg ''NTP synchronization failed''
                  | Some e \<Rightarrow> Wrapped ''NTP synchronization failed'' e))"
| "sync_clock_loop env (candidate # rest) found lastErr =
     tx_bind (os_exists (hd candidate)) (\<lambda>present.
     if \<not> present then sync_clock_loop env rest found lastErr
     else tx_bind (run_command env candidate) (\<lambda>(output, err).
          case err of
            None \<Rightarrow> tx_return None
          | Some e \<Rightarrow> sync_clock_loop env rest True
              (Some (Msg (path_base (hd candidate) @ '': '' @ error_text e @ '': '' @ compactMessage output 240)))))"

definition syncSystemClock :: "ManagerEnv \<Rightarrow> (go_error option) mt" where
  "syncSystemClock env = sync_clock_loop env ntp_candidates False None"

definition fail_with :: "go_error option \<Rightarrow> ('s, unit) tx" where
  "fail_with err = (case err of Some e \<Rightarrow> tx_lift (Inl e) | None \<Rightarrow> tx_return ())"

definition bin_dir :: string where "bin_dir = ''/opt/iepl-agent/bin''"
definition current_binary :: string where "current_binary = ''/opt/iepl-agent/bin/iepl-agent''"
definition previous_binary :: string where "previous_binary = ''/opt/iepl-agent/bin/iepl-agent.previous''"
definition mode_0755 :: nat where "mode_0755 = 7 * 64 + 5 * 8 + 5"

definition release_asset :: "ManagerEnv \<Rightarrow> string" where
  "release_asset env = ''iepl-agent-linux-'' @ mx_goarch env"

definition release_base :: "string \<Rightarrow> string" where
  "release_base target = ''https://github.com/guanzihao166/iepl-node-agent/releases/download/'' @ target"

text \<open>The checks before anything is downloaded, and the expected digest\<close>

definition release_digest :: "ManagerEnv \<Rightarrow> string \<Rightarrow> string mt" where
  "release_digest env target =
     tx_bind (tx_get mw_version) (\<lambda>version.
     if \<not> validReleaseVersion target \<or> \<not> versionNewer target version
     then tx_lift (Inl (Msg ''target release is not newer than the running version''))
     else if mx_goarch env \<noteq> ''amd64'' \<and> mx_goarch env \<noteq> ''arm64''
     then tx_lift (Inl (Msg (''unsupported architecture '' @ mx_goarch env)))
     else tx_bind (syncSystemClock env) (\<lambda>clockErr.
          tx_bind (fail_with clockErr) (\<lambda>_.
          tx_bind (download env (release_base target @ ''/checksums.txt'') (1024 * 1024)) (\<lambda>checksums.
          tx_lift (checksumForAsset checksums (release_asset env))))))"

text \<open>The binary in its temporary file, checked against the digest and by running it\<close>

definition fetch_binary :: "ManagerEnv \<Rightarrow> string \<Rightarrow> string \<Rightarrow> string \<Rightarrow> unit mt" where
  "fetch_binary env target expected tmp =
     tx_bind (on_disk (os_file_update tmp (\<lambda>f. f\<lparr>fl_mode := mode_0755\<rparr>))) (\<lambda>_.
     tx_bind (downloadToFile env (release_base target @ ''/'' @ release_asset env) tmp (256 * 1024 * 1024)) (\<lambda>digest.
     if \<not> equal_fold expected digest then tx_lift (Inl (Msg ''release binary checksum mismatch''))
     else tx_bind (on_disk os_sync) (\<lambda>_.
          tx_bind (on_disk os_close) (\<lambda>_.
          tx_bind (run_command env [tmp, ''version'']) (\<lambda>(output, err).
          if err \<noteq> None \<or> trim_space output \<noteq> target then tx_lift (Inl (Msg ''release binary version check failed''))
          else tx_return ())))))"

definition roll_back :: "ManagerEnv \<Rightarrow> go_error \<Rightarrow> unit mt" where
  "roll_back env e =
     tx_bind (tx_ignore (on_disk (os_remove current_binary))) (\<lambda>_.
     tx_bind (tx_ignore (on_disk (os_rename previous_binary current_binary))) (\<lambda>_.
     tx_bind (restartAgentService env) (\<lambda>_. tx_lift (Inl e))))"

definition activate_binary :: "ManagerEnv \<Rightarrow> string \<Rightarrow> string \<Rightarrow> unit mt" where
  "activate_binary env target tmp =
     tx_bind (tx_ignore (on_disk (os_remove previous_binary))) (\<lambda>_.
     tx_bind (on_disk (os_rename current_binary previous_binary)) (\<lambda>_.
     tx_bind (tx_attempt (on_disk (os_rename tmp current_binary))) (\<lambda>moved.
     case moved of
       Inl e \<Rightarrow> tx_bind (tx_ignore (on_disk (os_rename previous_binary current_binary))) (\<lambda>_. tx_lift (Inl e))
     | Inr _ \<Rightarrow>
         tx_bind (restartAgentService env) (\<lambda>restartErr.
         case restartErr of
           Some e \<Rightarrow> roll_back env e
         | None \<Rightarrow>
             tx_bind (waitAgentService env target) (\<lambda>waitErr.
             case waitErr of Some e \<Rightarrow> roll_back env e | None \<Rightarrow> tx_return ())))))"

definition update_temporary :: "ManagerEnv \<Rightarrow> string" where
  "update_temporary env = me_tmp (mx_base env) current_binary"

definition installRelease :: "ManagerEnv \<Rightarrow> string \<Rightarrow> unit mt" where
  "installRelease env target =
     tx_bind (release_digest env target) (\<lambda>expected.
     tx_bind (on_disk (os_mkdir_all bin_dir)) (\<lambda>_.
     tx_bind (on_disk (os_create_exclusive (update_temporary env) mode_0600)) (\<lambda>_.
     tx_finally
       (tx_bind (fetch_binary env target expected (update_temporary env)) (\<lambda>_. activate_binary env target (update_temporary env)))
       (on_disk (os_remove (update_temporary env))))))"

section \<open>Removing the agent\<close>

definition remove_quietly :: "string \<Rightarrow> unit mt" where
  "remove_quietly p = tx_ignore (on_disk (os_remove p))"

definition stop_service :: "ManagerEnv \<Rightarrow> (go_error option) mt" where
  "stop_service env =
     tx_bind (os_exists ''/run/systemd/system'') (\<lambda>systemd.
     if systemd then
       tx_bind (systemctl env [''stop'', ''iepl-agent.service'']) (\<lambda>serviceErr.
       tx_bind (systemctl env [''disable'', ''iepl-agent.service'', ''iepl-agent-maintenance.service'']) (\<lambda>_.
       tx_bind (tx_iter remove_quietly
         [''/etc/systemd/system/iepl-agent.service'', ''/etc/systemd/system/iepl-agent-maintenance.service'',
          ''/etc/systemd/system/iepl-agent.service.previous'', ''/etc/systemd/system/iepl-agent-maintenance.service.previous'']) (\<lambda>_.
       tx_bind (systemctl env [''daemon-reload'']) (\<lambda>_. tx_return serviceErr))))
     else
       tx_bind (rc_service env [''iepl-agent'', ''stop'']) (\<lambda>serviceErr.
       tx_bind (runFirst env (both_bins ''/sbin/rc-update'' ''/usr/sbin/rc-update'' [''del'', ''iepl-agent'', ''default''])) (\<lambda>_.
       tx_bind (runFirst env (both_bins ''/sbin/rc-update'' ''/usr/sbin/rc-update'' [''del'', ''iepl-agent-maintenance'', ''default''])) (\<lambda>_.
       tx_bind (tx_iter remove_quietly
         [''/etc/init.d/iepl-agent'', ''/etc/init.d/iepl-agent-maintenance'', ''/etc/init.d/iepl-agent.previous'',
          ''/etc/init.d/iepl-agent-maintenance.previous'']) (\<lambda>_. tx_return serviceErr)))))"

definition agent_trees :: "string list" where
  "agent_trees = [''/etc/iepl-agent'', ''/var/lib/iepl-agent'', ''/var/lib/iepl-agent-maintenance'', ''/var/log/iepl-agent'',
     ''/run/iepl-agent'', ''/opt/iepl-agent'']"

definition uninstall :: "ManagerEnv \<Rightarrow> unit mt" where
  "uninstall env =
     tx_bind (stop_service env) (\<lambda>serviceErr.
     tx_bind (fail_with serviceErr) (\<lambda>_.
     tx_bind (tx_iter (\<lambda>p. on_disk (os_remove_all p)) agent_trees) (\<lambda>_.
     tx_bind (runFirst env [[''/usr/sbin/userdel'', ''iepl-agent''], [''/usr/sbin/deluser'', ''iepl-agent''], [''/sbin/deluser'', ''iepl-agent'']]) (\<lambda>_.
     tx_bind (runFirst env [[''/usr/sbin/groupdel'', ''iepl-agent''], [''/usr/sbin/delgroup'', ''iepl-agent''], [''/sbin/delgroup'', ''iepl-agent'']]) (\<lambda>_.
     tx_return ())))))"

section \<open>Requests\<close>

definition marker_path :: "Manager \<Rightarrow> string \<Rightarrow> string" where
  "marker_path m commandID = path_join (MaintenanceProcessedDir (mg_cfg m)) commandID"

definition markProcessed :: "ManagerEnv \<Rightarrow> string \<Rightarrow> unit mt" where
  "markProcessed env path = os_write_file env path (mx_format_now env @ [CHR 0x0A]) mode_0600"

text \<open>The result file is replaced as a whole; its owner is not part of the file system here.\<close>

definition writeResult :: "ManagerEnv \<Rightarrow> Manager \<Rightarrow> MaintenanceResult \<Rightarrow> unit mt" where
  "writeResult env m result =
     (case ValidateMaintenanceResult (me_uuid_ok (mx_base env)) result of
        Some e \<Rightarrow> tx_lift (Inl e)
      | None \<Rightarrow>
          tx_bind (tx_lift (me_marshal_result (mx_base env) result)) (\<lambda>raw.
          let path = MaintenanceResultPath (mg_cfg m) in
          tx_bind (on_disk (os_mkdir_all (path_dir path))) (\<lambda>_.
          on_disk (replace_file (me_tmp (mx_base env) path) path (raw @ [CHR 0x0A]) mode_0600))))"

definition log_effect :: "Effect \<Rightarrow> unit mt" where
  "log_effect e = tx_modify (\<lambda>w. w\<lparr>mw_effects := mw_effects w @ [e]\<rparr>)"

definition manager_result ::
  "ManagerEnv \<Rightarrow> SignedMaintenanceCommand \<Rightarrow> string \<Rightarrow> string \<Rightarrow> string \<Rightarrow> string \<Rightarrow> MaintenanceResult" where
  "manager_result env msg status current latest message =
     \<lparr>mr_CommandID = mc_CommandID (sc_Command msg), mr_Action = mc_Action (sc_Command msg), mr_Status = status,
      mr_CurrentVersion = current, mr_LatestVersion = latest, mr_UpdateAvailable = False, mr_Message = message,
      mr_OccurredAt = me_now (mx_base env)\<rparr>"

definition process_uninstall :: "ManagerEnv \<Rightarrow> Manager \<Rightarrow> SignedMaintenanceCommand \<Rightarrow> unit mt" where
  "process_uninstall env m msg =
     tx_bind (markProcessed env (marker_path m (mc_CommandID (sc_Command msg)))) (\<lambda>_.
     tx_bind (log_effect (EffUninstall (mc_CommandID (sc_Command msg)))) (\<lambda>_.
     tx_bind (tx_attempt (uninstall env)) (\<lambda>r.
     case r of
       Inl err \<Rightarrow>
         tx_bind (tx_get mw_version) (\<lambda>version.
         tx_bind (tx_ignore (writeResult env m (manager_result env msg ''failed'' version []
            (msg_uninstall_failed @ compactMessage (error_text err) 300)))) (\<lambda>_. tx_lift (Inl err)))
     | Inr _ \<Rightarrow> tx_lift (Inl ErrUninstalled))))"

definition replace_process_args :: "Manager \<Rightarrow> string list" where
  "replace_process_args m =
     [''/opt/iepl-agent/bin/iepl-agent'', ''maintain'', ''--state-dir'', cfg_StateDir (mg_cfg m), ''--config-dir'', cfg_ConfigDir (mg_cfg m),
      ''--runtime-dir'', cfg_RuntimeDir (mg_cfg m), ''--maintenance-dir'', cfg_MaintenanceDir (mg_cfg m),
      ''--maintenance-state-dir'', cfg_MaintenanceStateDir (mg_cfg m)]"

text \<open>
  The process is replaced by the new binary, and nothing of the old one runs on: a successful
  exec is the outcome that no caller catches.
\<close>

definition replace_process :: "Manager \<Rightarrow> unit mt" where
  "replace_process m =
     tx_bind (tx_attempt (stmt (\<lambda>w. Inr ((), w\<lparr>mw_effects := mw_effects w @ [EffReplaceProcess (replace_process_args m)]\<rparr>)))) (\<lambda>r.
     case r of
       Inl e \<Rightarrow> tx_lift (Inl (Wrapped ''activate updated maintenance manager'' e))
     | Inr _ \<Rightarrow> tx_lift (Inl (ErrPanic ''process replaced'')))"

definition process_update :: "ManagerEnv \<Rightarrow> Manager \<Rightarrow> SignedMaintenanceCommand \<Rightarrow> unit mt" where
  "process_update env m msg =
     (let target = mc_TargetVersion (sc_Command msg) in
      tx_bind (log_effect (EffInstall (mc_CommandID (sc_Command msg)) target)) (\<lambda>_.
      tx_bind (tx_attempt (installRelease env target)) (\<lambda>installed.
      tx_bind (tx_get mw_version) (\<lambda>version.
      let result = (case installed of
            Inl err \<Rightarrow> manager_result env msg ''failed'' version target (msg_update_failed @ compactMessage (error_text err) 300)
          | Inr _ \<Rightarrow> manager_result env msg ''succeeded'' target target msg_updated) in
      tx_bind (markProcessed env (marker_path m (mc_CommandID (sc_Command msg)))) (\<lambda>_.
      tx_bind (writeResult env m result) (\<lambda>_.
      if mr_Status result = ''succeeded''
      then tx_bind (tx_modify (\<lambda>w. w\<lparr>mw_version := target\<rparr>)) (\<lambda>_. replace_process m)
      else tx_return ()))))))"

definition decode_request :: "ManagerEnv \<Rightarrow> Manager \<Rightarrow> string \<Rightarrow> SignedMaintenanceCommand result" where
  "decode_request env m raw =
     (if length raw > 64 * 1024 then Inl (Msg ''maintenance request is not a bounded regular file'')
      else case me_decode_signed (mx_base env) raw of
        Inl e \<Rightarrow> Inl e
      | Inr (msg, _) \<Rightarrow>
          if mc_AgentNodeID (sc_Command msg) \<noteq> id_AgentNodeID (mg_identity m)
          then Inl (Msg ''maintenance request belongs to another Agent'')
          else (case VerifySignedMaintenanceCommand (me_crypto (mx_base env)) (me_marshal_command (mx_base env))
                  (me_uuid_ok (mx_base env)) msg (id_ConfigSigningKeyID (mg_identity m)) (mg_signingKey m) (me_now (mx_base env)) of
                  Some e \<Rightarrow> Inl e
                | None \<Rightarrow> Inr msg))"

definition processRequest :: "ManagerEnv \<Rightarrow> Manager \<Rightarrow> string \<Rightarrow> unit mt" where
  "processRequest env m path =
     tx_bind (on_disk (os_read_file path)) (\<lambda>raw.
     tx_bind (tx_lift (decode_request env m raw)) (\<lambda>msg.
     tx_bind (tx_attempt (on_disk (os_read_file (marker_path m (mc_CommandID (sc_Command msg)))))) (\<lambda>marked.
     case marked of
       Inr _ \<Rightarrow> tx_return ()
     | Inl e \<Rightarrow>
         if \<not> error_is e ErrNotExist then tx_lift (Inl e)
         else if mc_Action (sc_Command msg) = MaintenanceActionUninstall then process_uninstall env m msg
         else if mc_Action (sc_Command msg) \<noteq> MaintenanceActionUpdate
         then tx_lift (Inl (Msg ''maintenance request action is not handled by the root manager''))
         else process_update env m msg)))"

definition request_name :: "string \<Rightarrow> bool" where
  "request_name n \<longleftrightarrow> has_suffix n ''.json'' \<and> \<not> has_prefix n ''.''"

fun process_entries :: "ManagerEnv \<Rightarrow> Manager \<Rightarrow> string list \<Rightarrow> unit mt" where
  "process_entries env m [] = tx_return ()"
| "process_entries env m (name # names) =
     (if \<not> request_name name then process_entries env m names
      else let path = path_join (MaintenanceRequestDir (mg_cfg m)) name in
        tx_bind (tx_get (\<lambda>w. mw_mtime w path)) (\<lambda>modified.
        if modified > me_now (mx_base env) - 2 * second then process_entries env m names
        else tx_bind (tx_attempt (processRequest env m path)) (\<lambda>r.
             case r of
               Inl e \<Rightarrow>
                 if error_is e ErrUninstalled then tx_lift (Inl e)
                 else tx_bind (remove_quietly path) (\<lambda>_. process_entries env m names)
             | Inr _ \<Rightarrow> tx_bind (remove_quietly path) (\<lambda>_. process_entries env m names))))"

definition processRequests :: "ManagerEnv \<Rightarrow> Manager \<Rightarrow> unit mt" where
  "processRequests env m =
     tx_bind (tx_attempt (on_disk (os_read_dir (MaintenanceRequestDir (mg_cfg m))))) (\<lambda>r.
     case r of
       Inl e \<Rightarrow> if error_is e ErrNotExist then tx_return () else tx_lift (Inl e)
     | Inr entries \<Rightarrow> process_entries env m (sort entries))"

definition refreshReady :: "ManagerEnv \<Rightarrow> Manager \<Rightarrow> unit mt" where
  "refreshReady env m =
     (let path = MaintenanceReadyPath (mg_cfg m) in
      tx_bind (os_write_file env path (mx_format_now env @ [CHR 0x0A]) mode_0644) (\<lambda>_.
      on_disk (os_file_update path (\<lambda>f. f\<lparr>fl_mode := mode_0644\<rparr>))))"

definition cleanupProcessed :: "ManagerEnv \<Rightarrow> Manager \<Rightarrow> unit mt" where
  "cleanupProcessed env m =
     tx_bind (tx_attempt (on_disk (os_read_dir (MaintenanceProcessedDir (mg_cfg m))))) (\<lambda>r.
     case r of
       Inl _ \<Rightarrow> tx_return ()
     | Inr entries \<Rightarrow>
         tx_iter (\<lambda>name. let path = path_join (MaintenanceProcessedDir (mg_cfg m)) name in
           tx_bind (tx_get (\<lambda>w. mw_mtime w path)) (\<lambda>modified.
           if modified < me_now (mx_base env) - 7 * 24 * 60 * minute then remove_quietly path else tx_return ())) entries)"

text \<open>One turn of Run; a nil result with True means the agent was removed and Run returns.\<close>

definition manager_turn :: "ManagerEnv \<Rightarrow> Manager \<Rightarrow> bool \<Rightarrow> bool mt" where
  "manager_turn env m cleanup_due =
     tx_bind (tx_attempt (refreshReady env m)) (\<lambda>_.
     tx_bind (tx_attempt (processRequests env m)) (\<lambda>r.
     case r of
       Inl e \<Rightarrow> if error_is e ErrUninstalled then tx_return True
                else if cleanup_due then tx_bind (cleanupProcessed env m) (\<lambda>_. tx_return False) else tx_return False
     | Inr _ \<Rightarrow> if cleanup_due then tx_bind (cleanupProcessed env m) (\<lambda>_. tx_return False) else tx_return False))"

end
