(* ===== verification/Manager_Facts.thy ===== *)
theory Manager_Facts
  imports Maintenance_Manager
begin

text \<open>
  Correctness of the root manager: which files its steps leave alone, that the waiting loop
  ends, what a finished update has installed, what a failed one leaves, and that only verified
  commands without a marker are run.
\<close>

section \<open>Frames\<close>

definition same_files :: "ManagerWorld \<Rightarrow> ManagerWorld \<Rightarrow> bool" where
  "same_files w w' \<longleftrightarrow> mw_files w' = mw_files w \<and> mw_version w' = mw_version w"

lemma same_files_order [simp]: "reflp same_files" "transp same_files"
  by (auto simp: same_files_def intro!: reflpI transpI)

lemma keeps_exists [keeps_rules]: "keeps same_files (os_exists p)"
  unfolding keeps_def os_exists_def
  by (auto simp: tx_bind_def tx_attempt_def tx_zoom_def os_read_file_def stmt_def tx_return_def same_files_def
      split: prod.splits sum.splits option.splits go_error.splits)

lemma keeps_run_command [keeps_rules]: "keeps same_files (run_command env args)"
  unfolding run_command_def
  by (intro keeps_rules) (auto simp: same_files_def)

lemma keeps_runFirst [keeps_rules]: "keeps same_files (runFirst env cs)"
proof -
  have "keeps same_files (run_candidates env cs e)" for e
    by (induction cs arbitrary: e) (auto intro!: keeps_rules split: list.splits option.splits)
  then show ?thesis by (simp add: runFirst_def)
qed

lemma keeps_service [keeps_rules]:
  "keeps same_files (restartAgentService env)" "keeps same_files (agentServiceActive env)"
  unfolding restartAgentService_def agentServiceActive_def systemctl_def rc_service_def
  by (auto intro!: keeps_rules)

lemma keeps_wait_loop: "keeps same_files (wait_loop env target d i n)"
  by (induction n arbitrary: i) (auto intro!: keeps_rules)

lemma keeps_waitAgentService [keeps_rules]: "keeps same_files (waitAgentService env target)"
  unfolding waitAgentService_def by (auto intro!: keeps_rules keeps_wait_loop split: option.splits)

lemma keeps_syncSystemClock [keeps_rules]: "keeps same_files (syncSystemClock env)"
proof -
  have "keeps same_files (sync_clock_loop env cs f e)" for cs f e
    by (induction cs arbitrary: f e) (auto intro!: keeps_rules split: option.splits)
  then show ?thesis by (simp add: syncSystemClock_def)
qed

lemma keeps_release_retry [keeps_rules]:
  assumes "reflp R" and "transp R" and "keeps R prepare" and "\<And>k. keeps R (once k)"
  shows "keeps R (release_retry ctx prepare once)"
proof -
  have "keeps R (retry_loop ctx prepare once left k e)" for left k e
    by (induction left arbitrary: k e)
       (use assms in \<open>auto intro!: keeps_rules split: sum.splits option.splits\<close>)
  then show ?thesis by (simp add: release_retry_def)
qed

lemma keeps_download [keeps_rules]: "keeps same_files (download env src limit)"
  unfolding download_def downloadOnce_def by (intro keeps_rules) simp_all

lemma keeps_release_digest [keeps_rules]: "keeps same_files (release_digest env target)"
  unfolding release_digest_def fail_with_def by (auto intro!: keeps_rules split: option.splits)

section \<open>Faults\<close>

lemma tidy_retry [tidy_rules]:
  assumes "tidy prepare" and "\<And>k. tidy (once k)"
  shows "tidy (release_retry ctx prepare once)"
proof -
  have "tidy (retry_loop ctx prepare once left k e)" for left k e
    by (induction left arbitrary: k e)
       (use assms in \<open>auto intro!: tidy_rules split: sum.splits option.splits\<close>)
  then show ?thesis by (simp add: release_retry_def)
qed

lemma tidy_exists [tidy_rules]: "tidy (os_exists p)"
  unfolding os_exists_def os_read_file_def by (intro tidy_rules)

lemma tidy_run_command [tidy_rules]: "tidy (run_command env args)"
  unfolding run_command_def by (intro tidy_rules)

lemma tidy_runFirst [tidy_rules]: "tidy (runFirst env cs)"
proof -
  have "tidy (run_candidates env cs e)" for e
    by (induction cs arbitrary: e) (auto intro!: tidy_rules split: list.splits option.splits)
  then show ?thesis by (simp add: runFirst_def)
qed

lemma tidy_service [tidy_rules]: "tidy (restartAgentService env)" "tidy (agentServiceActive env)"
  unfolding restartAgentService_def agentServiceActive_def systemctl_def rc_service_def
  by (auto intro!: tidy_rules)

lemma tidy_waitAgentService [tidy_rules]: "tidy (waitAgentService env target)"
proof -
  have "tidy (wait_loop env target d i n)" for d i n
    by (induction n arbitrary: i) (auto intro!: tidy_rules)
  then show ?thesis unfolding waitAgentService_def by (auto intro!: tidy_rules split: option.splits)
qed

lemma tidy_release_digest [tidy_rules]: "tidy (release_digest env target)"
proof -
  have "tidy (sync_clock_loop env cs f e)" for cs f e
    by (induction cs arbitrary: f e) (auto intro!: tidy_rules split: option.splits)
  then show ?thesis unfolding release_digest_def syncSystemClock_def fail_with_def download_def downloadOnce_def
    by (auto intro!: tidy_rules split: option.splits)
qed

lemma tidy_fetch [tidy_rules]: "tidy (fetch_binary env target expected tmp)"
  unfolding fetch_binary_def downloadToFile_def downloadToFileOnce_def
  by (auto intro!: tidy_rules split: option.splits)

section \<open>Calls that return a value\<close>

lemma returns_exists [returns_rules]: "returns (os_exists p)"
  unfolding os_exists_def by (intro returns_rules sound_rules)

lemma returns_run_command [returns_rules]: "returns (run_command env args)"
  unfolding run_command_def by (intro returns_rules sound_rules) simp

lemma returns_runFirst [returns_rules]: "returns (runFirst env cs)"
proof -
  have "returns (run_candidates env cs e)" for e
    by (induction cs arbitrary: e) (auto intro!: returns_rules split: list.splits option.splits)
  then show ?thesis by (simp add: runFirst_def)
qed

lemma returns_service [returns_rules]: "returns (restartAgentService env)" "returns (agentServiceActive env)"
  unfolding restartAgentService_def agentServiceActive_def systemctl_def rc_service_def
  by (auto intro!: returns_rules)

lemma returns_wait_loop: "returns (wait_loop env target d i n)"
  by (induction n arbitrary: i) (auto intro!: returns_rules)

text \<open>n iterations are enough when n sleeps take the clock to the deadline.\<close>

lemma wait_loop_ends:
  assumes "\<And>i. mx_clock env i + second \<le> mx_clock env (Suc i)"
  shows "d \<le> mx_clock env i + int n * second \<Longrightarrow>
    triple (\<lambda>_. True) (wait_loop env target d i (Suc n)) (\<lambda>r _. r \<noteq> None) (\<lambda>_ _. False)"
proof (induction n arbitrary: i)
  case 0
  then show ?case by (auto intro!: triple_return)
next
  case (Suc n)
  have "d \<le> mx_clock env (Suc i) + int n * second" using Suc.prems assms [of i] by (simp add: algebra_simps)
  from Suc.IH [OF this] show ?case
    using returns_run_command returns_service(2)
    unfolding returns_def
    by (subst wait_loop.simps)
       (auto intro!: triple_return triple_bind [where R = "\<lambda>_ _. True"] simp del: wait_loop.simps)
qed

definition clock_runs :: "ManagerEnv \<Rightarrow> bool" where
  "clock_runs env \<longleftrightarrow> (\<forall>i. mx_clock env i + second \<le> mx_clock env (Suc i))"

lemma returns_waitAgentService:
  assumes "clock_runs env"
  shows "returns (waitAgentService env target)"
proof -
  have "triple (\<lambda>_. True) (wait_loop env target (mx_clock env 0 + agentServiceStartupTimeout) 0 (Suc 60)) (\<lambda>r _. r \<noteq> None) (\<lambda>_ _. False)"
    by (rule wait_loop_ends) (use assms in \<open>auto simp: clock_runs_def agentServiceStartupTimeout_def\<close>)
  moreover have "Suc 60 = 61" by simp
  ultimately have "triple (\<lambda>_. True) (wait_loop env target (mx_clock env 0 + agentServiceStartupTimeout) 0 61) (\<lambda>r _. r \<noteq> None) (\<lambda>_ _. False)"
    by (simp only:)
  moreover have "triple (\<lambda>_. r \<noteq> None) (case r of None \<Rightarrow> tx_lift (Inl (ErrPanic ''out of iterations'')) | Some err \<Rightarrow> tx_return err)
      (\<lambda>_ _. True) (\<lambda>_ _. False)" for r :: "go_error option option"
    by (cases r) (auto intro: triple_lift triple_return)
  ultimately show ?thesis unfolding returns_def waitAgentService_def by (rule triple_bind [rotated])
qed

section \<open>Installing\<close>

lemma tx_ok_zoom [store_simps]:
  "tx_ok (on_disk m) w x w' \<longleftrightarrow> (\<exists>s'. tx_ok m (mw_files w) x s' \<and> w' = w\<lparr>mw_files := s'\<rparr>)"
proof
  assume "tx_ok (on_disk m) w x w'"
  then obtain fs fs' where "on_disk m (fs, w) = (Inr x, fs', w')" by (auto simp: tx_ok_def)
  then show "\<exists>s'. tx_ok m (mw_files w) x s' \<and> w' = w\<lparr>mw_files := s'\<rparr>"
    by (cases "m (fs, mw_files w)") (auto simp: tx_zoom_def intro: tx_okI)
next
  assume "\<exists>s'. tx_ok m (mw_files w) x s' \<and> w' = w\<lparr>mw_files := s'\<rparr>"
  then obtain s' fs fs' where "m (fs, mw_files w) = (Inr x, fs', s')" "w' = w\<lparr>mw_files := s'\<rparr>" by (auto simp: tx_ok_def)
  then have "on_disk m (fs, w) = (Inr x, fs', w')" by (simp add: tx_zoom_def)
  then show "tx_ok (on_disk m) w x w'" by (rule tx_okI)
qed

text \<open>The value of a retried request is the value of one of its attempts, after the preparation.\<close>

lemma release_retry_ok:
  assumes "tx_ok (release_retry ctx prepare once) s x s'"
    and "reflp R" and "transp R" and "keeps R prepare" and "\<And>k. keeps R (once k)"
  obtains k s0 s1 u where "R s s0" "tx_ok prepare s0 u s1" "tx_ok (once k) s1 x s'"
proof -
  have "\<exists>k s0 s1 u. R s s0 \<and> tx_ok prepare s0 u s1 \<and> tx_ok (once k) s1 x s'"
    if "tx_ok (retry_loop ctx prepare once left k e) s x s'" for left k e s
    using that
  proof (induction left arbitrary: k e s)
    case 0
    then show ?case by (simp add: store_simps)
  next
    case (Suc left)
    from Suc.prems obtain u s1 r s2 where p: "tx_ok prepare s u s1" and o: "tx_ok (tx_attempt (once k)) s1 r s2"
      and rest: "tx_ok (case r of Inr x \<Rightarrow> tx_return x
         | Inl err \<Rightarrow> if \<not> shouldRetryReleaseRequest (rx_done ctx k) err \<or> k = releaseDownloadAttempts then tx_lift (Inl err)
             else (case waitForReleaseRetry (rx_done_in_wait ctx k) (releaseRetryDelayFor k (rx_retryDelay ctx)) of
                     Some e \<Rightarrow> tx_lift (Inl e) | None \<Rightarrow> retry_loop ctx prepare once left (Suc k) err)) s2 x s'"
      unfolding retry_loop.simps by (blast elim!: tx_ok_bindE)
    show ?case
    proof (cases r)
      case (Inl err)
      with rest have "tx_ok (retry_loop ctx prepare once left (Suc k) err) s2 x s'"
        by (auto simp: store_simps split: if_splits option.splits)
      moreover have "R s s2" using keeps_ok [OF assms(4) p] keeps_ok [OF keeps_attempt [OF assms(5)] o] assms(3)
        by (meson transpD)
      ultimately show ?thesis using Suc.IH assms(3) by (meson transpD)
    next
      case (Inr y)
      with rest o have "tx_ok (once k) s1 x s'" by (auto simp: store_simps dest: tx_ok_attemptD)
      with p assms(2) show ?thesis by (meson reflpD)
    qed
  qed
  with assms(1) that show thesis unfolding release_retry_def by blast
qed

definition disk_except :: "string \<Rightarrow> ManagerWorld \<Rightarrow> ManagerWorld \<Rightarrow> bool" where
  "disk_except p w w' \<longleftrightarrow> fs_same_except p (mw_files w) (mw_files w')"

lemma disk_except_order [simp]: "reflp (disk_except p)" "transp (disk_except p)"
  by (auto simp: disk_except_def fs_same_except_def intro!: reflpI transpI)

lemma disk_exceptD: "disk_except p w w' \<Longrightarrow> q \<noteq> p \<Longrightarrow> fs_lookup (mw_files w') q = fs_lookup (mw_files w) q"
  by (simp add: disk_except_def fs_same_except_def)

lemma keeps_disk [keeps_rules]: "keeps (fs_same_except p) m \<Longrightarrow> keeps (disk_except p) (on_disk m)"
  using keeps_zoom [of "fs_same_except p" m mw_files mw_files_update]
  by (simp add: disk_except_def [abs_def])

lemma keeps_same_disk: "keeps same_files m \<Longrightarrow> keeps (disk_except p) m"
  unfolding keeps_def same_files_def disk_except_def by (metis fs_same_except_set(1))

lemma keeps_download_file [keeps_rules]:
  "keeps (disk_except p) (on_disk (os_file_update p g))" "keeps (disk_except p) (downloadToFileOnce env src p limit k)"
  unfolding downloadToFileOnce_def by (auto intro!: keeps_rules split: option.splits)

lemma keeps_fetch [keeps_rules]: "keeps (disk_except tmp) (fetch_binary env target expected tmp)"
  unfolding fetch_binary_def downloadToFile_def
  by (intro keeps_rules keeps_same_disk [OF keeps_run_command])
     (auto intro!: keeps_rules keeps_same_disk [OF keeps_run_command])

text \<open>A finished download leaves one response body in the file, and returns its digest.\<close>

lemma downloadToFile_ok:
  assumes "tx_ok (downloadToFile env src p limit) w d w'"
  shows "\<exists>f k resp. fs_lookup (mw_files w') p = Some f \<and> mx_get env src k = Inr resp \<and> hr_status resp = 200 \<and>
    fl_content f = hr_body resp \<and> length (hr_body resp) \<le> limit \<and>
    d = hex_digest (me_crypto (mx_base env)) (fl_content f)"
proof -
  from assms obtain k w0 w1 u where p: "tx_ok (on_disk (os_file_update p (\<lambda>f. f\<lparr>fl_content := []\<rparr>))) w0 u w1"
    and o: "tx_ok (downloadToFileOnce env src p limit k) w1 d w'"
    unfolding downloadToFile_def
    by (rule release_retry_ok [where R = "disk_except p"]) (auto intro: keeps_rules)
  from p obtain f0 where f0: "fs_lookup (mw_files w1) p = Some f0" "fl_content f0 = []"
    by (auto simp: store_simps os_file_update_def split: option.splits)
  from o f0 show ?thesis
    by (auto simp: downloadToFileOnce_def copied_def os_file_update_def store_simps
        elim!: tx_ok_bindE split: option.splits if_splits) (metis not_less)
qed

lemma fetch_binary_ok:
  assumes "tx_ok (fetch_binary env target expected tmp) w u w'"
  shows "\<exists>f k resp. fs_lookup (mw_files w') tmp = Some f \<and>
    mx_get env (release_base target @ ''/'' @ release_asset env) k = Inr resp \<and> hr_status resp = 200 \<and>
    fl_content f = hr_body resp \<and> equal_fold expected (hex_digest (me_crypto (mx_base env)) (fl_content f))"
proof -
  from assms obtain w1 d w2 w3 out e where dl:
    "tx_ok (downloadToFile env (release_base target @ ''/'' @ release_asset env) tmp (256 * 1024 * 1024)) w1 d w2"
    and eq: "equal_fold expected d" and rc: "tx_ok (run_command env [tmp, ''version'']) w3 (out, e) w'" and w3: "mw_files w3 = mw_files w2"
    by (auto simp: fetch_binary_def os_sync_def os_close_def store_simps
        elim!: tx_ok_bindE split: if_splits prod.splits)
  from keeps_ok [OF keeps_run_command rc] w3 have "mw_files w' = mw_files w2" by (simp add: same_files_def)
  with downloadToFile_ok [OF dl] eq show ?thesis by auto
qed

lemma release_digest_ok:
  assumes "tx_ok (release_digest env target) w d w'"
  shows "validReleaseVersion target \<and> versionNewer target (mw_version w) \<and>
    (\<exists>k resp. mx_get env (release_base target @ ''/checksums.txt'') k = Inr resp \<and> hr_status resp = 200 \<and>
       checksumForAsset (hr_body resp) (release_asset env) = Inr d)"
proof -
  from assms obtain raw w1 w2 where v: "validReleaseVersion target" "versionNewer target (mw_version w)"
    and dl: "tx_ok (download env (release_base target @ ''/checksums.txt'') (1024 * 1024)) w1 raw w2"
    and d: "checksumForAsset raw (release_asset env) = Inr d"
    by (auto simp: release_digest_def store_simps elim!: tx_ok_bindE split: if_splits)
  from dl obtain k w3 w4 u where "tx_ok (downloadOnce env (release_base target @ ''/checksums.txt'') (1024 * 1024) k) w4 raw w2"
    unfolding download_def
    by (rule release_retry_ok [where R = same_files]) (auto intro!: keeps_rules simp: downloadOnce_def)
  then obtain resp where "mx_get env (release_base target @ ''/checksums.txt'') k = Inr resp" "read_limited (1024 * 1024) resp = Inr raw"
    by (auto simp: downloadOnce_def store_simps bind_result_def split: sum.splits)
  then show ?thesis using v d
    by (auto simp: read_limited_def split: if_splits option.splits)
qed

lemma binary_paths_differ [simp]: "current_binary \<noteq> previous_binary" "previous_binary \<noteq> current_binary"
  by (simp_all add: current_binary_def previous_binary_def)

lemma activate_binary_ok:
  assumes "tx_ok (activate_binary env target tmp) w u w'" and "fs_lookup (mw_files w) tmp = Some g"
    and "tmp \<noteq> current_binary" and "tmp \<noteq> previous_binary"
  shows "fs_lookup (mw_files w') current_binary = Some g"
proof -
  from assms(1) obtain w1 w2 w3 w4 where r: "tx_ok (tx_ignore (on_disk (os_remove previous_binary))) w () w1"
    and c: "tx_ok (on_disk (os_rename current_binary previous_binary)) w1 () w2"
    and t: "tx_ok (tx_attempt (on_disk (os_rename tmp current_binary))) w2 (Inr ()) w3"
    and s: "tx_ok (restartAgentService env) w3 None w4" and a: "tx_ok (waitAgentService env target) w4 None w'"
    unfolding activate_binary_def roll_back_def
    by (auto simp: tx_ok_lift tx_ok_return elim!: tx_ok_bindE split: sum.splits option.splits)
  have "keeps (\<lambda>w w'. fs_lookup (mw_files w) tmp = fs_lookup (mw_files w') tmp) (tx_ignore (on_disk (os_remove previous_binary)))"
    using assms(4) by (intro keeps_rules keeps_zoom [of "\<lambda>s s'. fs_lookup s tmp = fs_lookup s' tmp" _ mw_files mw_files_update])
      (auto simp: os_remove_def intro!: keeps_stmt reflpI split: option.splits)
  from keeps_ok [OF this r] assms(2) have "fs_lookup (mw_files w1) tmp = Some g" by simp
  then have "fs_lookup (mw_files w2) tmp = Some g" using c assms(3,4)
    by (auto simp: store_simps os_rename_def split: option.splits)
  then have "fs_lookup (mw_files w3) current_binary = Some g" using tx_ok_attemptD [OF t]
    by (auto simp: store_simps os_rename_def split: option.splits)
  with keeps_ok [OF keeps_service(1) s] keeps_ok [OF keeps_waitAgentService a] show ?thesis by (simp add: same_files_def)
qed

text \<open>Under any faults the old binary stays, in its place or as the previous one.\<close>

definition binary_kept :: "File \<Rightarrow> ManagerWorld \<Rightarrow> bool" where
  "binary_kept f w \<longleftrightarrow> fs_lookup (mw_files w) current_binary = Some f \<or> fs_lookup (mw_files w) previous_binary = Some f"

lemma triple_disk:
  assumes "\<And>x w s'. P w \<Longrightarrow> f (mw_files w) = Inr (x, s') \<Longrightarrow> Q x (w\<lparr>mw_files := s'\<rparr>)" and "\<And>e w. P w \<Longrightarrow> E e w"
  shows "triple P (on_disk (stmt f)) Q E"
proof (rule tripleI)
  fix fs w r fs' w' assume "calm fs" "P w" "on_disk (stmt f) (fs, w) = (r, fs', w')"
  with assms show "calm fs' \<and> (case r of Inr x \<Rightarrow> Q x w' | Inl e \<Rightarrow> E e w')"
    by (auto simp: tx_zoom_def stmt_def split: option.splits sum.splits prod.splits)
qed

lemma triple_same_files:
  assumes "keeps same_files m" and "triple (\<lambda>_. True) m (\<lambda>_ _. True) (\<lambda>_ _. True)" and "\<And>w w'. P w \<Longrightarrow> mw_files w' = mw_files w \<Longrightarrow> P w'"
  shows "triple P m (\<lambda>_. P) (\<lambda>_. P)"
proof (rule tripleI)
  fix fs w r fs' w' assume *: "calm fs" "P w" "m (fs, w) = (r, fs', w')"
  from keepsD [OF assms(1) *(3)] assms(3) *(2) have "P w'" by (auto simp: same_files_def)
  with tripleD [OF assms(2) *(1) TrueI *(3)] show "calm fs' \<and> (case r of Inr x \<Rightarrow> P w' | Inl e \<Rightarrow> P w')"
    by (auto split: sum.splits)
qed

lemma triple_returns: "returns m \<Longrightarrow> triple (\<lambda>_. True) m (\<lambda>_ _. True) (\<lambda>_ _. True)"
  unfolding returns_def by (erule triple_weaken) auto

lemma triple_waitAgentService: "triple (\<lambda>_. True) (waitAgentService env target) (\<lambda>_ _. True) (\<lambda>_ _. True)"
  unfolding waitAgentService_def
  by (rule triple_bind [OF _ triple_returns [OF returns_wait_loop]]) (auto split: option.splits intro!: triple_rules)

lemmas triple_commands =
  triple_same_files [OF keeps_service(1) triple_returns [OF returns_service(1)]]
  triple_same_files [OF keeps_waitAgentService triple_waitAgentService]

definition previous_is :: "File \<Rightarrow> ManagerWorld \<Rightarrow> bool" where
  "previous_is f w \<longleftrightarrow> fs_lookup (mw_files w) previous_binary = Some f"

lemma roll_back_keeps: "triple (previous_is f) (roll_back env e) (\<lambda>_. binary_kept f) (\<lambda>_. binary_kept f)"
  unfolding roll_back_def
proof (intro triple_bind triple_ignore)
  show "triple (previous_is f) (on_disk (os_remove current_binary)) (\<lambda>_. previous_is f) (\<lambda>_. previous_is f)"
    unfolding os_remove_def by (rule triple_disk) (auto simp: previous_is_def split: option.splits)
  show "triple (previous_is f) (on_disk (os_rename previous_binary current_binary)) (\<lambda>_. binary_kept f) (\<lambda>_. binary_kept f)"
    unfolding os_rename_def by (rule triple_disk) (auto simp: previous_is_def binary_kept_def split: option.splits)
  show "triple (binary_kept f) (restartAgentService env) (\<lambda>_. binary_kept f) (\<lambda>_. binary_kept f)"
    by (rule triple_commands(1)) (simp add: binary_kept_def)
qed (auto intro: triple_lift)

lemma activate_keeps:
  assumes "tmp \<noteq> previous_binary"
  shows "triple (\<lambda>w. fs_lookup (mw_files w) current_binary = Some f) (activate_binary env target tmp)
    (\<lambda>_. binary_kept f) (\<lambda>_. binary_kept f)"
proof -
  have w: "triple (previous_is f) (waitAgentService env target) (\<lambda>_. previous_is f) (\<lambda>_. binary_kept f)"
    by (rule triple_weaken [OF triple_commands(2) [where P = "previous_is f"]]) (auto simp: previous_is_def binary_kept_def)
  have r: "triple (previous_is f) (restartAgentService env) (\<lambda>_. previous_is f) (\<lambda>_. binary_kept f)"
    by (rule triple_weaken [OF triple_commands(1) [where P = "previous_is f"]]) (auto simp: previous_is_def binary_kept_def)
  have s: "triple (previous_is f) (case e of Some e \<Rightarrow> roll_back env e | None \<Rightarrow> tx_return ()) (\<lambda>_. binary_kept f) (\<lambda>_. binary_kept f)" for e
    by (auto split: option.splits intro: roll_back_keeps triple_return simp: previous_is_def binary_kept_def)
  have u: "triple (previous_is f) (tx_bind (tx_ignore (on_disk (os_rename previous_binary current_binary))) (\<lambda>_. tx_lift (Inl e)))
      (\<lambda>_. binary_kept f) (\<lambda>_. binary_kept f)" for e
  proof (intro triple_bind triple_ignore)
    show "triple (previous_is f) (on_disk (os_rename previous_binary current_binary)) (\<lambda>_. binary_kept f) (\<lambda>_. binary_kept f)"
      unfolding os_rename_def by (rule triple_disk) (auto simp: previous_is_def binary_kept_def split: option.splits)
  qed (auto intro: triple_lift)
  have t: "triple (previous_is f) (on_disk (os_rename tmp current_binary)) (\<lambda>_. previous_is f)
      (\<lambda>e w. if is_panic e then binary_kept f w else previous_is f w)"
    unfolding os_rename_def using assms
    by (intro triple_disk) (auto simp: previous_is_def binary_kept_def split: option.splits)
  have p: "triple (\<lambda>w. fs_lookup (mw_files w) current_binary = Some f) (on_disk (os_rename current_binary previous_binary))
      (\<lambda>_. previous_is f) (\<lambda>_. binary_kept f)"
    unfolding os_rename_def by (intro triple_disk) (auto simp: previous_is_def binary_kept_def split: option.splits)
  have d: "triple (\<lambda>w. fs_lookup (mw_files w) current_binary = Some f) (tx_ignore (on_disk (os_remove previous_binary)))
      (\<lambda>_ w. fs_lookup (mw_files w) current_binary = Some f) (\<lambda>_. binary_kept f)"
    unfolding os_remove_def by (intro triple_ignore triple_disk) (auto split: option.splits)
  have v: "triple (previous_is f) (tx_bind (waitAgentService env target) (\<lambda>e. case e of Some e \<Rightarrow> roll_back env e | None \<Rightarrow> tx_return ()))
      (\<lambda>_. binary_kept f) (\<lambda>_. binary_kept f)"
    by (rule triple_bind [OF s w])
  have q: "triple (previous_is f) (case e of Some e \<Rightarrow> roll_back env e
      | None \<Rightarrow> tx_bind (waitAgentService env target) (\<lambda>e. case e of Some e \<Rightarrow> roll_back env e | None \<Rightarrow> tx_return ()))
      (\<lambda>_. binary_kept f) (\<lambda>_. binary_kept f)" for e
    using v roll_back_keeps by (cases e) simp_all
  have z: "triple (previous_is f)
      (case m of Inl e \<Rightarrow> tx_bind (tx_ignore (on_disk (os_rename previous_binary current_binary))) (\<lambda>_. tx_lift (Inl e))
       | Inr _ \<Rightarrow> tx_bind (restartAgentService env) (\<lambda>e. case e of Some e \<Rightarrow> roll_back env e
          | None \<Rightarrow> tx_bind (waitAgentService env target) (\<lambda>e. case e of Some e \<Rightarrow> roll_back env e | None \<Rightarrow> tx_return ())))
      (\<lambda>_. binary_kept f) (\<lambda>_. binary_kept f)" for m
    using u triple_bind [OF q r] by (cases m) simp_all
  show ?thesis unfolding activate_binary_def
    by (rule triple_bind [OF triple_bind [OF triple_bind [OF z triple_attempt [OF t]] p] d])
qed

text \<open>With no fault a failing activation puts the old binary back in its place.\<close>

lemma activate_rolls_back:
  assumes run: "activate_binary env target tmp ([], w) = (Inl e, fs', w')"
    and c: "fs_lookup (mw_files w) current_binary = Some f" and t: "fs_lookup (mw_files w) tmp = Some g"
    and ne: "tmp \<noteq> current_binary" "tmp \<noteq> previous_binary" and clock: "clock_runs env"
  shows "fs_lookup (mw_files w') current_binary = Some f"
proof -
  define w3 where "w3 = w\<lparr>mw_files := fs_set current_binary g (fs_unset tmp (fs_set previous_binary f (fs_unset current_binary
      (case fs_lookup (mw_files w) previous_binary of None \<Rightarrow> mw_files w | Some _ \<Rightarrow> fs_unset previous_binary (mw_files w)))))\<rparr>"
  have rb: "fs_lookup (mw_files v') current_binary = Some f"
    if v: "roll_back env e0 ([], v) = (Inl e, fs', v')" and files: "mw_files v = mw_files w3" for e0 v v'
  proof -
    define v2 where "v2 = v\<lparr>mw_files := fs_set current_binary f (fs_unset previous_binary (fs_unset current_binary (mw_files w3)))\<rparr>"
    obtain x fs2 v3 where rs: "restartAgentService env ([], v2) = (Inr x, fs2, v3)"
      using returnsD [OF returns_service(1), of "[]"] by fastforce
    with v files ne have "v' = v3"
      by (auto simp: roll_back_def tx_bind_def tx_ignore_def tx_zoom_def os_remove_def os_rename_def w3_def v2_def tx_lift_def)
    with keepsD [OF keeps_service(1) rs] show ?thesis by (simp add: same_files_def v2_def)
  qed
  obtain x w4 where rs: "restartAgentService env ([], w3) = (Inr x, [], w4)"
    using returnsD [OF returns_service(1), of "[]"] tidyD [OF tidy_service(1)] by (metis calm_Nil)
  have f4: "mw_files w4 = mw_files w3" using keepsD [OF keeps_service(1) rs] by (simp add: same_files_def)
  obtain y w5 where wt: "waitAgentService env target ([], w4) = (Inr y, [], w5)"
    using returnsD [OF returns_waitAgentService [OF clock], of "[]"] tidyD [OF tidy_waitAgentService] by (metis calm_Nil)
  have f5: "mw_files w5 = mw_files w3" using keepsD [OF keeps_waitAgentService wt] f4 by (simp add: same_files_def)
  have act: "activate_binary env target tmp ([], w) = (case x of Some e0 \<Rightarrow> roll_back env e0 ([], w4)
      | None \<Rightarrow> (case y of None \<Rightarrow> (Inr (), [], w5) | Some e0 \<Rightarrow> roll_back env e0 ([], w5)))"
    using c t ne rs wt
    by (auto simp: activate_binary_def tx_bind_def tx_ignore_def tx_attempt_def tx_zoom_def os_remove_def os_rename_def w3_def
        split: option.splits sum.splits)
  show ?thesis using run act rb [OF _ f4] rb [OF _ f5]
    by (auto split: option.splits sum.splits)
qed

lemma keeps_prepare_install:
  "keeps (disk_except p) (release_digest env target)" "keeps (disk_except p) (on_disk (os_mkdir_all d))"
  "keeps (disk_except p) (on_disk (os_create_exclusive p m))" "keeps (disk_except p) (on_disk (os_remove p))"
  by (intro keeps_same_disk keeps_rules) (auto intro!: keeps_rules keeps_stmt simp: os_mkdir_all_def)

text \<open>The stages of an installation\<close>

lemma installRelease_cases:
  assumes run: "installRelease env target (fs, w) = (r, fs', w')"
  obtains
    (early) e where "r = Inl e" "disk_except (update_temporary env) w w'"
  | (active) fs1 w1 fs2 w2 where "disk_except (update_temporary env) w w1" "fs_lookup (mw_files w1) (update_temporary env) \<noteq> None"
      "fs = [] \<longrightarrow> fs1 = []" "calm fs \<longrightarrow> calm fs1"
      "activate_binary env target (update_temporary env) (fs1, w1) = (r, fs2, w2)" "disk_except (update_temporary env) w2 w'"
proof -
  let ?t = "update_temporary env"
  define pre where "pre = tx_bind (release_digest env target) (\<lambda>expected.
     tx_bind (on_disk (os_mkdir_all bin_dir)) (\<lambda>_.
     tx_bind (on_disk (os_create_exclusive ?t mode_0600)) (\<lambda>_. tx_return expected)))"
  have inst: "installRelease env target = tx_bind pre (\<lambda>expected. tx_finally
       (tx_bind (fetch_binary env target expected ?t) (\<lambda>_. activate_binary env target ?t)) (on_disk (os_remove ?t)))"
    by (auto simp: fun_eq_iff installRelease_def pre_def tx_bind_def tx_return_def split: prod.splits sum.splits)
  have kp: "keeps (disk_except ?t) pre" unfolding pre_def by (intro keeps_rules keeps_prepare_install) simp_all
  have tp: "tidy pre" unfolding pre_def by (intro tidy_rules)
  from run [unfolded inst] show thesis
  proof (cases rule: run_bind_cases)
    case (1 e)
    with keepsD [OF kp] early show ?thesis by blast
  next
    case (2 expected c1)
    obtain fs1 w1 where c1: "c1 = (fs1, w1)" by (cases c1)
    note k1 = keepsD [OF kp 2(1) [unfolded c1]]
    obtain r2 fs2 w2 where b: "tx_bind (fetch_binary env target expected ?t) (\<lambda>_. activate_binary env target ?t) (fs1, w1) = (r2, fs2, w2)"
      by (metis prod.exhaust)
    with 2(2) c1 have r: "r = r2" and rm: "snd (on_disk (os_remove ?t) (fs2, w2)) = (fs', w')" by (simp_all add: tx_finally_def)
    have k2: "disk_except ?t w2 w'" using keepsD [OF keeps_prepare_install(4)] rm by (metis prod.collapse)
    from b show ?thesis
    proof (cases rule: run_bind_cases)
      case (1 e)
      from keepsD [OF keeps_fetch 1(1)] k1 k2 have "disk_except ?t w w'" by (meson disk_except_order(2) transpD)
      with 1 r early show ?thesis by blast
    next
      case (2 u c3)
      obtain fs3 w3 where c3: "c3 = (fs3, w3)" by (cases c3)
      note f = 2(1) [unfolded c3]
      from keepsD [OF keeps_fetch f] k1 have "disk_except ?t w w3" by (meson disk_except_order(2) transpD)
      moreover have "fs_lookup (mw_files w3) ?t \<noteq> None"
        using fetch_binary_ok [of env target expected ?t w1 u w3] tx_okI [where m = "fetch_binary env target expected ?t", OF f] by auto
      moreover have "fs = [] \<longrightarrow> fs3 = []"
        using tidyD [OF tp] tidyD [OF tidy_fetch] f \<open>pre (fs, w) = (Inr expected, c1)\<close> c1 by blast
      moreover have "calm fs \<longrightarrow> calm fs3"
        using tidy_calm [OF tp] tidy_calm [OF tidy_fetch f] \<open>pre (fs, w) = (Inr expected, c1)\<close> c1 by blast
      ultimately show ?thesis using active 2(2) c3 r k2 by blast
    qed
  qed
qed

section \<open>Requests\<close>

text \<open>
  Unless a call reports a missing file that is there, a request that has any effect is a
  verified command for this node that has no marker.
\<close>

definition honest :: "faults \<Rightarrow> bool" where
  "honest fs \<longleftrightarrow> (\<forall>e. Some e \<in> set fs \<longrightarrow> \<not> error_is e ErrNotExist)"

lemma on_disk_read_run:
  "on_disk (os_read_file p) (fs, w) = (r, fs', w') \<Longrightarrow> w' = w \<and> fs' = tl fs \<and>
     (case r of Inr raw \<Rightarrow> (\<exists>f. fs_lookup (mw_files w) p = Some f \<and> raw = fl_content f)
      | Inl e \<Rightarrow> (fs_lookup (mw_files w) p = None \<and> e = ErrNotExist) \<or> Some e \<in> set fs)"
  by (cases fs) (auto simp: tx_zoom_def os_read_file_def stmt_def next_fault_def split: option.splits)

lemma processRequest_effect:
  assumes "processRequest env m path (fs, w) = (r, fs', w')" and "w' \<noteq> w" and "honest fs"
  shows "\<exists>f msg. fs_lookup (mw_files w) path = Some f \<and> decode_request env m (fl_content f) = Inr msg \<and>
    fs_lookup (mw_files w) (marker_path m (mc_CommandID (sc_Command msg))) = None \<and>
    (mc_Action (sc_Command msg) = MaintenanceActionUninstall \<or> mc_Action (sc_Command msg) = MaintenanceActionUpdate)"
  using assms(1) unfolding processRequest_def
proof (cases rule: run_bind_cases)
  case (1 e)
  with on_disk_read_run assms(2) show ?thesis by blast
next
  case (2 raw c1)
  obtain fs1 w1 where c1: "c1 = (fs1, w1)" by (cases c1)
  from on_disk_read_run [OF 2(1) [unfolded c1]] obtain f where f: "w1 = w" "fs1 = tl fs" "fs_lookup (mw_files w) path = Some f" "raw = fl_content f"
    by auto
  from 2(2) show ?thesis
  proof (cases rule: run_bind_cases)
    case (1 e)
    with c1 f assms(2) show ?thesis by (simp add: tx_lift_def)
  next
    case (2 msg c2)
    with c1 f have d: "decode_request env m (fl_content f) = Inr msg" and c2: "c2 = (tl fs, w)" by (simp_all add: tx_lift_def)
    let ?mk = "marker_path m (mc_CommandID (sc_Command msg))"
    obtain r3 fs3 w3 where rd: "on_disk (os_read_file ?mk) (tl fs, w) = (r3, fs3, w3)" by (metis prod.exhaust)
    note k = on_disk_read_run [OF rd]
    have e: "r3 = Inl ErrNotExist \<and> fs_lookup (mw_files w) ?mk = None" if "r3 = Inl e" "error_is e ErrNotExist" for e
      using that k assms(3) by (cases fs) (auto simp: honest_def)
    from 2(2) c2 rd k assms(2) obtain e1 where "r3 = Inl e1" "error_is e1 ErrNotExist"
      "mc_Action (sc_Command msg) = MaintenanceActionUninstall \<or> mc_Action (sc_Command msg) = MaintenanceActionUpdate"
      by (cases r3) (auto simp: tx_bind_def tx_attempt_def tx_return_def tx_lift_def split: if_splits go_error.splits)
    with e d f show ?thesis by blast
  qed
qed

section \<open>A concrete update\<close>

definition example_binary :: string where "example_binary = replicate 32 CHR ''B''"

definition example_get :: "string \<Rightarrow> nat \<Rightarrow> HttpResponse result" where
  "example_get src k =
     (if src = release_base ''v1.2.3'' @ ''/checksums.txt''
      then Inr \<lparr>hr_status = 200, hr_length = 0, hr_body = hex_encode example_binary @ ''  iepl-agent-linux-amd64'', hr_read_error = None\<rparr>
      else if k = 1 then Inl (ErrIO ''reset'')
      else Inr \<lparr>hr_status = 200, hr_length = 32, hr_body = example_binary, hr_read_error = None\<rparr>)"

definition example_manager_env :: ManagerEnv where
  "example_manager_env = \<lparr>mx_base = example_maintenance_env, mx_get = example_get, mx_exec = (\<lambda>_ _. (''v1.2.3'', None)),
     mx_goarch = ''amd64'', mx_clock = (\<lambda>i. int i * second), mx_done_in_wait = (\<lambda>_. False), mx_chown_result = True,
     mx_format_now = ''t''\<rparr>"

definition example_manager :: Manager where
  "example_manager = \<lparr>mg_cfg = default_config ''maintain'' ''v1.2.2'', mg_identity = example_maintainer,
     mg_signingKey = replicate 32 CHR ''p''\<rparr>"

definition old_binary :: File where "old_binary = \<lparr>fl_content = ''old'', fl_mode = mode_0755\<rparr>"

text \<open>A host with the service manager of Alpine, and one where its command is missing\<close>

definition example_host :: "bool \<Rightarrow> ManagerWorld" where
  "example_host service =
     \<lparr>mw_files = (current_binary, old_binary) # (if service then [(''/sbin/rc-service'', \<lparr>fl_content = [], fl_mode = mode_0755\<rparr>)] else []),
      mw_mtime = (\<lambda>_. 0), mw_version = ''v1.2.2'', mw_effects = []\<rparr>"

lemma no_fault_calls [simp]:
  "os_exists p ([], w) = (Inr (fs_lookup (mw_files w) p \<noteq> None), [], w)"
  "run_command env args ([], w) = (Inr (mx_exec env args (mw_files w)), [], w\<lparr>mw_effects := mw_effects w @ [EffExec args]\<rparr>)"
  by (auto simp: os_exists_def run_command_def tx_bind_def tx_attempt_def tx_zoom_def os_read_file_def split: option.splits)

lemma example_release:
  "validReleaseVersion ''v1.2.3''" "versionNewer ''v1.2.3'' ''v1.2.2''"
  "checksumForAsset (hex_encode example_binary @ ''  iepl-agent-linux-amd64'') ''iepl-agent-linux-amd64'' = Inr (hex_encode example_binary)"
  "equal_fold (hex_encode example_binary) (hex_digest plain_crypto example_binary)" "trim_space ''v1.2.3'' = ''v1.2.3''"
  "length (hex_encode example_binary @ ''  iepl-agent-linux-amd64'') = 88"
  by code_simp+

lemma example_env_fields [simp]:
  "mx_get example_manager_env = example_get" "mx_exec example_manager_env args s = (''v1.2.3'', None)"
  "mx_goarch example_manager_env = ''amd64''" "mx_base example_manager_env = example_maintenance_env"
  "me_context example_maintenance_env = example_context" "update_temporary example_manager_env = ''/tmp/x''"
  "me_crypto example_maintenance_env = plain_crypto" "mx_clock example_manager_env i = int i * second"
  by (simp_all add: example_manager_env_def update_temporary_def example_maintenance_env_def)

lemma example_digest:
  "release_digest example_manager_env ''v1.2.3'' ([], example_host b) = (Inr (hex_encode example_binary), [], example_host b)"
proof -
  have s: "syncSystemClock example_manager_env ([], example_host b) = (Inr None, [], example_host b)"
    by (simp add: syncSystemClock_def ntp_candidates_def tx_bind_def example_host_def fs_lookup_def current_binary_def)
  have d: "download example_manager_env (release_base ''v1.2.3'' @ ''/checksums.txt'') (1024 * 1024) ([], example_host b) =
      (Inr (hex_encode example_binary @ ''  iepl-agent-linux-amd64''), [], example_host b)"
    using example_release(6)
    by (simp add: download_def release_retry_def releaseDownloadAttempts_def numeral_3_eq_3 tx_bind_def tx_attempt_def
        downloadOnce_def example_get_def read_limited_def bind_result_def)
  show ?thesis using example_release(1,2,3) s d
    by (simp add: release_digest_def tx_bind_def tx_get_def fail_with_def release_asset_def example_host_def)
qed

lemma example_download:
  assumes "fs_lookup (mw_files w) ''/tmp/x'' = Some f"
  shows "\<exists>s'. downloadToFile example_manager_env (release_base ''v1.2.3'' @ ''/iepl-agent-linux-amd64'') ''/tmp/x'' (256 * 1024 * 1024) ([], w) =
    (Inr (hex_digest plain_crypto example_binary), [], w\<lparr>mw_files := s'\<rparr>) \<and> fs_lookup s' ''/tmp/x'' = Some (f\<lparr>fl_content := example_binary\<rparr>)"
proof -
  have l: "length example_binary = 32" "take (Suc 268435456) example_binary = example_binary" by (simp_all add: example_binary_def)
  have g: "example_get (release_base ''v1.2.3'' @ ''/iepl-agent-linux-amd64'') k =
      (if k = 1 then Inl (ErrIO ''reset'') else Inr \<lparr>hr_status = 200, hr_length = 32, hr_body = example_binary, hr_read_error = None\<rparr>)" for k
    by (simp add: example_get_def)
  show ?thesis using assms l
    by (simp add: downloadToFile_def release_retry_def releaseDownloadAttempts_def numeral_3_eq_3 tx_bind_def tx_attempt_def g
        downloadToFileOnce_def copied_def tx_zoom_def os_file_update_def shouldRetryReleaseRequest_def waitForReleaseRetry_def
        example_context_def releaseRetryDelayFor_def releaseDownloadRetryDelay_def second_def numeral_2_eq_2)
       (rule exI, rule conjI, rule refl, simp)
qed

lemma example_fetch:
  assumes "fs_lookup (mw_files w) ''/tmp/x'' \<noteq> None"
  shows "\<exists>w1 g. fetch_binary example_manager_env ''v1.2.3'' (hex_encode example_binary) ''/tmp/x'' ([], w) = (Inr (), [], w1) \<and>
    fs_lookup (mw_files w1) ''/tmp/x'' = Some g \<and> disk_except ''/tmp/x'' w w1"
proof -
  from assms obtain f where f: "fs_lookup (mw_files w) ''/tmp/x'' = Some f" by auto
  define w0 where "w0 = w\<lparr>mw_files := fs_set ''/tmp/x'' (f\<lparr>fl_mode := mode_0755\<rparr>) (mw_files w)\<rparr>"
  have "fs_lookup (mw_files w0) ''/tmp/x'' = Some (f\<lparr>fl_mode := mode_0755\<rparr>)" by (simp add: w0_def)
  from example_download [OF this] obtain s' where d:
    "downloadToFile example_manager_env (release_base ''v1.2.3'' @ ''/iepl-agent-linux-amd64'') ''/tmp/x'' (256 * 1024 * 1024) ([], w0) =
      (Inr (hex_digest plain_crypto example_binary), [], w0\<lparr>mw_files := s'\<rparr>)" and l: "fs_lookup s' ''/tmp/x'' \<noteq> None" by auto
  have r: "fetch_binary example_manager_env ''v1.2.3'' (hex_encode example_binary) ''/tmp/x'' ([], w) =
      (Inr (), [], w0\<lparr>mw_files := s', mw_effects := mw_effects w @ [EffExec [''/tmp/x'', ''version'']]\<rparr>)"
    using f d example_release(4,5)
    by (simp add: fetch_binary_def tx_bind_def tx_zoom_def os_file_update_def w0_def release_asset_def os_sync_def os_close_def)
  with l keepsD [OF keeps_fetch r] show ?thesis by auto
qed

lemma example_service:
  assumes "fs_lookup (mw_files w) ''/run/systemd/system'' = None" and "fs_lookup (mw_files w) ''/usr/sbin/rc-service'' = None"
  shows "\<exists>w'. restartAgentService example_manager_env ([], w) =
      (Inr (if fs_lookup (mw_files w) ''/sbin/rc-service'' = None then Some ErrNotExist else None), [], w') \<and> mw_files w' = mw_files w"
    and "\<exists>w'. agentServiceActive example_manager_env ([], w) =
      (Inr (if fs_lookup (mw_files w) ''/sbin/rc-service'' = None then Some ErrNotExist else None), [], w') \<and> mw_files w' = mw_files w"
  using assms by (simp_all add: restartAgentService_def agentServiceActive_def rc_service_def both_bins_def runFirst_def tx_bind_def)

lemma example_wait:
  assumes "fs_lookup (mw_files w) ''/run/systemd/system'' = None" and "fs_lookup (mw_files w) ''/usr/sbin/rc-service'' = None"
    and "fs_lookup (mw_files w) ''/sbin/rc-service'' \<noteq> None"
  shows "\<exists>w'. waitAgentService example_manager_env ''v1.2.3'' ([], w) = (Inr None, [], w')"
proof -
  let ?w = "w\<lparr>mw_effects := mw_effects w @ [EffExec [''/opt/iepl-agent/bin/iepl-agent'', ''version'']]\<rparr>"
  obtain w' where a: "agentServiceActive example_manager_env ([], ?w) = (Inr None, [], w')"
    using example_service(2) [of ?w] assms by auto
  have n: "61 = Suc 60" by simp
  show ?thesis unfolding waitAgentService_def n wait_loop.simps
    using a example_release(5) by (simp add: tx_bind_def agentServiceStartupTimeout_def second_def)
qed

lemma example_activate:
  assumes "fs_lookup (mw_files w) ''/tmp/x'' = Some g" and "fs_lookup (mw_files w) current_binary = Some f"
    and s: "fs_lookup (mw_files w) ''/run/systemd/system'' = None" "fs_lookup (mw_files w) ''/usr/sbin/rc-service'' = None"
  shows "\<exists>e w'. activate_binary example_manager_env ''v1.2.3'' ''/tmp/x'' ([], w) =
    (if fs_lookup (mw_files w) ''/sbin/rc-service'' = None then Inl e else Inr (), [], w')"
proof -
  define w3 where "w3 = w\<lparr>mw_files := fs_set current_binary g (fs_unset ''/tmp/x'' (fs_set previous_binary f (fs_unset current_binary
      (case fs_lookup (mw_files w) previous_binary of None \<Rightarrow> mw_files w | Some _ \<Rightarrow> fs_unset previous_binary (mw_files w)))))\<rparr>"
  have l: "fs_lookup (mw_files w3) q = fs_lookup (mw_files w) q" if "q \<noteq> current_binary" "q \<noteq> previous_binary" "q \<noteq> ''/tmp/x''" for q
    using that by (auto simp: w3_def split: option.splits)
  have p: "''/tmp/x'' \<noteq> current_binary" "''/tmp/x'' \<noteq> previous_binary" "''/run/systemd/system'' \<noteq> current_binary"
    "''/run/systemd/system'' \<noteq> previous_binary" "''/sbin/rc-service'' \<noteq> current_binary" "''/sbin/rc-service'' \<noteq> previous_binary"
    "''/usr/sbin/rc-service'' \<noteq> current_binary" "''/usr/sbin/rc-service'' \<noteq> previous_binary"
    by (simp_all add: current_binary_def previous_binary_def)
  obtain w4 where rs: "restartAgentService example_manager_env ([], w3) =
      (Inr (if fs_lookup (mw_files w) ''/sbin/rc-service'' = None then Some ErrNotExist else None), [], w4)" and f4: "mw_files w4 = mw_files w3"
    using example_service(1) [of w3] s by (auto simp: l p)
  have act: "activate_binary example_manager_env ''v1.2.3'' ''/tmp/x'' ([], w) =
      (if fs_lookup (mw_files w) ''/sbin/rc-service'' = None then roll_back example_manager_env ErrNotExist ([], w4)
       else tx_bind (waitAgentService example_manager_env ''v1.2.3'') (\<lambda>waitErr.
         case waitErr of Some e \<Rightarrow> roll_back example_manager_env e | None \<Rightarrow> tx_return ()) ([], w4))"
    using assms p rs
    by (auto simp: activate_binary_def tx_bind_def tx_ignore_def tx_attempt_def tx_zoom_def os_remove_def os_rename_def w3_def
        split: option.splits)
  show ?thesis
  proof (cases "fs_lookup (mw_files w) ''/sbin/rc-service''")
    case None
    obtain r fs w5 where rb: "roll_back example_manager_env ErrNotExist ([], w4) = (r, fs, w5)" by (metis prod.exhaust)
    then have "\<exists>e. r = Inl e"
      by (auto simp: roll_back_def tx_bind_def tx_lift_def split: prod.splits sum.splits)
    moreover have "tidy (roll_back example_manager_env ErrNotExist)" unfolding roll_back_def os_remove_def os_rename_def
      by (intro tidy_rules)
    ultimately show ?thesis using act None rb tidyD by fastforce
  next
    case (Some x)
    obtain w5 where "waitAgentService example_manager_env ''v1.2.3'' ([], w4) = (Inr None, [], w5)"
      using example_wait [of w4] s Some by (auto simp: f4 l p)
    with act Some show ?thesis by (auto simp: tx_bind_def)
  qed
qed

lemma example_host_files:
  "fs_lookup (mw_files (example_host b)) current_binary = Some old_binary"
  "fs_lookup (mw_files (example_host b)) ''/run/systemd/system'' = None"
  "fs_lookup (mw_files (example_host b)) ''/usr/sbin/rc-service'' = None"
  "fs_lookup (mw_files (example_host b)) ''/sbin/rc-service'' = None \<longleftrightarrow> \<not> b"
  "fs_lookup (mw_files (example_host b)) ''/tmp/x'' = None" "''/tmp/x'' \<noteq> current_binary" "''/tmp/x'' \<noteq> previous_binary"
  by (simp_all add: example_host_def fs_lookup_def current_binary_def previous_binary_def)

lemma example_install:
  "\<exists>e w'. installRelease example_manager_env ''v1.2.3'' ([], example_host b) = (if b then Inr () else Inl e, [], w')"
proof -
  define w0 where "w0 = (example_host b)\<lparr>mw_files := fs_set ''/tmp/x'' \<lparr>fl_content = [], fl_mode = mode_0600\<rparr> (mw_files (example_host b))\<rparr>"
  note t = example_host_files(5) [of b]
  have "fs_lookup (mw_files w0) ''/tmp/x'' \<noteq> None" by (simp add: w0_def)
  from example_fetch [OF this] obtain w1 g where f:
    "fetch_binary example_manager_env ''v1.2.3'' (hex_encode example_binary) ''/tmp/x'' ([], w0) = (Inr (), [], w1)"
    and g: "fs_lookup (mw_files w1) ''/tmp/x'' = Some g" and d: "disk_except ''/tmp/x'' w0 w1" by blast
  have same: "fs_lookup (mw_files w1) q = fs_lookup (mw_files (example_host b)) q" if "q \<noteq> ''/tmp/x''" for q
    using d that by (simp add: disk_except_def fs_same_except_def w0_def)
  have "\<exists>e w'. activate_binary example_manager_env ''v1.2.3'' ''/tmp/x'' ([], w1) =
      (if fs_lookup (mw_files w1) ''/sbin/rc-service'' = None then Inl e else Inr (), [], w')"
    by (rule example_activate [OF g, of old_binary])
       (use example_host_files in \<open>simp_all add: same not_sym [OF example_host_files(6)]\<close>)
  moreover have "fs_lookup (mw_files w1) ''/sbin/rc-service'' = None \<longleftrightarrow> \<not> b"
    by (simp add: same example_host_files)
  ultimately obtain e w2 where a: "activate_binary example_manager_env ''v1.2.3'' ''/tmp/x'' ([], w1) = (if b then Inr () else Inl e, [], w2)"
    by auto
  obtain rr w3 where rm: "on_disk (os_remove ''/tmp/x'') ([], w2) = (rr, [], w3)"
    by (cases "fs_lookup (mw_files w2) ''/tmp/x''") (simp_all add: tx_zoom_def os_remove_def)
  show ?thesis using example_digest [of b] t f a rm
    by (auto simp: installRelease_def tx_bind_def tx_zoom_def os_mkdir_all_def os_create_exclusive_def w0_def tx_finally_def)
qed

section \<open>Properties\<close>

text \<open>
  C38. Waiting for the updated service ends: with a clock that advances by the second the loop
  sleeps, waitAgentService returns within its 61 iterations, whatever the commands report and
  whatever calls fail, with an error or without.
\<close>

theorem wait_agent_service_ends:
  assumes "clock_runs env" and "calm fs"
  shows "\<exists>err fs' w'. waitAgentService env target (fs, w) = (Inr err, fs', w')"
  using returnsD [OF returns_waitAgentService [OF assms(1)] assms(2)] by blast

theorem wait_agent_service_ends_witness:
  "\<exists>err fs' w'. waitAgentService example_manager_env ''v9'' ([Some ErrNotExist, Some (ErrIO ''fork'')], example_host False) = (Inr err, fs', w')"
  by (rule wait_agent_service_ends) (simp_all add: clock_runs_def calm_def algebra_simps)

text \<open>
  C10. A finished update has installed the released binary: when installRelease returns without
  error, whatever faults occurred, the target is a valid version newer than the running one, and
  the binary in place is a body served for the release's asset whose digest is the one that the
  release's checksum file lists for the asset.
\<close>

theorem update_installs_verified_binary:
  assumes "tx_ok (installRelease env target) w u w'" and "update_temporary env \<notin> {current_binary, previous_binary}"
  shows "validReleaseVersion target \<and> versionNewer target (mw_version w) \<and>
    (\<exists>listing k d resp j f. mx_get env (release_base target @ ''/checksums.txt'') k = Inr listing \<and> hr_status listing = 200 \<and>
       checksumForAsset (hr_body listing) (release_asset env) = Inr d \<and>
       mx_get env (release_base target @ ''/'' @ release_asset env) j = Inr resp \<and> hr_status resp = 200 \<and>
       fs_lookup (mw_files w') current_binary = Some f \<and> fl_content f = hr_body resp \<and>
       equal_fold d (hex_digest (me_crypto (mx_base env)) (fl_content f)))"
proof -
  let ?t = "update_temporary env"
  from assms(1) obtain d w1 w2 w3 where dg: "tx_ok (release_digest env target) w d w1"
    and fin: "tx_ok (tx_finally (tx_bind (fetch_binary env target d ?t) (\<lambda>_. activate_binary env target ?t)) (on_disk (os_remove ?t))) w3 u w'"
    unfolding installRelease_def by (blast elim!: tx_ok_bindE)
  from fin obtain w5 fs5 r5 fs6 where "tx_ok (tx_bind (fetch_binary env target d ?t) (\<lambda>_. activate_binary env target ?t)) w3 u w5"
    and rm: "on_disk (os_remove ?t) (fs5, w5) = (r5, fs6, w')" by (rule tx_ok_finallyE)
  then obtain w4 v where fe: "tx_ok (fetch_binary env target d ?t) w3 v w4" and ac: "tx_ok (activate_binary env target ?t) w4 u w5"
    by (auto elim!: tx_ok_bindE)
  from fetch_binary_ok [OF fe] obtain f j resp where f: "fs_lookup (mw_files w4) ?t = Some f"
    "mx_get env (release_base target @ ''/'' @ release_asset env) j = Inr resp" "hr_status resp = 200" "fl_content f = hr_body resp"
    "equal_fold d (hex_digest (me_crypto (mx_base env)) (fl_content f))" by blast
  have "fs_lookup (mw_files w5) current_binary = Some f" using activate_binary_ok [OF ac f(1)] assms(2) by simp
  then have "fs_lookup (mw_files w') current_binary = Some f"
    using disk_exceptD [OF keepsD [OF keeps_prepare_install(4) rm], of current_binary] assms(2) by auto
  with f release_digest_ok [OF dg] show ?thesis by blast
qed

theorem update_installs_verified_binary_witness:
  "\<exists>w'. tx_ok (installRelease example_manager_env ''v1.2.3'') (example_host True) () w' \<and>
     (\<exists>f. fs_lookup (mw_files w') current_binary = Some f \<and> fl_content f = example_binary)"
proof -
  obtain w' where "installRelease example_manager_env ''v1.2.3'' ([], example_host True) = (Inr (), [], w')"
    using example_install [of True] by auto
  then have ok: "tx_ok (installRelease example_manager_env ''v1.2.3'') (example_host True) () w'" unfolding tx_ok_def by blast
  have "example_get (release_base ''v1.2.3'' @ ''/'' @ release_asset example_manager_env) j = Inr resp \<Longrightarrow> hr_body resp = example_binary" for j resp
    by (auto simp: example_get_def release_asset_def split: if_splits)
  with update_installs_verified_binary [OF ok] ok show ?thesis
    using example_host_files(6,7) by auto
qed



text \<open>
  C12. A request acts only when it is genuine and new. Unless a call reports a missing file that is
  there, a request file that changes anything at all, its own removal apart, holds a command for
  this node that verifies under the pinned key at this time, asks for an update or an uninstall,
  and has no marker: a command whose marker is in place is never run again.
\<close>

theorem requests_run_once_and_verified:
  assumes "processRequest env m path (fs, w) = (r, fs', w')" and "w' \<noteq> w" and "honest fs"
  shows "\<exists>f msg tail. fs_lookup (mw_files w) path = Some f \<and> length (fl_content f) \<le> 64 * 1024 \<and>
    me_decode_signed (mx_base env) (fl_content f) = Inr (msg, tail) \<and>
    mc_AgentNodeID (sc_Command msg) = id_AgentNodeID (mg_identity m) \<and>
    VerifySignedMaintenanceCommand (me_crypto (mx_base env)) (me_marshal_command (mx_base env)) (me_uuid_ok (mx_base env)) msg
      (id_ConfigSigningKeyID (mg_identity m)) (mg_signingKey m) (me_now (mx_base env)) = None \<and>
    fs_lookup (mw_files w) (marker_path m (mc_CommandID (sc_Command msg))) = None \<and>
    mc_Action (sc_Command msg) \<in> {MaintenanceActionUninstall, MaintenanceActionUpdate}"
proof -
  from processRequest_effect [OF assms] obtain f msg where f: "fs_lookup (mw_files w) path = Some f"
    "decode_request env m (fl_content f) = Inr msg" "fs_lookup (mw_files w) (marker_path m (mc_CommandID (sc_Command msg))) = None"
    "mc_Action (sc_Command msg) \<in> {MaintenanceActionUninstall, MaintenanceActionUpdate}" by auto
  from f(2) show ?thesis using f(1,3,4) unfolding decode_request_def
    by (auto split: if_splits sum.splits option.splits simp: not_less)
qed

definition example_request_host :: ManagerWorld where
  "example_request_host = \<lparr>mw_files = [(''/r.json'', \<lparr>fl_content = ''{}'', fl_mode = mode_0600\<rparr>)], mw_mtime = (\<lambda>_. 0),
     mw_version = ''v1.2.3'', mw_effects = []\<rparr>"

lemma keeps_effects:
  "keeps (\<lambda>w w'. mw_effects w' = mw_effects w) (markProcessed env p)"
  "keeps (\<lambda>w w'. mw_effects w' = mw_effects w) (writeResult env m res)"
proof -
  have o: "reflp (\<lambda>w w'. mw_effects w' = mw_effects w)" "transp (\<lambda>w w'. mw_effects w' = mw_effects w)"
    by (auto intro: reflpI transpI)
  have d: "keeps (\<lambda>w w'. mw_effects w' = mw_effects w) (on_disk m)" for m :: "(fs, unit) tx"
    by (auto simp: keeps_def tx_zoom_def split: prod.splits)
  show "keeps (\<lambda>w w'. mw_effects w' = mw_effects w) (markProcessed env p)"
    unfolding markProcessed_def os_write_file_def by (intro keeps_bind o d keeps_memory) simp
  show "keeps (\<lambda>w w'. mw_effects w' = mw_effects w) (writeResult env m res)"
    unfolding writeResult_def Let_def by (auto split: option.splits intro!: keeps_bind o d keeps_pure)
qed

lemma example_request:
  "\<exists>r fs' w'. processRequest example_manager_env example_manager ''/r.json'' ([], example_request_host) = (r, fs', w') \<and>
     mw_effects w' = [EffInstall ''c1'' ''v1.2.3'']"
proof -
  let ?w = "example_request_host\<lparr>mw_effects := [EffInstall ''c1'' ''v1.2.3'']\<rparr>"
  have cid: "mc_CommandID (sc_Command example_signed) = ''c1''" "mc_Action (sc_Command example_signed) = ''update''"
    "mc_AgentNodeID (sc_Command example_signed) = 7" "mc_TargetVersion (sc_Command example_signed) = ''v1.2.3''"
    by (simp_all add: example_signed_def example_command_def)
  have e: "me_marshal_command example_maintenance_env = (\<lambda>c. Inr (mc_CommandID c))" "me_uuid_ok example_maintenance_env = (\<lambda>v. v \<noteq> [])"
    "me_now example_maintenance_env = 1100 * second" "\<exists>t. me_decode_signed example_maintenance_env ''{}'' = Inr (example_signed, t)"
    by (simp_all add: example_maintenance_env_def single_decode_def)
  have i: "mg_identity example_manager = example_maintainer" "mg_signingKey example_manager = replicate 32 CHR ''p''"
    "id_AgentNodeID example_maintainer = 7" "id_ConfigSigningKeyID example_maintainer = ''k1''"
    by (simp_all add: example_manager_def example_maintainer_def)
  have d: "decode_request example_manager_env example_manager ''{}'' = Inr example_signed"
  proof -
    obtain t where "me_decode_signed example_maintenance_env ''{}'' = Inr (example_signed, t)" using e(4) by blast
    with example_signed_verifies show ?thesis by (simp add: decode_request_def e(1-3) cid i)
  qed
  have p: "marker_path example_manager ''c1'' \<noteq> ''/r.json''" by code_simp
  have nn: "\<not> versionNewer ''v1.2.3'' ''v1.2.3''" by code_simp
  have inst: "\<exists>err. tx_attempt (installRelease example_manager_env ''v1.2.3'') ([], ?w) = (Inr (Inl err), [], ?w)"
    using nn by (simp add: tx_attempt_def installRelease_def release_digest_def tx_bind_def tx_get_def example_request_host_def)
  then obtain err where inst: "tx_attempt (installRelease example_manager_env ''v1.2.3'') ([], ?w) = (Inr (Inl err), [], ?w)" by blast
  let ?res = "manager_result example_manager_env example_signed ''failed'' ''v1.2.3'' ''v1.2.3''
    (msg_update_failed @ compactMessage (error_text err) 300)"
  obtain r fs' w' where rest: "tx_bind (markProcessed example_manager_env (marker_path example_manager ''c1'')) (\<lambda>_.
      tx_bind (writeResult example_manager_env example_manager ?res) (\<lambda>_. tx_return ())) ([], ?w) = (r, fs', w')" by (metis prod.exhaust)
  have "keeps (\<lambda>w w'. mw_effects w' = mw_effects w) (tx_bind (markProcessed example_manager_env (marker_path example_manager ''c1'')) (\<lambda>_.
      tx_bind (writeResult example_manager_env example_manager ?res) (\<lambda>_. tx_return ())))"
    by (intro keeps_bind keeps_effects keeps_pure) (auto intro: reflpI transpI)
  from keepsD [OF this rest] have eff: "mw_effects w' = [EffInstall ''c1'' ''v1.2.3'']" by simp
  have st: "mr_Status ?res = ''failed''" by (simp add: manager_result_def)
  have l: "log_effect (EffInstall ''c1'' ''v1.2.3'') ([], example_request_host) = (Inr (), [], ?w)"
    "tx_get mw_version ([], ?w) = (Inr ''v1.2.3'', [], ?w)"
    by (simp_all add: log_effect_def tx_modify_def tx_get_def example_request_host_def)
  have u: "process_update example_manager_env example_manager example_signed ([], example_request_host) = (r, fs', w')"
    using rest st by (simp add: process_update_def Let_def cid tx_bind_no_faults(1) [where m = "log_effect e" for e, OF l(1)] tx_bind_no_faults(1) [where m = "tx_attempt e" for e, OF inst]
        tx_bind_no_faults(1) [where m = "tx_get e" for e, OF l(2)])
  have f: "on_disk (os_read_file ''/r.json'') ([], example_request_host) = (Inr ''{}'', [], example_request_host)"
    "tx_lift (Inr example_signed) ([], example_request_host) = (Inr example_signed, [], example_request_host)"
    "tx_attempt (on_disk (os_read_file (marker_path example_manager ''c1''))) ([], example_request_host) =
      (Inr (Inl ErrNotExist), [], example_request_host)"
    using p by (simp_all add: tx_zoom_def os_read_file_def example_request_host_def fs_lookup_def tx_attempt_def)
  have "processRequest example_manager_env example_manager ''/r.json'' ([], example_request_host) = (r, fs', w')"
    using u by (simp add: processRequest_def tx_bind_no_faults(1) [where m = "on_disk e" for e, OF f(1)] d tx_bind_no_faults(1) [where m = "tx_lift e" for e, OF f(2)] cid
        tx_bind_no_faults(1) [where m = "tx_attempt e" for e, OF f(3)] maintenance_actions)
  with eff show ?thesis by blast
qed

theorem requests_run_once_and_verified_witness:
  "\<exists>w'. snd (snd (processRequest example_manager_env example_manager ''/r.json'' ([], example_request_host))) = w' \<and>
     w' \<noteq> example_request_host \<and> (\<exists>msg tail. me_decode_signed example_maintenance_env ''{}'' = Inr (msg, tail) \<and>
       mc_AgentNodeID (sc_Command msg) = 7 \<and> fs_lookup (mw_files example_request_host) (marker_path example_manager (mc_CommandID (sc_Command msg))) = None)"
proof -
  obtain r fs' w' where run: "processRequest example_manager_env example_manager ''/r.json'' ([], example_request_host) = (r, fs', w')"
    and e: "mw_effects w' = [EffInstall ''c1'' ''v1.2.3'']" using example_request by blast
  have ne: "w' \<noteq> example_request_host" using e by (auto simp: example_request_host_def)
  have i: "id_AgentNodeID (mg_identity example_manager) = 7" "fs_lookup (mw_files example_request_host) ''/r.json'' = Some \<lparr>fl_content = ''{}'', fl_mode = mode_0600\<rparr>"
    by (simp_all add: example_manager_def example_maintainer_def example_request_host_def fs_lookup_def)
  from requests_run_once_and_verified [OF run ne] i ne run show ?thesis by (auto simp: honest_def)
qed

end
