(* ===== verification/Client_Session.thy ===== *)
theory Client_Session
  imports Client_Facts Manager_Facts
begin

text \<open>
  Whole sessions. A relation between databases that every store operation of the session keeps
  is kept by any number of sessions, whatever the server sends and whatever fails: the locale
  states what the store has to promise, and it is interpreted on the traffic log and on the
  meta table. The same is proved of the invariant of the runtime.
\<close>

section \<open>Frames on the database\<close>

lemma tx_bind_lift [simp]: "tx_bind (tx_lift (Inr x)) k = k x" "tx_bind (tx_lift (Inl e)) k = tx_lift (Inl e)"
  by (simp_all add: fun_eq_iff tx_bind_def tx_lift_def)

lemma keeps_transact [keeps_rules]:
  assumes "reflp R" and "keeps R body"
  shows "keeps R (transact body)"
  unfolding keeps_def
proof (intro allI impI)
  fix fs s r fs' s' assume t: "transact body (fs, s) = (r, fs', s')"
  obtain rb fb sb where b: "body (tl fs, s) = (rb, fb, sb)" by (metis prod.exhaust)
  have "R s sb" using assms(2) b by (rule keepsD)
  with t b assms(1) show "R s s'"
    by (cases rb) (auto simp: transact_def stmt_def split: option.splits dest: reflpD)
qed

definition db_rel :: "(Db \<Rightarrow> Db \<Rightarrow> bool) \<Rightarrow> 'core ClientWorld \<Rightarrow> 'core ClientWorld \<Rightarrow> bool" where
  "db_rel R w w' \<longleftrightarrow> R (cw_db w) (cw_db w')"

lemma db_rel_order: "reflp R \<Longrightarrow> reflp (db_rel R)" "transp R \<Longrightarrow> transp (db_rel R)"
  unfolding db_rel_def by (auto intro!: reflpI transpI dest: reflpD transpD)

lemma keeps_on_db: "keeps R m \<Longrightarrow> keeps (db_rel R) (on_db m)"
  unfolding keeps_def tx_zoom_def db_rel_def by (auto split: prod.splits)

lemma keeps_elsewhere:
  "reflp R \<Longrightarrow> keeps (db_rel R) (on_runtime m)" "reflp R \<Longrightarrow> keeps (db_rel R) (tx_zoom metrics_of set_metrics k)"
  unfolding keeps_def tx_zoom_def db_rel_def by (auto simp: set_metrics_def split: prod.splits dest: reflpD)

text \<open>What the server acknowledges with a frame\<close>

definition acknowledges :: "'core ClientEnv \<Rightarrow> Event \<Rightarrow> string \<Rightarrow> nat \<Rightarrow> string \<Rightarrow> bool" where
  "acknowledges env ev bootID sequence hash \<longleftrightarrow>
     (\<exists>raw envelope ack. ev = Frame True raw \<and> DecodeEnvelope (ce_decode_envelope env) raw = Inr envelope \<and>
        en_Type envelope = TypeTrafficAck \<and> DecodePayload (ce_decode_traffic_ack env) envelope = Inr ack \<and>
        ta_Status ack \<in> {''accepted'', ''already_accepted''} \<and>
        bootID = ta_BootID ack \<and> sequence = ta_Sequence ack \<and> hash = ta_PayloadSHA256 ack)"

definition allowed :: "'core ClientEnv \<Rightarrow> (string \<Rightarrow> nat \<Rightarrow> string \<Rightarrow> bool) \<Rightarrow> Event list \<Rightarrow> bool" where
  "allowed env ok evs \<longleftrightarrow> (\<forall>ev \<in> set evs. \<forall>b s h. acknowledges env ev b s h \<longrightarrow> ok b s h)"

lemma allowed_Cons: "allowed env ok (ev # evs) \<longleftrightarrow> (\<forall>b s h. acknowledges env ev b s h \<longrightarrow> ok b s h) \<and> allowed env ok evs"
  by (auto simp: allowed_def)

locale store_frame =
  fixes env :: "'core ClientEnv"
    and R :: "Db \<Rightarrow> Db \<Rightarrow> bool"
    and may_acknowledge :: "string \<Rightarrow> nat \<Rightarrow> string \<Rightarrow> bool"
  assumes order: "reflp R" "transp R"
    and configs: "keeps R (SaveDesiredConfig (ce_codecs env) now msg)" "keeps R (MarkConfigApplied now v h)"
    and users: "keeps R (ReplaceUsers snap)"
    and traffic: "keeps R (AddTrafficWindow ds a b)" "keeps R (DrainTraffic (ce_codecs env) now boot cv)"
    and access: "keeps R (AddAccess items)" "keeps R (DrainAccess (ce_codecs env) now boot cv)" "keeps R (AcknowledgeAccess boot s h)"
    and acknowledged: "may_acknowledge boot s h \<Longrightarrow> keeps R (AcknowledgeTraffic boot s h)"
begin

lemma queries:
  "keeps R RuntimeStateQuery" "keeps R (PendingTraffic E n)" "keeps R (PendingAccess E n)" "keeps R PendingTrafficStats"
  "keeps R PendingAccessStats"
  unfolding RuntimeStateQuery_def PendingTraffic_def PendingAccess_def PendingTrafficStats_def PendingAccessStats_def
  by (auto intro!: keeps_rules order reflpD [OF order(1)])

lemmas frame_rules = keeps_bind keeps_attempt keeps_iter keeps_pure keeps_if keeps_memory keeps_elsewhere keeps_on_db
  db_rel_order order configs users traffic access queries

lemma keeps_local: "(\<And>w. cw_db (f w) = cw_db w) \<Longrightarrow> keeps (db_rel R) (tx_modify f)"
  "(\<And>w x w'. g w = Inr (x, w') \<Longrightarrow> cw_db w' = cw_db w) \<Longrightarrow> keeps (db_rel R) (stmt g)"
  using order(1) by (auto intro!: keeps_memory(2) keeps_stmt db_rel_order simp: db_rel_def dest: reflpD)

lemma keeps_send: "keeps (db_rel R) (send env ty p)"
  unfolding send_def by (intro frame_rules keeps_local) auto

lemma keeps_pending: "keeps (db_rel R) (sendPendingTraffic env)" "keeps (db_rel R) (sendPendingAccess env)"
  unfolding sendPendingTraffic_def sendPendingAccess_def by (intro frame_rules keeps_send)+

lemma keeps_config: "keeps (db_rel R) (applyDesiredConfig env c envelope)"
  unfolding applyDesiredConfig_def install_desired_config_def send_config_result_def
  by (auto intro!: frame_rules keeps_send split: option.splits sum.splits)

lemma keeps_secrets: "keeps (db_rel R) (applySecretEnvelope env c envelope)"
  unfolding applySecretEnvelope_def store_material_def put_secret_def
  by (auto intro!: frame_rules split: option.splits)

lemma keeps_users: "keeps (db_rel R) (applyUserSnapshot env envelope)" "keeps (db_rel R) (applyUserDisconnect env envelope)"
proof -
  have "keeps (db_rel R) (store_user_secrets env rv us)" for rv us
    by (induction us) (auto intro!: frame_rules simp: put_secret_def)
  then show "keeps (db_rel R) (applyUserSnapshot env envelope)"
    unfolding applyUserSnapshot_def send_user_result_def by (auto intro!: frame_rules keeps_send split: sum.splits)
  show "keeps (db_rel R) (applyUserDisconnect env envelope)"
    unfolding applyUserDisconnect_def send_user_result_def by (auto intro!: frame_rules keeps_send split: sum.splits)
qed

lemma keeps_reports: "keeps (db_rel R) (collectAndSendTraffic env c)" "keeps (db_rel R) (collectAndSendAccess env c)"
  "keeps (db_rel R) (collectAndSendOnline env)" "keeps (db_rel R) (heartbeat env sid)"
  unfolding collectAndSendTraffic_def collectAndSendAccess_def collectAndSendOnline_def heartbeat_def Let_def
  by (auto intro!: frame_rules keeps_send keeps_pending keeps_local split: sum.splits)

lemma keeps_maintenance: "keeps (db_rel R) (check_update env c)" "keeps (db_rel R) (take_result env c)"
  "keeps (db_rel R) (run_command_message env c envelope)" "keeps (db_rel R) (sendSessionError e)" "keeps (db_rel R) take_session_error"
  unfolding check_update_def take_result_def run_command_message_def sendSessionError_def take_session_error_def
  by (auto intro!: frame_rules keeps_send keeps_local split: sum.splits option.splits list.splits)

lemma keeps_tick: "keeps (db_rel R) (run_tick env c sid t)"
  by (cases t) (auto intro!: frame_rules keeps_reports keeps_maintenance keeps_local simp: or_session_error_def ping_def split: sum.splits)

lemma keeps_receive:
  assumes "\<And>b s h. acknowledges env (Frame isText raw) b s h \<Longrightarrow> may_acknowledge b s h"
  shows "keeps (db_rel R) (receive env c isText raw)"
proof -
  have ack: "keeps (db_rel R) (acknowledge_traffic env envelope)"
    if "isText" "DecodeEnvelope (ce_decode_envelope env) raw = Inr envelope" "en_Type envelope = TypeTrafficAck" for envelope
  proof (cases "DecodePayload (ce_decode_traffic_ack env) envelope")
    case (Inl e)
    then have "acknowledge_traffic env envelope = tx_lift (Inl e)" by (simp add: acknowledge_traffic_def)
    then show ?thesis by (auto intro!: frame_rules)
  next
    case (Inr ack)
    have "ta_Status ack \<in> {''accepted'', ''already_accepted''} \<Longrightarrow>
        may_acknowledge (ta_BootID ack) (ta_Sequence ack) (ta_PayloadSHA256 ack)"
      by (rule assms) (use that Inr in \<open>auto simp: acknowledges_def\<close>)
    with Inr show ?thesis unfolding acknowledge_traffic_def by (auto intro!: frame_rules acknowledged)
  qed
  have "keeps (db_rel R) (dispatch env c envelope)"
    if "isText" "DecodeEnvelope (ce_decode_envelope env) raw = Inr envelope" for envelope
    using ack [OF that]
    unfolding dispatch_def only_warn_def acknowledge_access_def
    by (auto intro!: frame_rules keeps_config keeps_secrets keeps_users keeps_maintenance keeps_local)
  then show ?thesis unfolding receive_def
    by (cases "DecodeEnvelope (ce_decode_envelope env) raw") (auto intro!: frame_rules keeps_maintenance)
qed

lemma keeps_events:
  "allowed env may_acknowledge evs \<Longrightarrow> keeps (db_rel R) (run_events env c sid running evs)"
proof (induction evs arbitrary: running)
  case Nil
  then show ?case by (auto intro!: frame_rules)
next
  case (Cons ev evs)
  then have IH: "keeps (db_rel R) (run_events env c sid l evs)" for l by (simp add: allowed_Cons)
  show ?case
  proof (cases ev)
    case (Frame isText raw)
    have "keeps (db_rel R) (receive env c isText raw)" by (rule keeps_receive) (use Cons.prems Frame in \<open>auto simp: allowed_Cons\<close>)
    with IH Frame show ?thesis by (auto intro!: frame_rules)
  next
    case (ReadFailed e)
    then show ?thesis by (auto intro!: frame_rules)
  next
    case (Ticked t)
    with IH show ?thesis by (auto intro!: frame_rules keeps_tick)
  qed
qed

lemma keeps_session:
  assumes "allowed env may_acknowledge (ses_Events ses)"
  shows "keeps (db_rel R) (runSessionWithEstablished env c ses)"
  unfolding runSessionWithEstablished_def open_session_def tx_wrap_def
  by (auto intro!: frame_rules keeps_events assms keeps_send keeps_pending keeps_local split: sum.splits)

lemma keeps_sessions:
  "\<forall>ses \<in> set sessions. allowed env may_acknowledge (ses_Events ses) \<Longrightarrow> keeps (db_rel R) (client_sessions env c delay sessions)"
proof (induction sessions arbitrary: delay)
  case (Cons ses sessions)
  have "keeps (db_rel R) (runSessionWithEstablished env c ses)"
    by (rule keeps_session) (use Cons.prems in simp)
  with Cons show ?case by (auto intro!: frame_rules keeps_local split: prod.splits)
qed (auto intro!: frame_rules)

end

section \<open>The traffic log and the meta table\<close>

definition row_kept :: "WalRow \<Rightarrow> Db \<Rightarrow> Db \<Rightarrow> bool" where
  "row_kept row db db' \<longleftrightarrow> (row \<in> set (db_traffic_wal db) \<longrightarrow> row \<in> set (db_traffic_wal db'))"

definition meta_kept :: "Db \<Rightarrow> Db \<Rightarrow> bool" where
  "meta_kept db db' \<longleftrightarrow> (\<forall>k. db_meta db k \<noteq> None \<longrightarrow> db_meta db' k \<noteq> None)"

lemmas store_bodies = SaveDesiredConfig_def MarkConfigApplied_def ReplaceUsers_def insert_user_def runtimeStateTx_def
  AddTrafficWindow_def add_delta_def DrainTraffic_def store_traffic_batch_def AddAccess_def add_access_item_def
  DrainAccess_def store_access_batch_def AcknowledgeAccess_def AcknowledgeTraffic_def insert_config_def insert_wal_def
  meta_update_def prune_configs_def pruneAccessWALTx_def

lemma row_kept_order [simp]: "reflp (row_kept row)" "transp (row_kept row)"
  by (auto simp: row_kept_def intro!: reflpI transpI)

lemma row_keptI: "(row \<in> set (db_traffic_wal db) \<Longrightarrow> row \<in> set (db_traffic_wal db')) \<Longrightarrow> row_kept row db db'"
  by (simp add: row_kept_def)

lemma meta_kept_order [simp]: "reflp meta_kept" "transp meta_kept"
  by (auto simp: meta_kept_def intro!: reflpI transpI)

lemma meta_keptI: "(\<And>k. db_meta db k \<noteq> None \<Longrightarrow> db_meta db' k \<noteq> None) \<Longrightarrow> meta_kept db db'"
  by (simp add: meta_kept_def)

lemma keeps_prune_bytes [keeps_rules]: "keeps (row_kept row) (prune_bytes m n b)" "keeps meta_kept (prune_bytes m n b)"
  by (induction m n b rule: prune_bytes.induct)
     (auto intro!: keeps_rules row_keptI meta_keptI split: list.splits)

interpretation traffic_rows: store_frame env "row_kept row" "\<lambda>b s h. \<not> wal_matches b s h row" for env :: "'core ClientEnv" and row
proof
  fix now msg v h snap ds a b boot cv items s
  show "keeps (row_kept row) (SaveDesiredConfig (ce_codecs env) now msg)" "keeps (row_kept row) (MarkConfigApplied now v h)"
    "keeps (row_kept row) (ReplaceUsers snap)" "keeps (row_kept row) (AddTrafficWindow ds a b)"
    "keeps (row_kept row) (DrainTraffic (ce_codecs env) now boot cv)" "keeps (row_kept row) (AddAccess items)"
    "keeps (row_kept row) (DrainAccess (ce_codecs env) now boot cv)" "keeps (row_kept row) (AcknowledgeAccess boot s h)"
    unfolding store_bodies
    by (auto intro!: keeps_rules row_keptI simp: Let_def bind_result_def split: option.splits if_splits prod.splits sum.splits)
  show "keeps (row_kept row) (AcknowledgeTraffic boot s h)" if "\<not> wal_matches boot s h row"
    using that unfolding store_bodies by (auto intro!: keeps_rules row_keptI)
qed simp_all

interpretation meta_keys: store_frame env meta_kept "\<lambda>b s h. True" for env :: "'core ClientEnv"
proof
  fix now msg v h snap ds a b boot cv items s
  show "keeps meta_kept (SaveDesiredConfig (ce_codecs env) now msg)" "keeps meta_kept (MarkConfigApplied now v h)"
    "keeps meta_kept (ReplaceUsers snap)" "keeps meta_kept (AddTrafficWindow ds a b)"
    "keeps meta_kept (DrainTraffic (ce_codecs env) now boot cv)" "keeps meta_kept (AddAccess items)"
    "keeps meta_kept (DrainAccess (ce_codecs env) now boot cv)" "keeps meta_kept (AcknowledgeAccess boot s h)"
    "keeps meta_kept (AcknowledgeTraffic boot s h)"
    unfolding store_bodies
    by (auto intro!: keeps_rules meta_keptI simp: Let_def bind_result_def split: option.splits if_splits prod.splits sum.splits)
qed simp_all

section \<open>The invariant of the runtime\<close>

text \<open>Steps after which the runtime is as sound as before, on every outcome\<close>

definition steady :: "'core ClientEnv \<Rightarrow> ('core, 'x) ct \<Rightarrow> bool" where
  "steady env m \<longleftrightarrow> triple (runtime_ready env) m (\<lambda>_. runtime_ready env) (\<lambda>_. runtime_ready env)"

named_theorems steady_rules \<open>steps that keep the runtime sound\<close>

lemma steady_bind [steady_rules]: "steady env m \<Longrightarrow> (\<And>x. steady env (k x)) \<Longrightarrow> steady env (tx_bind m k)"
  unfolding steady_def by (rule triple_bind)

lemma steady_attempt [steady_rules]: "steady env m \<Longrightarrow> steady env (tx_attempt m)"
  unfolding steady_def by (rule triple_attempt) (erule triple_weaken; simp)

lemma steady_if [steady_rules]: "steady env m \<Longrightarrow> steady env n \<Longrightarrow> steady env (if b then m else n)"
  by simp

lemma steady_tidy:
  assumes "tidy m" and "keeps (\<lambda>w w'. rt_of w' = rt_of w) m"
  shows "steady env m"
  unfolding steady_def
proof (rule tripleI)
  fix fs s r fs' s' assume *: "calm fs" "runtime_ready env s" "m (fs, s) = (r, fs', s')"
  have "rt_of s' = rt_of s" using assms(2) *(3) by (rule keepsD)
  with *(2) tidy_calm [OF assms(1) *(3,1)]
  show "calm fs' \<and> (case r of Inr x \<Rightarrow> runtime_ready env s' | Inl e \<Rightarrow> runtime_ready env s')"
    by (cases r) (simp_all add: runtime_ready_def)
qed

lemma same_runtime [simp]: "reflp (\<lambda>w w'. rt_of w' = rt_of w)" "transp (\<lambda>w w'. rt_of w' = rt_of w)"
  by (auto intro!: reflpI transpI)

lemma steady_elsewhere [steady_rules]:
  "steady env (tx_return x)" "steady env (tx_lift r)" "steady env (tx_get g)"
  "(\<And>w. rt_of (f w) = rt_of w) \<Longrightarrow> steady env (tx_modify f)"
  "(\<And>w x w'. h w = Inr (x, w') \<Longrightarrow> rt_of w' = rt_of w) \<Longrightarrow> steady env (stmt h)"
  by (rule steady_tidy; auto intro!: tidy_rules keeps_rules)+

lemma steady_parts [steady_rules]:
  "tidy d \<Longrightarrow> steady env (on_db d)" "tidy f \<Longrightarrow> steady env (on_client_files f)"
  "tidy h \<Longrightarrow> steady env (tx_zoom metrics_of set_metrics h)"
  by (rule steady_tidy; auto intro!: tidy_rules simp: keeps_def tx_zoom_def set_metrics_def split: prod.splits)+

lemma steady_iter [steady_rules]: "(\<And>x. steady env (f x)) \<Longrightarrow> steady env (tx_iter f xs)"
  by (induction xs) (auto intro!: steady_rules)

text \<open>The calls of the runtime, from the transition system of its operations\<close>

lemma triple_undrop:
  assumes "triple P (drop_value m) (\<lambda>_. Q) E"
  shows "triple P m (\<lambda>_. Q) E"
proof (rule tripleI)
  fix fs s r fs' s' assume *: "calm fs" "P s" "m (fs, s) = (r, fs', s')"
  then have "drop_value m (fs, s) = (case r of Inl e \<Rightarrow> Inl e | Inr _ \<Rightarrow> Inr (), fs', s')"
    by (cases r) (simp_all add: drop_value_def tx_bind_def tx_return_def)
  from tripleD [OF assms *(1,2) this] show "calm fs' \<and> (case r of Inr x \<Rightarrow> Q s' | Inl e \<Rightarrow> E e s')" by (cases r) simp_all
qed

lemma steady_call:
  assumes "triple (\<lambda>s. rt_inv (rw_runtime s)) (run_call (ce_runtime env) cl) (\<lambda>_ s. rt_inv (rw_runtime s))
      (\<lambda>e s. rt_inv (rw_runtime s) \<and> X e s) \<Longrightarrow>
    triple (\<lambda>s. rt_inv (rw_runtime s)) m (\<lambda>_ s. rt_inv (rw_runtime s)) (\<lambda>e s. rt_inv (rw_runtime s) \<and> X e s)"
    and "X = (\<lambda>e s. is_panic e \<longrightarrow> requeue_overflow cl (rw_runtime s))"
  shows "steady env (on_runtime m)"
  unfolding steady_def
proof (rule tripleI)
  fix fs s r fs' s' assume *: "calm fs" "runtime_ready env s" "on_runtime m (fs, s) = (r, fs', s')"
  from zoom_run [OF *(3)] obtain a where m: "m (fs, cw_runtime s) = (r, fs', a)" and s': "s' = s\<lparr>cw_runtime := a\<rparr>" .
  have t: "triple (\<lambda>s. rt_inv (rw_runtime s)) m (\<lambda>_ s. rt_inv (rw_runtime s)) (\<lambda>e s. rt_inv (rw_runtime s) \<and> X e s)"
    using assms triple_run_call [of "ce_runtime env" cl] *(2) by (simp add: runtime_ready_def)
  from tripleD [OF t *(1) _ m] *(2) s'
  show "calm fs' \<and> (case r of Inr x \<Rightarrow> runtime_ready env s' | Inl e \<Rightarrow> runtime_ready env s')"
    by (cases r) (simp_all add: runtime_ready_def)
qed

lemma steady_runtime [steady_rules]:
  "steady env (on_runtime (ApplyConfig (ce_runtime env) d))" "steady env (on_runtime (ApplyUsers (ce_runtime env) us))"
  "steady env (on_runtime (DisconnectUsers (ce_runtime env) us))" "steady env (on_runtime (DisconnectSubscribers (ce_runtime env) ids))"
  "steady env (on_runtime (CollectTraffic (ce_runtime env)))" "steady env (on_runtime (CollectAccess (ce_runtime env)))"
  "steady env (on_runtime (RequeueAccess items))" "steady env (on_runtime (CollectOnline (ce_runtime env)))"
  "steady env (on_runtime RuntimeStatus)"
  by (rule steady_call [where cl = "CallApplyConfig d", OF _ refl], simp,
      rule steady_call [where cl = "CallApplyUsers us", OF _ refl], simp,
      rule steady_call [where cl = "CallDisconnectUsers us", OF _ refl], simp,
      rule steady_call [where cl = "CallDisconnectSubscribers ids", OF _ refl], simp,
      rule steady_call [where cl = "CallCollectTraffic", OF _ refl], simp add: triple_undrop,
      rule steady_call [where cl = "CallCollectAccess", OF _ refl], simp add: triple_undrop,
      rule steady_call [where cl = "CallRequeueAccess items", OF _ refl], simp,
      rule steady_call [where cl = "CallCollectOnline", OF _ refl], simp add: triple_undrop,
      rule steady_call [where cl = "CallStatus", OF _ refl], simp add: triple_undrop)

text \<open>Nothing else the session calls brings faults of its own.\<close>

lemma tidy_finally [tidy_rules]:
  assumes "tidy m" and "tidy c"
  shows "tidy (tx_finally m c)"
  unfolding tidy_def
proof (intro allI)
  fix fs s
  obtain r fs1 s1 where m: "m (fs, s) = (r, fs1, s1)" by (metis prod.exhaust)
  obtain n where n: "fs1 = drop n fs" by (rule tidyE [OF assms(1) m])
  obtain j where "fst (snd (c (fs1, s1))) = drop j fs1" using assms(2) unfolding tidy_def by blast
  with m n show "\<exists>n. fst (snd (tx_finally m c (fs, s))) = drop n fs" by (auto simp: tx_finally_def)
qed

lemma tidy_catch [tidy_rules]:
  assumes "tidy m" and "\<And>e. tidy (h e)"
  shows "tidy (tx_catch m h)"
  unfolding tidy_def
proof (intro allI)
  fix fs s
  obtain r fs1 s1 where m: "m (fs, s) = (r, fs1, s1)" by (metis prod.exhaust)
  obtain n where n: "fs1 = drop n fs" by (rule tidyE [OF assms(1) m])
  show "\<exists>n. fst (snd (tx_catch m h (fs, s))) = drop n fs"
  proof (cases r)
    case (Inl e)
    obtain j where "fst (snd (h e (fs1, s1))) = drop j fs1" using assms(2) unfolding tidy_def by blast
    with m n Inl show ?thesis by (auto simp: tx_catch_def)
  qed (use m n in \<open>auto simp: tx_catch_def\<close>)
qed

lemma tidy_queries [tidy_rules]:
  "tidy RuntimeStateQuery" "tidy (PendingTraffic E n)" "tidy (PendingAccess E n)" "tidy PendingTrafficStats" "tidy PendingAccessStats"
  unfolding RuntimeStateQuery_def PendingTraffic_def PendingAccess_def PendingTrafficStats_def PendingAccessStats_def
  by (auto intro!: tidy_rules)

lemma tidy_prune_bytes [tidy_rules]: "tidy (prune_bytes m n b)"
  by (induction m n b rule: prune_bytes.induct) (auto intro!: tidy_rules)

lemma tidy_logs [tidy_rules]:
  "tidy (AddTrafficWindow ds a b)" "tidy (DrainTraffic E now boot cv)" "tidy (AddAccess items)" "tidy (DrainAccess E now boot cv)"
  "tidy (AcknowledgeAccess boot s h)" "tidy (AcknowledgeTraffic boot s h)"
  unfolding AddTrafficWindow_def add_delta_def DrainTraffic_def store_traffic_batch_def AddAccess_def add_access_item_def
    DrainAccess_def store_access_batch_def AcknowledgeAccess_def AcknowledgeTraffic_def pruneAccessWALTx_def
  by (auto intro!: tidy_rules simp: Let_def split: option.splits prod.splits)

lemma tidy_replace_file [tidy_rules]: "tidy (replace_file tmp path raw mode)"
  unfolding replace_file_def write_temporary_def os_remove_def os_rename_def by (intro tidy_rules)

lemma tidy_secrets [tidy_rules]: "tidy (Put cr n tmp st ref v)"
  unfolding Put_def secret_atomicWrite_def by (auto intro!: tidy_rules)

lemma tidy_check [tidy_rules]: "tidy (CheckUpdate menv mc i)"
  unfolding CheckUpdate_def latestVersion_def latestVersionOnce_def Let_def by (auto intro!: tidy_rules split: sum.splits)

lemma tidy_completed [tidy_rules]: "tidy (CompletedResult menv mc)"
  unfolding CompletedResult_def by (auto intro!: tidy_rules split: option.splits sum.splits)

lemma tidy_maintenance [tidy_rules]: "tidy (HandleCommand menv mc msg)" "tidy (ClearCompletedResult menv mc i)"
  unfolding HandleCommand_def manager_ready_def os_stat_def writeRequest_def ClearCompletedResult_def remove_entry_def
    os_remove_def Let_def
  by (auto intro!: tidy_rules split: option.splits sum.splits)

lemma tidy_sample [tidy_rules]: "tidy (Sample ov now)"
  unfolding Sample_def read_proc_def Let_def by (auto intro!: tidy_rules split: sum.splits option.splits prod.splits)

lemma steady_send [steady_rules]: "steady env (send env ty p)"
  unfolding send_def by (auto intro!: steady_rules)

lemma steady_user_secrets [steady_rules]: "steady env (store_user_secrets env rv us)"
  by (induction us) (auto intro!: steady_rules tidy_rules simp: put_secret_def)

lemma steady_handlers [steady_rules]:
  "steady env (applySecretEnvelope env c envelope)" "steady env (applyDesiredConfig env c envelope)"
  "steady env (applyUserSnapshot env envelope)" "steady env (applyUserDisconnect env envelope)"
  "steady env (acknowledge_traffic env envelope)" "steady env (acknowledge_access env envelope)"
  "steady env (run_command_message env c envelope)"
  unfolding applySecretEnvelope_def store_material_def put_secret_def applyDesiredConfig_def install_desired_config_def
    send_config_result_def applyUserSnapshot_def send_user_result_def applyUserDisconnect_def acknowledge_traffic_def
    acknowledge_access_def run_command_message_def
  by (auto intro!: steady_rules tidy_rules split: option.splits sum.splits)

lemma steady_reports [steady_rules]:
  "steady env (sendPendingTraffic env)" "steady env (sendPendingAccess env)"
  "steady env (collectAndSendTraffic env c)" "steady env (collectAndSendAccess env c)"
  "steady env (collectAndSendOnline env)" "steady env (heartbeat env sid)"
  "steady env (check_update env c)" "steady env (take_result env c)" "steady env (sendSessionError e)"
  "steady env take_session_error"
  unfolding sendPendingTraffic_def sendPendingAccess_def collectAndSendTraffic_def collectAndSendAccess_def
    collectAndSendOnline_def heartbeat_def check_update_def take_result_def sendSessionError_def take_session_error_def Let_def
  by (auto intro!: steady_rules tidy_rules split: option.splits sum.splits prod.splits list.splits)

lemma steady_tick [steady_rules]: "steady env (run_tick env c sid t)"
  by (cases t) (auto intro!: steady_rules simp: or_session_error_def ping_def split: sum.splits)

lemma steady_receive [steady_rules]: "steady env (receive env c isText raw)"
  unfolding receive_def dispatch_def only_warn_def by (auto intro!: steady_rules)

lemma steady_events [steady_rules]: "steady env (run_events env c sid running evs)"
  by (induction env c sid running evs rule: run_events.induct) (auto intro!: steady_rules)

lemma steady_session [steady_rules]: "steady env (runSessionWithEstablished env c ses)"
  unfolding runSessionWithEstablished_def open_session_def tx_wrap_def
  by (auto intro!: steady_rules tidy_rules split: sum.splits)

lemma steady_sessions [steady_rules]: "steady env (client_sessions env c delay sessions)"
  by (induction sessions arbitrary: delay) (auto intro!: steady_rules split: prod.splits)

section \<open>Properties\<close>

text \<open>
  C4. A traffic batch is never lost: over any number of sessions, whatever frames arrive, however
  the background loops interleave with them and whatever call fails or panics, a row of the
  traffic log stays there until a frame acknowledges its boot id, sequence and digest as
  accepted.
\<close>

theorem unacknowledged_traffic_survives:
  assumes "RunClient env c sessions (fs, w) = (r, fs', w')"
    and "row \<in> set (db_traffic_wal (cw_db w))"
    and "\<forall>ses \<in> set sessions. \<forall>ev \<in> set (ses_Events ses).
      \<not> acknowledges env ev (wr_boot_id row) (wr_sequence row) (wr_payload_sha256 row)"
  shows "row \<in> set (db_traffic_wal (cw_db w'))"
proof -
  have "keeps (db_rel (row_kept row)) (RunClient env c sessions)"
    unfolding RunClient_def
    by (rule traffic_rows.keeps_sessions) (use assms(3) in \<open>auto simp: allowed_def wal_matches_def\<close>)
  from keepsD [OF this assms(1)] assms(2) show ?thesis by (simp add: db_rel_def row_kept_def)
qed

theorem unacknowledged_traffic_survives_witness:
  "\<exists>r fs w. RunClient example_client_env example_client [example_session, example_session] ([], example_pending_world) = (r, fs, w) \<and>
     example_wal_row 2 ''h2'' \<in> set (db_traffic_wal (cw_db w))"
proof -
  obtain r fs w where run: "RunClient example_client_env example_client [example_session, example_session] ([], example_pending_world) = (r, fs, w)"
    by (metis prod.exhaust)
  have "\<not> acknowledges example_client_env ev ''boot'' 2 h" for ev h
  proof
    assume "acknowledges example_client_env ev ''boot'' 2 h"
    then obtain raw envelope ack where e: "DecodeEnvelope (ce_decode_envelope example_client_env) raw = Inr envelope"
      and a: "DecodePayload (ce_decode_traffic_ack example_client_env) envelope = Inr ack" "ta_Sequence ack = 2"
      unfolding acknowledges_def by metis
    from e have "envelope = example_envelope TypeTrafficAck"
      by (auto simp: DecodeEnvelope_def decodeStrict_def example_client_env_def single_decode_def split: if_splits)
    with a example_decoded(4) [of TypeTrafficAck] have "ta_Sequence example_traffic_ack = 2" by simp
    then show False by (simp add: example_traffic_ack_def)
  qed
  then have "example_wal_row 2 ''h2'' \<in> set (db_traffic_wal (cw_db w))"
    by (intro unacknowledged_traffic_survives [OF run]) (auto simp: example_pending_world_def example_wal_row_def)
  with run show ?thesis by blast
qed

text \<open>
  C19. Sessions keep the agent sound: after any number of sessions, with any frames, any order of
  ticks and any failing calls, the runtime satisfies its invariant (a configuration in use was
  accepted by the validator, every user belongs to an enabled inbound of it, no core runs without
  one) and the rows of the meta table that record what was applied are still there.
\<close>

theorem sessions_keep_agent_sound:
  assumes "RunClient env c sessions (fs, w) = (r, fs', w')" and "calm fs" and "client_ready env w"
  shows "client_ready env w'"
proof -
  have "runtime_ready env w'"
    using tripleD [OF steady_sessions [unfolded steady_def] assms(2) _ assms(1) [unfolded RunClient_def]] assms(3)
    by (cases r) (simp_all add: client_ready_def)
  moreover have "keeps (db_rel meta_kept) (RunClient env c sessions)"
    unfolding RunClient_def by (rule meta_keys.keeps_sessions) (simp add: allowed_def)
  from keepsD [OF this assms(1)] have "meta_ready (cw_db w')"
    using assms(3) by (simp add: client_ready_def meta_ready_def db_rel_def meta_kept_def)
  ultimately show ?thesis by (simp add: client_ready_def)
qed

theorem sessions_keep_agent_sound_witness:
  "\<exists>r fs w. RunClient example_client_env example_client [example_session] ([], example_client_world example_world) = (r, fs, w) \<and>
     client_ready example_client_env w"
proof -
  obtain r fs w where run: "RunClient example_client_env example_client [example_session] ([], example_client_world example_world) = (r, fs, w)"
    by (metis prod.exhaust)
  with sessions_keep_agent_sound [OF run _ example_client_ready] show ?thesis by (auto simp: calm_def)
qed

section \<open>Opening a session\<close>

text \<open>Steps that only append messages with a property to the connection\<close>

definition only_sends :: "(Payload \<Rightarrow> bool) \<Rightarrow> 'core ClientWorld \<Rightarrow> 'core ClientWorld \<Rightarrow> bool" where
  "only_sends P w w' \<longleftrightarrow> (\<exists>msgs. w' = w\<lparr>cw_sent := cw_sent w @ msgs\<rparr> \<and> (\<forall>m \<in> set msgs. P (snd m)))"

lemma only_sends_order [simp]: "reflp (only_sends P)" "transp (only_sends P)"
proof (rule reflpI)
  fix w :: "'core ClientWorld" show "only_sends P w w" unfolding only_sends_def by (rule exI [of _ "[]"]) simp
next
  show "transp (only_sends P)"
  proof (rule transpI)
    fix u v w :: "'core ClientWorld" assume "only_sends P u v" "only_sends P v w"
    then obtain a b where "v = u\<lparr>cw_sent := cw_sent u @ a\<rparr>" "w = v\<lparr>cw_sent := cw_sent v @ b\<rparr>"
      "\<forall>m \<in> set a. P (snd m)" "\<forall>m \<in> set b. P (snd m)"
      unfolding only_sends_def by metis
    then show "only_sends P u w" unfolding only_sends_def by (intro exI [of _ "a @ b"]) auto
  qed
qed

lemma keeps_only_sends: "P p \<Longrightarrow> keeps (only_sends P) (send env ty p)"
  unfolding send_def by (intro keeps_rules) (auto simp: only_sends_def)

lemma keeps_sendPendingAccess: "keeps (only_sends (\<lambda>p. \<exists>b. p = PAccessBatch b)) (tx_attempt (sendPendingAccess env))"
  unfolding sendPendingAccess_def PendingAccess_def
  by (intro keeps_attempt keeps_bind keeps_iter keeps_only_sends only_sends_order)
     (auto simp: keeps_def tx_zoom_def tx_bind_def stmt_def tx_lift_def reflpD [OF only_sends_order(1)]
       split: option.splits prod.splits sum.splits)

lemma tx_ok_zoomE:
  assumes "tx_ok (tx_zoom get upd m) s x s'"
  obtains a where "tx_ok m (get s) x a" "s' = upd (\<lambda>_. a) s"
  using assms unfolding tx_ok_def by (metis zoom_run)

lemma keeps_wrapped: "keeps (\<lambda>a b. a = b) (tx_wrap label (stmt (\<lambda>w. Inr ((), w))))"
  unfolding tx_wrap_def by (auto intro!: keeps_rules reflpI transpI split: sum.splits)

lemma tx_ok_modify: "tx_ok (tx_modify f) s u s' \<longleftrightarrow> s' = f s"
  by (auto simp: tx_ok_def tx_modify_def)

lemma tx_ok_send: "tx_ok (send env ty p) w u w' \<Longrightarrow> \<exists>e. w' = w\<lparr>cw_sent := cw_sent w @ [(e, p)]\<rparr>"
  unfolding send_def by (elim tx_ok_bindE) (auto simp: store_simps)

lemma tx_ok_send_all:
  "tx_ok (tx_iter (\<lambda>b. send env ty (f b)) bs) w u w' \<Longrightarrow>
     \<exists>msgs. w' = w\<lparr>cw_sent := cw_sent w @ msgs\<rparr> \<and> map snd msgs = map f bs"
proof (induction bs arbitrary: w)
  case Nil
  then show ?case by (auto simp: store_simps)
next
  case (Cons b bs)
  then obtain v w1 where s: "tx_ok (send env ty (f b)) w v w1" and r: "tx_ok (tx_iter (\<lambda>b. send env ty (f b)) bs) w1 u w'"
    by (metis tx_ok_iter_ConsE)
  from tx_ok_send [OF s] obtain e where "w1 = w\<lparr>cw_sent := cw_sent w @ [(e, f b)]\<rparr>" ..
  moreover from Cons.IH [OF r] obtain msgs where "w' = w1\<lparr>cw_sent := cw_sent w1 @ msgs\<rparr>" "map snd msgs = map f bs" by blast
  ultimately show ?case by (intro exI [of _ "(e, f b) # msgs"]) simp
qed

definition stored_batches :: "Codecs \<Rightarrow> Db \<Rightarrow> TrafficBatch list result" where
  "stored_batches E db = scan_all (\<lambda>r. cd_traffic_unmarshal E (wr_payload_json r)) (take 100 (order_wal (db_traffic_wal db)))"

lemma tx_ok_sendPendingTraffic:
  assumes "tx_ok (sendPendingTraffic env) w u w'"
  obtains batches msgs where "stored_batches (ce_codecs env) (cw_db w) = Inr batches"
    "w' = w\<lparr>cw_sent := cw_sent w @ msgs\<rparr>" "map snd msgs = map PTrafficBatch batches"
proof -
  from assms obtain batches w1 where q: "tx_ok (on_db (PendingTraffic (ce_codecs env) 100)) w batches w1"
    and i: "tx_ok (tx_iter (\<lambda>b. send env TypeTrafficBatch (PTrafficBatch b)) batches) w1 u w'"
    unfolding sendPendingTraffic_def by (rule tx_ok_bindE)
  from q obtain a where a: "tx_ok (PendingTraffic (ce_codecs env) 100) (cw_db w) batches a" "w1 = w\<lparr>cw_db := a\<rparr>"
    by (rule tx_ok_zoomE)
  from a(1) have "stored_batches (ce_codecs env) (cw_db w) = Inr batches" "a = cw_db w"
    unfolding PendingTraffic_def stored_batches_def by (auto elim!: tx_ok_bindE simp: store_simps pending_limit_def)
  with a tx_ok_send_all [OF i] that show thesis by auto
qed

text \<open>
  C20. Opening a session resends what is pending: the hello states the configuration version, its
  digest and the user revision recorded in the store; after the acknowledgement, which has to
  name a session and the same protocol version, come the first hundred batches of the traffic
  log, oldest first, and then only access batches. Store and runtime stay as they are.
\<close>

theorem opening_session_resends_pending:
  assumes "open_session env c ack (fs, w) = (Inr sid, fs', w')"
  shows "sid \<noteq> [] \<and> (\<exists>envelope. ack = Inr envelope \<and> hello_ack_ok env envelope = Inr sid) \<and>
    cw_db w' = cw_db w \<and> cw_runtime w' = cw_runtime w \<and>
    (\<exists>hello batches rest. stored_batches (ce_codecs env) (cw_db w) = Inr batches \<and>
       map snd (cw_sent w') = map snd (cw_sent w) @ PHello hello # map PTrafficBatch batches @ rest \<and>
       (\<forall>p \<in> set rest. \<exists>b. p = PAccessBatch b) \<and>
       he_AppliedConfigVersion hello = rs_AppliedConfigVersion (rs_of w) \<and>
       he_AppliedConfigHash hello = rs_AppliedConfigHash (rs_of w) \<and>
       he_AppliedUserRevision hello = rs_AppliedUserRevision (rs_of w))"
proof -
  let ?hello = "\<lambda>rs. \<lparr>he_ProtocolVersion = ProtocolVersion, he_MachineID = id_MachineID (cn_identity c), he_BootID = cn_bootID c,
        he_AgentVersion = cfg_Version (cn_cfg c), he_AppliedConfigVersion = rs_AppliedConfigVersion rs,
        he_AppliedConfigHash = rs_AppliedConfigHash rs, he_AppliedUserRevision = rs_AppliedUserRevision rs\<rparr>"
  from assms have "tx_ok (open_session env c ack) w sid w'" by (rule tx_okI)
  then obtain rs w1 u2 w2 u3 w3 envelope w3' sid' w3'' u4 w4 x w5 u6 w6 where
      q: "tx_ok (on_db RuntimeStateQuery) w rs w1" and d: "tx_ok (tx_wrap ''dial control WSS'' (stmt (\<lambda>w. Inr ((), w)))) w1 u2 w2"
      and h: "tx_ok (send env TypeHello (PHello (?hello rs))) w2 u3 w3"
      and k: "tx_ok (tx_lift ack) w3 envelope w3'" "tx_ok (tx_lift (hello_ack_ok env envelope)) w3' sid' w3''"
      and t: "tx_ok (sendPendingTraffic env) w3'' u4 w4" and a: "tx_ok (tx_attempt (sendPendingAccess env)) w4 x w5"
      and m: "tx_ok (tx_modify (\<lambda>w. w\<lparr>cw_errCh := [], cw_secretVersions := [], cw_established := False\<rparr>)) w5 u6 w6"
      and e: "tx_ok (tx_return sid') w6 sid w'"
    unfolding open_session_def by (elim tx_ok_bindE) (rule that)
  from k m e have k: "ack = Inr envelope" "hello_ack_ok env envelope = Inr sid" "w3'' = w3"
    and w': "w' = w5\<lparr>cw_errCh := [], cw_secretVersions := [], cw_established := False\<rparr>"
    by (simp_all add: store_simps tx_ok_modify)
  from q have "rs = rs_of w" "w1 = w" by (auto elim!: tx_ok_zoomE simp: RuntimeStateQuery_def store_simps)
  moreover from keeps_ok [OF keeps_wrapped d] have "w2 = w1" by simp
  moreover from tx_ok_send [OF h] obtain e where "w3 = w2\<lparr>cw_sent := cw_sent w2 @ [(e, PHello (?hello rs))]\<rparr>" ..
  moreover from t obtain batches msgs where "stored_batches (ce_codecs env) (cw_db w3'') = Inr batches"
      "w4 = w3''\<lparr>cw_sent := cw_sent w3'' @ msgs\<rparr>" "map snd msgs = map PTrafficBatch batches"
    by (rule tx_ok_sendPendingTraffic)
  moreover from keeps_ok [OF keeps_sendPendingAccess a] obtain more_msgs where "w5 = w4\<lparr>cw_sent := cw_sent w4 @ more_msgs\<rparr>" "\<forall>m \<in> set more_msgs. \<exists>b. snd m = PAccessBatch b"
    unfolding only_sends_def by auto
  ultimately show ?thesis using k w'
    by (intro conjI exI [of _ "?hello rs"] exI [of _ batches] exI [of _ "map snd more_msgs"])
       (auto simp: hello_ack_ok_def split: if_splits sum.splits)
qed

lemma example_stored: "stored_batches (ce_codecs example_client_env) (cw_db example_pending_world) =
    Inr [traffic_batch_of ''boot'' 1 7 (1, 2) [], traffic_batch_of ''boot'' 2 7 (1, 2) []]"
proof -
  have "order_wal [example_wal_row 1 ''h1'', example_wal_row 2 ''h2''] = [example_wal_row 1 ''h1'', example_wal_row 2 ''h2'']"
    by (simp add: order_wal_def example_wal_row_def)
  then show ?thesis
    by (simp add: stored_batches_def example_pending_world_def example_client_env_def example_client_codecs_def example_codecs_def
      example_wal_row_def dec_enc_strs batch_of_fields_inverse)
qed

lemma example_send: "ty \<noteq> [] \<Longrightarrow> send example_client_env ty p ([], w) = (Inr (), [], w\<lparr>cw_sent := cw_sent w @
    [(\<lparr>en_ID = ''id'', en_ReplyTo = [], en_Type = ty, en_SentAt = 100, en_Payload = ''p''\<rparr>, p)]\<rparr>)"
  by (simp add: send_def tx_bind_def tx_get_def NewEnvelope_def example_client_env_def)

lemma pending_run:
  "stored_batches E db = Inr bs \<Longrightarrow> PendingTraffic E 100 ([], db) = (Inr bs, [], db)"
  "db_access_wal db = [] \<Longrightarrow> PendingAccess E 100 ([], db) = (Inr [], [], db)"
  by (simp_all add: PendingTraffic_def PendingAccess_def tx_bind_def pending_limit_def stored_batches_def order_wal_def)

lemma example_opens:
  "\<exists>w. open_session example_client_env example_client (Inr (example_envelope TypeHelloAck)) ([], example_pending_world) = (Inr ''s1'', [], w)"
proof -
  have "hello_ack_ok example_client_env (example_envelope TypeHelloAck) = Inr ''s1''"
    using example_decoded(3) [of TypeHelloAck]
    by (simp add: hello_ack_ok_def example_hello_ack_def ProtocolVersion_def) (simp add: example_envelope_def)
  moreover have "db_access_wal (cw_db example_pending_world) = []" by (simp add: example_pending_world_def empty_db_def)
  ultimately show ?thesis
    by (simp add: open_session_def tx_bind_def tx_zoom_def RuntimeStateQuery_def tx_wrap_def tx_attempt_def example_send TypeHello_def
      sendPendingTraffic_def sendPendingAccess_def pending_run example_stored TypeTrafficBatch_def tx_modify_def)
qed

theorem opening_session_resends_pending_witness:
  "\<exists>w hello rest. open_session example_client_env example_client (Inr (example_envelope TypeHelloAck)) ([], example_pending_world) = (Inr ''s1'', [], w) \<and>
     map snd (cw_sent w) = PHello hello # PTrafficBatch (traffic_batch_of ''boot'' 1 7 (1, 2) []) #
       PTrafficBatch (traffic_batch_of ''boot'' 2 7 (1, 2) []) # rest"
proof -
  from example_opens obtain w where
    run: "open_session example_client_env example_client (Inr (example_envelope TypeHelloAck)) ([], example_pending_world) = (Inr ''s1'', [], w)" ..
  have "cw_sent example_pending_world = []" by (simp add: example_pending_world_def example_client_world_def)
  with opening_session_resends_pending [OF run] run example_stored show ?thesis by auto
qed

end
