(* ===== verification/Config_History.thy ===== *)
theory Config_History
  imports Client_Session
begin

text \<open>
  The configuration history of the store across sessions: whatever the server sends and whatever
  fails, the configuration that is recorded as applied can be read back, with the version and
  digest that are recorded. This is what a restart relies on.
\<close>

section \<open>The invariant\<close>

definition row_of_config :: "Codecs \<Rightarrow> ConfigRow \<Rightarrow> bool" where
  "row_of_config E row \<longleftrightarrow> (\<exists>msg. cd_config_marshal E msg = Inr (cv_signed_json row) \<and>
     cv_version row = dc_Version (sg_Config msg) \<and> cv_sha256 row = sg_SHA256 msg)"

definition history_inv :: "Codecs \<Rightarrow> Db \<Rightarrow> bool" where
  "history_inv E db \<longleftrightarrow> meta_ready db \<and> list_all (row_of_config E) (db_config_revisions db) \<and>
     distinct (map cv_version (db_config_revisions db)) \<and> rs_AppliedConfigVersion (runtime_state_of db) \<le> max_int64 \<and>
     (rs_AppliedConfigVersion (runtime_state_of db) \<noteq> 0 \<longrightarrow>
        (\<exists>row \<in> set (db_config_revisions db). cv_version row = rs_AppliedConfigVersion (runtime_state_of db) \<and>
           cv_sha256 row = rs_AppliedConfigHash (runtime_state_of db) \<and> cv_status row = ''applied''))"

definition history_kept :: "Codecs \<Rightarrow> Db \<Rightarrow> Db \<Rightarrow> bool" where
  "history_kept E db db' \<longleftrightarrow> (history_inv E db \<longrightarrow> history_inv E db')"

text \<open>Operations on the other tables and on the other keys of the meta table\<close>

definition same_history :: "Db \<Rightarrow> Db \<Rightarrow> bool" where
  "same_history db db' \<longleftrightarrow> db_config_revisions db' = db_config_revisions db \<and>
     db_meta db' ''applied_config_version'' = db_meta db ''applied_config_version'' \<and>
     db_meta db' ''applied_config_hash'' = db_meta db ''applied_config_hash'' \<and> meta_kept db db'"

lemma history_kept_order [simp]: "reflp (history_kept E)" "transp (history_kept E)"
  by (auto simp: history_kept_def intro!: reflpI transpI)

lemma same_history_order [simp]: "reflp same_history" "transp same_history"
  by (auto simp: same_history_def meta_kept_def intro!: reflpI transpI)

lemma same_historyI:
  "db_config_revisions db' = db_config_revisions db \<Longrightarrow>
     (\<And>k. k = ''applied_config_version'' \<or> k = ''applied_config_hash'' \<Longrightarrow> db_meta db' k = db_meta db k) \<Longrightarrow>
     (\<And>k. db_meta db k \<noteq> None \<Longrightarrow> db_meta db' k \<noteq> None) \<Longrightarrow> same_history db db'"
  by (simp add: same_history_def meta_kept_def)

lemma same_history_inv:
  assumes "same_history db db'" and "history_inv E db"
  shows "history_inv E db'"
proof -
  have "rs_AppliedConfigVersion (runtime_state_of db') = rs_AppliedConfigVersion (runtime_state_of db)"
    "rs_AppliedConfigHash (runtime_state_of db') = rs_AppliedConfigHash (runtime_state_of db)"
    using assms(1) by (simp_all add: same_history_def runtime_state_of_def meta_text_def)
  with assms show ?thesis by (simp add: history_inv_def same_history_def meta_ready_def meta_kept_def)
qed

lemma same_history_kept: "keeps same_history m \<Longrightarrow> keeps (history_kept E) m"
  unfolding keeps_def history_kept_def using same_history_inv by blast

lemma keeps_same_prune [keeps_rules]: "keeps same_history (prune_bytes m n b)"
  by (induction m n b rule: prune_bytes.induct) (auto intro!: keeps_rules same_historyI split: list.splits)

lemma keeps_same_history:
  "keeps same_history (ReplaceUsers snap)" "keeps same_history (AddTrafficWindow ds a b)"
  "keeps same_history (DrainTraffic E now boot cv)" "keeps same_history (AddAccess items)"
  "keeps same_history (DrainAccess E now boot cv)" "keeps same_history (AcknowledgeAccess boot s h)"
  "keeps same_history (AcknowledgeTraffic boot s h)"
  unfolding store_bodies
  by (auto intro!: keeps_rules same_historyI simp: Let_def bind_result_def split: option.splits if_splits prod.splits sum.splits)

lemma keeps_atomic:
  assumes "atomic m" and "\<And>db x db'. tx_ok m db x db' \<Longrightarrow> R db db'" and "reflp R"
  shows "keeps R m"
  unfolding keeps_def
proof (intro allI impI)
  fix fs db r fs' db' assume run: "m (fs, db) = (r, fs', db')"
  from atomic_runD [OF assms(1) run] show "R db db'"
    by (auto intro: assms(2) reflpD [OF assms(3)])
qed

lemma history_save:
  assumes "tx_ok (SaveDesiredConfig E now msg) db b db'" and "history_inv E db"
  shows "history_inv E db'"
  using assms(1)
proof (cases rule: SaveDesiredConfig_okE)
  case (1 r)
  with assms(2) show ?thesis by simp
next
  case (2 raw)
  have "runtime_state_of db' = runtime_state_of db" by (rule runtime_state_of_meta) (simp add: 2)
  with 2 assms(2) show ?thesis
    by (auto simp: history_inv_def meta_ready_def received_row_def row_of_config_def)
qed

lemma history_mark:
  assumes "tx_ok (MarkConfigApplied now v h) db u db'" and "history_inv E db"
  shows "history_inv E db'"
proof -
  have m: "meta_ready db" using assms(2) by (simp add: history_inv_def)
  from assms(1) m obtain r where r: "filter (\<lambda>r. cv_version r = v \<and> cv_sha256 r = h) (db_config_revisions db) = [r]" "v \<le> max_int64"
    and d: "db' = marked_db now v h db \<or> prune_configs v (marked_db now v h db) = Inr ((), db')"
    by (auto simp: meta_ready_def elim!: MarkConfigApplied_okE)
  note s = tx_ok_MarkConfigApplied [OF assms(1) m]
  have "set (filter (\<lambda>r. cv_version r = v \<and> cv_sha256 r = h) (db_config_revisions db)) = {r}" using r by simp
  then have r': "r \<in> set (db_config_revisions db)" "cv_version r = v" "cv_sha256 r = h" by auto
  let ?rows = "map (mark_row now v h) (db_config_revisions db)"
  have rows: "db_config_revisions db' = ?rows \<or> db_config_revisions db' = filter (\<lambda>r. \<not> (cv_status r \<noteq> ''applied'' \<or> cv_version r < v)) ?rows"
    using d by (auto simp: marked_db_def prune_configs_def)
  have v: "map cv_version ?rows = map cv_version (db_config_revisions db)" by (simp add: mark_row_def)
  have all: "list_all (row_of_config E) ?rows" "distinct (map cv_version ?rows)"
    using assms(2) unfolding v by (auto simp: history_inv_def list.pred_set mark_row_def row_of_config_def)
  then have "list_all (row_of_config E) (db_config_revisions db')" "distinct (map cv_version (db_config_revisions db'))"
    using rows by (auto simp: list.pred_set distinct_map_filter)
  moreover have "mark_row now v h r \<in> set (db_config_revisions db')"
    using rows r' by (auto simp: mark_row_def)
  moreover have "cv_version (mark_row now v h r) = v" "cv_sha256 (mark_row now v h r) = h" "cv_status (mark_row now v h r) = ''applied''"
    using r' by (simp_all add: mark_row_def)
  ultimately show ?thesis using s r(2) by (auto simp: history_inv_def)
qed

interpretation config_history: store_frame env "history_kept (ce_codecs env)" "\<lambda>b s h. True" for env :: "'core ClientEnv"
proof
  fix now msg v h snap ds a b boot cv items s
  let ?R = "history_kept (ce_codecs env)"
  show "keeps ?R (SaveDesiredConfig (ce_codecs env) now msg)"
    by (rule keeps_atomic [OF store_operations_atomic(2)]) (auto simp: history_kept_def intro: history_save)
  show "keeps ?R (MarkConfigApplied now v h)"
    by (rule keeps_atomic [OF store_operations_atomic(3)]) (auto simp: history_kept_def intro: history_mark)
  show "keeps ?R (ReplaceUsers snap)" "keeps ?R (AddTrafficWindow ds a b)" "keeps ?R (DrainTraffic (ce_codecs env) now boot cv)"
    "keeps ?R (AddAccess items)" "keeps ?R (DrainAccess (ce_codecs env) now boot cv)" "keeps ?R (AcknowledgeAccess boot s h)"
    "keeps ?R (AcknowledgeTraffic boot s h)"
    by (intro same_history_kept keeps_same_history)+
qed simp_all

section \<open>Reading the applied configuration\<close>

lemma AppliedConfig_run:
  assumes "history_inv E db" and "codecs_inverse E"
  shows "if rs_AppliedConfigVersion (runtime_state_of db) = 0 then AppliedConfig E ([], db) = (Inl ErrNoRows, [], db)
    else \<exists>msg. AppliedConfig E ([], db) = (Inr msg, [], db) \<and> dc_Version (sg_Config msg) = rs_AppliedConfigVersion (runtime_state_of db) \<and>
      sg_SHA256 msg = rs_AppliedConfigHash (runtime_state_of db)"
proof (cases "rs_AppliedConfigVersion (runtime_state_of db) = 0")
  case True
  then show ?thesis by (simp add: AppliedConfig_def RuntimeStateQuery_def tx_bind_def)
next
  case False
  let ?v = "rs_AppliedConfigVersion (runtime_state_of db)"
  let ?P = "\<lambda>r. cv_version r = ?v \<and> cv_status r = ''applied''"
  from assms(1) False obtain row where row: "row \<in> set (db_config_revisions db)" "?P row" "cv_sha256 row = rs_AppliedConfigHash (runtime_state_of db)"
    by (auto simp: history_inv_def)
  then obtain r where r: "find ?P (db_config_revisions db) = Some r" by (cases "find ?P (db_config_revisions db)") (auto simp: find_None_iff)
  then have r': "r \<in> set (db_config_revisions db)" "?P r" by (auto simp: find_Some_iff)
  have "distinct (map cv_version (db_config_revisions db))" using assms(1) by (simp add: history_inv_def)
  with r' row have "r = row" by (auto simp: distinct_map inj_on_def)
  moreover from assms(1) r'(1) obtain msg where "cd_config_marshal E msg = Inr (cv_signed_json r)" "cv_version r = dc_Version (sg_Config msg)"
      "cv_sha256 r = sg_SHA256 msg" by (auto simp: history_inv_def list.pred_set row_of_config_def)
  moreover from this(1) assms(2) have "cd_config_unmarshal E (cv_signed_json r) = Inr msg" by (simp add: codecs_inverse_def)
  moreover have "sql_uint ?v = Inr ()" using assms(1) by (simp add: history_inv_def sql_uint_def)
  ultimately show ?thesis using False row r
    by (simp add: AppliedConfig_def RuntimeStateQuery_def tx_bind_def)
qed

text \<open>
  C18. The applied configuration can always be read back: after any number of sessions, with any
  frames, interleavings and faults, AppliedConfig answers that there is none exactly when version 0
  is recorded, and otherwise returns a configuration with the recorded version and digest. So
  marking and pruning of revisions never lose the one a restart needs.
\<close>

theorem applied_config_readable_after_sessions:
  assumes "RunClient env c sessions (fs, w) = (r, fs', w')" and "history_inv (ce_codecs env) (cw_db w)" and "codecs_inverse (ce_codecs env)"
  shows "if rs_AppliedConfigVersion (rs_of w') = 0
    then AppliedConfig (ce_codecs env) ([], cw_db w') = (Inl ErrNoRows, [], cw_db w')
    else \<exists>msg. AppliedConfig (ce_codecs env) ([], cw_db w') = (Inr msg, [], cw_db w') \<and>
      dc_Version (sg_Config msg) = rs_AppliedConfigVersion (rs_of w') \<and> sg_SHA256 msg = rs_AppliedConfigHash (rs_of w')"
proof -
  have "keeps (db_rel (history_kept (ce_codecs env))) (RunClient env c sessions)"
    unfolding RunClient_def by (rule config_history.keeps_sessions) (simp add: allowed_def)
  from keepsD [OF this assms(1)] assms(2) have "history_inv (ce_codecs env) (cw_db w')"
    by (simp add: db_rel_def history_kept_def)
  from AppliedConfig_run [OF this assms(3)] show ?thesis .
qed

lemma example_history: "history_inv (ce_codecs example_client_env) (cw_db (example_client_world rw))"
  using example_state
  by (simp add: history_inv_def example_client_world_def meta_ready_def example_meta) (simp add: empty_db_def)

lemma example_client_codecs_inverse: "codecs_inverse (ce_codecs example_client_env)"
  using example_codecs_inverse
  by (auto simp: codecs_inverse_def example_client_env_def example_client_codecs_def single_marshal_def split: if_splits)

theorem applied_config_readable_after_sessions_witness:
  "\<exists>r fs w. RunClient example_client_env example_client [example_session] ([], example_client_world example_world) = (r, fs, w) \<and>
     (rs_AppliedConfigVersion (rs_of w) = 0 \<longleftrightarrow> fst (AppliedConfig (ce_codecs example_client_env) ([], cw_db w)) = Inl ErrNoRows)"
proof -
  obtain r fs w where run: "RunClient example_client_env example_client [example_session] ([], example_client_world example_world) = (r, fs, w)"
    by (metis prod.exhaust)
  from applied_config_readable_after_sessions [OF run example_history example_client_codecs_inverse]
  have "rs_AppliedConfigVersion (rs_of w) = 0 \<longleftrightarrow> fst (AppliedConfig (ce_codecs example_client_env) ([], cw_db w)) = Inl ErrNoRows"
    by (auto split: if_splits)
  with run show ?thesis by (intro exI conjI)
qed

end
