(* ===== verification/Agent_Command.thy ===== *)
theory Agent_Command
  imports Config_History
begin

text \<open>
  The agent command: cmd/iepl-agent/main.go, with state.Open. The world is that of the client:
  the file system, the database and the runtime. What the process gets from outside (arguments,
  random values, the sessions of the client) is in the environment; the commands maintain and
  run go on with the manager and the client.
\<close>

section \<open>Stored state\<close>

abbreviation crypto_of :: "'core ClientEnv \<Rightarrow> Crypto" where
  "crypto_of env \<equiv> re_crypto (ce_runtime env)"

abbreviation secrets_of :: "'core ClientEnv \<Rightarrow> SecretStore" where
  "secrets_of env \<equiv> re_secrets (ce_runtime env)"

fun resolveStoredUsers :: "Crypto \<Rightarrow> SecretStore \<Rightarrow> UserCredential list \<Rightarrow> (fs, UserCredential list) tx" where
  "resolveStoredUsers cr st [] = tx_return []"
| "resolveStoredUsers cr st (user # users) =
     tx_bind (Resolve cr st (uc_Value user)) (\<lambda>plaintext.
     tx_bind (resolveStoredUsers cr st users) (\<lambda>resolved.
     tx_return (user\<lparr>uc_Value := plaintext\<rparr> # resolved)))"

text \<open>The checks that checkStoredState and restoreRuntime share\<close>

definition check_stored_config :: "'core ClientEnv \<Rightarrow> int \<Rightarrow> string \<Rightarrow> SignedConfig \<Rightarrow> go_error option" where
  "check_stored_config env agentNodeID signingKey msg =
     (if dc_AgentNodeID (sg_Config msg) \<noteq> agentNodeID then Some (Msg ''stored config belongs to another agent'')
      else VerifySignedConfig (crypto_of env) (ce_marshal_config env) msg signingKey)"

definition with_stored_config ::
  "'core ClientEnv \<Rightarrow> int \<Rightarrow> string \<Rightarrow> (SignedConfig \<Rightarrow> ('core, unit) ct) \<Rightarrow> ('core, unit) ct" where
  "with_stored_config env agentNodeID signingKey k =
     tx_bind (tx_attempt (on_db (AppliedConfig (ce_codecs env)))) (\<lambda>r.
     case r of
       Inl err \<Rightarrow> if error_is err ErrNoRows then tx_return () else tx_lift (Inl err)
     | Inr msg \<Rightarrow>
         (case check_stored_config env agentNodeID signingKey msg of
            Some e \<Rightarrow> tx_lift (Inl e)
          | None \<Rightarrow> k msg))"

definition checkStoredState :: "'core ClientEnv \<Rightarrow> int \<Rightarrow> string \<Rightarrow> ('core, unit) ct" where
  "checkStoredState env agentNodeID signingKey =
     with_stored_config env agentNodeID signingKey (\<lambda>msg.
     tx_bind (tx_iter (\<lambda>ref. drop_value (tx_wrap (''resolve '' @ ref) (on_client_files (Resolve (crypto_of env) (secrets_of env) ref))))
       (ReferencedSecretRefs (sg_Config msg))) (\<lambda>_.
     tx_bind (on_db Users) (\<lambda>users.
     drop_value (on_client_files (resolveStoredUsers (crypto_of env) (secrets_of env) users)))))"

definition restoreRuntime :: "'core ClientEnv \<Rightarrow> int \<Rightarrow> string \<Rightarrow> ('core, unit) ct" where
  "restoreRuntime env agentNodeID signingKey =
     with_stored_config env agentNodeID signingKey (\<lambda>msg.
     tx_bind (tx_wrap ''restore Xray config'' (on_runtime (ApplyConfig (ce_runtime env) (sg_Config msg)))) (\<lambda>_.
     tx_bind (on_db Users) (\<lambda>users.
     tx_bind (on_client_files (resolveStoredUsers (crypto_of env) (secrets_of env) users)) (\<lambda>resolved.
     tx_wrap ''restore Xray users'' (on_runtime (ApplyUsers (ce_runtime env) resolved))))))"

section \<open>Opening the store\<close>

definition pragmas :: "string list" where
  "pragmas = [''PRAGMA journal_mode=WAL'', ''PRAGMA synchronous=FULL'', ''PRAGMA foreign_keys=ON'', ''PRAGMA busy_timeout=5000'',
     ''PRAGMA wal_autocheckpoint=1000'']"

text \<open>sql.Open and os.Chmod change nothing of the model; like every call they may fail.\<close>

definition OpenState :: "string \<Rightarrow> ('core, unit) ct" where
  "OpenState path =
     tx_bind (on_client_files (os_mkdir_all (path_dir path))) (\<lambda>_.
     tx_bind (stmt (\<lambda>w. Inr ((), w))) (\<lambda>_.
     tx_bind (tx_iter (\<lambda>pragma. tx_wrap (''sqlite '' @ pragma) (stmt (\<lambda>w. Inr ((), w)))) pragmas) (\<lambda>_.
     tx_bind (on_db migrate) (\<lambda>_.
     stmt (\<lambda>w. Inr ((), w))))))"

section \<open>Commands\<close>

record AgentEnv =
  ag_parse_duration :: "string \<Rightarrow> int option"
  ag_parse_int :: "string \<Rightarrow> int option"
  ag_version :: string
  ag_identity :: IdentityEnv
  ag_tmp :: "string \<Rightarrow> string"
  ag_fresh_id :: string
  ag_key_pair :: "(string \<times> string) result"
  ag_fresh_key :: "string result"
  ag_boot_id :: string
  ag_sessions :: "Session list"

datatype AgentOutcome =
    PrintedVersion string
  | Enrolled Identity
  | Maintains Manager string
  | Checked
  | Served "int list"

text \<open>The runtime is restored, or what is recorded of it is reset so that the server sends everything again.\<close>

definition restore_or_reset :: "'core ClientEnv \<Rightarrow> int \<Rightarrow> string \<Rightarrow> ('core, unit) ct" where
  "restore_or_reset env agentNodeID signingKey =
     tx_bind (tx_attempt (restoreRuntime env agentNodeID signingKey)) (\<lambda>restored.
     case restored of
       Inr _ \<Rightarrow> tx_return ()
     | Inl _ \<Rightarrow> tx_wrap ''reset failed local runtime state'' (on_db ResetAppliedRuntime))"

definition new_runtime :: "('core, unit) ct" where
  "new_runtime = tx_modify (\<lambda>w. w\<lparr>cw_runtime := (cw_runtime w)\<lparr>rw_runtime := NewXray\<rparr>, cw_collector := NewCollector,
     cw_trafficWindowStartedAt := 0, cw_lastUpdateCheck := 0\<rparr>)"

definition serve :: "AgentEnv \<Rightarrow> 'core ClientEnv \<Rightarrow> Config \<Rightarrow> Identity \<Rightarrow> string \<Rightarrow> ('core, AgentOutcome) ct" where
  "serve ag env cfg ident signingKey =
     tx_bind new_runtime (\<lambda>_.
     tx_finally
       (tx_bind (restore_or_reset env (id_AgentNodeID ident) signingKey) (\<lambda>_.
        tx_bind (tx_lift (NewClient cfg ident signingKey (ag_boot_id ag))) (\<lambda>client.
        tx_bind (RunClient env client (ag_sessions ag)) (\<lambda>waits.
        tx_return (Served waits)))))
       (on_runtime (CloseRuntime (ce_runtime env))))"

definition with_secrets :: "SecretStore \<Rightarrow> 'core ClientEnv \<Rightarrow> 'core ClientEnv" where
  "with_secrets st env = env\<lparr>ce_runtime := (ce_runtime env)\<lparr>re_secrets := st\<rparr>\<rparr>"

definition run_agent :: "AgentEnv \<Rightarrow> 'core ClientEnv \<Rightarrow> string list \<Rightarrow> ('core, AgentOutcome) ct" where
  "run_agent ag env args =
     tx_bind (tx_lift (ParseConfig (ag_parse_duration ag) (ag_parse_int ag) args (ag_version ag))) (\<lambda>cfg.
     if cfg_Command cfg = ''version'' then tx_return (PrintedVersion (ag_version ag))
     else if cfg_Command cfg = ''enroll'' then
       tx_bind (on_client_files (Enroll (ag_identity ag) (ag_tmp ag) (ag_fresh_id ag) (ag_key_pair ag) (ce_now env) cfg)) (\<lambda>ident.
       tx_return (Enrolled ident))
     else
       tx_bind (tx_wrap ''load agent identity'' (on_client_files (LoadIdentity (ag_identity ag) cfg))) (\<lambda>(ident, certificate, signingKey).
       if cfg_Command cfg = ''maintain'' then
         tx_bind (tx_lift (NewManager cfg ident signingKey (ag_version ag))) (\<lambda>(manager, version).
         tx_return (Maintains manager version))
       else
         tx_bind (tx_wrap ''open agent state'' (OpenState (StateDBPath cfg))) (\<lambda>_.
         tx_bind (tx_wrap ''open agent secret store'' (on_client_files
           (OpenSecretStore (ag_fresh_key ag) (cfg_ConfigDir cfg) (cfg_RuntimeDir cfg)))) (\<lambda>st.
         if cfg_Command cfg = ''check''
         then tx_bind (checkStoredState (with_secrets st env) (id_AgentNodeID ident) signingKey) (\<lambda>_. tx_return Checked)
         else serve ag (with_secrets st env) cfg ident signingKey))))"

end
