(* ===== verification/Agent_Facts.thy ===== *)
theory Agent_Facts
  imports Agent_Command
begin

text \<open>
  Correctness of the agent command: what a start restores is what the store records, and a
  start that cannot restore it resets the record.
\<close>

section \<open>Reading the store under faults\<close>

text \<open>
  A failing database call is not a panic, and it is not sql.ErrNoRows, which Scan reports only
  for an empty result.
\<close>

definition db_faults :: "faults \<Rightarrow> bool" where
  "db_faults fs \<longleftrightarrow> (\<forall>e. Some e \<in> set fs \<longrightarrow> \<not> is_panic e \<and> \<not> error_is e ErrNoRows)"

lemma db_faults_calm: "db_faults fs \<Longrightarrow> calm fs"
  by (simp add: db_faults_def calm_def)

lemma db_faults_tl: "db_faults fs \<Longrightarrow> db_faults (tl fs)"
  by (cases fs) (auto simp: db_faults_def)

lemma db_faults_next: "db_faults fs \<Longrightarrow> next_fault fs = Some e \<Longrightarrow> \<not> is_panic e \<and> \<not> error_is e ErrNoRows"
  by (auto simp: db_faults_def next_fault_def split: list.splits)

definition is_applied :: "Codecs \<Rightarrow> Db \<Rightarrow> SignedConfig \<Rightarrow> bool" where
  "is_applied E db msg \<longleftrightarrow> rs_AppliedConfigVersion (runtime_state_of db) \<noteq> 0 \<and>
     dc_Version (sg_Config msg) = rs_AppliedConfigVersion (runtime_state_of db) \<and>
     sg_SHA256 msg = rs_AppliedConfigHash (runtime_state_of db)"

lemma AppliedConfig_faults:
  assumes run: "AppliedConfig E (fs, db) = (r, fs', db')" and "db_faults fs" and inv: "history_inv E db" and cod: "codecs_inverse E"
  shows "db' = db \<and> calm fs' \<and> (case r of Inr msg \<Rightarrow> is_applied E db msg
    | Inl e \<Rightarrow> \<not> is_panic e \<and> (error_is e ErrNoRows \<longrightarrow> rs_AppliedConfigVersion (runtime_state_of db) = 0))"
proof (cases "next_fault fs")
  case (Some e)
  with run db_faults_next [OF assms(2)] db_faults_calm [OF db_faults_tl [OF assms(2)]] show ?thesis
    by (auto simp: AppliedConfig_def RuntimeStateQuery_def tx_bind_def stmt_def tx_lift_def)
next
  case None
  let ?v = "rs_AppliedConfigVersion (runtime_state_of db)"
  note c = AppliedConfig_run [OF inv cod] and h = db_faults_tl [OF assms(2)]
  have s: "sql_uint ?v = Inr ()" using inv by (simp add: history_inv_def sql_uint_def)
  show ?thesis
  proof (cases "?v = 0")
    case True
    with run None h show ?thesis
      by (auto simp: AppliedConfig_def RuntimeStateQuery_def tx_bind_def stmt_def tx_lift_def db_faults_calm)
  next
    case False
    let ?row = "find (\<lambda>r. cv_version r = ?v \<and> cv_status r = ''applied'') (db_config_revisions db)"
    from c False s obtain row msg where row: "?row = Some row" "cd_config_unmarshal E (cv_signed_json row) = Inr msg"
      and m: "is_applied E db msg"
      by (auto simp: AppliedConfig_def RuntimeStateQuery_def tx_bind_def is_applied_def split: option.splits sum.splits)
    show ?thesis
    proof (cases "next_fault (tl fs)")
      case (Some e)
      with run None False s db_faults_next [OF h] db_faults_calm [OF db_faults_tl [OF h]] show ?thesis
        by (auto simp: AppliedConfig_def RuntimeStateQuery_def tx_bind_def stmt_def tx_lift_def)
    next
      case n: None
      with run None False s row(1) have "r = cd_config_unmarshal E (cv_signed_json row) \<and> fs' = tl (tl fs) \<and> db' = db"
        by (auto simp: AppliedConfig_def RuntimeStateQuery_def tx_bind_def stmt_def tx_lift_def)
      with row(2) m db_faults_calm [OF db_faults_tl [OF h]] show ?thesis by simp
    qed
  qed
qed

section \<open>Secret files\<close>

text \<open>
  The runtime writes temporary files and materialised certificates and keys. os.CreateTemp gives
  names nobody uses, and the materialised names end in .crt or .key, so the path of a sealed file,
  or of the temporary file that becomes one, is none of them.
\<close>

definition apart :: "'core RuntimeEnv \<Rightarrow> string \<Rightarrow> bool" where
  "apart env p \<longleftrightarrow> (\<forall>ref. secretRefPattern ref \<longrightarrow> re_tmp env ref \<noteq> p \<and>
     (\<forall>ext \<in> {''.crt'', ''.key''}. path_join (st_runtimeDir (re_secrets env)) (secretName (re_crypto env) ref @ ext) \<noteq> p))"

lemma keeps_secret_reads [keeps_rules]: "keeps (fs_agree p) (Resolve cr st ref)"
  unfolding Resolve_def by (auto intro!: keeps_rules split: option.splits)

lemma keeps_wrap [keeps_rules]: "reflp R \<Longrightarrow> transp R \<Longrightarrow> keeps R m \<Longrightarrow> keeps R (tx_wrap label m)"
  unfolding tx_wrap_def by (auto intro!: keeps_rules split: sum.splits)

lemma keeps_deref [keeps_rules]: "reflp R \<Longrightarrow> keeps R (deref o1)" "reflp R \<Longrightarrow> keeps R (first_of xs)"
  unfolding deref_def first_of_def by (auto intro!: keeps_rules split: option.splits list.splits)

lemma keeps_Materialize:
  assumes "apart env p" and "ext \<in> {''.crt'', ''.key''}"
  shows "keeps (fs_agree p) (Materialize (re_crypto env) (re_tmp env ref) (re_secrets env) ref ext mode)"
proof (cases "secretRefPattern ref")
  case False
  then have "Materialize (re_crypto env) (re_tmp env ref) (re_secrets env) ref ext mode = tx_lift (Inl (Msg ''secret reference is invalid''))"
    by (simp add: Materialize_def Resolve_def)
  then show ?thesis by (auto intro!: keeps_rules)
next
  case True
  with assms have "re_tmp env ref \<noteq> p"
    "path_join (st_runtimeDir (re_secrets env)) (secretName (re_crypto env) ref @ ext) \<noteq> p" by (auto simp: apart_def)
  with assms(2) show ?thesis unfolding Materialize_def secret_atomicWrite_def Let_def
    by (intro keeps_rules) auto
qed

lemma keeps_tls_fields: "apart env p \<Longrightarrow> keeps (fs_agree p) (tls_fields env t q)"
  unfolding tls_fields_def by (intro keeps_rules keeps_Materialize) simp_all

lemma keeps_reality_fields: "keeps (fs_agree p) (reality_fields env r q)"
  unfolding reality_fields_def by (auto intro!: keeps_rules split: prod.splits)

lemma keeps_security_fields: "apart env p \<Longrightarrow> keeps (fs_agree p) (security_fields env d ib q)"
  unfolding security_fields_def Let_def
  by (auto intro!: keeps_rules keeps_tls_fields keeps_reality_fields split: option.splits)

lemma keeps_protocol_fields: "keeps (fs_agree p) (protocol_fields env ib)"
  unfolding protocol_fields_def Let_def by (intro keeps_rules) simp_all

lemma keeps_node: "apart env p \<Longrightarrow> keeps (fs_agree p) (panelNodeForInbound env d ib)"
  unfolding panelNodeForInbound_def by (intro keeps_rules keeps_security_fields keeps_protocol_fields) simp_all

lemma keeps_buildNodes:
  assumes "apart env p"
  shows "keeps (fs_agree p) (buildNodes env d)"
proof -
  have "keeps (fs_agree p) (build_nodes env d ibs)" for ibs
    by (induction ibs) (auto intro!: keeps_rules keeps_node assms)
  then show ?thesis by (simp add: buildNodes_def)
qed

definition files_agree :: "string \<Rightarrow> 'core RuntimeWorld \<Rightarrow> 'core RuntimeWorld \<Rightarrow> bool" where
  "files_agree p w w' \<longleftrightarrow> fs_agree p (rw_files w) (rw_files w')"

lemma files_agree_order [simp]: "reflp (files_agree p)" "transp (files_agree p)"
  by (auto simp: files_agree_def fs_agree_def intro!: reflpI transpI)

lemma files_agree_same: "rw_files w' = rw_files w \<Longrightarrow> files_agree p w w'"
  by (simp add: files_agree_def fs_agree_def)

lemma keeps_agree_runtime [keeps_rules]:
  "keeps (fs_agree p) m \<Longrightarrow> keeps (files_agree p) (on_files m)"
  "keeps (files_agree p) (call_core r)"
  "keeps (files_agree p) (set_runtime g)"
  unfolding call_core_def files_agree_def
  by (auto simp: keeps_def tx_zoom_def stmt_def tx_modify_def fs_agree_def bind_result_def
      split: prod.splits option.splits sum.splits)

lemma keeps_agree_core [keeps_rules]:
  "keeps (files_agree p) (core_close env core)" "keeps (files_agree p) (close_active env core)"
  unfolding close_active_def core_close_def by (auto intro!: keeps_rules split: prod.splits)

lemma keeps_agree_give_up [keeps_rules]: "keeps (files_agree p) m \<Longrightarrow> keeps (files_agree p) (or_give_up env core m)"
  unfolding or_give_up_def give_up_def by (auto intro!: keeps_rules split: sum.splits)

lemma keeps_agree_start [keeps_rules]: "keeps (files_agree p) (startCore env nodes d us)"
proof -
  have "keeps (files_agree p) (add_nodes env g nodes core)" "keeps (files_agree p) (add_users env g nodes core)" for g nodes core
    by (induction nodes arbitrary: core) (auto intro!: keeps_rules simp: Let_def)
  then show ?thesis unfolding startCore_def by (intro keeps_rules) simp_all
qed

lemma keeps_agree_apply:
  assumes "apart env p"
  shows "keeps (files_agree p) (ApplyConfig env d)" "keeps (files_agree p) (ApplyUsers env us)" "keeps (files_agree p) (DisconnectUsers env us)"
proof -
  note rules = keeps_rules keeps_buildNodes [OF assms] keeps_node [OF assms]
  have r: "keeps (files_agree p) (restore_core env nodes c vs)" for nodes c vs
    unfolding restore_core_def by (intro rules) simp_all
  show "keeps (files_agree p) (ApplyConfig env d)"
    unfolding ApplyConfig_def swap_core_def install_config_def restore_previous_def
    by (auto intro!: rules r split: option.splits sum.splits)
  show "keeps (files_agree p) (ApplyUsers env us)"
    unfolding ApplyUsers_def swap_users_def install_users_def
    by (auto intro!: rules r split: option.splits sum.splits prod.splits)
  have "keeps (files_agree p) (disconnect_groups env c g ks e)" for c g ks e
    by (induction ks arbitrary: e) (auto intro!: rules simp: core_del_users_def split: sum.splits prod.splits)
  then show "keeps (files_agree p) (DisconnectUsers env us)"
    unfolding DisconnectUsers_def disconnectUsersLocked_def Let_def by (auto intro!: rules split: option.splits)
qed

section \<open>Restoring\<close>

lemma triple_wrap:
  assumes "triple P m Q (\<lambda>_. E)"
  shows "triple P (tx_wrap label m) Q (\<lambda>_. E)"
  unfolding tx_wrap_def
proof (rule triple_bind)
  show "triple P (tx_attempt m) (\<lambda>r s. case r of Inl _ \<Rightarrow> E s | Inr x \<Rightarrow> Q x s) (\<lambda>_. E)"
    by (rule triple_attempt, rule triple_weaken [OF assms]) auto
  show "triple (\<lambda>s. case r of Inl _ \<Rightarrow> E s | Inr x \<Rightarrow> Q x s) (case r of Inl e \<Rightarrow> tx_lift (Inl (Wrapped label e)) | Inr x \<Rightarrow> tx_return x)
      Q (\<lambda>_. E)" for r
    by (cases r) (auto intro!: triple_lift triple_return)
qed

lemma tx_ok_Resolve: "tx_ok (Resolve cr st ref) s v s' \<longleftrightarrow> s' = s \<and> secret_lookup cr st s ref = Some v"
  by (auto simp: secret_lookup_eq Resolve_def os_read_file_def store_simps split: option.splits if_splits elim!: tx_ok_bindE
      intro!: tx_okI [where fs = "[]"] simp: tx_bind_def)

definition resolves :: "(string \<rightharpoonup> string) \<Rightarrow> UserCredential \<Rightarrow> UserCredential \<Rightarrow> bool" where
  "resolves look row user \<longleftrightarrow> (\<exists>v. look (uc_Value row) = Some v \<and> user = row\<lparr>uc_Value := v\<rparr>)"

lemma tx_ok_resolveStoredUsers:
  "tx_ok (resolveStoredUsers cr st rows) s us s' \<Longrightarrow> s' = s \<and> list_all2 (resolves (secret_lookup cr st s)) rows us"
proof (induction rows arbitrary: us)
  case Nil
  then show ?case by (simp add: store_simps)
next
  case (Cons row rows)
  then obtain v s1 vs s2 where "tx_ok (Resolve cr st (uc_Value row)) s v s1" "tx_ok (resolveStoredUsers cr st rows) s1 vs s2"
    "tx_ok (tx_return (row\<lparr>uc_Value := v\<rparr> # vs)) s2 us s'"
    by (auto elim!: tx_ok_bindE)
  with Cons.IH [of vs] show ?case by (auto simp: tx_ok_Resolve store_simps resolves_def)
qed

lemma resolveStoredUsers_run:
  "list_all2 (resolves (secret_lookup cr st s)) rows us \<Longrightarrow> resolveStoredUsers cr st rows ([], s) = (Inr us, [], s)"
proof (induction rows arbitrary: us)
  case (Cons row rows)
  then obtain v vs where v: "secret_lookup cr st s (uc_Value row) = Some v" "us = row\<lparr>uc_Value := v\<rparr> # vs"
    "list_all2 (resolves (secret_lookup cr st s)) rows vs" unfolding list_all2_Cons1 resolves_def [of _ row] by blast
  then have "Resolve cr st (uc_Value row) ([], s) = (Inr v, [], s)"
    by (auto simp: secret_lookup_eq Resolve_def tx_bind_def os_read_file_def split: if_splits option.splits)
  with v Cons.IH show ?case by (simp add: tx_bind_def)
qed simp

lemma keeps_resolveStoredUsers: "keeps (\<lambda>a b. b = a) (resolveStoredUsers cr st us)"
proof -
  have o: "reflp (\<lambda>a b. b = a)" "transp (\<lambda>a b. b = a)" by (auto intro: reflpI transpI)
  show ?thesis
    by (induction us)
       (auto intro!: keeps_rules o simp: Resolve_def os_read_file_def split: option.splits if_splits)
qed

lemma tidy_resolveStoredUsers [tidy_rules]: "tidy (resolveStoredUsers cr st us)"
  by (induction us) (auto intro!: tidy_rules simp: Resolve_def split: option.splits)

text \<open>The users a restart resolves, from the rows of the store and the secret files\<close>

definition stored_rows :: "Db \<Rightarrow> UserCredential list" where
  "stored_rows db = map uw_credential (sort_key (\<lambda>r. (uc_InboundID (uw_credential r), uc_SubscriberID (uw_credential r))) (db_users db))"

definition stored_users :: "'core ClientEnv \<Rightarrow> 'core ClientWorld \<Rightarrow> UserCredential list \<Rightarrow> bool" where
  "stored_users env w us \<longleftrightarrow>
     list_all2 (resolves (secret_lookup (crypto_of env) (secrets_of env) (rw_files (cw_runtime w)))) (stored_rows (cw_db w)) us"

text \<open>The rows and the secret files determine the users.\<close>

lemma stored_users_unique: "stored_users env w us \<Longrightarrow> stored_users env w vs \<Longrightarrow> us = vs"
proof -
  have "list_all2 (resolves look) rows us \<Longrightarrow> list_all2 (resolves look) rows vs \<Longrightarrow> us = vs" for look rows
    by (induction rows arbitrary: us vs) (auto simp: list_all2_Cons1 resolves_def)
  then show "stored_users env w us \<Longrightarrow> stored_users env w vs \<Longrightarrow> us = vs" unfolding stored_users_def by blast
qed

definition restored :: "'core ClientEnv \<Rightarrow> SignedConfig \<Rightarrow> 'core ClientWorld \<Rightarrow> 'core ClientWorld \<Rightarrow> bool" where
  "restored env msg w0 w \<longleftrightarrow> cw_db w = cw_db w0 \<and> runtime_ready env w \<and> xr_config (rt_of w) = Some (sg_Config msg) \<and>
     xr_active (rt_of w) \<noteq> None \<and> stored_users env w0 (xr_users (rt_of w))"

definition restore_step :: "'core ClientEnv \<Rightarrow> SignedConfig \<Rightarrow> ('core, unit) ct" where
  "restore_step env msg =
     tx_bind (tx_wrap ''restore Xray config'' (on_runtime (ApplyConfig (ce_runtime env) (sg_Config msg)))) (\<lambda>_.
     tx_bind (on_db Users) (\<lambda>users.
     tx_bind (on_client_files (resolveStoredUsers (crypto_of env) (secrets_of env) users)) (\<lambda>resolved.
     tx_wrap ''restore Xray users'' (on_runtime (ApplyUsers (ce_runtime env) resolved)))))"

lemma triple_on_ApplyUsers:
  assumes "runtime_ready env w1"
  shows "triple (\<lambda>w. w = w1) (on_runtime (ApplyUsers (ce_runtime env) us))
    (\<lambda>_ w. \<exists>rt. w = w1\<lparr>cw_runtime := rt\<rparr> \<and> runtime_ready env w \<and> users_installed us (rt_of w1) (rt_of w))
    (\<lambda>e w. \<not> is_panic e \<and> (\<exists>rt. w = w1\<lparr>cw_runtime := rt\<rparr>) \<and> runtime_ready env w \<and> runtime_kept w1 w)"
proof (rule triple_zoom_at, rule triple_weaken [OF triple_ApplyUsers [of "ce_runtime env" "rt_of w1" us]])
  fix x and s :: "'a RuntimeWorld"
  assume "users_installed us (rt_of w1) (rw_runtime s)"
  then show "\<exists>rt. w1\<lparr>cw_runtime := s\<rparr> = w1\<lparr>cw_runtime := rt\<rparr> \<and> runtime_ready env (w1\<lparr>cw_runtime := s\<rparr>) \<and>
      users_installed us (rt_of w1) (rt_of (w1\<lparr>cw_runtime := s\<rparr>))"
    using assms rt_inv_users_installed by (auto simp: runtime_ready_def)
next
  fix e and s :: "'a RuntimeWorld"
  assume "\<not> is_panic e \<and> rt_kept (rt_of w1) (rw_runtime s)"
  then show "\<not> is_panic e \<and> (\<exists>rt. w1\<lparr>cw_runtime := s\<rparr> = w1\<lparr>cw_runtime := rt\<rparr>) \<and> runtime_ready env (w1\<lparr>cw_runtime := s\<rparr>) \<and>
      runtime_kept w1 (w1\<lparr>cw_runtime := s\<rparr>)"
    using assms rt_kept_inv by (auto simp: runtime_ready_def rt_kept_def runtime_kept_def)
qed (use assms in \<open>auto simp: runtime_ready_def\<close>)

lemma triple_query:
  assumes "tidy m" and "keeps (\<lambda>a b. b = a) m"
  shows "triple (\<lambda>s. s = s0) m (\<lambda>x s. s = s0 \<and> tx_ok m s0 x s0) (\<lambda>_ s. s = s0)"
proof (rule tripleI)
  fix fs s r fs' s' assume *: "calm fs" "s = s0" "m (fs, s) = (r, fs', s')"
  from keepsD [OF assms(2) *(3)] *(2) have "s' = s0" by simp
  with *(2,3) tidy_calm [OF assms(1) *(3,1)] show "calm fs' \<and> (case r of Inr x \<Rightarrow> s' = s0 \<and> tx_ok m s0 x s0 | Inl e \<Rightarrow> s' = s0)"
    by (cases r) (auto simp: tx_ok_def)
qed

lemma triple_keeping:
  assumes "triple (\<lambda>s. s = s0) m Q E" and "keeps R m"
  shows "triple (\<lambda>s. s = s0) m (\<lambda>x s. Q x s \<and> R s0 s) (\<lambda>e s. E e s \<and> R s0 s)"
proof (rule tripleI)
  fix fs s r fs' s' assume *: "calm fs" "s = s0" "m (fs, s) = (r, fs', s')"
  with tripleD [OF assms(1) *(1,2,3)] keepsD [OF assms(2) *(3)]
  show "calm fs' \<and> (case r of Inr x \<Rightarrow> Q x s' \<and> R s0 s' | Inl e \<Rightarrow> E e s' \<and> R s0 s')" by (cases r) simp_all
qed

definition secrets_apart :: "'core ClientEnv \<Rightarrow> bool" where
  "secrets_apart env \<longleftrightarrow> (\<forall>ref. apart (ce_runtime env) (durablePath (crypto_of env) (secrets_of env) ref))"

lemma keeps_secret_values:
  assumes "secrets_apart env" and "\<And>p. apart (ce_runtime env) p \<Longrightarrow> keeps (files_agree p) m"
  shows "keeps (\<lambda>w w'. secret_lookup (crypto_of env) (secrets_of env) (rw_files w') = secret_lookup (crypto_of env) (secrets_of env) (rw_files w)) m"
  unfolding keeps_def
proof (intro allI impI)
  fix fs w r fs' w' assume run: "m (fs, w) = (r, fs', w')"
  have "fs_lookup (rw_files w') (durablePath (crypto_of env) (secrets_of env) ref) =
      fs_lookup (rw_files w) (durablePath (crypto_of env) (secrets_of env) ref)" for ref
    using keepsD [OF assms(2) run] assms(1) by (simp add: secrets_apart_def files_agree_def fs_agree_def)
  then show "secret_lookup (crypto_of env) (secrets_of env) (rw_files w') = secret_lookup (crypto_of env) (secrets_of env) (rw_files w)"
    by (auto simp: secret_lookup_eq fun_eq_iff)
qed

abbreviation secret_values :: "'core ClientEnv \<Rightarrow> 'core ClientWorld \<Rightarrow> string \<rightharpoonup> string" where
  "secret_values env w \<equiv> secret_lookup (crypto_of env) (secrets_of env) (rw_files (cw_runtime w))"

lemma triple_restore_step:
  assumes "runtime_ready env w0" and "secrets_apart env"
  shows "triple (\<lambda>w. w = w0) (restore_step env msg) (\<lambda>_. restored env msg w0)
    (\<lambda>_ w. cw_db w = cw_db w0 \<and> runtime_ready env w)" (is "triple _ _ ?Q ?E")
proof -
  define A where "A = (\<lambda>w. cw_db w = cw_db w0 \<and> runtime_ready env w \<and> xr_config (rt_of w) = Some (sg_Config msg) \<and> xr_active (rt_of w) \<noteq> None \<and>
    secret_values env w = secret_values env w0)"
  have a: "triple (\<lambda>w. w = w0) (tx_wrap ''restore Xray config'' (on_runtime (ApplyConfig (ce_runtime env) (sg_Config msg)))) (\<lambda>_. A) ?E"
  proof (rule triple_wrap, rule triple_weaken [OF triple_keeping [OF triple_on_ApplyConfig [OF assms(1), of "sg_Config msg"]
        keeps_zoom [OF keeps_secret_values [OF assms(2) keeps_agree_apply(1)]]]])
    show "cw_runtime (cw_runtime_update (\<lambda>_. v) w) = v" for v and w :: "'a ClientWorld" by simp
  qed (auto simp: A_def)
  have b: "triple A (on_db Users) (\<lambda>rows w. A w \<and> rows = stored_rows (cw_db w0)) ?E"
  proof (rule triple_at)
    fix w1 assume w1: "A w1"
    show "triple (\<lambda>w. w = w1) (on_db Users) (\<lambda>rows w. A w \<and> rows = stored_rows (cw_db w0)) ?E"
      unfolding Users_def
      by (rule triple_zoom_at, rule triple_stmt) (use w1 in \<open>auto simp: A_def runtime_ready_def stored_rows_def\<close>)
  qed
  have c: "triple (\<lambda>w. A w \<and> rows = stored_rows (cw_db w0))
      (on_client_files (resolveStoredUsers (crypto_of env) (secrets_of env) rows))
      (\<lambda>us w. A w \<and> stored_users env w0 us) ?E" for rows
  proof (rule triple_at)
    fix w1 assume w1: "A w1 \<and> rows = stored_rows (cw_db w0)"
    show "triple (\<lambda>w. w = w1) (on_client_files (resolveStoredUsers (crypto_of env) (secrets_of env) rows))
      (\<lambda>us w. A w \<and> stored_users env w0 us) ?E"
      by (rule triple_zoom_at, rule triple_zoom_at, rule triple_weaken [OF triple_query [OF tidy_resolveStoredUsers keeps_resolveStoredUsers]])
         (use w1 in \<open>auto simp: A_def runtime_ready_def stored_users_def dest!: tx_ok_resolveStoredUsers\<close>)
  qed
  have d: "triple (\<lambda>w. A w \<and> stored_users env w0 us)
      (tx_wrap ''restore Xray users'' (on_runtime (ApplyUsers (ce_runtime env) us))) ?Q ?E" for us
  proof (rule triple_at)
    fix w1 assume w1: "A w1 \<and> stored_users env w0 us"
    then have ready: "runtime_ready env w1" by (simp add: A_def)
    show "triple (\<lambda>w. w = w1) (tx_wrap ''restore Xray users'' (on_runtime (ApplyUsers (ce_runtime env) us))) ?Q ?E"
      by (rule triple_wrap, rule triple_weaken [OF triple_on_ApplyUsers [OF ready]])
         (use w1 in \<open>auto simp: A_def restored_def users_installed_def\<close>)
  qed
  show ?thesis unfolding restore_step_def by (rule triple_bind [OF triple_bind [OF triple_bind [OF d c] b] a])
qed

section \<open>Starting\<close>

lemma restoreRuntime_step: "restoreRuntime env n key = with_stored_config env n key (restore_step env)"
  by (simp add: restoreRuntime_def restore_step_def [abs_def])

lemma with_stored_config_cases:
  assumes run: "with_stored_config env n key k (fs, w) = (r, fs', w')" and "db_faults fs"
    and "history_inv (ce_codecs env) (cw_db w)" and "codecs_inverse (ce_codecs env)"
  obtains (none) "r = Inr ()" "w' = w" "rs_AppliedConfigVersion (rs_of w) = 0" "calm fs'"
  | (failed) e where "r = Inl e" "\<not> is_panic e" "w' = w" "calm fs'"
  | (rejected) e msg where "r = Inl e" "w' = w" "calm fs'" "check_stored_config env n key msg = Some e"
  | (stored) msg fs1 where "k msg (fs1, w) = (r, fs', w')" "calm fs1" "is_applied (ce_codecs env) (cw_db w) msg"
      "check_stored_config env n key msg = None"
proof -
  obtain a fs1 db where q: "AppliedConfig (ce_codecs env) (fs, cw_db w) = (a, fs1, db)" by (metis prod.exhaust)
  note f = AppliedConfig_faults [OF q assms(2-4)]
  then have z: "tx_attempt (on_db (AppliedConfig (ce_codecs env))) (fs, w) = (Inr a, fs1, w)"
    using q by (cases a) (auto simp: tx_attempt_def tx_zoom_def split: go_error.splits)
  show thesis
  proof (cases a)
    case (Inl e)
    with run z have "(if error_is e ErrNoRows then tx_return () else tx_lift (Inl e)) (fs1, w) = (r, fs', w')"
      by (simp add: with_stored_config_def tx_bind_def)
    with Inl f that(1,2) show thesis by (auto simp: tx_return_def tx_lift_def split: if_splits)
  next
    case (Inr msg)
    with run z have "(case check_stored_config env n key msg of Some e \<Rightarrow> tx_lift (Inl e) | None \<Rightarrow> k msg) (fs1, w) = (r, fs', w')"
      by (simp add: with_stored_config_def tx_bind_def)
    with Inr f that(3,4) show thesis by (auto simp: tx_lift_def split: option.splits)
  qed
qed

lemma history_reset:
  assumes "history_inv E db"
  shows "history_inv E (reset_db db) \<and> runtime_state_of (reset_db db) =
    \<lparr>rs_AppliedConfigVersion = 0, rs_AppliedConfigHash = [], rs_AppliedUserRevision = 0\<rparr>"
proof -
  have "format_uint 0 = ''0''" by code_simp
  then have p: "parse_uint_ignore ''0'' = 0" by (metis parse_uint_ignore_format zero_less_numeral zero_less_power)
  then have s: "runtime_state_of (reset_db db) = \<lparr>rs_AppliedConfigVersion = 0, rs_AppliedConfigHash = [], rs_AppliedUserRevision = 0\<rparr>"
    by (simp add: runtime_state_of_def meta_text_def reset_db_def Let_def)
  have v: "map cv_version (map (reset_row x) rows) = map cv_version rows" for x rows by (simp add: reset_row_def)
  have "list_all (row_of_config E) (map (reset_row x) (db_config_revisions db))" for x
    using assms by (auto simp: history_inv_def list.pred_set reset_row_def row_of_config_def)
  then have "list_all (row_of_config E) (db_config_revisions (reset_db db))" "distinct (map cv_version (db_config_revisions (reset_db db)))"
    using assms unfolding reset_db_def Let_def by (auto simp: history_inv_def v simp del: map_map)
  moreover have "meta_ready (reset_db db)" by (simp add: meta_ready_def reset_db_def Let_def)
  ultimately show ?thesis using s by (simp add: history_inv_def)
qed

text \<open>How a start ends: nothing was recorded, what was recorded runs, or the record is reset\<close>

definition started :: "'core ClientEnv \<Rightarrow> int \<Rightarrow> string \<Rightarrow> 'core ClientWorld \<Rightarrow> 'core ClientWorld \<Rightarrow> bool" where
  "started env n key w0 w \<longleftrightarrow>
     w = w0 \<and> rs_AppliedConfigVersion (rs_of w0) = 0 \<or>
     (\<exists>msg. is_applied (ce_codecs env) (cw_db w) msg \<and> check_stored_config env n key msg = None \<and> restored env msg w0 w) \<or>
     cw_db w = reset_db (cw_db w0) \<and> rs_of w = \<lparr>rs_AppliedConfigVersion = 0, rs_AppliedConfigHash = [], rs_AppliedUserRevision = 0\<rparr>"

lemma tidy_reset [tidy_rules]: "tidy ResetAppliedRuntime"
  unfolding ResetAppliedRuntime_def runtimeStateTx_def by (auto intro!: tidy_rules)

lemma triple_reset:
  assumes "history_inv E (cw_db w1)" and "runtime_ready env w1"
  shows "triple (\<lambda>w. w = w1) (tx_wrap label (on_db ResetAppliedRuntime))
    (\<lambda>_ w. w = w1\<lparr>cw_db := reset_db (cw_db w1)\<rparr> \<and> runtime_ready env w) (\<lambda>_ _. True)"
proof (rule triple_wrap, rule triple_zoom_at, rule triple_weaken)
  show "triple (\<lambda>s. s = cw_db w1) ResetAppliedRuntime (\<lambda>_ s. s = reset_db (cw_db w1)) (\<lambda>_ _. True)"
    by (rule tripleI) (auto split: sum.splits dest: tidy_calm [OF tidy_reset] intro: ResetAppliedRuntime_ok tx_okI)
qed (use assms in \<open>auto simp: runtime_ready_def\<close>)

lemma restore_or_reset_cases:
  assumes run: "restore_or_reset env n key (fs, w) = (r, fs', w')"
  obtains e where "restoreRuntime env n key (fs, w) = (Inl e, fs', w')" "r = Inl e" "is_panic e"
  | "restoreRuntime env n key (fs, w) = (Inr (), fs', w')" "r = Inr ()"
  | e fs1 w1 where "restoreRuntime env n key (fs, w) = (Inl e, fs1, w1)"
      "tx_wrap ''reset failed local runtime state'' (on_db ResetAppliedRuntime) (fs1, w1) = (r, fs', w')"
  using run unfolding restore_or_reset_def
proof (cases rule: run_bind_cases)
  case (1 e)
  with attempt_run_panic [of "restoreRuntime env n key" fs w e fs' w'] that(1) show thesis by blast
next
  case (2 a c1)
  obtain fs1 w1 where c1: "c1 = (fs1, w1)" by (cases c1)
  have a: "restoreRuntime env n key (fs, w) = (a, fs1, w1)"
    using attempt_run [where m = "restoreRuntime env n key" and fs = fs and s = w and r = a and fs' = fs1 and s' = w1] 2(1) c1 by simp
  show thesis
  proof (cases a)
    case (Inl e)
    show thesis by (rule that(3)) (use a 2(2) c1 Inl in simp_all)
  next
    case (Inr u)
    with 2(2) c1 have "r = Inr ()" "fs' = fs1" "w' = w1" by (simp_all add: tx_return_def)
    with a Inr show thesis by (intro that(2)) simp_all
  qed
qed

text \<open>Without a recorded configuration nothing is restored, and what is recorded of the users stays.\<close>

lemma restore_without_config:
  assumes "history_inv (ce_codecs env) (cw_db w)" and "codecs_inverse (ce_codecs env)" and "rs_AppliedConfigVersion (rs_of w) = 0"
  shows "restore_or_reset env n key ([], w) = (Inr (), [], w)"
  using AppliedConfig_run [OF assms(1,2)] assms(3)
  by (simp add: restore_or_reset_def restoreRuntime_def with_stored_config_def tx_bind_def tx_attempt_def tx_zoom_def)

lemma new_runtime_ready:
  assumes "new_runtime (fs, w) = (r, fs', w')" and "core_sound (re_core (ce_runtime env))"
  shows "r = Inr () \<and> fs' = fs \<and> cw_db w' = cw_db w \<and> rw_files (cw_runtime w') = rw_files (cw_runtime w) \<and> runtime_ready env w'"
  using assms by (auto simp: new_runtime_def tx_modify_def runtime_ready_def rt_inv_def NewXray_def)

lemma restore_or_reset_started:
  assumes run: "restore_or_reset env n key (fs, w) = (Inr (), fs', w')" and "db_faults fs" and "runtime_ready env w"
    and "secrets_apart env" and "history_inv (ce_codecs env) (cw_db w)" and "codecs_inverse (ce_codecs env)"
  shows "started env n key w w' \<and> client_ready env w' \<and> history_inv (ce_codecs env) (cw_db w')"
proof -
  have c: "client_ready env v" if "history_inv (ce_codecs env) (cw_db v)" "runtime_ready env v" for v
    using that by (simp add: client_ready_def history_inv_def)
  have reset: "?thesis" if "calm fs1" "cw_db w1 = cw_db w" "runtime_ready env w1"
      "tx_wrap ''reset failed local runtime state'' (on_db ResetAppliedRuntime) (fs1, w1) = (Inr (), fs', w')" for fs1 w1
    using tripleD [OF triple_reset [of "ce_codecs env" w1 env] that(1) refl that(4)] that assms(5) history_reset [OF assms(5)] c [of w']
    by (auto simp: started_def)
  show ?thesis using run
  proof (cases rule: restore_or_reset_cases)
    case (2)
    from 2(1)[unfolded restoreRuntime_step] assms(2,5,6) show ?thesis
    proof (cases rule: with_stored_config_cases)
      case none
      with c [of w] assms show ?thesis by (simp add: started_def)
    next
      case (stored msg fs1)
      from tripleD [OF triple_restore_step [OF assms(3,4)] stored(2) refl stored(1)]
      have "restored env msg w w'" by simp
      with stored(3,4) assms(5) c [of w'] show ?thesis by (auto simp: started_def restored_def)
    qed auto
  next
    case (3 e fs1 w1)
    from 3(1)[unfolded restoreRuntime_step] assms(2,5,6) show ?thesis
    proof (cases rule: with_stored_config_cases)
      case (stored msg fs2)
      from tripleD [OF triple_restore_step [OF assms(3,4)] stored(2) refl stored(1)]
      have "calm fs1 \<and> cw_db w1 = cw_db w \<and> runtime_ready env w1" by simp
      with reset 3(2) show ?thesis by blast
    qed (use reset 3(2) assms(3) in auto)
  qed auto
qed

text \<open>
  C8. A started agent reports what it runs. When the restore of the local state returns, with any
  calls failing on the way, either no configuration was recorded and nothing happened; or the
  runtime runs the recorded configuration, which is signed for this node and verifies, with the
  stored users and their secrets; or the record was reset to version 0, no digest and revision 0,
  so that the hello asks for everything again. The invariants of the runtime and of the
  configuration history hold afterwards, so sessions can start.
\<close>

theorem started_agent_reports_what_it_runs:
  assumes "restore_or_reset env n key (fs, w) = (Inr (), fs', w')" and "db_faults fs" and "runtime_ready env w"
    and "secrets_apart env" and "history_inv (ce_codecs env) (cw_db w)" and "codecs_inverse (ce_codecs env)"
  shows "started env n key w w' \<and> client_ready env w' \<and> history_inv (ce_codecs env) (cw_db w')"
  using assms by (rule restore_or_reset_started)

lemma AppliedConfig_example:
  assumes "history_inv example_client_codecs db" and "rs_AppliedConfigVersion (runtime_state_of db) \<noteq> 0"
  shows "AppliedConfig example_client_codecs ([], db) = (Inr example_signed_config, [], db)"
proof -
  have c: "ce_codecs example_client_env = example_client_codecs" by (simp add: example_client_env_def)
  from AppliedConfig_run [OF assms(1) example_client_codecs_inverse [unfolded c]] assms(2)
  obtain msg where a: "AppliedConfig example_client_codecs ([], db) = (Inr msg, [], db)" by auto
  moreover have "cd_config_unmarshal example_client_codecs raw = Inr example_signed_config" for raw
    by (simp add: example_client_codecs_def)
  ultimately have "msg = example_signed_config"
    by (auto simp: AppliedConfig_def RuntimeStateQuery_def tx_bind_def split: option.splits sum.splits if_splits)
  with a show ?thesis by simp
qed

lemma example_stored_config_checked:
  "check_stored_config example_client_env 3 (replicate 32 CHR ''s'') example_signed_config = None"
proof -
  have "ce_marshal_config example_client_env = (\<lambda>_. Inr ''c'')" "crypto_of example_client_env = plain_crypto"
    by (simp_all add: example_client_env_def example_env_def)
  with example_verified show ?thesis
    by (simp add: check_stored_config_def) (simp add: example_signed_config_def example_vmess_config_def)
qed

lemma example_applied:
  obtains db where "tx_ok (MarkConfigApplied 100 7 (sg_SHA256 example_signed_config)) example_saved_db () db"
    "history_inv example_client_codecs db" "db_users db = []" "rs_AppliedUserRevision (runtime_state_of db) = 0"
    "AppliedConfig example_client_codecs ([], db) = (Inr example_signed_config, [], db)"
proof -
  from example_mark obtain db where m: "tx_ok (MarkConfigApplied 100 7 (sg_SHA256 example_signed_config)) example_saved_db () db"
    by (auto intro: tx_okI)
  have c: "ce_codecs example_client_env = example_client_codecs" by (simp add: example_client_env_def)
  have "history_inv example_client_codecs (empty_db\<lparr>db_meta := map_of schema_defaults\<rparr>)"
    using example_history [of example_world] by (simp add: c example_client_world_def)
  then have s: "history_inv example_client_codecs example_saved_db"
    by (rule history_save [rotated]) (rule tx_okI, rule example_save)
  have i: "history_inv example_client_codecs db" by (rule history_mark [OF m s])
  have r: "meta_ready example_saved_db" using s by (simp add: history_inv_def)
  then have u: "db_users db = []"
    using m by (auto simp: meta_ready_def marked_db_def prune_configs_def example_saved_db_def empty_db_def elim!: MarkConfigApplied_okE)
  have v: "rs_AppliedConfigVersion (runtime_state_of db) \<noteq> 0" using tx_ok_MarkConfigApplied(1) [OF m r] by simp
  have "runtime_state_of example_saved_db = runtime_state_of (empty_db\<lparr>db_meta := map_of schema_defaults\<rparr>)"
    by (rule runtime_state_of_meta) (simp add: example_saved_db_def)
  then have z: "rs_AppliedUserRevision (runtime_state_of db) = 0" using tx_ok_MarkConfigApplied(4) [OF m r] example_state by simp
  from AppliedConfig_example [OF i v] m i u z that show thesis by blast
qed

lemma example_secrets_apart: "secrets_apart example_client_env"
proof -
  have rt: "ce_runtime example_client_env = example_env" by (simp add: example_client_env_def)
  have d: "durablePath plain_crypto example_store ref = ''/etc/iepl-agent/secrets'' @ ''/'' @ secretName plain_crypto ref @ ''.enc''" for ref
    using durablePath_eq [of example_store plain_crypto ref] example_dirs by (simp add: example_store_def)
  have j: "path_join ''/run/iepl-agent/secrets'' (secretName plain_crypto ref @ ext) = ''/run/iepl-agent/secrets'' @ ''/'' @ secretName plain_crypto ref @ ext"
    if "ext \<in> {''.crt'', ''.key''}" for ref ext
    by (rule path_join_clean_dir [OF example_dirs(2) plain_secret_name]) (use that in blast)
  have s: "re_secrets example_env = example_store" "re_crypto example_env = plain_crypto" "st_runtimeDir example_store = ''/run/iepl-agent/secrets''"
    by (simp_all add: example_env_def example_store_def)
  have t: "secretRefPattern ref \<Longrightarrow> re_tmp example_env ref \<noteq> ''/etc/iepl-agent/secrets'' @ ''/'' @ secretName plain_crypto ref' @ ''.enc''" for ref ref'
    using temporary_not_durable [of example_store "''/etc/iepl-agent/secrets/.secret-1''" "''1''" plain_crypto ref'] d example_dirs
    by (auto simp: example_env_def example_store_def)
  show ?thesis unfolding secrets_apart_def apart_def rt s d using t j by auto
qed

theorem started_agent_reports_what_it_runs_witness:
  "\<exists>fs w w'. restore_or_reset example_client_env 3 (replicate 32 CHR ''s'') ([], w) = (Inr (), fs, w') \<and>
     rs_AppliedConfigVersion (rs_of w) = 7 \<and> started example_client_env 3 (replicate 32 CHR ''s'') w w'"
proof -
  from example_applied obtain db where db: "tx_ok (MarkConfigApplied 100 7 (sg_SHA256 example_signed_config)) example_saved_db () db"
    "history_inv example_client_codecs db" "db_users db = []" "rs_AppliedUserRevision (runtime_state_of db) = 0"
    "AppliedConfig example_client_codecs ([], db) = (Inr example_signed_config, [], db)" .
  define w where "w = (example_client_world example_world)\<lparr>cw_db := db\<rparr>"
  have e: "ce_codecs example_client_env = example_client_codecs" "ce_runtime example_client_env = example_env"
    "ce_marshal_config example_client_env = (\<lambda>_. Inr ''c'')" "re_crypto example_env = plain_crypto"
    by (simp_all add: example_client_env_def example_env_def)
  from example_apply_users [of "[]" "[]"] obtain rw where u: "ApplyUsers example_env [] ([], example_running) = (Inr (), [], rw)"
    by (auto simp: example_running_files)
  have "\<exists>w'. restore_or_reset example_client_env 3 (replicate 32 CHR ''s'') ([], w) = (Inr (), [], w')"
    by (simp add: restore_or_reset_def restoreRuntime_def with_stored_config_def tx_bind_def tx_attempt_def tx_zoom_def e w_def db
      example_client_world_def example_stored_config_checked tx_wrap_def example_version example_apply_config Users_def u)
  then obtain w' where run: "restore_or_reset example_client_env 3 (replicate 32 CHR ''s'') ([], w) = (Inr (), [], w')" ..
  have r: "runtime_ready example_client_env w"
    using example_client_ready by (simp add: client_ready_def runtime_ready_def w_def)
  have "meta_ready example_saved_db" by (simp add: meta_ready_def example_saved_db_def example_meta)
  then have v: "rs_AppliedConfigVersion (rs_of w) = 7" using tx_ok_MarkConfigApplied(1) [OF db(1)] by (simp add: w_def)
  have "started example_client_env 3 (replicate 32 CHR ''s'') w w'"
    using started_agent_reports_what_it_runs [OF run _ r example_secrets_apart _ example_client_codecs_inverse] db(2)
    by (simp add: db_faults_def e w_def)
  with run v show ?thesis by (intro exI conjI)
qed

end
