(* ===== verification/User_Facts.thy ===== *)
theory User_Facts
  imports Agent_Facts
begin

text \<open>
  User snapshots: what the client reports about one is so, and the users of a snapshot it
  acknowledged are what a restart resolves from the store and the secret files.
\<close>

section \<open>Parts\<close>

definition only_files :: "'core ClientWorld \<Rightarrow> 'core ClientWorld \<Rightarrow> bool" where
  "only_files w w' \<longleftrightarrow> (\<exists>s. w' = w\<lparr>cw_runtime := (cw_runtime w)\<lparr>rw_files := s\<rparr>\<rparr>)"

lemma only_filesI: "only_files w (w\<lparr>cw_runtime := (cw_runtime w)\<lparr>rw_files := s\<rparr>\<rparr>)"
  by (auto simp: only_files_def)

lemma only_files_trans: "only_files u v \<Longrightarrow> only_files v w \<Longrightarrow> only_files u w"
  by (auto simp: only_files_def)

lemma only_files_refl: "only_files w w"
  unfolding only_files_def by (rule exI [of _ "rw_files (cw_runtime w)"]) simp

definition stored_form :: "nat \<Rightarrow> UserCredential \<Rightarrow> UserCredential" where
  "stored_form rv u = u\<lparr>uc_Value := user_secret_ref rv u\<rparr>"

lemma triple_user_secrets:
  "triple (\<lambda>w. w = w1) (store_user_secrets env rv us) (\<lambda>stored w. only_files w1 w \<and> stored = map (stored_form rv) us) (\<lambda>_. only_files w1)"
proof (induction us arbitrary: w1)
  case Nil
  show ?case by (auto intro!: triple_return simp: only_files_refl)
next
  case (Cons u us)
  have p: "triple (\<lambda>w. w = w1) (put_secret env (user_secret_ref rv u) (uc_Value u)) (\<lambda>_. only_files w1) (\<lambda>_. only_files w1)"
  proof (rule tripleI)
    fix fs s r fs' s' assume *: "calm fs" "s = w1" "put_secret env (user_secret_ref rv u) (uc_Value u) (fs, s) = (r, fs', s')"
    have "tidy (put_secret env (user_secret_ref rv u) (uc_Value u))" unfolding put_secret_def by (intro tidy_rules)
    from tidy_calm [OF this *(3,1)] have "calm fs'" .
    moreover from *(2,3) have "only_files w1 s'" unfolding put_secret_def by (auto elim!: zoom_run intro: only_filesI)
    ultimately show "calm fs' \<and> (case r of Inr x \<Rightarrow> only_files w1 s' | Inl e \<Rightarrow> only_files w1 s')" by (cases r) simp_all
  qed
  have i: "triple (only_files w1) (store_user_secrets env rv us) (\<lambda>stored w. only_files w1 w \<and> stored = map (stored_form rv) us) (\<lambda>_. only_files w1)"
  proof (rule triple_at)
    fix w2 assume "only_files w1 w2"
    then show "triple (\<lambda>w. w = w2) (store_user_secrets env rv us) (\<lambda>stored w. only_files w1 w \<and> stored = map (stored_form rv) us) (\<lambda>_. only_files w1)"
      by (intro triple_weaken [OF Cons.IH [of w2]]) (auto intro: only_files_trans)
  qed
  show ?case unfolding store_user_secrets.simps
    by (rule triple_bind [OF triple_bind [OF _ i] p], rule triple_return) (simp add: stored_form_def)
qed

lemma triple_on_DisconnectUsers:
  assumes "runtime_ready env w1"
  shows "triple (\<lambda>w. w = w1) (on_runtime (DisconnectUsers (ce_runtime env) us))
    (\<lambda>_ w. (\<exists>rt. w = w1\<lparr>cw_runtime := rt\<rparr>) \<and> runtime_ready env w \<and> runtime_kept w1 w)
    (\<lambda>e w. \<not> is_panic e \<and> (\<exists>rt. w = w1\<lparr>cw_runtime := rt\<rparr>) \<and> runtime_ready env w \<and> runtime_kept w1 w)"
proof (rule triple_zoom_at, rule triple_weaken [OF xray.disconnect_users_law [of "ce_runtime env" "xr_config (rt_of w1)" "xr_users (rt_of w1)" us]])
qed (use assms in \<open>auto simp: runtime_ready_def runtime_kept_def\<close>)

definition users_recorded :: "UserSnapshot \<Rightarrow> Db \<Rightarrow> Db \<Rightarrow> bool" where
  "users_recorded s db db' \<longleftrightarrow>
     us_Revision s = rs_AppliedUserRevision (runtime_state_of db) \<and> db' = db \<or>
     rs_AppliedUserRevision (runtime_state_of db) < us_Revision s \<and>
     distinct (map (\<lambda>u. (uc_SubscriberID u, uc_InboundID u)) (us_Users s)) \<and>
     db' = db\<lparr>db_users := map (user_row (us_Revision s)) (map (stored_form (us_Revision s)) (us_Users s)),
       db_meta := (db_meta db)(''applied_user_revision'' \<mapsto> format_uint (us_Revision s))\<rparr>"

lemma tx_ok_ReplaceUsers:
  assumes "tx_ok (ReplaceUsers (s\<lparr>us_Users := map (stored_form (us_Revision s)) (us_Users s)\<rparr>)) db u db'"
  shows "users_recorded s db db'"
  using assms
proof (cases rule: ReplaceUsers_okE)
  case 2
  have "map (\<lambda>u. (uc_SubscriberID u, uc_InboundID u)) (map (stored_form r) us) = map (\<lambda>u. (uc_SubscriberID u, uc_InboundID u)) us" for r us
    by (simp add: stored_form_def)
  with 2 show ?thesis by (simp add: users_recorded_def snapshot_valid_def del: map_map)
qed (simp add: users_recorded_def)

lemma users_recorded_ready: "users_recorded s db db' \<Longrightarrow> meta_ready db \<Longrightarrow> meta_ready db'"
  by (auto simp: users_recorded_def meta_ready_def)

section \<open>Reports\<close>

definition user_report :: "'core ClientEnv \<Rightarrow> Envelope \<Rightarrow> 'core ClientWorld \<Rightarrow> 'core ClientWorld \<Rightarrow> bool" where
  "user_report env envelope w0 w \<longleftrightarrow>
     (\<exists>snapshot en res. DecodePayload (ce_decode_snapshot env) envelope = Inr snapshot \<and>
        cw_sent w = cw_sent w0 @ [(en, PUserResult res)] \<and> ur_Revision res = us_Revision snapshot \<and>
        xr_config (rt_of w) = xr_config (rt_of w0) \<and>
        (ur_Status res = ''succeeded'' \<and> xr_users (rt_of w) = us_Users snapshot \<and> users_recorded snapshot (cw_db w0) (cw_db w) \<or>
         ur_Status res = ''failed'' \<and> xr_users (rt_of w) = xr_users (rt_of w0) \<and> cw_db w = cw_db w0))"

lemma user_reportI:
  assumes "DecodePayload (ce_decode_snapshot env) envelope = Inr snapshot"
    and "cw_sent w = cw_sent w0 @ [(en, PUserResult \<lparr>ur_Revision = us_Revision snapshot, ur_Status = status, ur_ErrorCode = ec, ur_ErrorMessage = em\<rparr>)]"
    and "xr_config (rt_of w) = xr_config (rt_of w0)"
    and "status = ''succeeded'' \<and> xr_users (rt_of w) = us_Users snapshot \<and> users_recorded snapshot (cw_db w0) (cw_db w) \<or>
         status = ''failed'' \<and> xr_users (rt_of w) = xr_users (rt_of w0) \<and> cw_db w = cw_db w0"
  shows "user_report env envelope w0 w"
  unfolding user_report_def using assms by (intro exI conjI) auto

definition unreported :: "'core ClientEnv \<Rightarrow> 'core ClientWorld \<Rightarrow> 'core ClientWorld \<Rightarrow> bool" where
  "unreported env w0 w \<longleftrightarrow> client_ready env w \<and> cw_sent w = cw_sent w0"

lemma triple_record_users:
  assumes "client_ready env w1" and "cw_sent w1 = cw_sent w0" and "cw_db w1 = cw_db w0" and "xr_config (rt_of w1) = xr_config (rt_of w0)"
    and "xr_users (rt_of w1) = us_Users snapshot" and dec: "DecodePayload (ce_decode_snapshot env) envelope = Inr snapshot"
  shows "triple (\<lambda>w. w = w1)
    (tx_bind (store_user_secrets env (us_Revision snapshot) (us_Users snapshot)) (\<lambda>stored.
     tx_bind (on_db (ReplaceUsers (snapshot\<lparr>us_Users := stored\<rparr>))) (\<lambda>_.
     send_user_result env (us_Revision snapshot) ''succeeded'' [] [])))
    (\<lambda>_ w. client_ready env w \<and> user_report env envelope w0 w) (\<lambda>_. unreported env w0)" (is "triple _ _ ?Q ?E")
proof -
  define A where "A = (\<lambda>stored w. only_files w1 w \<and> stored = map (stored_form (us_Revision snapshot)) (us_Users snapshot))"
  define B where "B = (\<lambda>w. client_ready env w \<and> cw_sent w = cw_sent w0 \<and> xr_config (rt_of w) = xr_config (rt_of w0) \<and>
    xr_users (rt_of w) = us_Users snapshot \<and> users_recorded snapshot (cw_db w0) (cw_db w))"
  have a: "triple (\<lambda>w. w = w1) (store_user_secrets env (us_Revision snapshot) (us_Users snapshot)) A ?E"
    by (rule triple_weaken [OF triple_user_secrets [of w1]])
       (use assms in \<open>auto simp: A_def unreported_def only_files_def client_ready_def runtime_ready_def\<close>)
  have b: "triple (A stored) (on_db (ReplaceUsers (snapshot\<lparr>us_Users := stored\<rparr>))) (\<lambda>_. B) ?E" for stored
  proof (rule triple_at)
    fix w2 assume w2: "A stored w2"
    then have st: "stored = map (stored_form (us_Revision snapshot)) (us_Users snapshot)"
      and r2: "client_ready env w2" "cw_sent w2 = cw_sent w0" "cw_db w2 = cw_db w0" "rt_of w2 = rt_of w1"
      using assms by (auto simp: A_def only_files_def client_ready_def runtime_ready_def)
    show "triple (\<lambda>w. w = w2) (on_db (ReplaceUsers (snapshot\<lparr>us_Users := stored\<rparr>))) (\<lambda>_. B) ?E"
      unfolding st
      by (rule triple_zoom_at, rule triple_weaken [OF triple_store(3)])
         (use r2 assms in \<open>auto simp: B_def unreported_def client_ready_def runtime_ready_def
           dest: tx_ok_ReplaceUsers intro: users_recorded_ready\<close>)
  qed
  have c: "triple B (send_user_result env (us_Revision snapshot) ''succeeded'' [] []) ?Q ?E"
  proof (rule triple_at)
    fix w2 assume w2: "B w2"
    show "triple (\<lambda>w. w = w2) (send_user_result env (us_Revision snapshot) ''succeeded'' [] []) ?Q ?E"
      unfolding send_user_result_def
      by (rule triple_weaken [OF triple_send [of w2]])
         (use w2 in \<open>auto simp: B_def unreported_def client_ready_def runtime_ready_def intro!: user_reportI [OF dec]\<close>)
  qed
  show ?thesis by (rule triple_bind [OF triple_bind [OF c b] a])
qed

lemma triple_failed_users:
  assumes "client_ready env w0" and dec: "DecodePayload (ce_decode_snapshot env) envelope = Inr snapshot"
    and "\<exists>rt. w1 = w0\<lparr>cw_runtime := rt\<rparr>" "runtime_ready env w1" "runtime_kept w0 w1"
  shows "triple (\<lambda>w. w = w1)
    (tx_bind (tx_attempt (send_user_result env (us_Revision snapshot) ''failed'' ec em)) (\<lambda>_. tx_lift (Inl err)))
    Q (\<lambda>_ w. client_ready env w \<and> (cw_sent w = cw_sent w0 \<or> user_report env envelope w0 w))"
  unfolding send_user_result_def
  by (rule triple_bind [where R = "\<lambda>_ w. client_ready env w \<and> (cw_sent w = cw_sent w0 \<or> user_report env envelope w0 w)",
        OF _ triple_attempt_send])
     (use assms in \<open>auto simp: runtime_kept_def client_ready_def runtime_ready_def intro: triple_lift intro!: user_reportI [OF dec]\<close>)

lemma triple_applyUserSnapshot:
  assumes ready: "client_ready env w0"
  shows "triple (\<lambda>w. w = w0) (applyUserSnapshot env envelope)
    (\<lambda>_ w. client_ready env w \<and> user_report env envelope w0 w)
    (\<lambda>_ w. client_ready env w \<and> (cw_sent w = cw_sent w0 \<or> user_report env envelope w0 w))" (is "triple _ _ ?Q ?E")
proof -
  have rest: "triple (\<lambda>w. w = w0)
     (tx_bind (tx_attempt (on_runtime (DisconnectUsers (ce_runtime env) (us_Users snapshot)))) (\<lambda>_.
      tx_bind (tx_attempt (on_runtime (ApplyUsers (ce_runtime env) (us_Users snapshot)))) (\<lambda>applied.
      case applied of
       Inl err \<Rightarrow>
         tx_bind (tx_attempt (send_user_result env (us_Revision snapshot) ''failed'' ''user_apply_failed'' ''runtime rejected user snapshot'')) (\<lambda>_.
         tx_lift (Inl err))
      | Inr _ \<Rightarrow>
         tx_bind (store_user_secrets env (us_Revision snapshot) (us_Users snapshot)) (\<lambda>stored.
         tx_bind (on_db (ReplaceUsers (snapshot\<lparr>us_Users := stored\<rparr>))) (\<lambda>_.
         send_user_result env (us_Revision snapshot) ''succeeded'' [] []))))) ?Q ?E"
    if dec: "DecodePayload (ce_decode_snapshot env) envelope = Inr snapshot" for snapshot
  proof -
    define D where "D = (\<lambda>w. (\<exists>rt. w = w0\<lparr>cw_runtime := rt\<rparr>) \<and> runtime_ready env w \<and> runtime_kept w0 w)"
    define A where "A = (\<lambda>r w. (\<exists>rt. w = w0\<lparr>cw_runtime := rt\<rparr>) \<and> runtime_ready env w \<and> xr_config (rt_of w) = xr_config (rt_of w0) \<and>
      (case r of Inr (_ :: unit) \<Rightarrow> xr_users (rt_of w) = us_Users snapshot | Inl (_ :: go_error) \<Rightarrow> xr_users (rt_of w) = xr_users (rt_of w0)))"
    have rdy: "runtime_ready env w0" using ready by (simp add: client_ready_def)
    have d: "triple (\<lambda>w. w = w0) (tx_attempt (on_runtime (DisconnectUsers (ce_runtime env) (us_Users snapshot)))) (\<lambda>_. D) ?E"
      by (rule triple_attempt, rule triple_weaken [OF triple_on_DisconnectUsers [OF rdy]]) (auto simp: D_def)
    have a: "triple D (tx_attempt (on_runtime (ApplyUsers (ce_runtime env) (us_Users snapshot)))) A ?E"
    proof (rule triple_at)
      fix w1 assume w1: "D w1"
      then have r1: "runtime_ready env w1" by (simp add: D_def)
      show "triple (\<lambda>w. w = w1) (tx_attempt (on_runtime (ApplyUsers (ce_runtime env) (us_Users snapshot)))) A ?E"
        by (rule triple_attempt, rule triple_weaken [OF triple_on_ApplyUsers [OF r1]])
           (use w1 in \<open>auto simp: D_def A_def runtime_kept_def users_installed_def\<close>)
    qed
    have failed: "triple (A (Inl err)) (tx_bind (tx_attempt (send_user_result env (us_Revision snapshot) ''failed'' ''user_apply_failed''
        ''runtime rejected user snapshot'')) (\<lambda>_. tx_lift (Inl err))) ?Q ?E" for err
      by (rule triple_at, rule triple_failed_users [OF ready dec]) (auto simp: A_def runtime_kept_def)
    have recorded: "triple (A (Inr x)) (tx_bind (store_user_secrets env (us_Revision snapshot) (us_Users snapshot)) (\<lambda>stored.
         tx_bind (on_db (ReplaceUsers (snapshot\<lparr>us_Users := stored\<rparr>))) (\<lambda>_.
         send_user_result env (us_Revision snapshot) ''succeeded'' [] []))) ?Q ?E" for x
    proof (rule triple_at)
      fix w2 assume "A (Inr x) w2"
      then have "client_ready env w2" "cw_sent w2 = cw_sent w0" "cw_db w2 = cw_db w0" "xr_config (rt_of w2) = xr_config (rt_of w0)"
        "xr_users (rt_of w2) = us_Users snapshot" using ready by (auto simp: A_def client_ready_def)
      from triple_record_users [OF this dec] show "triple (\<lambda>w. w = w2)
        (tx_bind (store_user_secrets env (us_Revision snapshot) (us_Users snapshot)) (\<lambda>stored.
         tx_bind (on_db (ReplaceUsers (snapshot\<lparr>us_Users := stored\<rparr>))) (\<lambda>_.
         send_user_result env (us_Revision snapshot) ''succeeded'' [] []))) ?Q ?E"
        by (rule triple_weaken) (auto simp: unreported_def)
    qed
    show ?thesis
      by (rule triple_bind [OF triple_bind [OF _ a] d]) (auto split: sum.splits intro: failed recorded)
  qed
  then show ?thesis unfolding applyUserSnapshot_def
    by (intro triple_bind [where R = "\<lambda>s w. DecodePayload (ce_decode_snapshot env) envelope = Inr s \<and> w = w0"] triple_fact)
       (use ready in \<open>auto intro: triple_lift\<close>)
qed

text \<open>
  C6. What the client reports about a user snapshot is so. A handler call sends at most one result,
  for the revision of the snapshot, and a call that returns without an error sends exactly one.
  Succeeded means that the runtime serves exactly the users of the snapshot, and the store holds
  them under that revision, with references in place of the credentials, or the revision was the
  recorded one and the store is unchanged; failed means that the users of the runtime and the
  store are the old ones. The configuration of the runtime stays.
\<close>

theorem user_results_truthful:
  assumes "client_ready env w" and "calm fs" and "applyUserSnapshot env envelope (fs, w) = (r, fs', w')"
  shows "client_ready env w' \<and> (cw_sent w' = cw_sent w \<and> r \<noteq> Inr () \<or> user_report env envelope w w')"
proof -
  from tripleD [OF triple_applyUserSnapshot [OF assms(1)] assms(2) refl assms(3)]
  show ?thesis by (cases r) (auto simp: user_report_def)
qed

section \<open>Secret references of users\<close>

lemma append_sep_eq: "c \<notin> set a \<Longrightarrow> c \<notin> set b \<Longrightarrow> a @ c # x = b @ c # y \<longleftrightarrow> a = b \<and> x = y"
proof
  assume c: "c \<notin> set a" "c \<notin> set b" and e: "a @ c # x = b @ c # y"
  have t: "takeWhile (\<lambda>d. d \<noteq> c) (z @ c # u) = z" if "c \<notin> set z" for z u using that by (subst takeWhile_append2) auto
  from arg_cong [OF e, of "takeWhile (\<lambda>d. d \<noteq> c)"] c have "a = b" by (simp add: t)
  with e show "a = b \<and> x = y" by simp
qed auto

lemma format_int_separators: "CHR '':'' \<notin> set (format_int i)" "CHR ''_'' \<notin> set (format_int i)"
  by (auto dest!: format_int_chars simp: is_digit_char_def byte_of_def)

text \<open>Of one revision, a reference names one subscriber on one inbound.\<close>

lemma user_secret_ref_inject:
  assumes "user_secret_ref rv u = user_secret_ref rv v"
  shows "uc_InboundID u = uc_InboundID v \<and> uc_SubscriberID u = uc_SubscriberID v"
proof -
  let ?k = "\<lambda>u. normalizedCredentialKind (uc_Kind u)" and ?i = "\<lambda>u. format_int (uc_InboundID u)"
    and ?s = "\<lambda>u. format_int (uc_SubscriberID u)"
  have n: "CHR '':'' \<notin> set (rev (?s x))" "CHR ''_'' \<notin> set (rev (?i x))" for x using format_int_separators by simp_all
  from assms have "?k u @ ''_'' @ ?i u @ '':'' @ ?s u = ?k v @ ''_'' @ ?i v @ '':'' @ ?s v"
    by (simp add: user_secret_ref_def)
  then have "rev (?k u @ ''_'' @ ?i u @ '':'' @ ?s u) = rev (?k v @ ''_'' @ ?i v @ '':'' @ ?s v)" by (simp only:)
  then have "rev (?s u) @ CHR '':'' # (rev (?i u) @ CHR ''_'' # rev (?k u)) = rev (?s v) @ CHR '':'' # (rev (?i v) @ CHR ''_'' # rev (?k v))"
    by simp
  then have "rev (?s u) = rev (?s v)" "rev (?i u) @ CHR ''_'' # rev (?k u) = rev (?i v) @ CHR ''_'' # rev (?k v)"
    using append_sep_eq [OF n(1) n(1)] by blast+
  moreover from this(2) have "rev (?i u) = rev (?i v)" using append_sep_eq [OF n(2) n(2)] by blast
  ultimately show ?thesis by simp
qed

section \<open>Putting the secrets of a snapshot\<close>

abbreviation secret_tmp :: "'core ClientEnv \<Rightarrow> string \<Rightarrow> string" where
  "secret_tmp env ref \<equiv> re_tmp (ce_runtime env) (durablePath (crypto_of env) (secrets_of env) ref)"

text \<open>What os.CreateTemp and rand.Read promise\<close>

definition fresh_secret_names :: "'core ClientEnv \<Rightarrow> fs \<Rightarrow> bool" where
  "fresh_secret_names env s \<longleftrightarrow> (\<forall>ref. fresh_temporary (st_durableDir (secrets_of env)) (secret_tmp env ref) s)"

definition secret_io :: "'core ClientEnv \<Rightarrow> bool" where
  "secret_io env \<longleftrightarrow> secret_laws (crypto_of env) (secrets_of env) \<and> (\<forall>ref n. ce_nonce env ref = Inr n \<longrightarrow> length n = nonce_size) \<and>
     (\<forall>ref. apart (ce_runtime env) (secret_tmp env ref))"

lemma tx_ok_put_secret:
  assumes "tx_ok (put_secret env ref v) w u w'" and "secret_io env" and "fresh_secret_names env (rw_files (cw_runtime w))"
  shows "only_files w w' \<and> secret_values env w' = (secret_values env w)(ref \<mapsto> v) \<and> fresh_secret_names env (rw_files (cw_runtime w'))"
proof -
  let ?cr = "crypto_of env" and ?st = "secrets_of env" and ?s = "rw_files (cw_runtime w)"
  let ?Put = "Put ?cr (ce_nonce env ref) (secret_tmp env ref) ?st ref v"
  from assms(1) obtain a where a: "tx_ok (on_files ?Put) (cw_runtime w) u a" and w': "w' = w\<lparr>cw_runtime := a\<rparr>"
    unfolding put_secret_def by (rule tx_ok_zoomE)
  from a obtain s' where p: "tx_ok ?Put ?s u s'" and a: "a = (cw_runtime w)\<lparr>rw_files := s'\<rparr>" by (rule tx_ok_zoomE)
  from p obtain fs fs' where run: "?Put (fs, ?s) = (Inr u, fs', s')" by (auto simp: tx_ok_def)
  then obtain n where n: "ce_nonce env ref = Inr n"
    by (cases "ce_nonce env ref") (auto simp: Put_def tx_lift_def split: if_splits)
  have f: "fresh_temporary (st_durableDir ?st) (secret_tmp env ref) ?s" using assms(3) by (simp add: fresh_secret_names_def)
  have "secret_put ?cr ?st ?s ref v True s'"
    unfolding secret_put_def using run n f assms(2) by (auto simp: secret_io_def)
  with secrets.put_ok [of ?cr ?st ?s ref v s'] assms(2)
  have l: "secret_lookup ?cr ?st s' = (secret_lookup ?cr ?st ?s)(ref \<mapsto> v)" by (simp add: secret_io_def)
  have nd: "secret_tmp env q \<noteq> durablePath ?cr ?st ref" for q
  proof -
    from assms(3) obtain x where "secret_tmp env q = st_durableDir ?st @ ''/.secret-'' @ x"
      unfolding fresh_secret_names_def fresh_temporary_def by blast
    then show ?thesis using assms(2) by (intro temporary_not_durable) (simp_all add: secret_io_def secret_laws_def)
  qed
  have "replace_file (secret_tmp env ref) (durablePath ?cr ?st ref) (n @ cr_seal ?cr (st_key ?st) n v ref) mode_0600 (fs, ?s) = (Inr u, fs', s')"
    using run n by (auto simp: Put_def secret_atomicWrite_def tx_lift_def split: if_splits)
  from replace_file_atomic [OF this _ nd] f have "fs_lookup s' q = fs_lookup ?s q" if "q \<noteq> durablePath ?cr ?st ref" for q
    using that by (auto simp: fresh_temporary_def)
  then have "fs_lookup s' (secret_tmp env q) = fs_lookup ?s (secret_tmp env q)" for q using nd by blast
  with assms(3) have "fresh_secret_names env s'" by (simp add: fresh_secret_names_def fresh_temporary_def)
  with l a w' show ?thesis by (simp add: only_files_def) blast
qed

lemma map_add_first: "m ++ map_of (rev ((k, v) # xs)) = m(k \<mapsto> v) ++ map_of (rev xs)"
  by (auto simp: map_add_def fun_eq_iff split: option.splits)

lemma tx_ok_user_secrets:
  "tx_ok (store_user_secrets env rv us) w stored w' \<Longrightarrow> secret_io env \<Longrightarrow> fresh_secret_names env (rw_files (cw_runtime w)) \<Longrightarrow>
     only_files w w' \<and> stored = map (stored_form rv) us \<and>
     secret_values env w' = secret_values env w ++ map_of (rev (map (\<lambda>u. (user_secret_ref rv u, uc_Value u)) us))"
proof (induction us arbitrary: w stored)
  case Nil
  then show ?case by (simp add: store_simps only_files_refl)
next
  case (Cons u us)
  from Cons.prems(1) obtain x w1 vs w2 where p: "tx_ok (put_secret env (user_secret_ref rv u) (uc_Value u)) w x w1"
    and i: "tx_ok (store_user_secrets env rv us) w1 vs w2" and e: "tx_ok (tx_return (u\<lparr>uc_Value := user_secret_ref rv u\<rparr> # vs)) w2 stored w'"
    unfolding store_user_secrets.simps by (elim tx_ok_bindE) (rule that)
  from e have e: "w2 = w'" "stored = stored_form rv u # vs" by (simp_all add: store_simps stored_form_def)
  note a = tx_ok_put_secret [OF p Cons.prems(2,3)]
  note b = Cons.IH [OF i [unfolded e(1)] Cons.prems(2)]
  have "secret_values env w' = secret_values env w ++ map_of (rev (map (\<lambda>u. (user_secret_ref rv u, uc_Value u)) (u # us)))"
    using a b by (simp only: list.map map_add_first)
  moreover have "only_files w w'" using a b by (blast intro: only_files_trans)
  ultimately show ?case using a b e(2) by simp
qed

section \<open>Surviving a restart\<close>

definition user_order :: "UserCredential \<Rightarrow> int \<times> int" where
  "user_order u = (uc_InboundID u, uc_SubscriberID u)"

lemma insort_key_map: "insort_key f (g x) (map g xs) = map g (insort_key (\<lambda>x. f (g x)) x xs)"
  by (induction xs) simp_all

lemma sort_key_map: "sort_key f (map g xs) = map g (sort_key (\<lambda>x. f (g x)) xs)"
  by (induction xs) (simp_all add: insort_key_map)

lemma stored_rows_recorded:
  assumes "db_users db = map (user_row rv) (map (stored_form rv) us)"
  shows "stored_rows db = map (stored_form rv) (sort_key user_order us)"
proof -
  have "(\<lambda>u. user_order (stored_form rv u)) = user_order" by (simp add: fun_eq_iff user_order_def stored_form_def)
  then show ?thesis
    unfolding stored_rows_def assms
    by (simp add: sort_key_map user_row_def user_order_def [symmetric] comp_def del: map_map) (simp add: comp_def user_row_def)
qed

lemma resolves_stored_form:
  assumes "distinct (map (user_secret_ref rv) us)" and "u \<in> set us"
    and "look = base ++ map_of (rev (map (\<lambda>u. (user_secret_ref rv u, uc_Value u)) us))"
  shows "resolves look (stored_form rv u) u"
  using map_of_rev_unique [OF assms(1,2), of uc_Value] assms(3)
  by (simp add: resolves_def stored_form_def)

lemma keeps_on_runtime: "keeps R m \<Longrightarrow> keeps (\<lambda>w w'. R (cw_runtime w) (cw_runtime w')) (on_runtime m)"
  by (rule keeps_zoom) simp_all

lemma tx_ok_applyUserSnapshot:
  assumes "tx_ok (applyUserSnapshot env envelope) w u w'" and "DecodePayload (ce_decode_snapshot env) envelope = Inr snapshot"
  obtains d w1 w2 stored w3 v w4 where "tx_ok (tx_attempt (on_runtime (DisconnectUsers (ce_runtime env) (us_Users snapshot)))) w d w1"
    "tx_ok (on_runtime (ApplyUsers (ce_runtime env) (us_Users snapshot))) w1 () w2"
    "tx_ok (store_user_secrets env (us_Revision snapshot) (us_Users snapshot)) w2 stored w3"
    "tx_ok (on_db (ReplaceUsers (snapshot\<lparr>us_Users := stored\<rparr>))) w3 v w4"
    "tx_ok (send_user_result env (us_Revision snapshot) ''succeeded'' [] []) w4 u w'"
proof -
  from assms obtain d w1 a w2 where 1: "tx_ok (tx_attempt (on_runtime (DisconnectUsers (ce_runtime env) (us_Users snapshot)))) w d w1"
    and 2: "tx_ok (tx_attempt (on_runtime (ApplyUsers (ce_runtime env) (us_Users snapshot)))) w1 a w2"
    and 3: "tx_ok (case a of
       Inl err \<Rightarrow>
         tx_bind (tx_attempt (send_user_result env (us_Revision snapshot) ''failed'' ''user_apply_failed'' ''runtime rejected user snapshot'')) (\<lambda>_.
         tx_lift (Inl err))
     | Inr _ \<Rightarrow>
         tx_bind (store_user_secrets env (us_Revision snapshot) (us_Users snapshot)) (\<lambda>stored.
         tx_bind (on_db (ReplaceUsers (snapshot\<lparr>us_Users := stored\<rparr>))) (\<lambda>_.
         send_user_result env (us_Revision snapshot) ''succeeded'' [] []))) w2 u w'"
    unfolding applyUserSnapshot_def by (simp only: tx_bind_lift) (elim tx_ok_bindE, rule that)
  show thesis
  proof (cases a)
    case (Inl err)
    with 3 show thesis by (auto elim!: tx_ok_bindE simp: store_simps)
  next
    case (Inr x)
    with 2 have "tx_ok (on_runtime (ApplyUsers (ce_runtime env) (us_Users snapshot))) w1 () w2" by (auto dest: tx_ok_attemptD)
    with 1 3 Inr that show thesis by (auto elim!: tx_ok_bindE)
  qed
qed

lemma applyUserSnapshot_stored:
  assumes "applyUserSnapshot env envelope (fs, w) = (Inr (), fs', w')"
    and dec: "DecodePayload (ce_decode_snapshot env) envelope = Inr snapshot"
    and new: "us_Revision snapshot \<noteq> rs_AppliedUserRevision (rs_of w)"
    and io: "secret_io env" and fresh: "fresh_secret_names env (rw_files (cw_runtime w))"
  shows "stored_users env w' (sort_key user_order (us_Users snapshot)) \<and> users_recorded snapshot (cw_db w) (cw_db w')"
proof -
  let ?rv = "us_Revision snapshot" and ?us = "us_Users snapshot"
  have "tx_ok (applyUserSnapshot env envelope) w () w'" using assms(1) by (rule tx_okI)
  then obtain d w1 w2 stored w3 v w4 where
      1: "tx_ok (tx_attempt (on_runtime (DisconnectUsers (ce_runtime env) ?us))) w d w1"
    and 2: "tx_ok (on_runtime (ApplyUsers (ce_runtime env) ?us)) w1 () w2"
    and 3: "tx_ok (store_user_secrets env ?rv ?us) w2 stored w3"
    and 4: "tx_ok (on_db (ReplaceUsers (snapshot\<lparr>us_Users := stored\<rparr>))) w3 v w4"
    and 5: "tx_ok (send_user_result env ?rv ''succeeded'' [] []) w4 () w'"
    using dec by (rule tx_ok_applyUserSnapshot)
  have "fs_agree (secret_tmp env ref) (rw_files (cw_runtime w)) (rw_files (cw_runtime w2))" for ref
  proof -
    have p: "apart (ce_runtime env) (secret_tmp env ref)" using io by (simp add: secret_io_def)
    from keeps_ok [OF keeps_attempt [OF keeps_on_runtime [OF keeps_agree_apply(3) [OF p]]] 1]
      keeps_ok [OF keeps_on_runtime [OF keeps_agree_apply(2) [OF p]] 2]
    show ?thesis by (simp add: files_agree_def fs_agree_def)
  qed
  with fresh have "fresh_secret_names env (rw_files (cw_runtime w2))"
    by (simp add: fresh_secret_names_def fresh_temporary_def fs_agree_def)
  note s = tx_ok_user_secrets [OF 3 io this]
  have r: "reflp (\<lambda>a b :: Db. b = a)" by (auto intro: reflpI)
  have db: "cw_db w2 = cw_db w"
    using keeps_ok [OF keeps_attempt [OF keeps_elsewhere(1) [OF r]] 1] keeps_ok [OF keeps_elsewhere(1) [OF r] 2] by (simp add: db_rel_def)
  from 4 obtain a where a: "tx_ok (ReplaceUsers (snapshot\<lparr>us_Users := stored\<rparr>)) (cw_db w3) v a" and w4: "w4 = w3\<lparr>cw_db := a\<rparr>"
    by (rule tx_ok_zoomE)
  have "cw_db w3 = cw_db w" using s db by (auto simp: only_files_def)
  with a s have rec: "users_recorded snapshot (cw_db w) a" by (auto intro: tx_ok_ReplaceUsers)
  with new have rows: "db_users a = map (user_row ?rv) (map (stored_form ?rv) ?us)"
    and dist: "distinct (map (\<lambda>u. (uc_SubscriberID u, uc_InboundID u)) ?us)" by (auto simp: users_recorded_def)
  from dist have dist: "distinct (map (user_secret_ref ?rv) ?us)"
    by (auto simp: distinct_map inj_on_def dest!: user_secret_ref_inject)
  from 5 w4 have w': "cw_db w' = a" "secret_values env w' = secret_values env w3"
    unfolding send_user_result_def by (auto dest!: tx_ok_send)
  with stored_rows_recorded [OF rows] s have "stored_users env w' (sort_key user_order ?us)"
    unfolding stored_users_def
    by (auto simp: list.rel_map intro!: list.rel_refl_strong resolves_stored_form [OF dist])
  with rec w' show ?thesis by simp
qed

text \<open>
  C17. The users of an acknowledged snapshot survive a restart. When the handler of a snapshot with
  a new revision returns without an error, then what a restart reads from the users table and
  resolves through the secret files are the users of the snapshot with their credentials, ordered
  by inbound and subscriber, although the table only holds references: the references of one
  revision are distinct, and every secret was written before the rows that name it.
\<close>

theorem acknowledged_users_survive_restart:
  assumes "applyUserSnapshot env envelope (fs, w) = (Inr (), fs', w')"
    and "DecodePayload (ce_decode_snapshot env) envelope = Inr snapshot"
    and "us_Revision snapshot \<noteq> rs_AppliedUserRevision (rs_of w)"
    and "secret_io env" and "fresh_secret_names env (rw_files (cw_runtime w))"
  shows "stored_users env w' (sort_key user_order (us_Users snapshot))"
  using applyUserSnapshot_stored [OF assms] by simp

lemma users_recorded_history: "users_recorded s db db' \<Longrightarrow> history_inv E db \<Longrightarrow> history_inv E db'"
  by (rule same_history_inv [of db]) (auto simp: users_recorded_def intro!: same_historyI)

lemma users_recorded_state:
  assumes "users_recorded s db db'" and "us_Revision s < 2 ^ 64"
  shows "rs_AppliedUserRevision (runtime_state_of db') = us_Revision s \<and>
    rs_AppliedConfigVersion (runtime_state_of db') = rs_AppliedConfigVersion (runtime_state_of db)"
  using assms by (auto simp: users_recorded_def runtime_state_of_def meta_text_def)

section \<open>A concrete snapshot\<close>

lemma example_parts:
  "ce_runtime example_client_env = example_env" "re_crypto example_env = plain_crypto" "re_secrets example_env = example_store"
  "ce_nonce example_client_env ref = Inr (replicate 12 CHR ''n'')"
  by (simp_all add: example_client_env_def example_env_def)

lemma example_secret_tmp: "secret_tmp example_client_env ref = ''/etc/iepl-agent/secrets/.secret-1''"
proof -
  have "has_prefix (durablePath plain_crypto example_store ref) ''/''"
    using durablePath_eq [of example_store plain_crypto ref] example_dirs by (simp add: example_store_def has_prefix_def)
  then show ?thesis by (simp add: example_client_env_def example_env_def)
qed

lemma example_secret_io: "secret_io example_client_env"
proof -
  have "apart example_env ''/etc/iepl-agent/secrets/.secret-1''" unfolding apart_def
  proof (intro allI impI conjI ballI)
    fix ref assume r: "secretRefPattern ref"
    show "re_tmp example_env ref \<noteq> ''/etc/iepl-agent/secrets/.secret-1''"
    proof
      assume "re_tmp example_env ref = ''/etc/iepl-agent/secrets/.secret-1''"
      then have "has_prefix ref ''/''" by (simp add: example_env_def split: if_splits)
      then obtain t where "ref = CHR ''/'' # t" by (cases ref) (auto simp: has_prefix_def)
      with r show False
        by (auto simp: secretRefPattern_def ref_ident_def is_lower_char_def byte_of_def split: list.splits)
    qed
    fix ext assume "ext \<in> {''.crt'', ''.key''}"
    then have "path_join ''/run/iepl-agent/secrets'' (secretName plain_crypto ref @ ext) = ''/run/iepl-agent/secrets'' @ ''/'' @ secretName plain_crypto ref @ ext"
      by (intro path_join_clean_dir [OF example_dirs(2) plain_secret_name]) blast
    then show "path_join (st_runtimeDir (re_secrets example_env)) (secretName (re_crypto example_env) ref @ ext) \<noteq> ''/etc/iepl-agent/secrets/.secret-1''"
      by (simp add: example_env_def example_store_def)
  qed
  then show ?thesis using example_store_laws
    unfolding secret_io_def example_secret_tmp by (simp add: example_parts nonce_size_def)
qed

lemma example_fresh: "fresh_secret_names example_client_env []"
  unfolding fresh_secret_names_def example_secret_tmp
  by (simp add: fresh_temporary_def example_parts fs_lookup_def) (simp add: example_store_def)

lemma example_ref: "user_secret_ref 2 example_user = ''user-secret:uuid_5:11:2''"
proof -
  have "normalizedCredentialKind ''uuid'' = ''uuid''" "format_int 5 = ''5''" "format_int 11 = ''11''" "format_uint 2 = ''2''" by code_simp+
  then show ?thesis by (simp add: user_secret_ref_def example_user_def)
qed

lemma example_put_run:
  "\<exists>s. Put plain_crypto (Inr (replicate 12 CHR ''n'')) ''/etc/iepl-agent/secrets/.secret-1'' example_store ''user-secret:uuid_5:11:2''
     (uc_Value example_user) ([], []) = (Inr (), [], s)"
proof -
  have r: "secretRefPattern ''user-secret:uuid_5:11:2''" by code_simp
  have "fs_lookup [] ''/etc/iepl-agent/secrets/.secret-1'' = None" by (simp add: fs_lookup_def)
  from replace_file_run [OF this] show ?thesis using r
    by (auto simp: Put_def tx_bind_def secret_atomicWrite_def example_user_def)
qed

lemma example_replace_run:
  assumes "meta_ready db" and "rs_AppliedUserRevision (runtime_state_of db) = 0"
  shows "\<exists>db'. ReplaceUsers (example_snapshot\<lparr>us_Users := [stored_form 2 example_user]\<rparr>) ([], db) = (Inr (), [], db')"
proof -
  have v: "valid_user 2 (stored_form 2 example_user)"
    by (simp add: valid_user_def stored_form_def example_ref max_int64_def) (simp add: example_user_def)
  then have "\<exists>d. insert_user 2 (stored_form 2 example_user) ([], db\<lparr>db_users := []\<rparr>) = (Inr (), [], d)"
    using insert_user_run [of 2 "stored_form 2 example_user" "db\<lparr>db_users := []\<rparr>"] by simp
  then show ?thesis using assms
    by (auto simp: ReplaceUsers_def example_snapshot_def transact_def tx_bind_def runtimeStateTx_def meta_ready_def meta_update_def)
qed

text \<open>Up to the store the handler does the same, whatever the store answers.\<close>

lemma example_snapshot_steps:
  "\<exists>rw. xr_users (rw_runtime rw) = [example_user] \<and>
     applyUserSnapshot example_client_env (example_envelope t) ([], (example_client_world example_running)\<lparr>cw_db := db\<rparr>) =
     tx_bind (on_db (ReplaceUsers (example_snapshot\<lparr>us_Users := [stored_form 2 example_user]\<rparr>)))
       (\<lambda>_. send_user_result example_client_env 2 ''succeeded'' [] []) ([], (example_client_world rw)\<lparr>cw_db := db\<rparr>)"
proof -
  from example_apply_users [of "[example_user]" "[]"] obtain rw where a: "ApplyUsers example_env [example_user] ([], example_running) = (Inr (), [], rw)"
    and rw: "rw_files rw = []" "xr_users (rw_runtime rw) = [example_user]" by (auto simp: example_running_files)
  have d: "DisconnectUsers example_env us ([], example_running) = (Inr (), [], example_running)" for us
    by (simp add: DisconnectUsers_def tx_bind_def tx_get_def example_running_def)
  from example_put_run obtain s where p: "Put plain_crypto (Inr (replicate 12 CHR ''n'')) ''/etc/iepl-agent/secrets/.secret-1'' example_store
      ''user-secret:uuid_5:11:2'' (uc_Value example_user) ([], []) = (Inr (), [], s)" ..
  have x: "us_Users example_snapshot = [example_user]" "us_Revision example_snapshot = 2" by (simp_all add: example_snapshot_def)
  have "applyUserSnapshot example_client_env (example_envelope t) ([], (example_client_world example_running)\<lparr>cw_db := db\<rparr>) =
     tx_bind (on_db (ReplaceUsers (example_snapshot\<lparr>us_Users := [stored_form 2 example_user]\<rparr>)))
       (\<lambda>_. send_user_result example_client_env 2 ''succeeded'' [] []) ([], (example_client_world (rw\<lparr>rw_files := s\<rparr>))\<lparr>cw_db := db\<rparr>)"
    unfolding stored_form_def example_ref
    by (simp add: applyUserSnapshot_def example_decoded x tx_bind_def tx_attempt_def tx_zoom_def example_parts d a put_secret_def
        example_secret_tmp [unfolded example_parts] example_ref p rw(1) example_client_world_def)
  moreover have "xr_users (rw_runtime (rw\<lparr>rw_files := s\<rparr>)) = [example_user]" using rw(2) by simp
  ultimately show ?thesis by blast
qed

lemma example_snapshot_run:
  assumes "meta_ready db" and "rs_AppliedUserRevision (runtime_state_of db) = 0"
  shows "\<exists>w'. applyUserSnapshot example_client_env (example_envelope t) ([], (example_client_world example_running)\<lparr>cw_db := db\<rparr>) = (Inr (), [], w')"
proof -
  from example_replace_run [OF assms] obtain db' where r: "ReplaceUsers (example_snapshot\<lparr>us_Users := [stored_form 2 example_user]\<rparr>)
      ([], db) = (Inr (), [], db')" ..
  from example_snapshot_steps [of t db] r show ?thesis
    by (auto simp: tx_bind_def tx_zoom_def example_client_world_def send_user_result_def example_send TypeUserResult_def)
qed

text \<open>
  A stale snapshot is served: the store rejects it, after the runtime has taken its users and
  without a result for the server.
\<close>

lemma stale_snapshot_served:
  assumes "meta_ready db" and "2 < rs_AppliedUserRevision (runtime_state_of db)"
  shows "\<exists>w'. applyUserSnapshot example_client_env (example_envelope t) ([], (example_client_world example_running)\<lparr>cw_db := db\<rparr>) =
      (Inl (Msg ''user snapshot revision is stale''), [], w') \<and>
    xr_users (rt_of w') = us_Users example_snapshot \<and> cw_db w' = db \<and> cw_sent w' = []"
proof -
  have "ReplaceUsers (example_snapshot\<lparr>us_Users := [stored_form 2 example_user]\<rparr>) ([], db) = (Inl (Msg ''user snapshot revision is stale''), [], db)"
    using assms by (auto simp: ReplaceUsers_def example_snapshot_def transact_def tx_bind_def runtimeStateTx_def meta_ready_def)
  with example_snapshot_steps [of t db] show ?thesis
    by (auto simp: tx_bind_def tx_zoom_def example_client_world_def example_snapshot_def)
qed

lemma example_default_run:
  "\<exists>w'. applyUserSnapshot example_client_env (example_envelope t) ([], example_client_world example_running) = (Inr (), [], w')"
  using example_snapshot_run [of "empty_db\<lparr>db_meta := map_of schema_defaults\<rparr>" t] example_state
  by (simp add: meta_ready_def example_meta) (simp add: example_client_world_def)

theorem user_results_truthful_witness:
  "\<exists>w'. applyUserSnapshot example_client_env (example_envelope TypeUserSnapshot) ([], example_client_world example_running) = (Inr (), [], w') \<and>
     user_report example_client_env (example_envelope TypeUserSnapshot) (example_client_world example_running) w'"
proof -
  from example_default_run obtain w' where
    run: "applyUserSnapshot example_client_env (example_envelope TypeUserSnapshot) ([], example_client_world example_running) = (Inr (), [], w')" by blast
  have "client_ready example_client_env (example_client_world example_running)"
    using example_core_sound example_vmess_accepted
    by (simp add: client_ready_def runtime_ready_def meta_ready_def example_parts example_client_world_def example_meta)
       (simp add: rt_inv_def example_running_def ValidateDesiredConfig_iff users_available_def)
  from user_results_truthful [OF this _ run] run show ?thesis by (auto simp: calm_def)
qed

theorem acknowledged_users_survive_restart_witness:
  "\<exists>w'. applyUserSnapshot example_client_env (example_envelope TypeUserSnapshot) ([], example_client_world example_running) = (Inr (), [], w') \<and>
     stored_users example_client_env w' [example_user]"
proof -
  from example_default_run obtain w' where
    run: "applyUserSnapshot example_client_env (example_envelope TypeUserSnapshot) ([], example_client_world example_running) = (Inr (), [], w')" by blast
  have "us_Revision example_snapshot \<noteq> rs_AppliedUserRevision (rs_of (example_client_world example_running))"
    using example_state by (simp add: example_snapshot_def example_client_world_def)
  moreover have "rw_files (cw_runtime (example_client_world example_running)) = []"
    by (simp add: example_client_world_def example_running_def)
  ultimately have "stored_users example_client_env w' (sort_key user_order (us_Users example_snapshot))"
    using acknowledged_users_survive_restart [OF run example_decoded(2) _ example_secret_io] example_fresh by simp
  with run show ?thesis by (auto simp: example_snapshot_def)
qed

end
